(* ===== verification/Prelude.thy ===== *)
theory Prelude
  imports Main
begin

text \<open>
  Shared vocabulary of the development: Python exceptions as values, the error monad that
  threads them, ASCII text operations (\<open>str.strip\<close>, \<open>str.upper\<close>,
  \<open>str.lower\<close>, \<open>str.split\<close>), decimal rendering of numbers, and tables (lists of
  rows found by a key) with the lemmas every component uses.
\<close>

named_theorems table_simps \<open>look-up, update and insertion in tables of rows\<close>
named_theorems err_simps \<open>decomposition of successful and failed runs of the error monad\<close>

section \<open>Exceptions as values\<close>

text \<open>
  The exceptions the modelled code raises itself or lets through from PostgreSQL. A message
  is kept where the code builds one. \<open>DbError\<close> carries the name of the PostgreSQL
  error class (\<open>UndefinedColumn\<close>, \<open>NumericValueOutOfRange\<close>, ...).
\<close>

datatype exn =
    ValueError string
  | ApprovalError string
  | ProviderRoutingError string
  | InstrumentEligibilityError string
  | PermissionError string
  | AuthorizationError string
  | ATFEvidenceVerificationError string
  | LookupError string
  | KeyError string
  | TypeError string
  | AttributeError string
  | InvalidOperation
  | RuntimeError string
  | NotImplementedError
  | HTTPException nat string
  | UniqueViolation string
  | ForeignKeyViolation string
  | CheckViolation string
  | DbError string
  | IndexError string
  | AssertionError string
  | SystemExit string
  | HTTPError nat string
  | URLError string
  | OSError string

text \<open>The exception classes of the source as sets of values (\<open>except ValueError\<close> and
  so on catch the subclasses as well).\<close>

fun is_ValueError :: "exn \<Rightarrow> bool" where
  "is_ValueError (ValueError _) = True"
| "is_ValueError (ApprovalError _) = True"
| "is_ValueError (ProviderRoutingError _) = True"
| "is_ValueError (InstrumentEligibilityError _) = True"
| "is_ValueError _ = False"

fun is_PermissionError :: "exn \<Rightarrow> bool" where
  "is_PermissionError (PermissionError _) = True"
| "is_PermissionError (AuthorizationError _) = True"
| "is_PermissionError (ATFEvidenceVerificationError _) = True"
| "is_PermissionError _ = False"

fun is_AuthorizationError :: "exn \<Rightarrow> bool" where
  "is_AuthorizationError (AuthorizationError _) = True"
| "is_AuthorizationError (ATFEvidenceVerificationError _) = True"
| "is_AuthorizationError _ = False"

text \<open>\<open>str(exc)\<close> of the exceptions that carry a message.\<close>

fun exn_message :: "exn \<Rightarrow> string" where
  "exn_message (ValueError m) = m"
| "exn_message (ApprovalError m) = m"
| "exn_message (ProviderRoutingError m) = m"
| "exn_message (InstrumentEligibilityError m) = m"
| "exn_message (PermissionError m) = m"
| "exn_message (AuthorizationError m) = m"
| "exn_message (ATFEvidenceVerificationError m) = m"
| "exn_message (LookupError m) = m"
| "exn_message (KeyError m) = m"
| "exn_message (TypeError m) = m"
| "exn_message (AttributeError m) = m"
| "exn_message InvalidOperation = ''[<class 'decimal.ConversionSyntax'>]''"
| "exn_message (RuntimeError m) = m"
| "exn_message NotImplementedError = ''''"
| "exn_message (HTTPException n m) = m"
| "exn_message (UniqueViolation m) = m"
| "exn_message (ForeignKeyViolation m) = m"
| "exn_message (CheckViolation m) = m"
| "exn_message (DbError m) = m"
| "exn_message (IndexError m) = m"
| "exn_message (AssertionError m) = m"
| "exn_message (SystemExit m) = m"
| "exn_message (HTTPError n m) = m"
| "exn_message (URLError m) = ''<urlopen error '' @ m @ ''>''"
| "exn_message (OSError m) = m"

section \<open>The error monad\<close>

definition bindE :: "'e + 'a \<Rightarrow> ('a \<Rightarrow> 'e + 'b) \<Rightarrow> 'e + 'b" where
  "bindE m f = (case m of Inl e \<Rightarrow> Inl e | Inr a \<Rightarrow> f a)"

lemma bindE_simps [simp]:
  "bindE (Inl e) f = Inl e"
  "bindE (Inr a) f = f a"
  by (simp_all add: bindE_def)

lemma bindE_eq_Inr [err_simps]:
  "(bindE m f = Inr b) \<longleftrightarrow> (\<exists>a. m = Inr a \<and> f a = Inr b)"
  by (cases m) simp_all

lemma bindE_eq_Inl [err_simps]:
  "(bindE m f = Inl e) \<longleftrightarrow> m = Inl e \<or> (\<exists>a. m = Inr a \<and> f a = Inl e)"
  by (cases m) simp_all

lemma bindE_assoc: "bindE (bindE m f) g = bindE m (\<lambda>x. bindE (f x) g)"
  by (cases m) simp_all

lemma bindE_cong [fundef_cong]:
  "m = m' \<Longrightarrow> (\<And>a. m' = Inr a \<Longrightarrow> f a = f' a) \<Longrightarrow> bindE m f = bindE m' f'"
  by (cases m') simp_all

lemma bindE_split: "P (bindE m f) \<longleftrightarrow> (\<forall>e. m = Inl e \<longrightarrow> P (Inl e)) \<and> (\<forall>a. m = Inr a \<longrightarrow> P (f a))"
  by (cases m) simp_all

lemma bindE_split_asm:
  "P (bindE m f) \<longleftrightarrow> \<not> ((\<exists>e. m = Inl e \<and> \<not> P (Inl e)) \<or> (\<exists>a. m = Inr a \<and> \<not> P (f a)))"
  by (cases m) simp_all

lemmas bindE_splits = bindE_split bindE_split_asm

text \<open>\<open>raise e\<close> under a condition, as the early-exit checks of the source do.\<close>

definition raise_if :: "bool \<Rightarrow> 'e \<Rightarrow> 'e + unit" where
  "raise_if b e = (if b then Inl e else Inr ())"

lemma raise_if_simps [simp]:
  "raise_if True e = Inl e"
  "raise_if False e = Inr ()"
  by (simp_all add: raise_if_def)

lemma raise_if_eq [err_simps]:
  "(raise_if b e = Inr u) \<longleftrightarrow> \<not> b"
  "(raise_if b e = Inl e') \<longleftrightarrow> b \<and> e' = e"
  by (auto simp: raise_if_def)

definition is_ok :: "'e + 'a \<Rightarrow> bool" where
  "is_ok m = (case m of Inl _ \<Rightarrow> False | Inr _ \<Rightarrow> True)"

lemma is_ok_simps [simp]: "\<not> is_ok (Inl e)" "is_ok (Inr a)"
  by (simp_all add: is_ok_def)

lemma is_ok_iff: "is_ok m \<longleftrightarrow> (\<exists>a. m = Inr a)"
  by (cases m) simp_all

section \<open>Text\<close>

text \<open>
  Python text restricted to ASCII: a \<open>string\<close> is a list of characters, and
  \<open>len\<close> counts them. \<open>strip\<close> removes the ASCII white space that
  \<open>str.strip\<close> removes.
\<close>

definition is_space :: "char \<Rightarrow> bool" where
  "is_space c = (let n = (of_char c :: nat) in (9 \<le> n \<and> n \<le> 13) \<or> (28 \<le> n \<and> n \<le> 32))"

definition strip :: "string \<Rightarrow> string" where
  "strip s = rev (dropWhile is_space (rev (dropWhile is_space s)))"

definition upper_char :: "char \<Rightarrow> char" where
  "upper_char c = (let n = (of_char c :: nat) in if 97 \<le> n \<and> n \<le> 122 then char_of (n - 32) else c)"

definition lower_char :: "char \<Rightarrow> char" where
  "lower_char c = (let n = (of_char c :: nat) in if 65 \<le> n \<and> n \<le> 90 then char_of (n + 32) else c)"

definition upper :: "string \<Rightarrow> string" where
  "upper s = map upper_char s"

definition lower :: "string \<Rightarrow> string" where
  "lower s = map lower_char s"

lemma length_upper [simp]: "length (upper s) = length s"
  by (simp add: upper_def)

lemma length_lower [simp]: "length (lower s) = length s"
  by (simp add: lower_def)

lemma upper_eq_Nil [simp]: "upper s = [] \<longleftrightarrow> s = []"
  by (simp add: upper_def)

lemma of_char_nat_less: "(of_char c :: nat) < 256"
  by (metis of_char_mod_256 mod_less_divisor zero_less_numeral)

lemma of_char_upper_char:
  "(of_char (upper_char c) :: nat) =
     (if 97 \<le> (of_char c :: nat) \<and> (of_char c :: nat) \<le> 122 then of_char c - 32 else of_char c)"
proof -
  have "((of_char c :: nat) - 32) mod 256 = of_char c - 32"
    by (rule mod_less) (use of_char_nat_less [of c] in linarith)
  then show ?thesis by (simp add: upper_char_def Let_def)
qed

lemma of_char_lower_char:
  "(of_char (lower_char c) :: nat) =
     (if 65 \<le> (of_char c :: nat) \<and> (of_char c :: nat) \<le> 90 then of_char c + 32 else of_char c)"
proof -
  have "(of_char c :: nat) + 32 < 256" if "(of_char c :: nat) \<le> 90"
    using that by linarith
  then show ?thesis by (simp add: lower_char_def Let_def)
qed

lemma upper_char_idem [simp]: "upper_char (upper_char c) = upper_char c"
proof -
  have "\<not> (97 \<le> (of_char (upper_char c) :: nat) \<and> (of_char (upper_char c) :: nat) \<le> 122)"
    unfolding of_char_upper_char by (simp; linarith)
  then show ?thesis by (subst upper_char_def) (auto simp: Let_def)
qed

lemma upper_upper [simp]: "upper (upper s) = upper s"
  by (simp add: upper_def)

lemma lower_char_idem [simp]: "lower_char (lower_char c) = lower_char c"
proof -
  have "\<not> (65 \<le> (of_char (lower_char c) :: nat) \<and> (of_char (lower_char c) :: nat) \<le> 90)"
    unfolding of_char_lower_char by simp
  then show ?thesis by (subst lower_char_def) (auto simp: Let_def)
qed

lemma lower_lower [simp]: "lower (lower s) = lower s"
  by (simp add: lower_def)

lemma is_space_upper_char [simp]: "is_space (upper_char c) = is_space c"
  by (auto simp: is_space_def Let_def of_char_upper_char)

lemma dropWhile_space_upper: "dropWhile is_space (upper s) = upper (dropWhile is_space s)"
  by (induction s) (simp_all add: upper_def)

lemma rev_upper: "rev (upper s) = upper (rev s)"
  by (simp add: upper_def rev_map)

lemma strip_upper: "strip (upper s) = upper (strip s)"
  by (simp add: strip_def dropWhile_space_upper rev_upper)

lemma dropWhile_id: "(xs \<noteq> [] \<Longrightarrow> \<not> P (hd xs)) \<Longrightarrow> dropWhile P xs = xs"
  by (cases xs) simp_all

lemma strip_strip [simp]: "strip (strip s) = strip s"
proof -
  let ?d = "dropWhile is_space"
  define a where "a = ?d s"
  define b where "b = ?d (rev a)"
  have hb: "\<not> is_space (hd b)" if "b \<noteq> []"
    using that hd_dropWhile [of is_space "rev a"] by (simp add: b_def)
  have ha: "\<not> is_space (hd a)" if "a \<noteq> []"
    using that hd_dropWhile [of is_space s] by (simp add: a_def)
  have pre: "a = rev b @ rev (takeWhile is_space (rev a))"
    using takeWhile_dropWhile_id [of is_space "rev a"] by (metis b_def rev_append rev_rev_ident)
  have "\<not> is_space (hd (rev b))" if "rev b \<noteq> []"
    using pre that ha by (metis append_is_Nil_conv hd_append2)
  then have "?d (rev b) = rev b"
    by (rule dropWhile_id)
  moreover have "?d b = b"
    using hb by (rule dropWhile_id)
  moreover have "strip s = rev b"
    by (simp add: strip_def a_def b_def)
  ultimately show ?thesis
    by (simp add: strip_def)
qed

text \<open>\<open>strip\<close> never lengthens a text.\<close>

lemma length_strip_le: "length (strip s) \<le> length s"
proof -
  have "length (dropWhile is_space (rev (dropWhile is_space s))) \<le> length (dropWhile is_space s)"
    using length_dropWhile_le [of is_space "rev (dropWhile is_space s)"] by simp
  then show ?thesis
    using length_dropWhile_le [of is_space s] by (simp add: strip_def)
qed

text \<open>\<open>str.split()\<close> without argument: the maximal runs of characters that are not white
  space.\<close>

fun split_ws_aux :: "string \<Rightarrow> string \<Rightarrow> string list" where
  "split_ws_aux acc [] = (if acc = [] then [] else [rev acc])"
| "split_ws_aux acc (c # cs) =
     (if is_space c then (if acc = [] then split_ws_aux [] cs else rev acc # split_ws_aux [] cs)
      else split_ws_aux (c # acc) cs)"

definition split_ws :: "string \<Rightarrow> string list" where
  "split_ws s = split_ws_aux [] s"

section \<open>Rendering of numbers\<close>

text \<open>Decimal digits of a natural number, most significant first, as \<open>str(int)\<close>.\<close>

definition digit_char :: "nat \<Rightarrow> char" where
  "digit_char d = char_of (48 + d)"

fun nat_digits :: "nat \<Rightarrow> nat list" where
  "nat_digits n = (if n < 10 then [n] else nat_digits (n div 10) @ [n mod 10])"

declare nat_digits.simps [simp del]

definition str_nat :: "nat \<Rightarrow> string" where
  "str_nat n = map digit_char (nat_digits n)"

definition str_int :: "int \<Rightarrow> string" where
  "str_int i = (if i < 0 then ''-'' @ str_nat (nat (- i)) else str_nat (nat i))"

definition digits_value :: "nat list \<Rightarrow> nat" where
  "digits_value ds = foldl (\<lambda>acc d. 10 * acc + d) 0 ds"

lemma digits_value_snoc [simp]: "digits_value (ds @ [d]) = 10 * digits_value ds + d"
  by (simp add: digits_value_def)

lemma digits_value_nat_digits [simp]: "digits_value (nat_digits n) = n"
proof (induction n rule: nat_digits.induct)
  case (1 n)
  show ?case
  proof (cases "n < 10")
    case True
    then show ?thesis by (subst nat_digits.simps) (simp add: digits_value_def)
  next
    case False
    with 1 show ?thesis by (subst nat_digits.simps) simp
  qed
qed

lemma nat_digits_inj: "nat_digits m = nat_digits n \<Longrightarrow> m = n"
  by (metis digits_value_nat_digits)

lemma nat_digits_lt: "d \<in> set (nat_digits n) \<Longrightarrow> d < 10"
proof (induction n rule: nat_digits.induct)
  case (1 n)
  then show ?case
    by (cases "n < 10") (auto simp: nat_digits.simps [of n])
qed

lemma nat_digits_nonempty [simp]: "nat_digits n \<noteq> []"
  by (subst nat_digits.simps) simp

lemma digit_char_inj:
  assumes "a < 10" "b < 10" "digit_char a = digit_char b"
  shows "a = b"
proof -
  have "(of_char (digit_char a) :: nat) = of_char (digit_char b)"
    by (simp only: assms(3))
  with assms(1,2) show ?thesis by (simp add: digit_char_def)
qed

lemma str_nat_inj: "str_nat m = str_nat n \<Longrightarrow> m = n"
proof (rule nat_digits_inj)
  assume "str_nat m = str_nat n"
  then show "nat_digits m = nat_digits n"
    unfolding str_nat_def
    by (rule list.inj_map_strong [rotated])
      (auto intro: digit_char_inj dest: nat_digits_lt)
qed

lemma str_nat_inject [simp]: "str_nat m = str_nat n \<longleftrightarrow> m = n"
  by (auto dest: str_nat_inj)

lemma str_nat_nonempty [simp]: "str_nat n \<noteq> []"
  by (simp add: str_nat_def)

text \<open>The equations that evaluate text operations on literals.\<close>

lemmas text_eval = upper_def upper_char_def lower_def lower_char_def strip_def is_space_def
  str_nat_def nat_digits.simps digit_char_def char_of_def bit_0

section \<open>Tables\<close>

text \<open>
  A table is the list of its rows in insertion order. \<open>row_by key k\<close> is
  \<open>SELECT ... WHERE key = k\<close> for a unique key, \<open>upd_by key k f\<close> is
  \<open>UPDATE ... WHERE key = k\<close>, an insertion appends a row.
\<close>

definition row_by :: "('r \<Rightarrow> 'k) \<Rightarrow> 'k \<Rightarrow> 'r list \<Rightarrow> 'r option" where
  "row_by key k rows = find (\<lambda>r. key r = k) rows"

definition upd_by :: "('r \<Rightarrow> 'k) \<Rightarrow> 'k \<Rightarrow> ('r \<Rightarrow> 'r) \<Rightarrow> 'r list \<Rightarrow> 'r list" where
  "upd_by key k f rows = map (\<lambda>r. if key r = k then f r else r) rows"

abbreviation keys_of :: "('r \<Rightarrow> 'k) \<Rightarrow> 'r list \<Rightarrow> 'k set" where
  "keys_of key rows \<equiv> key ` set rows"

lemma row_by_Nil [simp]: "row_by key k [] = None"
  by (simp add: row_by_def)

lemma row_by_Cons [simp]: "row_by key k (r # rs) = (if key r = k then Some r else row_by key k rs)"
  by (simp add: row_by_def)

lemma row_by_None [table_simps]: "row_by key k rows = None \<longleftrightarrow> k \<notin> keys_of key rows"
  by (induction rows) auto

lemma row_by_Some_key: "row_by key k rows = Some r \<Longrightarrow> key r = k"
  by (induction rows) (auto split: if_splits)

lemma row_by_Some_in: "row_by key k rows = Some r \<Longrightarrow> r \<in> set rows"
  by (induction rows) (auto split: if_splits)

lemma row_by_Some_keys: "row_by key k rows = Some r \<Longrightarrow> k \<in> keys_of key rows"
  by (metis option.distinct(1) row_by_None)

lemma row_by_append [table_simps]:
  "row_by key k (rows @ [r]) =
     (case row_by key k rows of Some r' \<Rightarrow> Some r' | None \<Rightarrow> if key r = k then Some r else None)"
  by (induction rows) auto

lemma row_by_distinct:
  "distinct (map key rows) \<Longrightarrow> r \<in> set rows \<Longrightarrow> row_by key (key r) rows = Some r"
  by (induction rows) (auto simp: rev_image_eqI)

lemma upd_by_Nil [simp]: "upd_by key k f [] = []"
  by (simp add: upd_by_def)

lemma upd_by_Cons [simp]:
  "upd_by key k f (r # rs) = (if key r = k then f r else r) # upd_by key k f rs"
  by (simp add: upd_by_def)

lemma length_upd_by [simp]: "length (upd_by key k f rows) = length rows"
  by (simp add: upd_by_def)

lemma upd_by_map_other:
  "(\<And>r. key r = k \<Longrightarrow> g (f r) = g r) \<Longrightarrow> map g (upd_by key k f rows) = map g rows"
  by (simp add: upd_by_def)

lemma row_by_upd_by [table_simps]:
  assumes "\<And>r. key (f r) = key r"
  shows "row_by key k' (upd_by key k f rows) =
     (if k' = k then map_option f (row_by key k rows) else row_by key k' rows)"
  by (induction rows) (auto simp: assms)

lemma in_upd_by: "r \<in> set (upd_by key k f rows) \<Longrightarrow>
   \<exists>r0 \<in> set rows. r = (if key r0 = k then f r0 else r0)"
  by (auto simp: upd_by_def)

lemma map_keys_upd_by [table_simps]:
  "(\<And>r. key' (f r) = key' r) \<Longrightarrow> map key' (upd_by key k f rows) = map key' rows"
  by (simp add: upd_by_map_other)

lemma keys_upd_by [table_simps]:
  assumes "\<And>r. key' (f r) = key' r"
  shows "keys_of key' (upd_by key k f rows) = keys_of key' rows"
proof -
  have "set (map key' (upd_by key k f rows)) = set (map key' rows)"
    by (simp only: map_keys_upd_by [of key' f, OF assms])
  then show ?thesis by simp
qed

lemma ball_upd_by:
  assumes "\<And>r. r \<in> set rows \<Longrightarrow> P (if key r = k then f r else r)"
  shows "\<forall>r \<in> set (upd_by key k f rows). P r"
proof
  fix r
  assume "r \<in> set (upd_by key k f rows)"
  then obtain r0 where "r0 \<in> set rows" "r = (if key r0 = k then f r0 else r0)"
    using in_upd_by by metis
  then show "P r" using assms by simp
qed

lemma upd_by_absent: "k \<notin> keys_of key rows \<Longrightarrow> upd_by key k f rows = rows"
  by (induction rows) auto

text \<open>A row put in the place of the rows with its key.\<close>

lemma row_by_put:
  "key r = k \<Longrightarrow> row_by key k' (upd_by key k (\<lambda>_. r) rows) =
     (if k' = k \<and> k \<in> keys_of key rows then Some r else row_by key k' rows)"
  by (induction rows) auto

lemma sum_upd_by:
  fixes g :: "'r \<Rightarrow> 'a::ab_group_add"
  assumes "distinct (map key rows)" "row_by key k rows = Some r"
  shows "sum_list (map g (upd_by key k f rows)) = sum_list (map g rows) - g r + g (f r)"
  using assms
proof (induction rows)
  case Nil
  then show ?case by simp
next
  case (Cons a rows)
  show ?case
  proof (cases "key a = k")
    case True
    with Cons.prems have "k \<notin> keys_of key rows" and "a = r" by auto
    with True show ?thesis by (simp add: upd_by_absent)
  next
    case False
    with Cons show ?thesis by (simp add: algebra_simps)
  qed
qed

lemma sum_upd_by_same:
  "(\<And>r. key r = k \<Longrightarrow> g (f r) = g r) \<Longrightarrow>
     sum_list (map g (upd_by key k f rows)) = sum_list (map g rows)"
  by (simp add: upd_by_map_other)

text \<open>Enough batches of \<open>n\<close> cover \<open>m\<close>.\<close>

lemma batches_cover: "0 < n \<Longrightarrow> m \<le> (m + n - 1) div n * n" for m n :: nat
proof -
  assume "0 < n"
  have "(m + n - 1) = (m + n - 1) div n * n + (m + n - 1) mod n" by simp
  moreover have "(m + n - 1) mod n < n" using \<open>0 < n\<close> by simp
  ultimately show ?thesis using \<open>0 < n\<close> by linarith
qed

end
