(* ===== verification/PyDecimal.thy ===== *)
theory PyDecimal
  imports Complex_Main Prelude
begin

text \<open>
  Python's \<open>decimal.Decimal\<close> (finite values, default context: 28 significant digits,
  half-even rounding) and PostgreSQL's \<open>NUMERIC(20,4)\<close>. A decimal is a coefficient and
  an exponent, so that \<open>10.0\<close> and \<open>10.00\<close> are equal numbers with different texts, as
  in the code. Comparison is exact; addition, subtraction and multiplication round to the
  context's precision. A \<open>NUMERIC(20,4)\<close> column holds an integral number of
  ten-thousandths below \<open>10 ^ 20\<close>.
\<close>

named_theorems dec_simps \<open>comparisons and arithmetic of decimals as rational arithmetic\<close>

section \<open>Values and comparison\<close>

datatype decimal = Dec (coeff: int) (dexp: int)

definition dval :: "decimal \<Rightarrow> rat" where
  "dval d = of_int (coeff d) * 10 powi dexp d"

text \<open>The coefficient of the same number at a smaller exponent.\<close>

definition at_exp :: "decimal \<Rightarrow> int \<Rightarrow> int" where
  "at_exp d e = coeff d * 10 ^ nat (dexp d - e)"

definition dless :: "decimal \<Rightarrow> decimal \<Rightarrow> bool" where
  "dless a b = (let e = min (dexp a) (dexp b) in at_exp a e < at_exp b e)"

definition dle :: "decimal \<Rightarrow> decimal \<Rightarrow> bool" where
  "dle a b = (let e = min (dexp a) (dexp b) in at_exp a e \<le> at_exp b e)"

definition deq :: "decimal \<Rightarrow> decimal \<Rightarrow> bool" where
  "deq a b = (let e = min (dexp a) (dexp b) in at_exp a e = at_exp b e)"

abbreviation dzero :: decimal where "dzero \<equiv> Dec 0 0"

lemma ten_powi_pos [simp]: "(0::rat) < 10 powi e"
  by (rule zero_less_power_int) simp

lemma at_exp_val: "e \<le> dexp d \<Longrightarrow> of_int (at_exp d e) * 10 powi e = dval d"
proof -
  assume "e \<le> dexp d"
  then have "(10::rat) ^ nat (dexp d - e) * 10 powi e = 10 powi (dexp d)"
    by (simp add: power_int_add [symmetric] flip: power_int_of_nat)
  then show ?thesis
    by (simp add: at_exp_def dval_def mult.assoc)
qed

lemma at_exp_less: "e \<le> dexp a \<Longrightarrow> e \<le> dexp b \<Longrightarrow> at_exp a e < at_exp b e \<longleftrightarrow> dval a < dval b"
  by (metis at_exp_val mult_less_cancel_right_pos of_int_less_iff ten_powi_pos)

lemma dless_dval [dec_simps]: "dless a b \<longleftrightarrow> dval a < dval b"
  by (simp add: dless_def Let_def at_exp_less)

lemma dle_dval [dec_simps]: "dle a b \<longleftrightarrow> dval a \<le> dval b"
  by (simp add: dle_def Let_def at_exp_less flip: not_less)

lemma deq_dval [dec_simps]: "deq a b \<longleftrightarrow> dval a = dval b"
proof -
  let ?e = "min (dexp a) (dexp b)"
  have "at_exp a ?e = at_exp b ?e \<longleftrightarrow>
      \<not> at_exp a ?e < at_exp b ?e \<and> \<not> at_exp b ?e < at_exp a ?e"
    by auto
  also have "\<dots> \<longleftrightarrow> \<not> dval a < dval b \<and> \<not> dval b < dval a"
    by (simp add: at_exp_less)
  finally show ?thesis by (auto simp: deq_def Let_def)
qed

lemma dval_Dec_0 [simp]: "dval (Dec 0 e) = 0"
  by (simp add: dval_def)

lemma dval_sign:
  "0 < dval d \<longleftrightarrow> 0 < coeff d" "dval d < 0 \<longleftrightarrow> coeff d < 0"
  "dval d \<le> 0 \<longleftrightarrow> coeff d \<le> 0" "0 \<le> dval d \<longleftrightarrow> 0 \<le> coeff d" "dval d = 0 \<longleftrightarrow> coeff d = 0"
proof -
  define p :: rat where "p = 10 powi dexp d"
  have "0 < p" by (simp add: p_def)
  moreover have "dval d = of_int (coeff d) * p" by (simp add: dval_def p_def)
  ultimately show "0 < dval d \<longleftrightarrow> 0 < coeff d" "dval d < 0 \<longleftrightarrow> coeff d < 0"
    "dval d \<le> 0 \<longleftrightarrow> coeff d \<le> 0" "0 \<le> dval d \<longleftrightarrow> 0 \<le> coeff d" "dval d = 0 \<longleftrightarrow> coeff d = 0"
    by (auto simp: zero_less_mult_iff mult_less_0_iff mult_le_0_iff zero_le_mult_iff)
qed

section \<open>Rounding to the context's precision\<close>

definition ndigits :: "nat \<Rightarrow> nat" where
  "ndigits n = length (nat_digits n)"

definition prec :: nat where
  "prec = 28"

definition round_half_even :: "nat \<Rightarrow> nat \<Rightarrow> nat" where
  "round_half_even m p =
     (let q = m div p; r = m mod p
      in if 2 * r > p \<or> (2 * r = p \<and> odd q) then q + 1 else q)"

definition dfix :: "decimal \<Rightarrow> decimal" where
  "dfix d =
     (let m = nat \<bar>coeff d\<bar>; k = ndigits m - prec
      in if ndigits m \<le> prec then d
         else let q = round_half_even m (10 ^ k)
              in if ndigits q \<le> prec then Dec (sgn (coeff d) * int q) (dexp d + int k)
                 else Dec (sgn (coeff d) * int (q div 10)) (dexp d + int k + 1))"

definition dadd :: "decimal \<Rightarrow> decimal \<Rightarrow> decimal" where
  "dadd a b = (let e = min (dexp a) (dexp b) in dfix (Dec (at_exp a e + at_exp b e) e))"

definition dsub :: "decimal \<Rightarrow> decimal \<Rightarrow> decimal" where
  "dsub a b = (let e = min (dexp a) (dexp b) in dfix (Dec (at_exp a e - at_exp b e) e))"

definition dmul :: "decimal \<Rightarrow> decimal \<Rightarrow> decimal" where
  "dmul a b = dfix (Dec (coeff a * coeff b) (dexp a + dexp b))"

text \<open>\<open>int(d)\<close> truncates towards zero; \<open>d.to_integral_value()\<close> rounds half to even.\<close>

definition dtrunc :: "decimal \<Rightarrow> int" where
  "dtrunc d = (if 0 \<le> dexp d then coeff d * 10 ^ nat (dexp d)
               else sgn (coeff d) * (\<bar>coeff d\<bar> div 10 ^ nat (- dexp d)))"

definition to_integral_value :: "decimal \<Rightarrow> decimal" where
  "to_integral_value d =
     (if 0 \<le> dexp d then d
      else Dec (sgn (coeff d) * int (round_half_even (nat \<bar>coeff d\<bar>) (10 ^ nat (- dexp d)))) 0)"

lemma ndigits_le: "n < 10 ^ k \<Longrightarrow> 0 < k \<Longrightarrow> ndigits n \<le> k"
proof (induction k arbitrary: n)
  case 0
  then show ?case by simp
next
  case (Suc k)
  show ?case
  proof (cases "n < 10")
    case True
    then show ?thesis by (simp add: ndigits_def nat_digits.simps [of n])
  next
    case False
    with Suc.prems have "n div 10 < 10 ^ k" and "0 < k"
      by (auto simp: less_mult_imp_div_less mult.commute intro!: gr0I)
    then have "ndigits (n div 10) \<le> k" by (rule Suc.IH)
    with False show ?thesis by (simp add: ndigits_def nat_digits.simps [of n])
  qed
qed

lemma dfix_exact: "\<bar>coeff d\<bar> < 10 ^ 28 \<Longrightarrow> dfix d = d"
proof -
  assume "\<bar>coeff d\<bar> < 10 ^ 28"
  then have "nat \<bar>coeff d\<bar> < 10 ^ 28" by (simp add: nat_less_iff)
  then have "ndigits (nat \<bar>coeff d\<bar>) \<le> 28" by (rule ndigits_le) simp
  then show ?thesis by (simp add: dfix_def prec_def)
qed

text \<open>
  The sum, difference or product of two decimals is exact when the exact coefficient fits
  the precision: the side condition every exactness lemma below discharges by a bound.
\<close>

lemma dval_at_min:
  "of_int (at_exp a (min (dexp a) (dexp b))) * 10 powi (min (dexp a) (dexp b)) = dval a"
  "of_int (at_exp b (min (dexp a) (dexp b))) * 10 powi (min (dexp a) (dexp b)) = dval b"
  by (simp_all add: at_exp_val)

lemma dadd_exact:
  assumes "\<bar>at_exp a (min (dexp a) (dexp b)) + at_exp b (min (dexp a) (dexp b))\<bar> < 10 ^ 28"
  shows "dval (dadd a b) = dval a + dval b"
  using assms dval_at_min(1) [where a = a and b = b] dval_at_min(2) [where a = a and b = b]
  by (simp add: dadd_def Let_def dfix_exact dval_def distrib_right)

lemma dsub_exact:
  assumes "\<bar>at_exp a (min (dexp a) (dexp b)) - at_exp b (min (dexp a) (dexp b))\<bar> < 10 ^ 28"
  shows "dval (dsub a b) = dval a - dval b"
  using assms dval_at_min(1) [where a = a and b = b] dval_at_min(2) [where a = a and b = b]
  by (simp add: dsub_def Let_def dfix_exact dval_def left_diff_distrib)

lemma dmul_exact:
  assumes "\<bar>coeff a * coeff b\<bar> < 10 ^ 28"
  shows "dval (dmul a b) = dval a * dval b"
  using assms by (simp add: dmul_def dfix_exact dval_def power_int_add)

text \<open>
  Money amounts have at most four decimal places (\<open>- 4 \<le> dexp d\<close>). Below
  \<open>10 ^ 23\<close> their sums and differences need no rounding.
\<close>

lemma at_exp_bound:
  assumes "- 4 \<le> e" "e \<le> dexp d" "\<bar>dval d\<bar> \<le> 10 ^ 23"
  shows "\<bar>at_exp d e\<bar> \<le> 10 ^ 27"
proof -
  have v: "of_int \<bar>at_exp d e\<bar> * 10 powi e = \<bar>dval d\<bar>"
    using at_exp_val [OF assms(2)] by (metis abs_mult abs_of_pos of_int_abs ten_powi_pos)
  have "(10::rat) powi (- 4) \<le> 10 powi e"
    using assms(1) by (intro power_int_increasing) simp_all
  then have "of_int \<bar>at_exp d e\<bar> * 10 powi (- 4) \<le> \<bar>dval d\<bar>"
    unfolding v [symmetric] by (intro mult_left_mono) simp_all
  also note assms(3)
  finally have "(of_int \<bar>at_exp d e\<bar> :: rat) \<le> of_int (10 ^ 27)"
    by (simp add: power_int_def divide_simps)
  then show ?thesis by (simp only: of_int_le_iff)
qed

lemma dadd_dsub_money:
  assumes "- 4 \<le> dexp a" "- 4 \<le> dexp b" "\<bar>dval a\<bar> \<le> 10 ^ 23" "\<bar>dval b\<bar> \<le> 10 ^ 23"
  shows "dval (dadd a b) = dval a + dval b" "dexp (dadd a b) = min (dexp a) (dexp b)"
    "dval (dsub a b) = dval a - dval b" "dexp (dsub a b) = min (dexp a) (dexp b)"
proof -
  let ?e = "min (dexp a) (dexp b)"
  have "\<bar>at_exp a ?e\<bar> \<le> 10 ^ 27"
    by (rule at_exp_bound) (use assms in auto)
  moreover have "\<bar>at_exp b ?e\<bar> \<le> 10 ^ 27"
    by (rule at_exp_bound) (use assms in auto)
  ultimately have b: "\<bar>at_exp a ?e + at_exp b ?e\<bar> < 10 ^ 28" "\<bar>at_exp a ?e - at_exp b ?e\<bar> < 10 ^ 28"
    by (auto simp: abs_le_iff abs_less_iff)
  then show "dval (dadd a b) = dval a + dval b" "dval (dsub a b) = dval a - dval b"
    by (simp_all add: dadd_exact dsub_exact)
  show "dexp (dadd a b) = ?e" "dexp (dsub a b) = ?e"
    using b by (simp_all add: dadd_def dsub_def Let_def dfix_exact)
qed

section \<open>NUMERIC(20,4)\<close>

text \<open>
  A column value is the number of ten-thousandths. \<open>of_num4\<close> is the Decimal psycopg
  returns for it. \<open>to_num4\<close> stores a decimal: it rounds half away from zero to four places
  and fails (\<open>NumericValueOutOfRange\<close>) when sixteen integral digits are exceeded.
\<close>

type_synonym num4 = int

definition num4_max :: int where
  "num4_max = 10 ^ 20"

definition of_num4 :: "num4 \<Rightarrow> decimal" where
  "of_num4 n = Dec n (- 4)"

definition ten_thousandths :: "decimal \<Rightarrow> int" where
  "ten_thousandths d =
     (if - 4 \<le> dexp d then coeff d * 10 ^ nat (dexp d + 4)
      else let p = 10 ^ nat (- 4 - dexp d)
           in sgn (coeff d) * ((2 * \<bar>coeff d\<bar> + p) div (2 * p)))"

definition check_num4 :: "int \<Rightarrow> exn + num4" where
  "check_num4 n = (if \<bar>n\<bar> < num4_max then Inr n else Inl (DbError ''NumericValueOutOfRange''))"

definition to_num4 :: "decimal \<Rightarrow> exn + num4" where
  "to_num4 d = check_num4 (ten_thousandths d)"

lemma check_num4_eq [err_simps]: "check_num4 n = Inr m \<longleftrightarrow> m = n \<and> \<bar>n\<bar> < num4_max"
  by (auto simp: check_num4_def)

lemma check_num4_Inl [err_simps]:
  "check_num4 n = Inl e \<longleftrightarrow> e = DbError ''NumericValueOutOfRange'' \<and> num4_max \<le> \<bar>n\<bar>"
  by (auto simp: check_num4_def)

lemma coeff_of_num4 [simp]: "coeff (of_num4 n) = n"
  by (simp add: of_num4_def)

lemma dexp_of_num4 [simp]: "dexp (of_num4 n) = - 4"
  by (simp add: of_num4_def)

lemma of_num4_inject [simp]: "of_num4 m = of_num4 n \<longleftrightarrow> m = n"
  by (simp add: of_num4_def)

lemma dval_of_num4: "dval (of_num4 n) = of_int n * 10 powi (- 4)"
  by (simp add: dval_def)

lemma num4_cmp [simp]:
  "dless (of_num4 m) (of_num4 n) \<longleftrightarrow> m < n"
  "dle (of_num4 m) (of_num4 n) \<longleftrightarrow> m \<le> n"
  "deq (of_num4 m) (of_num4 n) \<longleftrightarrow> m = n"
  by (simp_all add: dless_def dle_def deq_def at_exp_def)

lemma ten_thousandths_of_num4 [simp]: "ten_thousandths (of_num4 n) = n"
  by (simp add: ten_thousandths_def)

lemma to_num4_of_num4: "\<bar>n\<bar> < num4_max \<Longrightarrow> to_num4 (of_num4 n) = Inr n"
  by (simp add: to_num4_def check_num4_def)

lemma ten_thousandths_exact:
  assumes "- 4 \<le> dexp d"
  shows "dval (of_num4 (ten_thousandths d)) = dval d"
  using at_exp_val [OF assms]
  by (simp add: ten_thousandths_def at_exp_def dval_def assms)

lemma deq_ten_thousandths:
  assumes "- 4 \<le> dexp d"
  shows "deq (of_num4 n) d \<longleftrightarrow> n = ten_thousandths d"
  using ten_thousandths_exact [OF assms]
  by (metis deq_dval num4_cmp(3))

lemma dsub_num4: "\<bar>m - n\<bar> < 10 ^ 28 \<Longrightarrow> dsub (of_num4 m) (of_num4 n) = of_num4 (m - n)"
  by (simp add: dsub_def at_exp_def dfix_exact of_num4_def)

lemma dadd_num4: "\<bar>m + n\<bar> < 10 ^ 28 \<Longrightarrow> dadd (of_num4 m) (of_num4 n) = of_num4 (m + n)"
  by (simp add: dadd_def at_exp_def dfix_exact of_num4_def)

lemma num4_max_lt: "num4_max < 10 ^ 28"
  by (simp add: num4_max_def)

lemma num4_diff_fits:
  assumes "\<bar>a\<bar> < num4_max" "\<bar>b\<bar> < num4_max" "\<bar>c\<bar> < num4_max"
  shows "\<bar>a - b\<bar> < 10 ^ 28" "\<bar>a - b - c\<bar> < 10 ^ 28" "\<bar>a + b\<bar> < 10 ^ 28"
  using assms by (simp_all add: num4_max_def)

end
