(* ===== verification/DecimalText.thy ===== *)
theory DecimalText
  imports PyDecimal
begin

text \<open>
  The texts of decimals: \<open>str(d)\<close> as CPython renders it (plain notation while the
  exponent is not positive and the adjusted exponent is at least -6, scientific otherwise) and
  \<open>Decimal(text)\<close> as CPython parses it (surrounding white space and underscores ignored, an
  optional sign, digits with an optional point, an optional exponent, or one of the special
  values). The code converts back and forth with \<open>Decimal(str(x))\<close>; the round trip is the
  identity, exponent included.
\<close>

section \<open>Rendering\<close>

definition str_signed :: "int \<Rightarrow> string" where
  "str_signed i = (if i < 0 then ''-'' else ''+'') @ str_nat (nat \<bar>i\<bar>)"

definition str_dec :: "decimal \<Rightarrow> string" where
  "str_dec d =
     (let ds = str_nat (nat \<bar>coeff d\<bar>);
          len = int (length ds);
          leftdigits = dexp d + len;
          dotplace = (if dexp d \<le> 0 \<and> - 6 < leftdigits then leftdigits else 1);
          body = (if dotplace \<le> 0 then ''0.'' @ replicate (nat (- dotplace)) CHR ''0'' @ ds
                  else if len \<le> dotplace then ds @ replicate (nat (dotplace - len)) CHR ''0''
                  else take (nat dotplace) ds @ ''.'' @ drop (nat dotplace) ds)
      in (if coeff d < 0 then ''-'' else []) @ body @
         (if leftdigits = dotplace then [] else ''E'' @ str_signed (leftdigits - dotplace)))"

section \<open>Parsing\<close>

datatype pydec = Finite decimal | Infinite bool | NaN

definition is_digit :: "char \<Rightarrow> bool" where
  "is_digit c = (let n = (of_char c :: nat) in 48 \<le> n \<and> n \<le> 57)"

definition digit_of :: "char \<Rightarrow> nat" where
  "digit_of c = of_char c - 48"

definition nat_of_digits :: "string \<Rightarrow> nat" where
  "nat_of_digits s = digits_value (map digit_of s)"

fun parse_sign :: "string \<Rightarrow> bool \<times> string" where
  "parse_sign [] = (False, [])"
| "parse_sign (c # cs) =
     (if c = CHR ''-'' then (True, cs) else if c = CHR ''+'' then (False, cs) else (False, c # cs))"

fun parse_exponent :: "string \<Rightarrow> int option" where
  "parse_exponent [] = Some 0"
| "parse_exponent (c # cs) =
     (if c = CHR ''E'' \<or> c = CHR ''e'' then
        (let (neg, ds) = parse_sign cs
         in if ds \<noteq> [] \<and> list_all is_digit ds
            then Some (if neg then - int (nat_of_digits ds) else int (nat_of_digits ds))
            else None)
      else None)"

fun parse_fraction :: "string \<Rightarrow> string \<times> string" where
  "parse_fraction [] = ([], [])"
| "parse_fraction (c # cs) =
     (if c = CHR ''.'' then (takeWhile is_digit cs, dropWhile is_digit cs) else ([], c # cs))"

definition parse_number :: "bool \<Rightarrow> string \<Rightarrow> decimal option" where
  "parse_number neg s =
     (let ip = takeWhile is_digit s;
          (fp, rest) = parse_fraction (dropWhile is_digit s);
          v = int (nat_of_digits (ip @ fp))
      in if ip @ fp = [] then None
         else case parse_exponent rest of
           None \<Rightarrow> None
         | Some e \<Rightarrow> Some (Dec (if neg then - v else v) (e - int (length fp))))"

definition is_nan_text :: "string \<Rightarrow> bool" where
  "is_nan_text t \<longleftrightarrow>
     (take 3 t = ''nan'' \<and> list_all is_digit (drop 3 t)) \<or>
     (take 4 t = ''snan'' \<and> list_all is_digit (drop 4 t))"

definition parse_decimal :: "string \<Rightarrow> exn + pydec" where
  "parse_decimal text =
     (let (neg, t) = parse_sign (filter (\<lambda>c. c \<noteq> CHR ''_'') (strip text))
      in case parse_number neg t of
           Some d \<Rightarrow> Inr (Finite d)
         | None \<Rightarrow>
             if lower t = ''inf'' \<or> lower t = ''infinity'' then Inr (Infinite neg)
             else if is_nan_text (lower t) then Inr NaN
             else Inl InvalidOperation)"

section \<open>Round trip\<close>

lemma is_digit_digit_char: "d < 10 \<Longrightarrow> is_digit (digit_char d)"
  by (simp add: is_digit_def digit_char_def)

lemma digit_of_digit_char: "d < 10 \<Longrightarrow> digit_of (digit_char d) = d"
  by (simp add: digit_of_def digit_char_def)

lemma str_nat_digits: "c \<in> set (str_nat n) \<Longrightarrow> is_digit c"
  by (auto simp: str_nat_def intro: is_digit_digit_char dest: nat_digits_lt)

lemma nat_of_digits_str_nat [simp]: "nat_of_digits (str_nat n) = n"
proof -
  have "map digit_of (str_nat n) = map (\<lambda>d. d) (nat_digits n)"
    unfolding str_nat_def map_map
    by (rule map_cong) (auto simp: digit_of_digit_char dest: nat_digits_lt)
  then show ?thesis by (simp add: nat_of_digits_def)
qed

lemma digits_value_zeros: "digits_value (replicate k 0 @ ds) = digits_value ds"
  by (induction k) (simp_all add: digits_value_def)

lemma digit_of_zero [simp]: "digit_of CHR ''0'' = 0"
  by (simp add: digit_of_def)

lemma nat_of_digits_zeros [simp]:
  "nat_of_digits (replicate k CHR ''0'' @ s) = nat_of_digits s"
proof -
  have "map digit_of (replicate k CHR ''0'' @ s) = replicate k 0 @ map digit_of s"
    by (simp add: map_replicate_const)
  then show ?thesis by (simp add: nat_of_digits_def digits_value_zeros)
qed

lemma nat_of_digits_zero [simp]: "nat_of_digits (CHR ''0'' # s) = nat_of_digits s"
  using nat_of_digits_zeros [of 1 s] by simp

lemma is_digit_consts [simp]:
  "is_digit CHR ''0''" "\<not> is_digit CHR ''.''" "\<not> is_digit CHR ''E''"
  "\<not> is_digit CHR ''-''" "\<not> is_digit CHR ''+''" "\<not> is_digit CHR ''_''"
  by (simp_all add: is_digit_def)

text \<open>The exponent part that \<open>str\<close> writes: absent, or \<open>E\<close> and a signed number.\<close>

definition exp_text :: "int \<Rightarrow> string" where
  "exp_text e = (if e = 0 then [] else ''E'' @ str_signed e)"

lemma str_nat_head: "\<exists>c cs. str_nat n = c # cs \<and> is_digit c"
  using str_nat_nonempty [of n] str_nat_digits [of _ n] by (cases "str_nat n") auto

lemma parse_sign_str_signed: "parse_sign (str_signed e) = (e < 0, str_nat (nat \<bar>e\<bar>))"
  by (simp add: str_signed_def)

lemma parse_exponent_exp_text [simp]: "parse_exponent (exp_text e) = Some e"
  by (simp add: exp_text_def parse_sign_str_signed list_all_iff str_nat_digits)

lemma exp_text_head: "c \<in> set (take 1 (exp_text e)) \<Longrightarrow> c = CHR ''E''"
  by (simp add: exp_text_def split: if_splits)

lemma takeWhile_digits_exp:
  assumes "list_all is_digit ip"
  shows "takeWhile is_digit (ip @ exp_text e) = ip" "dropWhile is_digit (ip @ exp_text e) = exp_text e"
  using assms by (auto simp: takeWhile_append list_all_iff dropWhile_append exp_text_def)

lemma parse_fraction_exp [simp]: "parse_fraction (exp_text e) = ([], exp_text e)"
  by (simp add: exp_text_def)

lemma parse_number_int:
  assumes "list_all is_digit ip" "ip \<noteq> []"
  shows "parse_number neg (ip @ exp_text e) =
    Some (Dec (if neg then - int (nat_of_digits ip) else int (nat_of_digits ip)) e)"
  using assms by (simp add: parse_number_def takeWhile_digits_exp)

lemma parse_number_frac:
  assumes "list_all is_digit ip" "list_all is_digit fp" "ip \<noteq> []"
  shows "parse_number neg (ip @ CHR ''.'' # fp @ exp_text e) =
    Some (Dec (if neg then - int (nat_of_digits (ip @ fp)) else int (nat_of_digits (ip @ fp)))
      (e - int (length fp)))"
proof -
  have "takeWhile is_digit (ip @ CHR ''.'' # fp @ exp_text e) = ip"
    and "dropWhile is_digit (ip @ CHR ''.'' # fp @ exp_text e) = CHR ''.'' # fp @ exp_text e"
    using assms(1) by (auto simp: takeWhile_append list_all_iff dropWhile_append)
  with assms show ?thesis by (simp add: parse_number_def takeWhile_digits_exp)
qed

text \<open>What is rendered after the sign parses back to the number.\<close>

definition str_dec_body :: "decimal \<Rightarrow> string" where
  "str_dec_body d =
     (let ds = str_nat (nat \<bar>coeff d\<bar>);
          len = int (length ds);
          leftdigits = dexp d + len;
          dotplace = (if dexp d \<le> 0 \<and> - 6 < leftdigits then leftdigits else 1)
      in (if dotplace \<le> 0 then ''0.'' @ replicate (nat (- dotplace)) CHR ''0'' @ ds
          else if len \<le> dotplace then ds @ replicate (nat (dotplace - len)) CHR ''0''
          else take (nat dotplace) ds @ ''.'' @ drop (nat dotplace) ds) @
         exp_text (leftdigits - dotplace))"

lemma str_dec_sign: "str_dec d = (if coeff d < 0 then ''-'' else []) @ str_dec_body d"
  by (simp add: str_dec_def str_dec_body_def exp_text_def Let_def)

lemma parse_number_str_dec_body:
  "parse_number neg (str_dec_body d) = Some (Dec (if neg then - \<bar>coeff d\<bar> else \<bar>coeff d\<bar>) (dexp d))"
proof -
  define ds where "ds = str_nat (nat \<bar>coeff d\<bar>)"
  define len where "len = int (length ds)"
  define left where "left = dexp d + len"
  define dot where "dot = (if dexp d \<le> 0 \<and> - 6 < left then left else 1)"
  have dig: "list_all is_digit ds" and ne: "ds \<noteq> []"
    by (auto simp: ds_def list_all_iff str_nat_digits)
  have val: "int (nat_of_digits ds) = \<bar>coeff d\<bar>" by (simp add: ds_def)
  have len1: "1 \<le> len" using ne by (cases ds) (auto simp: len_def)
  have body: "str_dec_body d =
      (if dot \<le> 0 then ''0.'' @ replicate (nat (- dot)) CHR ''0'' @ ds
       else if len \<le> dot then ds @ replicate (nat (dot - len)) CHR ''0''
       else take (nat dot) ds @ ''.'' @ drop (nat dot) ds) @ exp_text (left - dot)"
    unfolding str_dec_body_def Let_def ds_def len_def left_def dot_def ..
  consider (zeros) "dot \<le> 0" | (whole) "0 < dot" "len \<le> dot" | (point) "0 < dot" "dot < len"
    by linarith
  then show ?thesis
  proof cases
    case zeros
    then have "left = dot" by (auto simp: dot_def split: if_splits)
    moreover have "str_dec_body d =
        ''0'' @ CHR ''.'' # (replicate (nat (- dot)) CHR ''0'' @ ds) @ exp_text 0"
      using zeros \<open>left = dot\<close> by (simp add: body)
    moreover have "list_all is_digit (replicate (nat (- dot)) CHR ''0'' @ ds)"
      using dig by (auto simp: list_all_iff)
    moreover have "- int (length (replicate (nat (- dot)) CHR ''0'' @ ds)) = dexp d"
      using zeros \<open>left = dot\<close> by (simp add: left_def len_def)
    ultimately show ?thesis
      using parse_number_frac [of "''0''" "replicate (nat (- dot)) CHR ''0'' @ ds" neg 0] val by simp
  next
    case whole
    then have "len = dot \<and> left - dot = dexp d"
      using len1 by (auto simp: dot_def left_def split: if_splits)
    then show ?thesis
      using whole parse_number_int [OF dig ne, of neg "dexp d"] val by (simp add: body)
  next
    case point
    have "list_all is_digit (take (nat dot) ds)" "list_all is_digit (drop (nat dot) ds)"
      using dig by (auto simp: list_all_iff dest: in_set_takeD in_set_dropD)
    moreover have "take (nat dot) ds \<noteq> []" using point ne by simp
    moreover have "left - dot - int (length (drop (nat dot) ds)) = dexp d"
      using point by (simp add: left_def len_def)
    ultimately show ?thesis
      using point val parse_number_frac [of "take (nat dot) ds" "drop (nat dot) ds" neg "left - dot"]
      by (simp add: body)
  qed
qed

definition dec_char :: "char \<Rightarrow> bool" where
  "dec_char c \<longleftrightarrow> is_digit c \<or> c \<in> set ''+-.E''"

lemma dec_char_not: "dec_char c \<Longrightarrow> \<not> is_space c" "dec_char c \<Longrightarrow> c \<noteq> CHR ''_''"
  by (auto simp: dec_char_def is_digit_def is_space_def Let_def)

lemma set_exp_text: "c \<in> set (exp_text e) \<Longrightarrow> dec_char c"
  by (auto simp: exp_text_def str_signed_def dec_char_def dest: str_nat_digits split: if_splits)

lemma dec_char_digits: "c \<in> set (str_nat n) \<Longrightarrow> dec_char c"
  by (simp add: dec_char_def str_nat_digits)

lemma dec_char_consts [simp]: "dec_char CHR ''0''" "dec_char CHR ''.''" "dec_char CHR ''-''"
  by (simp_all add: dec_char_def)

lemma set_str_dec_body: "c \<in> set (str_dec_body d) \<Longrightarrow> dec_char c"
proof -
  define ds where "ds = str_nat (nat \<bar>coeff d\<bar>)"
  define left where "left = dexp d + int (length ds)"
  define dot where "dot = (if dexp d \<le> 0 \<and> - 6 < left then left else 1)"
  have ds: "dec_char c" if "c \<in> set ds" for c
    using that unfolding ds_def by (rule dec_char_digits)
  have body: "str_dec_body d =
      (if dot \<le> 0 then ''0.'' @ replicate (nat (- dot)) CHR ''0'' @ ds
       else if int (length ds) \<le> dot then ds @ replicate (nat (dot - int (length ds))) CHR ''0''
       else take (nat dot) ds @ ''.'' @ drop (nat dot) ds) @ exp_text (left - dot)"
    unfolding str_dec_body_def Let_def ds_def left_def dot_def ..
  assume "c \<in> set (str_dec_body d)"
  then consider "c \<in> set (exp_text (left - dot))" | "c = CHR ''0''" | "c = CHR ''.''" | "c \<in> set ds"
    unfolding body by (cases "dot \<le> 0"; cases "int (length ds) \<le> dot")
      (auto dest: in_set_takeD in_set_dropD)
  then show ?thesis by cases (auto intro: set_exp_text ds)
qed

lemma set_str_dec: "c \<in> set (str_dec d) \<Longrightarrow> dec_char c"
  by (auto simp: str_dec_sign dest: set_str_dec_body split: if_splits)

lemma strip_id: "(\<And>c. c \<in> set s \<Longrightarrow> \<not> is_space c) \<Longrightarrow> strip s = s"
proof -
  assume h: "\<And>c. c \<in> set s \<Longrightarrow> \<not> is_space c"
  then have "dropWhile is_space s = s" "dropWhile is_space (rev s) = rev s"
    by (auto intro!: dropWhile_id dest: hd_in_set simp: h) (metis h hd_in_set set_rev rev.simps(1) rev_rev_ident)
  then show ?thesis by (simp add: strip_def)
qed

lemma str_dec_body_head: "\<exists>c cs. str_dec_body d = c # cs \<and> is_digit c"
proof -
  obtain c cs where c: "str_nat (nat \<bar>coeff d\<bar>) = c # cs" "is_digit c"
    using str_nat_head by blast
  then show ?thesis
    by (auto simp: str_dec_body_def Let_def take_Cons' nat_eq_iff)
qed

lemma parse_sign_digit: "is_digit c \<Longrightarrow> parse_sign (c # cs) = (False, c # cs)"
  by auto

text \<open>Reading back the text of any finite decimal gives the same decimal, coefficient and
  exponent.\<close>

theorem parse_str_dec: "parse_decimal (str_dec d) = Inr (Finite d)"
proof -
  have "strip (str_dec d) = str_dec d"
    by (rule strip_id) (auto dest: set_str_dec dec_char_not)
  moreover have "filter (\<lambda>c. c \<noteq> CHR ''_'') (str_dec d) = str_dec d"
    by (auto simp: filter_id_conv dest: set_str_dec dec_char_not)
  moreover have "parse_sign (str_dec d) = (coeff d < 0, str_dec_body d)"
    using str_dec_body_head [of d] by (auto simp: str_dec_sign)
  ultimately show ?thesis
    by (cases d) (simp add: parse_decimal_def parse_number_str_dec_body)
qed

lemma str_dec_inject [simp]: "str_dec a = str_dec b \<longleftrightarrow> a = b"
proof
  assume "str_dec a = str_dec b"
  then have "parse_decimal (str_dec a) = parse_decimal (str_dec b)" by simp
  then show "a = b" by (simp add: parse_str_dec)
qed simp

end
