(* ===== verification/Domain.thy ===== *)
theory Domain
  imports DecimalText "HOL-Library.Product_Lexorder" "HOL-Library.List_Lexorder" "HOL-Library.Char_ord"
begin

text \<open>
  The value types of \<open>domain.py\<close>: payment statuses, policy decisions, money, payment
  intents, and the parts of \<open>datetime\<close> the policy and authorization code reads.
\<close>

section \<open>Enumerations\<close>

datatype PaymentStatus =
    PS_REQUESTED | PS_POLICY_CHECK | PS_BUDGET_CHECK | PS_APPROVAL_REQUIRED | PS_APPROVED
  | PS_AUTHENTICATION_REQUIRED | PS_AUTHENTICATED | PS_PAYMENT_PENDING | PS_PROCESSING
  | PS_UNKNOWN_EXTERNAL_OUTCOME | PS_SUCCEEDED | PS_FAILED | PS_CANCELLED

datatype Decision = ALLOW_AUTO | ALLOW_NOTIFY | REQUIRE_APPROVAL | DENY

fun decision_value :: "Decision \<Rightarrow> string" where
  "decision_value ALLOW_AUTO = ''ALLOW_AUTO''"
| "decision_value ALLOW_NOTIFY = ''ALLOW_NOTIFY''"
| "decision_value REQUIRE_APPROVAL = ''REQUIRE_APPROVAL''"
| "decision_value DENY = ''DENY''"

text \<open>Decisions are ordered by strictness; the policy theorems compare them.\<close>

fun strictness :: "Decision \<Rightarrow> nat" where
  "strictness ALLOW_AUTO = 0"
| "strictness ALLOW_NOTIFY = 1"
| "strictness REQUIRE_APPROVAL = 2"
| "strictness DENY = 3"

lemma strictness_inject [simp]: "strictness a = strictness b \<longleftrightarrow> a = b"
  by (cases a; cases b) simp_all

instantiation Decision :: linorder
begin

definition less_eq_Decision :: "Decision \<Rightarrow> Decision \<Rightarrow> bool" where
  "less_eq_Decision a b \<longleftrightarrow> strictness a \<le> strictness b"

definition less_Decision :: "Decision \<Rightarrow> Decision \<Rightarrow> bool" where
  "less_Decision a b \<longleftrightarrow> strictness a < strictness b"

instance
  by standard (auto simp: less_eq_Decision_def less_Decision_def)

end

lemma Decision_le_simps [simp]:
  "ALLOW_AUTO \<le> d" "d \<le> DENY" "DENY \<le> d \<longleftrightarrow> d = DENY" "d \<le> ALLOW_AUTO \<longleftrightarrow> d = ALLOW_AUTO"
  "ALLOW_NOTIFY \<le> REQUIRE_APPROVAL"
  by (cases d; simp add: less_eq_Decision_def)+

section \<open>Dates and times\<close>

text \<open>
  \<open>datetime.time\<close> is ordered lexicographically by hour, minute, second and microsecond.
  A \<open>datetime\<close> is a proleptic Gregorian day number, a time of day and, when it is
  timezone-aware, its offset from UTC in microseconds.
\<close>

datatype pytime = Time (hour: nat) (minute: nat) (second: nat) (microsecond: nat)

definition time_key :: "pytime \<Rightarrow> nat \<times> nat \<times> nat \<times> nat" where
  "time_key t = (hour t, minute t, second t, microsecond t)"

lemma time_key_inject [simp]: "time_key a = time_key b \<longleftrightarrow> a = b"
  by (cases a; cases b) (simp add: time_key_def)

instantiation pytime :: linorder
begin

definition less_eq_pytime :: "pytime \<Rightarrow> pytime \<Rightarrow> bool" where
  "less_eq_pytime a b \<longleftrightarrow> time_key a \<le> time_key b"

definition less_pytime :: "pytime \<Rightarrow> pytime \<Rightarrow> bool" where
  "less_pytime a b \<longleftrightarrow> time_key a < time_key b"

instance
  by standard (auto simp: less_eq_pytime_def less_pytime_def order_less_le)

end

record datetime =
  dt_ordinal :: int
  dt_time :: pytime
  dt_utcoffset :: "int option"

definition weekday :: "datetime \<Rightarrow> int" where
  "weekday d = (dt_ordinal d + 6) mod 7"

definition time_micros :: "pytime \<Rightarrow> int" where
  "time_micros t =
     ((int (hour t) * 60 + int (minute t)) * 60 + int (second t)) * 1000000 + int (microsecond t)"

text \<open>The instant of a datetime in microseconds, where \<open>default_utc\<close> is the code's
  \<open>dt if dt.tzinfo else dt.replace(tzinfo=timezone.utc)\<close>.\<close>

definition default_utc :: "datetime \<Rightarrow> datetime" where
  "default_utc d = (case dt_utcoffset d of Some _ \<Rightarrow> d | None \<Rightarrow> d\<lparr>dt_utcoffset := Some 0\<rparr>)"

definition instant :: "datetime \<Rightarrow> int" where
  "instant d = dt_ordinal d * 86400000000 + time_micros (dt_time d) -
     (case dt_utcoffset d of Some o1 \<Rightarrow> o1 | None \<Rightarrow> 0)"

lemma instant_default_utc [simp]: "instant (default_utc d) = instant d"
  by (simp add: instant_def default_utc_def split: option.splits)

lemma weekday_range: "0 \<le> weekday d \<and> weekday d \<le> 6"
  by (simp add: weekday_def)

section \<open>Money and payment intents\<close>

record money =
  money_value :: decimal
  money_currency :: string

text \<open>\<open>Money(value, currency)\<close> with the checks of \<open>__post_init__\<close>.\<close>

definition mk_money :: "decimal \<Rightarrow> string \<Rightarrow> exn + money" where
  "mk_money v c =
     (if dless v dzero then Inl (ValueError ''money value cannot be negative'')
      else if length c \<noteq> 3 then Inl (ValueError ''currency must be ISO-4217 style 3-letter code'')
      else Inr \<lparr>money_value = v, money_currency = c\<rparr>)"

definition money_wf :: "money \<Rightarrow> bool" where
  "money_wf m \<longleftrightarrow> 0 \<le> dval (money_value m) \<and> length (money_currency m) = 3"

lemma mk_money_wf: "mk_money v c = Inr m \<Longrightarrow> money_wf m \<and> money_value m = v \<and> money_currency m = c"
  by (auto simp: mk_money_def money_wf_def dec_simps split: if_splits)

record payment_intent =
  payment_id :: string
  agent_id :: string
  amount :: money
  merchant_domain :: string
  idempotency_key :: string
  merchant_category :: "string option"
  region :: "string option"
  instrument_class :: "string option"
  requested_at :: "datetime option"

text \<open>
  \<open>fingerprint\<close> compares decimals by number (Python's tuple equality), so the model keeps
  the value's canonical rational beside the texts.
\<close>

definition fingerprint :: "payment_intent \<Rightarrow> string \<times> string \<times> rat \<times> string \<times> string" where
  "fingerprint i =
     (agent_id i, merchant_domain i, dval (money_value (amount i)), money_currency (amount i), payment_id i)"

end
