(* ===== verification/Policy.thy ===== *)
theory Policy
  imports Domain
begin

text \<open>
  The evaluation half of \<open>policy.py\<close>: a spending policy, its evaluation with reasons and
  the list of evaluated rules, and the time window. Reasons are collected in the order of the
  code; a non-empty list denies. (Building a policy from its JSON rules is the theory
  PolicyRules.)
\<close>

record SpendingPolicy =
  per_transaction_limit :: decimal
  notify_above :: "decimal option"
  approval_above :: "decimal option"
  allowed_categories :: "string set option"
  denied_categories :: "string set"
  allowed_domains :: "string set option"
  denied_domains :: "string set"
  allowed_currencies :: "string set option"
  denied_currencies :: "string set"
  allowed_regions :: "string set option"
  denied_regions :: "string set"
  allowed_instrument_classes :: "string set option"
  denied_instrument_classes :: "string set"
  allowed_weekdays :: "int set option"
  start_time :: "pytime option"
  end_time :: "pytime option"

record PolicyDecision =
  decision :: Decision
  policy_version :: "string option"
  reasons :: "string list"
  evaluated_rules :: "string list"

section \<open>The time window\<close>

fun time_in_window :: "pytime \<Rightarrow> pytime option \<Rightarrow> pytime option \<Rightarrow> bool" where
  "time_in_window v None None = True"
| "time_in_window v None (Some e) = (v \<le> e)"
| "time_in_window v (Some s) None = (s \<le> v)"
| "time_in_window v (Some s) (Some e) =
     (if s \<le> e then s \<le> v \<and> v \<le> e else s \<le> v \<or> v \<le> e)"

section \<open>Evaluation\<close>

text \<open>\<open>(text or "").strip().f() or None\<close>.\<close>

definition norm_text :: "(string \<Rightarrow> string) \<Rightarrow> string option \<Rightarrow> string option" where
  "norm_text f t =
     (case t of None \<Rightarrow> None | Some s \<Rightarrow> (let r = f (strip s) in if r = [] then None else Some r))"

text \<open>\<open>category or intent.merchant_category\<close>: an empty category counts as absent.\<close>

definition or_else :: "string option \<Rightarrow> string option \<Rightarrow> string option" where
  "or_else a b = (case a of Some s \<Rightarrow> if s = [] then b else a | None \<Rightarrow> b)"

definition reason_if :: "bool \<Rightarrow> string \<Rightarrow> string list" where
  "reason_if c r = (if c then [r] else [])"

lemma reason_if_Nil [simp]: "reason_if c r = [] \<longleftrightarrow> \<not> c"
  by (simp add: reason_if_def)

text \<open>\<open>repr\<close> of a sorted list of texts, as the f-string of the currency rule renders it
  (texts without quotes and backslashes).\<close>

fun comma_join :: "string list \<Rightarrow> string" where
  "comma_join [] = []"
| "comma_join [x] = x"
| "comma_join (x # xs) = x @ '', '' @ comma_join xs"

definition repr_list :: "string list \<Rightarrow> string" where
  "repr_list xs = ''['' @ comma_join (map (\<lambda>x. [CHR 39] @ x @ [CHR 39]) xs) @ '']''"

definition currency_rule :: "SpendingPolicy \<Rightarrow> string" where
  "currency_rule p = ''currency in '' @
     (case allowed_currencies p of None \<Rightarrow> ''ANY'' | Some s \<Rightarrow> repr_list (sorted_list_of_set s))"

text \<open>The normalised inputs of one evaluation.\<close>

definition n_currency :: "payment_intent \<Rightarrow> string" where
  "n_currency i = upper (strip (money_currency (amount i)))"

definition n_domain :: "payment_intent \<Rightarrow> string" where
  "n_domain i = lower (strip (merchant_domain i))"

definition n_category :: "payment_intent \<Rightarrow> string option \<Rightarrow> string option" where
  "n_category i category = norm_text lower (or_else category (merchant_category i))"

definition n_region :: "payment_intent \<Rightarrow> string option" where
  "n_region i = norm_text upper (region i)"

definition n_instrument :: "payment_intent \<Rightarrow> string option" where
  "n_instrument i = norm_text lower (instrument_class i)"

text \<open>\<open>x in denied\<close> for a value that may be absent, and \<open>x not in allowed\<close> for an
  optional allow list (an absent value is in no allow list).\<close>

definition opt_denied :: "string option \<Rightarrow> string set \<Rightarrow> bool" where
  "opt_denied x denied = (case x of None \<Rightarrow> False | Some s \<Rightarrow> s \<in> denied)"

definition opt_not_allowed :: "string option \<Rightarrow> string set option \<Rightarrow> bool" where
  "opt_not_allowed x allowed =
     (case allowed of None \<Rightarrow> False | Some s \<Rightarrow> (case x of None \<Rightarrow> True | Some v \<Rightarrow> v \<notin> s))"

definition weekday_reasons :: "SpendingPolicy \<Rightarrow> datetime option \<Rightarrow> string list" where
  "weekday_reasons p tm =
     (case allowed_weekdays p of
        None \<Rightarrow> []
      | Some days \<Rightarrow>
          (case tm of
             None \<Rightarrow> [''REQUEST_TIME_REQUIRED'']
           | Some d \<Rightarrow> reason_if (weekday d \<notin> days) ''WEEKDAY_NOT_ALLOWED''))"

definition window_reasons :: "SpendingPolicy \<Rightarrow> datetime option \<Rightarrow> string list" where
  "window_reasons p tm =
     (if start_time p \<noteq> None \<or> end_time p \<noteq> None then
        (case tm of
           None \<Rightarrow> [''REQUEST_TIME_REQUIRED'']
         | Some d \<Rightarrow> reason_if (\<not> time_in_window (dt_time d) (start_time p) (end_time p))
                       ''TIME_WINDOW_NOT_ALLOWED'')
      else [])"

definition denial_reasons :: "SpendingPolicy \<Rightarrow> payment_intent \<Rightarrow> string option \<Rightarrow> string list" where
  "denial_reasons p i category =
     reason_if (dless (per_transaction_limit p) (money_value (amount i))) ''AMOUNT_EXCEEDS_TRANSACTION_LIMIT'' @
     reason_if (n_currency i \<in> denied_currencies p) ''CURRENCY_DENIED'' @
     reason_if (opt_not_allowed (Some (n_currency i)) (allowed_currencies p)) ''CURRENCY_NOT_ALLOWED'' @
     reason_if (opt_denied (n_category i category) (denied_categories p)) ''CATEGORY_DENIED'' @
     reason_if (opt_not_allowed (n_category i category) (allowed_categories p)) ''CATEGORY_NOT_ALLOWED'' @
     reason_if (n_domain i \<in> denied_domains p) ''MERCHANT_DOMAIN_DENIED'' @
     reason_if (opt_not_allowed (Some (n_domain i)) (allowed_domains p)) ''MERCHANT_DOMAIN_NOT_ALLOWED'' @
     reason_if (opt_denied (n_region i) (denied_regions p)) ''REGION_DENIED'' @
     reason_if (opt_not_allowed (n_region i) (allowed_regions p)) ''REGION_NOT_ALLOWED'' @
     reason_if (opt_denied (n_instrument i) (denied_instrument_classes p)) ''INSTRUMENT_CLASS_DENIED'' @
     reason_if (opt_not_allowed (n_instrument i) (allowed_instrument_classes p)) ''INSTRUMENT_CLASS_NOT_ALLOWED'' @
     weekday_reasons p (requested_at i) @
     window_reasons p (requested_at i)"

definition above :: "decimal option \<Rightarrow> decimal \<Rightarrow> bool" where
  "above threshold v = (case threshold of None \<Rightarrow> False | Some t \<Rightarrow> dless t v)"

definition evaluate_with_trace ::
    "SpendingPolicy \<Rightarrow> payment_intent \<Rightarrow> string option \<Rightarrow> string option \<Rightarrow> PolicyDecision" where
  "evaluate_with_trace p i category version =
     (let amt = money_value (amount i);
          rules = [''amount <= '' @ str_dec (per_transaction_limit p), currency_rule p];
          rs = denial_reasons p i category
      in if dle (per_transaction_limit p) dzero then
           \<lparr>decision = DENY, policy_version = version,
            reasons = [''POLICY_LIMIT_NOT_CONFIGURED''], evaluated_rules = [''per_transaction_limit > 0'']\<rparr>
         else if rs \<noteq> [] then
           \<lparr>decision = DENY, policy_version = version, reasons = rs, evaluated_rules = rules\<rparr>
         else if above (approval_above p) amt then
           \<lparr>decision = REQUIRE_APPROVAL, policy_version = version,
            reasons = [''AMOUNT_REQUIRES_APPROVAL''], evaluated_rules = rules\<rparr>
         else if above (notify_above p) amt then
           \<lparr>decision = ALLOW_NOTIFY, policy_version = version,
            reasons = [''AMOUNT_REQUIRES_NOTIFICATION''], evaluated_rules = rules\<rparr>
         else
           \<lparr>decision = ALLOW_AUTO, policy_version = version,
            reasons = [''POLICY_ALLOWED''], evaluated_rules = rules\<rparr>)"

definition evaluate :: "SpendingPolicy \<Rightarrow> payment_intent \<Rightarrow> string option \<Rightarrow> Decision" where
  "evaluate p i category = decision (evaluate_with_trace p i category None)"

lemma evaluate_eq:
  "evaluate p i category =
     (if dval (per_transaction_limit p) \<le> 0 \<or> denial_reasons p i category \<noteq> [] then DENY
      else if above (approval_above p) (money_value (amount i)) then REQUIRE_APPROVAL
      else if above (notify_above p) (money_value (amount i)) then ALLOW_NOTIFY
      else ALLOW_AUTO)"
  by (simp add: evaluate_def evaluate_with_trace_def Let_def dec_simps)

lemma decision_with_trace:
  "decision (evaluate_with_trace p i category version) = evaluate p i category"
  by (simp add: evaluate_def evaluate_with_trace_def Let_def)

text \<open>The reasons that do not look at the amount.\<close>

definition other_reasons :: "SpendingPolicy \<Rightarrow> payment_intent \<Rightarrow> string option \<Rightarrow> string list" where
  "other_reasons p i category =
     denial_reasons (p\<lparr>per_transaction_limit := money_value (amount i)\<rparr>) i category"

lemma schedule_reasons_limit [simp]:
  "weekday_reasons (p\<lparr>per_transaction_limit := v\<rparr>) tm = weekday_reasons p tm"
  "window_reasons (p\<lparr>per_transaction_limit := v\<rparr>) tm = window_reasons p tm"
  by (simp_all add: weekday_reasons_def window_reasons_def split: option.splits)

lemma denial_reasons_amount:
  "denial_reasons p i category =
     reason_if (dless (per_transaction_limit p) (money_value (amount i)))
       ''AMOUNT_EXCEEDS_TRANSACTION_LIMIT'' @ other_reasons p i category"
  by (simp add: denial_reasons_def other_reasons_def
      reason_if_def dec_simps)

lemma other_reasons_amount:
  "other_reasons p (i\<lparr>amount := \<lparr>money_value = v, money_currency = money_currency (amount i)\<rparr>\<rparr>) category
     = other_reasons p i category"
  by (simp add: other_reasons_def denial_reasons_def n_currency_def n_domain_def n_category_def
      n_region_def n_instrument_def dec_simps reason_if_def)

lemma above_mono: "above t v \<Longrightarrow> dval v \<le> dval w \<Longrightarrow> above t w"
  by (auto simp: above_def dec_simps split: option.splits)

text \<open>The amount of an intent replaced.\<close>

definition with_amount :: "payment_intent \<Rightarrow> decimal \<Rightarrow> payment_intent" where
  "with_amount i v = i\<lparr>amount := \<lparr>money_value = v, money_currency = money_currency (amount i)\<rparr>\<rparr>"

lemma with_amount_simps [simp]:
  "money_value (amount (with_amount i v)) = v"
  "other_reasons p (with_amount i v) category = other_reasons p i category"
  by (simp_all add: with_amount_def other_reasons_amount)

text \<open>Raising the amount of a payment never makes the policy more
  permissive: in the order ALLOW_AUTO, ALLOW_NOTIFY, REQUIRE_APPROVAL, DENY the decision for a
  larger amount is at least as strict, whatever the thresholds and their order.\<close>

theorem policy_monotone:
  assumes "dval v \<le> dval w"
  shows "evaluate p (with_amount i v) category \<le> evaluate p (with_amount i w) category"
proof -
  have "above t v \<Longrightarrow> above t w" for t
    using assms by (rule above_mono [rotated])
  then show ?thesis
    using assms by (auto simp: evaluate_eq denial_reasons_amount dec_simps)
qed

definition sample_policy :: SpendingPolicy where
  "sample_policy =
     \<lparr>per_transaction_limit = Dec 500 0, notify_above = Some (Dec 20 0), approval_above = Some (Dec 100 0),
      allowed_categories = None, denied_categories = {''gambling''},
      allowed_domains = Some {''example.com''}, denied_domains = {},
      allowed_currencies = Some {''USD'', ''EUR''}, denied_currencies = {},
      allowed_regions = None, denied_regions = {}, allowed_instrument_classes = None,
      denied_instrument_classes = {}, allowed_weekdays = None, start_time = None, end_time = None\<rparr>"

definition sample_intent :: payment_intent where
  "sample_intent =
     \<lparr>payment_id = ''pay_1'', agent_id = ''agt_1'',
      amount = \<lparr>money_value = Dec 5000 (- 2), money_currency = ''USD''\<rparr>,
      merchant_domain = ''example.com'', idempotency_key = ''key_1'', merchant_category = None,
      region = None, instrument_class = None, requested_at = None\<rparr>"

theorem policy_monotone_witness:
  "dval (Dec 50 0) \<le> dval (Dec 1500 (- 1)) \<and>
   evaluate sample_policy (with_amount sample_intent (Dec 50 0)) None
     \<le> evaluate sample_policy (with_amount sample_intent (Dec 1500 (- 1))) None"
proof -
  have h: "dval (Dec 50 0) \<le> dval (Dec 1500 (- 1))"
    by (simp add: dle_def at_exp_def flip: dle_dval)
  show ?thesis using h policy_monotone [OF h] by simp
qed

section \<open>What a permission means\<close>

text \<open>The hard constraints of a policy, as a specification: each dimension on its own.\<close>

definition within_lists :: "string option \<Rightarrow> string set option \<Rightarrow> string set \<Rightarrow> bool" where
  "within_lists x allowed denied \<longleftrightarrow>
     (\<forall>v. x = Some v \<longrightarrow> v \<notin> denied) \<and> (\<forall>s. allowed = Some s \<longrightarrow> (\<exists>v \<in> s. x = Some v))"

definition within_schedule :: "SpendingPolicy \<Rightarrow> datetime option \<Rightarrow> bool" where
  "within_schedule p tm \<longleftrightarrow>
     (\<forall>days. allowed_weekdays p = Some days \<longrightarrow> (\<exists>d. tm = Some d \<and> weekday d \<in> days)) \<and>
     (start_time p = None \<and> end_time p = None \<or>
      (\<exists>d. tm = Some d \<and> time_in_window (dt_time d) (start_time p) (end_time p)))"

definition policy_permits :: "SpendingPolicy \<Rightarrow> payment_intent \<Rightarrow> string option \<Rightarrow> bool" where
  "policy_permits p i category \<longleftrightarrow>
     0 < dval (per_transaction_limit p) \<and>
     dval (money_value (amount i)) \<le> dval (per_transaction_limit p) \<and>
     within_lists (Some (n_currency i)) (allowed_currencies p) (denied_currencies p) \<and>
     within_lists (n_category i category) (allowed_categories p) (denied_categories p) \<and>
     within_lists (Some (n_domain i)) (allowed_domains p) (denied_domains p) \<and>
     within_lists (n_region i) (allowed_regions p) (denied_regions p) \<and>
     within_lists (n_instrument i) (allowed_instrument_classes p) (denied_instrument_classes p) \<and>
     within_schedule p (requested_at i)"

lemma within_lists_iff:
  "within_lists x allowed denied \<longleftrightarrow> \<not> opt_denied x denied \<and> \<not> opt_not_allowed x allowed"
  by (auto simp: within_lists_def opt_denied_def opt_not_allowed_def split: option.splits)

lemma within_schedule_iff:
  "within_schedule p tm \<longleftrightarrow> weekday_reasons p tm = [] \<and> window_reasons p tm = []"
  by (cases tm; cases "allowed_weekdays p"; cases "start_time p"; cases "end_time p")
    (auto simp: within_schedule_def weekday_reasons_def window_reasons_def)

text \<open>C30: the policy lets a payment through (with or without notification or
  approval) exactly when the limit is configured and not exceeded and every dimension - currency,
  category, merchant domain, region, instrument class, weekday, time window - is inside its allow
  list and outside its deny list; a deny entry is never overridden by an allow entry or by a
  threshold.\<close>

theorem policy_permits_iff: "evaluate p i category \<noteq> DENY \<longleftrightarrow> policy_permits p i category"
proof -
  have "denial_reasons p i category = [] \<longleftrightarrow>
      dval (money_value (amount i)) \<le> dval (per_transaction_limit p) \<and>
      within_lists (Some (n_currency i)) (allowed_currencies p) (denied_currencies p) \<and>
      within_lists (n_category i category) (allowed_categories p) (denied_categories p) \<and>
      within_lists (Some (n_domain i)) (allowed_domains p) (denied_domains p) \<and>
      within_lists (n_region i) (allowed_regions p) (denied_regions p) \<and>
      within_lists (n_instrument i) (allowed_instrument_classes p) (denied_instrument_classes p) \<and>
      within_schedule p (requested_at i)"
    by (simp add: denial_reasons_def within_lists_iff within_schedule_iff opt_denied_def dec_simps
        not_less conj_assoc)
  then show ?thesis
    by (auto simp: evaluate_eq policy_permits_def not_le)
qed

text \<open>A time window whose start is later than its end wraps around midnight: it
  excludes exactly the times strictly between the end and the start, and it never rejects the two
  bounds themselves.\<close>

theorem overnight_window:
  assumes "e < s"
  shows "time_in_window v (Some s) (Some e) \<longleftrightarrow> \<not> (e < v \<and> v < s)"
  using assms by (auto simp: not_le not_less)

theorem overnight_window_witness:
  "Time 6 0 0 0 < Time 22 0 0 0 \<and>
   (time_in_window (Time 23 30 0 0) (Some (Time 22 0 0 0)) (Some (Time 6 0 0 0)) \<longleftrightarrow>
     \<not> (Time 6 0 0 0 < Time 23 30 0 0 \<and> Time 23 30 0 0 < Time 22 0 0 0))"
proof -
  have h: "Time 6 0 0 0 < Time 22 0 0 0"
    by (simp add: less_pytime_def time_key_def)
  show ?thesis using h overnight_window [OF h, of "Time 23 30 0 0"] by simp
qed

end
