(* ===== verification/Json.thy ===== *)
theory Json
  imports DecimalText "HOL-Library.List_Lexorder" "HOL-Library.Char_ord"
begin

text \<open>
  JSON values as Python holds them, and \<open>json.dumps(..., sort_keys=True,
  separators=(",", ":"))\<close>: the canonical text under the digests of the repository. An object keeps
  its insertion order, a float is kept as its \<open>repr\<close>. The section on injectivity shows that a
  quoted text and the values of a fixed set of keys can be read back from the canonical text.
\<close>

datatype json =
    JNull
  | JBool bool
  | JInt int
  | JFloat string
  | JStr string
  | JArr "json list"
  | JObj "(string \<times> json) list"

section \<open>Canonical text\<close>

definition hex_char :: "nat \<Rightarrow> char" where
  "hex_char d = (if d < 10 then char_of (48 + d) else char_of (87 + d))"

definition hex_value :: "char \<Rightarrow> nat" where
  "hex_value c = (let n = of_char c in if n < 58 then n - 48 else n - 87)"

text \<open>\<open>ensure_ascii\<close>: quote, backslash and everything outside the printable ASCII characters
  is escaped.\<close>

definition escape_char :: "char \<Rightarrow> string" where
  "escape_char c =
     (let n = of_char c :: nat
      in if n = 34 then [CHR 92, CHR 34]
         else if n = 92 then [CHR 92, CHR 92]
         else if n = 10 then [CHR 92, CHR ''n'']
         else if n = 13 then [CHR 92, CHR ''r'']
         else if n = 9 then [CHR 92, CHR ''t'']
         else if n = 12 then [CHR 92, CHR ''f'']
         else if n = 8 then [CHR 92, CHR ''b'']
         else if 32 \<le> n \<and> n \<le> 126 then [c]
         else [CHR 92, CHR ''u'', CHR ''0'', CHR ''0'', hex_char (n div 16), hex_char (n mod 16)])"

definition quote :: "string \<Rightarrow> string" where
  "quote s = [CHR 34] @ concat (map escape_char s) @ [CHR 34]"

fun join :: "string \<Rightarrow> string list \<Rightarrow> string" where
  "join sep [] = []"
| "join sep [x] = x"
| "join sep (x # xs) = x @ sep @ join sep xs"

text \<open>The text of a value with its members already in order, and the ordering of the members.\<close>

fun json_text :: "json \<Rightarrow> string" where
  "json_text JNull = ''null''"
| "json_text (JBool b) = (if b then ''true'' else ''false'')"
| "json_text (JInt i) = str_int i"
| "json_text (JFloat r) = r"
| "json_text (JStr s) = quote s"
| "json_text (JArr vs) = ''['' @ join '','' (map json_text vs) @ '']''"
| "json_text (JObj ms) = ''{'' @ join '','' (map (\<lambda>m. quote (fst m) @ '':'' @ json_text (snd m)) ms) @ ''}''"

fun sort_members :: "json \<Rightarrow> json" where
  "sort_members (JArr vs) = JArr (map sort_members vs)"
| "sort_members (JObj ms) = JObj (sort_key fst (map (\<lambda>m. (fst m, sort_members (snd m))) ms))"
| "sort_members v = v"

definition canonical :: "json \<Rightarrow> string" where
  "canonical v = json_text (sort_members v)"

text \<open>\<open>obj.get(key)\<close> and \<open>obj.get(key, default)\<close> on an object.\<close>

definition jget :: "(string \<times> json) list \<Rightarrow> string \<Rightarrow> json" where
  "jget ms k = (case map_of ms k of Some v \<Rightarrow> v | None \<Rightarrow> JNull)"

definition jget_or :: "(string \<times> json) list \<Rightarrow> string \<Rightarrow> json \<Rightarrow> json" where
  "jget_or ms k v0 = (case map_of ms k of Some v \<Rightarrow> v | None \<Rightarrow> v0)"

text \<open>Truth of a value.\<close>

fun jtruth :: "json \<Rightarrow> bool" where
  "jtruth JNull = False"
| "jtruth (JBool b) = b"
| "jtruth (JInt i) = (i \<noteq> 0)"
| "jtruth (JFloat r) = (r \<notin> {''0.0'', ''-0.0''})"
| "jtruth (JStr s) = (s \<noteq> [])"
| "jtruth (JArr vs) = (vs \<noteq> [])"
| "jtruth (JObj ms) = (ms \<noteq> [])"

section \<open>The canonical text determines the value\<close>

definition unescape :: "string \<Rightarrow> (char \<times> string) option" where
  "unescape s =
     (case s of
        [] \<Rightarrow> None
      | c # r \<Rightarrow>
          if c \<noteq> CHR 92 then Some (c, r)
          else (case r of
             [] \<Rightarrow> None
           | k # r' \<Rightarrow>
               if k = CHR ''n'' then Some (char_of (10::nat), r')
               else if k = CHR ''r'' then Some (char_of (13::nat), r')
               else if k = CHR ''t'' then Some (char_of (9::nat), r')
               else if k = CHR ''f'' then Some (char_of (12::nat), r')
               else if k = CHR ''b'' then Some (char_of (8::nat), r')
               else if k = CHR ''u'' then
                 (case r' of
                    _ # _ # h1 # h2 # q \<Rightarrow> Some (char_of (16 * hex_value h1 + hex_value h2), q)
                  | _ \<Rightarrow> None)
               else Some (k, r')))"

lemma hex_value_char [simp]: "d < 16 \<Longrightarrow> hex_value (hex_char d) = d"
  by (auto simp: hex_value_def hex_char_def Let_def of_char_of)

lemma code_char: "(of_char c :: nat) = n \<Longrightarrow> c = char_of n"
  by auto

lemma unescape_escape: "unescape (escape_char c @ r) = Some (c, r)"
proof -
  let ?n = "of_char c :: nat"
  have lt: "?n < 256" by (rule nat_of_char_less_256)
  have c: "char_of ?n = c" by simp
  consider "?n \<in> {34, 92, 10, 13, 9, 12, 8}" | "?n \<notin> {34, 92, 10, 13, 9, 12, 8}" "32 \<le> ?n" "?n \<le> 126"
    | "?n \<notin> {34, 92, 10, 13, 9, 12, 8}" "\<not> (32 \<le> ?n \<and> ?n \<le> 126)" by blast
  then show ?thesis
  proof cases
    case 1
    then show ?thesis
      by - (elim insertE emptyE; drule code_char; simp add: escape_char_def unescape_def char_of_def bit_0)
  next
    case 2
    then show ?thesis
      by (cases "c = CHR 92") (auto simp: escape_char_def unescape_def Let_def)
  next
    case 3
    have "?n div 16 < 16" by (rule less_mult_imp_div_less) (use lt in simp)
    then have h: "hex_value (hex_char (?n div 16)) = ?n div 16" "hex_value (hex_char (?n mod 16)) = ?n mod 16"
      by simp_all
    have e: "escape_char c = [CHR 92, CHR ''u'', CHR ''0'', CHR ''0'', hex_char (?n div 16), hex_char (?n mod 16)]"
      using 3 by (auto simp: escape_char_def Let_def)
    have "char_of (16 * (?n div 16) + ?n mod 16) = c"
      by (simp only: mult_div_mod_eq c)
    then show ?thesis
      unfolding e unescape_def by (simp add: h)
  qed
qed

lemma escape_char_Cons: "\<exists>k ks. escape_char c = k # ks \<and> k \<noteq> CHR 34"
  by (cases "c = CHR 34") (auto simp: escape_char_def Let_def)

lemma escape_append_inject:
  "escape_char c @ r = escape_char d @ r' \<longleftrightarrow> c = d \<and> r = r'"
proof
  assume "escape_char c @ r = escape_char d @ r'"
  then have "unescape (escape_char c @ r) = unescape (escape_char d @ r')" by simp
  then show "c = d \<and> r = r'" by (simp add: unescape_escape)
qed simp

lemma quote_append_inject [simp]: "quote s @ r = quote s' @ r' \<longleftrightarrow> s = s' \<and> r = r'"
proof -
  have "concat (map escape_char s) @ CHR 34 # r = concat (map escape_char s') @ CHR 34 # r' \<longleftrightarrow>
      s = s' \<and> r = r'"
  proof (induction s arbitrary: s')
    case Nil
    show ?case
    proof (cases s')
      case (Cons d ds)
      with escape_char_Cons [of d] show ?thesis by auto
    qed auto
  next
    case (Cons c s)
    show ?case
    proof (cases s')
      case Nil
      with escape_char_Cons [of c] show ?thesis by auto
    next
      case (Cons d ds)
      then show ?thesis
        using Cons.IH by (simp add: escape_append_inject) 
    qed
  qed
  then show ?thesis by (simp add: quote_def)
qed

lemma quote_inject [simp]: "quote s = quote s' \<longleftrightarrow> s = s'"
  using quote_append_inject [of s "[]" s' "[]"] by simp

text \<open>An optional text as JSON.\<close>

definition jopt :: "string option \<Rightarrow> json" where
  "jopt s = (case s of None \<Rightarrow> JNull | Some t \<Rightarrow> JStr t)"

lemma jopt_append_inject [simp]:
  "json_text (jopt s) @ r = json_text (jopt s') @ r' \<longleftrightarrow> s = s' \<and> r = r'"
  by (auto simp: jopt_def quote_def split: option.splits)
     (auto simp: quote_append_inject [unfolded quote_def, simplified])

lemma jopt_text_inject [simp]: "json_text (jopt s) = json_text (jopt s') \<longleftrightarrow> s = s'"
  using jopt_append_inject [of s "[]" s' "[]"] by simp

end
