(* ===== verification/Keys.thy ===== *)
theory Keys
  imports Json
begin

text \<open>
  Identifiers and the texts built from them: \<open>str(uuid)\<close>, the idempotency keys of provider
  operations, transactions and journals, and CHAR(3) columns. A UUID is the number of its draw
  (\<open>gen_random_uuid\<close> never repeats), rendered as 32 hexadecimal digits; the keys of different
  payments or operations differ.
\<close>

section \<open>Identifiers\<close>

fun hex_digits :: "nat \<Rightarrow> nat list" where
  "hex_digits n = (if n < 16 then [n] else hex_digits (n div 16) @ [n mod 16])"

declare hex_digits.simps [simp del]

definition hex_pad :: "nat \<Rightarrow> nat list" where
  "hex_pad n = replicate (32 - length (hex_digits n)) 0 @ hex_digits n"

definition str_uuid :: "nat \<Rightarrow> string" where
  "str_uuid n =
     (let h = map hex_char (hex_pad n)
      in take 8 h @ ''-'' @ take 4 (drop 8 h) @ ''-'' @ take 4 (drop 12 h) @ ''-'' @
         take 4 (drop 16 h) @ ''-'' @ drop 20 h)"

definition hex_number :: "nat list \<Rightarrow> nat" where
  "hex_number ds = foldl (\<lambda>a d. 16 * a + d) 0 ds"

lemma hex_number_digits [simp]: "hex_number (hex_digits n) = n"
proof (induction n rule: hex_digits.induct)
  case (1 n)
  show ?case
  proof (cases "n < 16")
    case True
    then show ?thesis by (subst hex_digits.simps) (simp add: hex_number_def)
  next
    case False
    with 1 have "hex_number (hex_digits (n div 16)) = n div 16" by simp
    with False show ?thesis by (subst hex_digits.simps) (simp add: hex_number_def)
  qed
qed

lemma hex_number_pad [simp]: "hex_number (hex_pad n) = n"
proof -
  have "hex_number (replicate k 0 @ ds) = hex_number ds" for k ds
    by (induction k) (simp_all add: hex_number_def)
  then show ?thesis by (simp add: hex_pad_def)
qed

lemma hex_digits_lt: "d \<in> set (hex_digits n) \<Longrightarrow> d < 16"
proof (induction n rule: hex_digits.induct)
  case (1 n)
  then show ?case by (cases "n < 16") (auto simp: hex_digits.simps [of n])
qed

lemma hex_pad_lt: "d \<in> set (hex_pad n) \<Longrightarrow> d < 16"
  by (auto simp: hex_pad_def dest: hex_digits_lt split: if_splits)

lemma length_hex_pad: "32 \<le> length (hex_pad n)"
  by (simp add: hex_pad_def)

lemma hex_pad_text_inj:
  assumes "map hex_char (hex_pad m) = map hex_char (hex_pad n)"
  shows "m = n"
proof -
  have "map hex_value (map hex_char (hex_pad k)) = hex_pad k" for k
    unfolding map_map by (rule map_idI) (auto dest: hex_pad_lt)
  then have "hex_pad m = hex_pad n" using assms by metis
  then show ?thesis by (metis hex_number_pad)
qed

lemma append5_inj:
  assumes "32 \<le> length h" "32 \<le> length k"
    and "take 8 h @ a @ take 4 (drop 8 h) @ b @ take 4 (drop 12 h) @ c @ take 4 (drop 16 h) @ d @ drop 20 h =
         take 8 k @ a @ take 4 (drop 8 k) @ b @ take 4 (drop 12 k) @ c @ take 4 (drop 16 k) @ d @ drop 20 k"
  shows "h = k"
proof -
  have "h = take 8 h @ take 4 (drop 8 h) @ take 4 (drop 12 h) @ take 4 (drop 16 h) @ drop 20 h" for h :: "'a list"
  proof -
    have "drop 16 h = take 4 (drop 16 h) @ drop 20 h"
      by (subst append_take_drop_id [of 4 "drop 16 h", symmetric]) simp
    moreover have "drop 12 h = take 4 (drop 12 h) @ drop 16 h"
      by (subst append_take_drop_id [of 4 "drop 12 h", symmetric]) simp
    moreover have "drop 8 h = take 4 (drop 8 h) @ drop 12 h"
      by (subst append_take_drop_id [of 4 "drop 8 h", symmetric]) simp
    ultimately show ?thesis by (metis append_take_drop_id)
  qed
  note parts = this [of h] this [of k]
  show ?thesis using assms by (subst parts(1), subst parts(2)) simp
qed

lemma str_uuid_inject [simp]: "str_uuid m = str_uuid n \<longleftrightarrow> m = n"
proof
  assume e: "str_uuid m = str_uuid n"
  have "map hex_char (hex_pad m) = map hex_char (hex_pad n)"
    by (rule append5_inj) (use e in \<open>simp_all only: str_uuid_def Let_def length_map length_hex_pad\<close>)
  then show "m = n" by (rule hex_pad_text_inj)
qed simp

lemma hex_char_colon: "d < 16 \<Longrightarrow> hex_char d \<noteq> CHR '':''"
proof
  assume d: "d < 16" and e: "hex_char d = CHR '':''"
  have "(of_char (hex_char d) :: nat) = 58" unfolding e by simp
  with d show False by (simp add: hex_char_def split: if_splits)
qed

lemma str_uuid_no_colon: "CHR '':'' \<notin> set (str_uuid n)"
  unfolding str_uuid_def Let_def
  by (auto dest!: in_set_takeD in_set_dropD hex_pad_lt) (metis hex_char_colon)+

text \<open>The keys the code builds from a payment id: \<open>f"payment:{payment_id}:{rest}"\<close> and
  \<open>f"tx:{payment_id}:{rest}"\<close>.\<close>

definition payment_key :: "nat \<Rightarrow> string \<Rightarrow> string" where
  "payment_key pid rest = ''payment:'' @ str_uuid pid @ '':'' @ rest"

definition tx_key :: "nat \<Rightarrow> string \<Rightarrow> string" where
  "tx_key pid rest = ''tx:'' @ str_uuid pid @ '':'' @ rest"

lemma colon_split:
  assumes "CHR '':'' \<notin> set a" "CHR '':'' \<notin> set b" "a @ '':'' @ x = b @ '':'' @ y"
  shows "a = b \<and> x = y"
proof -
  have tw: "takeWhile (\<lambda>c. c \<noteq> CHR '':'') (s @ '':'' @ z) = s" if "CHR '':'' \<notin> set s" for s z
    using that by (induction s) auto
  have "a = b" using tw [OF assms(1), of x] tw [OF assms(2), of y] assms(3) by metis
  with assms(3) show ?thesis by simp
qed

lemma payment_key_inject [simp]: "payment_key p r = payment_key q s \<longleftrightarrow> p = q \<and> r = s"
  using colon_split [OF str_uuid_no_colon str_uuid_no_colon, of p r q s]
  by (auto simp: payment_key_def)

lemma tx_key_inject [simp]: "tx_key p r = tx_key q s \<longleftrightarrow> p = q \<and> r = s"
  using colon_split [OF str_uuid_no_colon str_uuid_no_colon, of p r q s]
  by (auto simp: tx_key_def)

lemma payment_tx_key [simp]: "payment_key p r \<noteq> tx_key q s" "tx_key q s \<noteq> payment_key p r"
  by (simp_all add: payment_key_def tx_key_def)

section \<open>CHAR(3)\<close>

definition char3 :: "string \<Rightarrow> exn + string" where
  "char3 s = (if length s \<le> 3 then Inr (s @ replicate (3 - length s) (CHR '' ''))
              else if list_all (\<lambda>c. c = CHR '' '') (drop 3 s) then Inr (take 3 s)
              else Inl (DbError ''StringDataRightTruncation''))"

definition rtrim :: "string \<Rightarrow> string" where
  "rtrim s = rev (dropWhile (\<lambda>c. c = CHR '' '') (rev s))"

text \<open>Comparison of a CHAR(3) column ignores trailing blanks.\<close>

definition bp_eq :: "string \<Rightarrow> string \<Rightarrow> bool" where
  "bp_eq a b \<longleftrightarrow> rtrim a = rtrim b"

lemma char3_id: "length s = 3 \<Longrightarrow> char3 s = Inr s"
  by (simp add: char3_def)

end
