(* ===== verification/Transaction.thy ===== *)
theory Transaction
  imports Prelude
begin

text \<open>
  Statements and transactions. A statement or a sequence of statements on a database state of type
  \<open>'s\<close> returns a value and the next state, or raises; every raising sequence of the program runs
  inside a unit of work or a savepoint, which goes back to the state at its start, so no state is
  carried by an exception. \<open>conn\<close> and \<open>unit_of_work\<close> model \<open>db.py\<close> and
  \<open>unit_of_work.py\<close>: a connection sees its own uncommitted state, and other connections see the
  committed one.
\<close>

type_synonym ('s, 'a) stmt = "'s \<Rightarrow> exn + 'a \<times> 's"

definition returnT :: "'a \<Rightarrow> ('s, 'a) stmt" where
  "returnT x s = Inr (x, s)"

definition raiseT :: "exn \<Rightarrow> ('s, 'a) stmt" where
  "raiseT e s = Inl e"

definition bindT :: "('s, 'a) stmt \<Rightarrow> ('a \<Rightarrow> ('s, 'b) stmt) \<Rightarrow> ('s, 'b) stmt" where
  "bindT f g s = bindE (f s) (\<lambda>(x, s'). g x s')"

text \<open>A query, an unconditional change of the state, and a check that raises.\<close>

definition queryT :: "('s \<Rightarrow> 'a) \<Rightarrow> ('s, 'a) stmt" where
  "queryT q s = Inr (q s, s)"

definition modifyT :: "('s \<Rightarrow> 's) \<Rightarrow> ('s, unit) stmt" where
  "modifyT f s = Inr ((), f s)"

definition guardT :: "bool \<Rightarrow> exn \<Rightarrow> ('s, unit) stmt" where
  "guardT c e s = (if c then Inr ((), s) else Inl e)"

text \<open>A computation that raises but does not touch the state.\<close>

definition liftT :: "exn + 'a \<Rightarrow> ('s, 'a) stmt" where
  "liftT m s = bindE m (\<lambda>x. Inr (x, s))"

text \<open>\<open>conn.transaction()\<close> around one statement, with a handler: the savepoint restores the state
  before the handler runs.\<close>

definition tryT :: "('s, 'a) stmt \<Rightarrow> (exn \<Rightarrow> ('s, 'a) stmt) \<Rightarrow> ('s, 'a) stmt" where
  "tryT f h s = (case f s of Inl e \<Rightarrow> h e s | Inr r \<Rightarrow> Inr r)"

lemma stmt_simps [simp]:
  "returnT x s = Inr (x, s)"
  "raiseT e s = Inl e"
  "queryT q s = Inr (q s, s)"
  "modifyT u s = Inr ((), u s)"
  "guardT c e s = (if c then Inr ((), s) else Inl e)"
  "liftT m s = bindE m (\<lambda>x. Inr (x, s))"
  "bindT f g s = bindE (f s) (\<lambda>(x, s'). g x s')"
  by (simp_all add: returnT_def raiseT_def queryT_def modifyT_def guardT_def liftT_def bindT_def)

section \<open>Invariants of statements\<close>

text \<open>\<open>keeps I f\<close>: when \<open>f\<close> does not raise, it preserves \<open>I\<close>. The rules take a
  sequence of statements apart.\<close>

definition keeps :: "('s \<Rightarrow> bool) \<Rightarrow> ('s, 'a) stmt \<Rightarrow> bool" where
  "keeps I f \<longleftrightarrow> (\<forall>s x s'. I s \<longrightarrow> f s = Inr (x, s') \<longrightarrow> I s')"

named_theorems keeps_intros \<open>rules that show that a statement preserves an invariant\<close>

lemma keepsI: "(\<And>s x s'. I s \<Longrightarrow> f s = Inr (x, s') \<Longrightarrow> I s') \<Longrightarrow> keeps I f"
  by (auto simp: keeps_def)

lemma keepsD: "keeps I f \<Longrightarrow> I s \<Longrightarrow> f s = Inr (x, s') \<Longrightarrow> I s'"
  by (auto simp: keeps_def)

lemma keeps_return [keeps_intros]: "keeps I (returnT x)"
  by (simp add: keeps_def)

lemma keeps_raise [keeps_intros]: "keeps I (raiseT e)"
  by (simp add: keeps_def)

lemma keeps_query [keeps_intros]: "keeps I (queryT q)"
  by (simp add: keeps_def)

lemma keeps_guard [keeps_intros]: "keeps I (guardT c e)"
  by (simp add: keeps_def)

lemma keeps_lift [keeps_intros]: "keeps I (liftT m)"
  by (auto simp: keeps_def err_simps)

lemma keeps_modify: "(\<And>s. I s \<Longrightarrow> I (f s)) \<Longrightarrow> keeps I (modifyT f)"
  by (simp add: keeps_def)

lemma keeps_bind [keeps_intros]: "keeps I f \<Longrightarrow> (\<And>x. keeps I (g x)) \<Longrightarrow> keeps I (bindT f g)"
proof (rule keepsI)
  assume f: "keeps I f" and g: "\<And>x. keeps I (g x)"
  fix s z s'
  assume s: "I s" and run: "bindT f g s = Inr (z, s')"
  then obtain y t where 1: "f s = Inr (y, t)" and 2: "g y t = Inr (z, s')"
    by (cases "f s") auto
  show "I s'" using keepsD [OF g keepsD [OF f s 1] 2] .
qed

lemma keeps_if [keeps_intros]: "keeps I f \<Longrightarrow> keeps I g \<Longrightarrow> keeps I (if c then f else g)"
  by simp

lemma keeps_option [keeps_intros]:
  "keeps I f \<Longrightarrow> (\<And>x. keeps I (g x)) \<Longrightarrow> keeps I (case m of None \<Rightarrow> f | Some x \<Rightarrow> g x)"
  by (cases m) simp_all

lemma keeps_sum [keeps_intros]:
  "(\<And>e. keeps I (f e)) \<Longrightarrow> (\<And>x. keeps I (g x)) \<Longrightarrow> keeps I (case m of Inl e \<Rightarrow> f e | Inr x \<Rightarrow> g x)"
  by (cases m) simp_all

lemma keeps_prod [keeps_intros]:
  "(\<And>x y. keeps I (f x y)) \<Longrightarrow> keeps I (case p of (x, y) \<Rightarrow> f x y)"
  by (cases p) simp

lemma keeps_let [keeps_intros]: "(\<And>x. keeps I (f x)) \<Longrightarrow> keeps I (Let y f)"
  by simp

lemma keeps_try [keeps_intros]:
  "keeps I f \<Longrightarrow> (\<And>e. keeps I (h e)) \<Longrightarrow> keeps I (tryT f h)"
proof (rule keepsI)
  assume f: "keeps I f" and h: "\<And>e. keeps I (h e)"
  fix s x s'
  assume s: "I s" and run: "tryT f h s = Inr (x, s')"
  show "I s'"
  proof (cases "f s")
    case (Inl e)
    with run s show ?thesis by (simp add: tryT_def keepsD [OF h])
  next
    case (Inr r)
    with run s show ?thesis by (simp add: tryT_def keepsD [OF f])
  qed
qed

lemma keeps_conj: "keeps I f \<Longrightarrow> keeps J f \<Longrightarrow> keeps (\<lambda>s. I s \<and> J s) f"
  unfolding keeps_def by blast

text \<open>A part of the state that a statement never changes.\<close>

definition frame :: "('s \<Rightarrow> 'b) \<Rightarrow> ('s, 'a) stmt \<Rightarrow> bool" where
  "frame p f \<longleftrightarrow> (\<forall>v. keeps (\<lambda>s. p s = v) f)"

lemma frame_keeps: "frame p f \<Longrightarrow> keeps (\<lambda>s. p s = v) f"
  by (simp add: frame_def)

lemma frameI: "(\<And>s x s'. f s = Inr (x, s') \<Longrightarrow> p s' = p s) \<Longrightarrow> frame p f"
  by (auto simp: frame_def keeps_def)

lemma frameD: "frame p f \<Longrightarrow> f s = Inr (x, s') \<Longrightarrow> p s' = p s"
  by (auto simp: frame_def keeps_def)

lemma frame_rule: "(\<And>v. keeps (\<lambda>s. p s = v) f) \<Longrightarrow> frame p f"
  by (simp add: frame_def)

section \<open>Connections\<close>

record 's conn =
  current :: 's
  committed :: 's

definition begin_work :: "'s conn \<Rightarrow> 's conn" where
  "begin_work c = c"

definition commit :: "'s conn \<Rightarrow> 's conn" where
  "commit c = c\<lparr>committed := current c\<rparr>"

definition rollback :: "'s conn \<Rightarrow> 's conn" where
  "rollback c = c\<lparr>current := committed c\<rparr>"

text \<open>A body that runs on a connection, and the unit of work around it: \<open>__exit__\<close> commits when the
  body returned and rolls back when it raised. A nested unit of work commits the whole transaction: a
  second \<open>BEGIN\<close> only warns.\<close>

type_synonym ('s, 'a) on_conn = "'s conn \<Rightarrow> (exn + 'a) \<times> 's conn"

definition exec :: "('s, 'a) stmt \<Rightarrow> ('s, 'a) on_conn" where
  "exec f c = (case f (current c) of Inl e \<Rightarrow> (Inl e, c) | Inr (x, s) \<Rightarrow> (Inr x, c\<lparr>current := s\<rparr>))"

definition unit_of_work :: "('s, 'a) on_conn \<Rightarrow> ('s, 'a) on_conn" where
  "unit_of_work body c =
     (let (r, c1) = body (begin_work c)
      in case r of Inl e \<Rightarrow> (Inl e, rollback c1) | Inr x \<Rightarrow> (Inr x, commit c1))"

text \<open>\<open>connection()\<close>: a new connection starts from the committed state of the database, and what was
  not committed when it is closed is lost.\<close>

definition connection :: "('s, 'a) on_conn \<Rightarrow> 's \<Rightarrow> (exn + 'a) \<times> 's" where
  "connection body db = (let (r, c) = body \<lparr>current = db, committed = db\<rparr> in (r, committed c))"

text \<open>One statement sequence as one transaction on the committed state.\<close>

definition transact :: "('s, 'a) stmt \<Rightarrow> 's \<Rightarrow> (exn + 'a) \<times> 's" where
  "transact f db = (case f db of Inl e \<Rightarrow> (Inl e, db) | Inr (x, s) \<Rightarrow> (Inr x, s))"

lemma connection_unit_of_work: "connection (unit_of_work (exec f)) db = transact f db"
  by (auto simp: connection_def unit_of_work_def exec_def transact_def begin_work_def commit_def
      rollback_def split: sum.split prod.split)

lemma nested_unit_of_work:
  "current c = committed c \<Longrightarrow> unit_of_work (unit_of_work (exec f)) c = unit_of_work (exec f) c"
  by (auto simp: unit_of_work_def exec_def begin_work_def commit_def rollback_def
      split: sum.split prod.split)

lemma transact_keeps: "keeps I f \<Longrightarrow> I db \<Longrightarrow> I (snd (transact f db))"
  by (auto simp: transact_def keeps_def split: sum.split)

lemma transact_raises: "f db = Inl e \<Longrightarrow> transact f db = (Inl e, db)"
  by (simp add: transact_def)

text \<open>A transaction body run in a unit of work on a fresh connection takes effect
  completely or not at all: if it raises, the exception reaches the caller and the database is as before,
  otherwise the caller gets its value and the database is the body's final state; nesting a second unit
  of work inside changes nothing.\<close>

theorem unit_of_work_atomic:
  "connection (unit_of_work (exec f)) db =
     (case f db of Inl e \<Rightarrow> (Inl e, db) | Inr (x, s) \<Rightarrow> (Inr x, s)) \<and>
   connection (unit_of_work (unit_of_work (exec f))) db = connection (unit_of_work (exec f)) db"
proof -
  have "unit_of_work (unit_of_work (exec f)) \<lparr>current = db, committed = db\<rparr> =
      unit_of_work (exec f) \<lparr>current = db, committed = db\<rparr>"
    by (simp add: nested_unit_of_work)
  then have "connection (unit_of_work (unit_of_work (exec f))) db = connection (unit_of_work (exec f)) db"
    by (simp add: connection_def)
  then show ?thesis by (simp add: connection_unit_of_work transact_def)
qed

end
