(* ===== verification/Database.thy ===== *)
theory Database
  imports PyDecimal Keys Transaction
begin

text \<open>
  The PostgreSQL state the code works on: one record per row of a table and one record for the
  database, as created by \<open>specs/v1/database-schema.sql\<close> and the migrations that the deployment
  applies (\<open>001_stage4_convergence\<close> to \<open>013\<close>). A table is the list of its rows in insertion
  order. NUMERIC(20,4) columns hold ten-thousandths; a TIMESTAMPTZ is a number of microseconds, and
  \<open>clock\<close> is what \<open>now()\<close> returns in the running transaction. Columns that the program
  neither reads nor sets are left out. \<open>profile\<close> says which columns and server features the code
  finds (see \<open>deployed\<close>).
\<close>

section \<open>Enumerated types\<close>

datatype payment_state =
    ST_REQUESTED | ST_VALIDATING | ST_POLICY_CHECK | ST_BUDGET_CHECK | ST_APPROVAL_REQUIRED
  | ST_APPROVED | ST_PAYMENT_PENDING | ST_PROCESSING | ST_SUCCEEDED | ST_FAILED | ST_CANCELLED
  | ST_REFUND_REQUESTED | ST_REFUNDED | ST_AUTHENTICATION_REQUIRED | ST_AUTHENTICATED
  | ST_UNKNOWN_EXTERNAL_OUTCOME | ST_AUTHORIZED | ST_REFUND_PROCESSING | ST_REFUND_FAILED
  | ST_VOID_REQUESTED | ST_VOIDED | ST_VOID_FAILED | ST_SETTLEMENT_PENDING | ST_SETTLED
  | ST_SETTLEMENT_FAILED | ST_DISPUTED | ST_CHARGEBACK

fun state_text :: "payment_state \<Rightarrow> string" where
  "state_text ST_REQUESTED = ''REQUESTED''"
| "state_text ST_VALIDATING = ''VALIDATING''"
| "state_text ST_POLICY_CHECK = ''POLICY_CHECK''"
| "state_text ST_BUDGET_CHECK = ''BUDGET_CHECK''"
| "state_text ST_APPROVAL_REQUIRED = ''APPROVAL_REQUIRED''"
| "state_text ST_APPROVED = ''APPROVED''"
| "state_text ST_PAYMENT_PENDING = ''PAYMENT_PENDING''"
| "state_text ST_PROCESSING = ''PROCESSING''"
| "state_text ST_SUCCEEDED = ''SUCCEEDED''"
| "state_text ST_FAILED = ''FAILED''"
| "state_text ST_CANCELLED = ''CANCELLED''"
| "state_text ST_REFUND_REQUESTED = ''REFUND_REQUESTED''"
| "state_text ST_REFUNDED = ''REFUNDED''"
| "state_text ST_AUTHENTICATION_REQUIRED = ''AUTHENTICATION_REQUIRED''"
| "state_text ST_AUTHENTICATED = ''AUTHENTICATED''"
| "state_text ST_UNKNOWN_EXTERNAL_OUTCOME = ''UNKNOWN_EXTERNAL_OUTCOME''"
| "state_text ST_AUTHORIZED = ''AUTHORIZED''"
| "state_text ST_REFUND_PROCESSING = ''REFUND_PROCESSING''"
| "state_text ST_REFUND_FAILED = ''REFUND_FAILED''"
| "state_text ST_VOID_REQUESTED = ''VOID_REQUESTED''"
| "state_text ST_VOIDED = ''VOIDED''"
| "state_text ST_VOID_FAILED = ''VOID_FAILED''"
| "state_text ST_SETTLEMENT_PENDING = ''SETTLEMENT_PENDING''"
| "state_text ST_SETTLED = ''SETTLED''"
| "state_text ST_SETTLEMENT_FAILED = ''SETTLEMENT_FAILED''"
| "state_text ST_DISPUTED = ''DISPUTED''"
| "state_text ST_CHARGEBACK = ''CHARGEBACK''"

datatype tx_state = TX_PENDING | TX_POSTED | TX_FAILED | TX_REVERSED

datatype approval_state = AP_PENDING | AP_APPROVED | AP_DENIED | AP_EXPIRED | AP_CANCELLED

section \<open>Rows\<close>

record merchant_row =
  m_id :: nat
  m_name :: string
  m_domain :: "string option"
  m_category :: "string option"

record policy_row =
  pol_id :: nat
  pol_account :: nat
  pol_active :: bool
  pol_updated :: int

record policy_version_row =
  pv_id :: nat
  pv_policy :: nat
  pv_version :: int
  pv_rules :: json
  pv_status :: string

record budget_row =
  b_id :: nat
  b_account :: nat
  b_policy :: "nat option"
  b_currency :: string
  b_limit :: num4
  b_consumed :: num4
  b_reserved :: num4
  b_status :: string
  b_updated :: int

record reservation_row =
  r_id :: nat
  r_budget :: nat
  r_request :: nat
  r_amount :: num4
  r_currency :: string
  r_status :: string
  r_released :: "int option"
  r_consumed :: "int option"

record evidence_row =
  ev_id :: nat
  ev_account :: nat
  ev_agent :: nat
  ev_issuer :: "string option"
  ev_type :: string
  ev_subject :: string
  ev_expires :: "int option"
  ev_payload :: json
  ev_status :: string
  ev_request :: "nat option"

record request_row =
  q_id :: nat
  q_account :: nat
  q_agent :: nat
  q_merchant :: "nat option"
  q_amount :: num4
  q_currency :: string
  q_purpose :: string
  q_items :: json
  q_key :: string
  q_fingerprint :: "string option"
  q_policy_version :: "nat option"
  q_budget :: "nat option"
  q_reservation :: "nat option"
  q_evidence :: "nat option"
  q_context_hash :: "string option"

record approval_row =
  ap_id :: nat
  ap_request :: nat
  ap_status :: approval_state
  ap_expires :: "int option"
  ap_approved :: "int option"
  ap_approved_by :: "string option"
  ap_reason :: "string option"
  ap_digest :: "string option"
  ap_decided :: "int option"

record payment_row =
  p_id :: nat
  p_request :: nat
  p_amount :: num4
  p_currency :: string
  p_status :: payment_state
  p_reference :: "string option"
  p_operation :: "nat option"
  p_created :: int
  p_completed :: "int option"
  p_updated :: int

record operation_row =
  o_id :: nat
  o_payment :: nat
  o_type :: string
  o_key :: string
  o_reference :: "string option"
  o_status :: string
  o_created :: int
  o_completed :: "int option"

record transaction_row =
  t_id :: nat
  t_payment :: nat
  t_type :: string
  t_status :: tx_state
  t_amount :: num4
  t_currency :: string
  t_original :: "nat option"
  t_external :: "string option"
  t_key :: "string option"
  t_posted :: "int option"

record journal_row =
  j_id :: nat
  j_currency :: string
  j_reference_type :: string
  j_reference :: "nat option"
  j_key :: string
  j_correlation :: "string option"

record posting_row =
  l_journal :: nat
  l_account :: nat
  l_side :: string
  l_amount :: num4
  l_currency :: string

record wallet_row =
  w_id :: nat
  w_account :: nat
  w_currency :: string
  w_status :: string

record ledger_account_row =
  la_id :: nat
  la_wallet :: "nat option"

record provider_account_row =
  ppa_provider :: string
  ppa_currency :: string
  ppa_ledger :: nat
  ppa_status :: string

record provider_event_row =
  pe_id :: nat
  pe_provider :: string
  pe_event :: string
  pe_type :: string
  pe_signature_valid :: bool
  pe_payload :: json
  pe_digest :: string
  pe_status :: string
  pe_processed :: "int option"
  pe_operation :: "nat option"

record settlement_row =
  se_id :: nat
  se_provider :: string
  se_reference :: string
  se_currency :: string
  se_amount :: num4
  se_status :: string
  se_reported :: "int option"
  se_settled :: "int option"

record reconciliation_row =
  rc_settlement :: "nat option"
  rc_operation :: "nat option"
  rc_status :: string
  rc_expected :: "num4 option"
  rc_observed :: num4
  rc_expected_currency :: "string option"
  rc_observed_currency :: string
  rc_code :: "string option"

record outbox_row =
  x_id :: nat
  x_type :: string
  x_aggregate_type :: string
  x_aggregate :: nat
  x_payload :: json
  x_correlation :: "string option"
  x_status :: string
  x_attempts :: nat
  x_available :: int
  x_processing :: "int option"
  x_published :: "int option"
  x_created :: int
  x_error :: "string option"

record audit_row =
  au_id :: nat
  au_event :: nat
  au_account :: "nat option"
  au_actor_type :: string
  au_actor :: string
  au_action :: string
  au_resource_type :: string
  au_resource :: nat
  au_result :: string
  au_correlation :: "string option"
  au_metadata :: json
  au_digest :: string

record notification_row =
  no_id :: nat
  no_account :: nat
  no_type :: string
  no_title :: string
  no_payload :: json
  no_event :: nat

section \<open>The database\<close>

text \<open>
  What the statements find: whether \<open>payment_requests.authorization_context_hash\<close> exists, whether
  \<open>approvals.intent_digest\<close> and \<open>approvals.decided_at\<close> exist, whether the server locks the
  nullable side of an outer join with FOR UPDATE, and whether ON CONFLICT (column) may infer a partial
  unique index. The deployment (\<open>docker-compose.yml\<close> and the CI workflow) applies none of the
  migrations that would add these columns, and PostgreSQL rejects both statements.
\<close>

record server_profile =
  has_context_hash :: bool
  has_approval_digest :: bool
  locks_outer_join :: bool
  infers_partial_index :: bool

definition deployed :: server_profile where
  "deployed = \<lparr>has_context_hash = False, has_approval_digest = False, locks_outer_join = False,
     infers_partial_index = False\<rparr>"

definition assumed :: server_profile where
  "assumed = \<lparr>has_context_hash = True, has_approval_digest = True, locks_outer_join = True,
     infers_partial_index = True\<rparr>"

record db =
  profile :: server_profile
  clock :: int
  next_id :: nat
  accounts :: "nat list"
  agents :: "nat list"
  merchants :: "merchant_row list"
  policies :: "policy_row list"
  policy_versions :: "policy_version_row list"
  budgets :: "budget_row list"
  reservations :: "reservation_row list"
  evidences :: "evidence_row list"
  requests :: "request_row list"
  approvals :: "approval_row list"
  payments :: "payment_row list"
  operations :: "operation_row list"
  transactions :: "transaction_row list"
  journals :: "journal_row list"
  postings :: "posting_row list"
  wallets :: "wallet_row list"
  ledger_accounts :: "ledger_account_row list"
  provider_accounts :: "provider_account_row list"
  provider_events :: "provider_event_row list"
  settlements :: "settlement_row list"
  reconciliations :: "reconciliation_row list"
  outbox :: "outbox_row list"
  audit_log :: "audit_row list"
  notifications :: "notification_row list"

type_synonym 'a tx = "(db, 'a) stmt"

text \<open>A fresh id, and the check of a reference to a row of another table.\<close>

definition draw_id :: "nat tx" where
  "draw_id d = Inr (next_id d, d\<lparr>next_id := next_id d + 1\<rparr>)"

definition references :: "bool \<Rightarrow> string \<Rightarrow> unit tx" where
  "references ok what = guardT ok (ForeignKeyViolation what)"

definition coalesce :: "'a option \<Rightarrow> 'a option \<Rightarrow> 'a option" where
  "coalesce a b = (case a of None \<Rightarrow> b | Some _ \<Rightarrow> a)"

lemma draw_id_eq [simp]: "draw_id d = Inr (next_id d, d\<lparr>next_id := next_id d + 1\<rparr>)"
  by (simp add: draw_id_def)

lemma coalesce_simps [simp]: "coalesce None b = b" "coalesce (Some x) b = Some x"
  by (simp_all add: coalesce_def)

text \<open>An id is known when it was drawn.\<close>

abbreviation known :: "('r \<Rightarrow> 'k) \<Rightarrow> 'k \<Rightarrow> 'r list \<Rightarrow> bool" where
  "known key k rows \<equiv> k \<in> keys_of key rows"

text \<open>What follows for each table when two databases agree apart from some tables.\<close>

lemmas db_fields =
  arg_cong [where f = clock]  arg_cong [where f = accounts]  arg_cong [where f = agents]
  arg_cong [where f = merchants]  arg_cong [where f = policies]  arg_cong [where f = policy_versions]
  arg_cong [where f = budgets]  arg_cong [where f = reservations]  arg_cong [where f = evidences]
  arg_cong [where f = requests]  arg_cong [where f = approvals]  arg_cong [where f = payments]
  arg_cong [where f = operations]  arg_cong [where f = transactions]  arg_cong [where f = journals]
  arg_cong [where f = postings]  arg_cong [where f = wallets]  arg_cong [where f = ledger_accounts]
  arg_cong [where f = provider_accounts]  arg_cong [where f = provider_events]  arg_cong [where f = settlements]
  arg_cong [where f = reconciliations]  arg_cong [where f = outbox]  arg_cong [where f = audit_log]
  arg_cong [where f = notifications]  arg_cong [where f = profile]

text \<open>Drawing an id changes none of the tables.\<close>

lemma keeps_draw_tables:
  "(\<And>d. P (d\<lparr>next_id := next_id d + 1\<rparr>) = P d) \<Longrightarrow> keeps P draw_id"
  by (rule keepsI) auto

section \<open>A small database\<close>

text \<open>One account with one agent, a USD budget of 100, one request over 25 with verified evidence and its
  payment, the customer's ledger account (8) and the provider's clearing account (9).\<close>

definition sample_request :: request_row where
  "sample_request = \<lparr>q_id = 4, q_account = 1, q_agent = 2, q_merchant = None, q_amount = 250000,
     q_currency = ''USD'', q_purpose = ''books'', q_items = JArr [], q_key = ''k'', q_fingerprint = Some ''f'',
     q_policy_version = None, q_budget = Some 3, q_reservation = None, q_evidence = Some 6, q_context_hash = None\<rparr>"

definition sample_payment :: payment_row where
  "sample_payment = \<lparr>p_id = 5, p_request = 4, p_amount = 250000, p_currency = ''USD'', p_status = ST_POLICY_CHECK,
     p_reference = None, p_operation = None, p_created = 0, p_completed = None, p_updated = 0\<rparr>"

definition sample_budget :: budget_row where
  "sample_budget = \<lparr>b_id = 3, b_account = 1, b_policy = None, b_currency = ''USD'', b_limit = 1000000,
     b_consumed = 0, b_reserved = 0, b_status = ''ACTIVE'', b_updated = 0\<rparr>"

definition sample_evidence :: evidence_row where
  "sample_evidence = \<lparr>ev_id = 6, ev_account = 1, ev_agent = 2, ev_issuer = Some ''atf'', ev_type = ''ATF'',
     ev_subject = ''e'', ev_expires = None, ev_payload = JNull, ev_status = ''VERIFIED'', ev_request = Some 4\<rparr>"

definition sample_db :: db where
  "sample_db =
     \<lparr>profile = deployed, clock = 0, next_id = 10, accounts = [1], agents = [2], merchants = [], policies = [],
      policy_versions = [], budgets = [sample_budget], reservations = [], evidences = [sample_evidence],
      requests = [sample_request], approvals = [], payments = [sample_payment], operations = [],
      transactions = [], journals = [], postings = [],
      wallets = [\<lparr>w_id = 7, w_account = 1, w_currency = ''USD'', w_status = ''ACTIVE''\<rparr>],
      ledger_accounts = [\<lparr>la_id = 8, la_wallet = Some 7\<rparr>, \<lparr>la_id = 9, la_wallet = None\<rparr>],
      provider_accounts = [\<lparr>ppa_provider = ''mock'', ppa_currency = ''USD'', ppa_ledger = 9, ppa_status = ''ACTIVE''\<rparr>],
      provider_events = [], settlements = [], reconciliations = [], outbox = [], audit_log = [],
      notifications = []\<rparr>"

lemmas sample_defs = sample_db_def sample_request_def sample_payment_def sample_budget_def sample_evidence_def

end
