(* ===== verification/Budget.thy ===== *)
theory Budget
  imports Domain
begin

text \<open>
  \<open>budget.py\<close>: the in-memory budget. Each method holds the budget's lock for its whole
  body, so a method call is one atomic step; \<open>reserve\<close> checks its argument before it takes
  the lock. The lemmas give the effect of each move on the rational amounts.
\<close>

record Budget =
  limit :: decimal
  consumed :: decimal
  reserved :: decimal

definition new_budget :: "decimal \<Rightarrow> Budget" where
  "new_budget l = \<lparr>limit = l, consumed = dzero, reserved = dzero\<rparr>"

definition available :: "Budget \<Rightarrow> decimal" where
  "available b = dsub (dsub (limit b) (consumed b)) (reserved b)"

definition reserve :: "Budget \<Rightarrow> decimal \<Rightarrow> exn + (bool \<times> Budget)" where
  "reserve b amt =
     (if dle amt dzero then Inl (ValueError ''reservation amount must be positive'')
      else if dless (available b) amt then Inr (False, b)
      else Inr (True, b\<lparr>reserved := dadd (reserved b) amt\<rparr>))"

definition release :: "Budget \<Rightarrow> decimal \<Rightarrow> exn + Budget" where
  "release b amt =
     (if dless (reserved b) amt then Inl (ValueError ''cannot release more than reserved'')
      else Inr (b\<lparr>reserved := dsub (reserved b) amt\<rparr>))"

definition consume :: "Budget \<Rightarrow> decimal \<Rightarrow> exn + Budget" where
  "consume b amt =
     (if dless (reserved b) amt then Inl (ValueError ''cannot consume more than reserved'')
      else Inr (b\<lparr>reserved := dsub (reserved b) amt, consumed := dadd (consumed b) amt\<rparr>))"

section \<open>Invariant\<close>

text \<open>
  Nothing is over-committed: what is consumed and what is reserved are not negative and stay
  within the limit. Amounts have at most four decimal places and the limit stays below
  \<open>10 ^ 22\<close>, so that the context's rounding never acts.
\<close>

definition scale4 :: "decimal \<Rightarrow> bool" where
  "scale4 d \<longleftrightarrow> - 4 \<le> dexp d"

definition budget_inv :: "Budget \<Rightarrow> bool" where
  "budget_inv b \<longleftrightarrow>
     scale4 (limit b) \<and> scale4 (consumed b) \<and> scale4 (reserved b) \<and>
     0 \<le> dval (consumed b) \<and> 0 \<le> dval (reserved b) \<and>
     dval (consumed b) + dval (reserved b) \<le> dval (limit b) \<and> dval (limit b) \<le> 10 ^ 22"

lemma budget_inv_new: "scale4 l \<Longrightarrow> 0 \<le> dval l \<Longrightarrow> dval l \<le> 10 ^ 22 \<Longrightarrow> budget_inv (new_budget l)"
  by (simp add: budget_inv_def new_budget_def scale4_def)

lemma budget_bounds:
  assumes "budget_inv b"
  shows "\<bar>dval (limit b)\<bar> \<le> 10 ^ 22" "\<bar>dval (consumed b)\<bar> \<le> 10 ^ 22" "\<bar>dval (reserved b)\<bar> \<le> 10 ^ 22"
  using assms unfolding budget_inv_def by linarith+

lemma available_val:
  assumes "budget_inv b"
  shows "dval (available b) = dval (limit b) - dval (consumed b) - dval (reserved b)"
proof -
  note bd = budget_bounds [OF assms]
  have s: "- 4 \<le> dexp (limit b)" "- 4 \<le> dexp (consumed b)" "- 4 \<le> dexp (reserved b)"
    using assms by (simp_all add: budget_inv_def scale4_def)
  have d1: "dval (dsub (limit b) (consumed b)) = dval (limit b) - dval (consumed b)"
    and e1: "dexp (dsub (limit b) (consumed b)) = min (dexp (limit b)) (dexp (consumed b))"
    using s bd by (auto intro!: dadd_dsub_money)
  have "\<bar>dval (dsub (limit b) (consumed b))\<bar> \<le> 10 ^ 23"
    using bd unfolding d1 by simp
  then have "dval (dsub (dsub (limit b) (consumed b)) (reserved b)) =
      dval (dsub (limit b) (consumed b)) - dval (reserved b)"
    using s bd e1 by (intro dadd_dsub_money) auto
  then show ?thesis by (simp add: available_def d1)
qed

lemma available_nonneg: "budget_inv b \<Longrightarrow> 0 \<le> dval (available b)"
  by (simp only: available_val) (simp add: budget_inv_def)

text \<open>The moves of a budget, by their effect on the rational amounts.\<close>

lemma reserve_cases:
  assumes "budget_inv b" "scale4 amt" "0 < dval amt"
  shows "(dval (available b) < dval amt \<and> reserve b amt = Inr (False, b)) \<or>
    (dval amt \<le> dval (available b) \<and>
      (\<exists>b'. reserve b amt = Inr (True, b') \<and> budget_inv b' \<and> limit b' = limit b \<and>
        consumed b' = consumed b \<and> dval (reserved b') = dval (reserved b) + dval amt))"
proof (cases "dval (available b) < dval amt")
  case True
  with assms(3) show ?thesis by (simp add: reserve_def dec_simps)
next
  case False
  then have le: "dval amt \<le> dval (limit b) - dval (consumed b) - dval (reserved b)"
    using available_val [OF assms(1)] by simp
  note bd = budget_bounds [OF assms(1)]
  have c0: "0 \<le> dval (consumed b)" "0 \<le> dval (reserved b)" using assms(1) by (simp_all add: budget_inv_def)
  have "\<bar>dval amt\<bar> \<le> 10 ^ 23" using le assms(3) bd c0 by simp
  then have "dval (dadd (reserved b) amt) = dval (reserved b) + dval amt"
    "dexp (dadd (reserved b) amt) = min (dexp (reserved b)) (dexp amt)"
    using bd assms by (auto intro!: dadd_dsub_money simp: budget_inv_def scale4_def)
  then show ?thesis
    using assms False le by (auto simp: reserve_def dec_simps budget_inv_def scale4_def not_less)
qed

lemma release_consume_val:
  assumes "budget_inv b" "scale4 amt" "0 \<le> dval amt" "dval amt \<le> dval (reserved b)"
  shows "dval (dsub (reserved b) amt) = dval (reserved b) - dval amt"
    "dexp (dsub (reserved b) amt) = min (dexp (reserved b)) (dexp amt)"
    "dval (dadd (consumed b) amt) = dval (consumed b) + dval amt"
    "dexp (dadd (consumed b) amt) = min (dexp (consumed b)) (dexp amt)"
proof -
  note bd = budget_bounds [OF assms(1)]
  have "\<bar>dval amt\<bar> \<le> 10 ^ 23" using assms(3,4) bd by simp
  then show "dval (dsub (reserved b) amt) = dval (reserved b) - dval amt"
    "dexp (dsub (reserved b) amt) = min (dexp (reserved b)) (dexp amt)"
    "dval (dadd (consumed b) amt) = dval (consumed b) + dval amt"
    "dexp (dadd (consumed b) amt) = min (dexp (consumed b)) (dexp amt)"
    using bd assms by (auto intro!: dadd_dsub_money simp: budget_inv_def scale4_def)
qed

lemma release_effect:
  assumes "budget_inv b" "scale4 amt" "0 \<le> dval amt" "release b amt = Inr b'"
  shows "budget_inv b' \<and> limit b' = limit b \<and> consumed b' = consumed b \<and>
    dval (reserved b') = dval (reserved b) - dval amt"
proof -
  have le: "dval amt \<le> dval (reserved b)" and b': "b' = b\<lparr>reserved := dsub (reserved b) amt\<rparr>"
    using assms(4) by (auto simp: release_def dec_simps split: if_splits)
  show ?thesis
    using release_consume_val [OF assms(1-3) le] assms le
    by (auto simp: b' budget_inv_def scale4_def)
qed

lemma consume_effect:
  assumes "budget_inv b" "scale4 amt" "0 \<le> dval amt" "consume b amt = Inr b'"
  shows "budget_inv b' \<and> limit b' = limit b \<and>
    dval (consumed b') = dval (consumed b) + dval amt \<and>
    dval (reserved b') = dval (reserved b) - dval amt"
proof -
  have le: "dval amt \<le> dval (reserved b)"
    and b': "b' = b\<lparr>reserved := dsub (reserved b) amt, consumed := dadd (consumed b) amt\<rparr>"
    using assms(4) by (auto simp: consume_def dec_simps split: if_splits)
  show ?thesis
    using release_consume_val [OF assms(1-3) le] assms le
    by (auto simp: b' budget_inv_def scale4_def)
qed

end
