(* ===== verification/Repositories.thy ===== *)
theory Repositories
  imports Database Budget
begin

text \<open>
  \<open>repositories.py\<close>: the statements of \<open>PaymentRepository\<close> and \<open>BudgetRepository\<close>. A
  text amount that the code hands to PostgreSQL is \<open>str\<close> of a decimal and is kept as that decimal
  (\<open>parse_str_dec\<close>: reading the text back gives it). FOR UPDATE takes no part in the state: one
  transaction is one step. The invariant \<open>budgets_ok\<close> ties a budget's two totals to its
  reservations.
\<close>

section \<open>PaymentRepository\<close>

definition merchant :: "string \<Rightarrow> string option \<Rightarrow> nat option tx" where
  "merchant nm dmn =
     (case dmn of
        None \<Rightarrow> returnT None
      | Some s \<Rightarrow>
          if s = [] then returnT None
          else bindT (queryT (\<lambda>d. row_by m_domain (Some s) (merchants d))) (\<lambda>row.
            case row of
              Some m \<Rightarrow> returnT (Some (m_id m))
            | None \<Rightarrow>
                bindT draw_id (\<lambda>i.
                bindT (modifyT (\<lambda>d. d\<lparr>merchants := merchants d @
                  [\<lparr>m_id = i, m_name = nm, m_domain = Some s, m_category = None\<rparr>]\<rparr>)) (\<lambda>_.
                returnT (Some i)))))"

definition positive_num4 :: "decimal \<Rightarrow> exn + num4" where
  "positive_num4 a =
     bindE (to_num4 a) (\<lambda>n. if n \<le> 0 then Inl (CheckViolation ''amount > 0'') else Inr n)"

definition create_request ::
    "nat \<Rightarrow> nat \<Rightarrow> decimal \<Rightarrow> string \<Rightarrow> string \<Rightarrow> json \<Rightarrow> string \<Rightarrow> string option \<Rightarrow> nat option \<Rightarrow> nat tx" where
  "create_request acct agent amt cur purpose items key fprint merch =
     bindT (liftT (char3 cur)) (\<lambda>cur3.
     bindT (liftT (positive_num4 amt)) (\<lambda>n.
     bindT (queryT (\<lambda>d. row_by (\<lambda>q. (q_account q, q_key q)) (acct, key) (requests d))) (\<lambda>dup.
     bindT (guardT (dup = None) (UniqueViolation ''payment_requests_account_id_idempotency_key_key'')) (\<lambda>_.
     bindT (queryT (\<lambda>d. (acct \<in> set (accounts d) \<and> agent \<in> set (agents d)) \<and>
       (case merch of None \<Rightarrow> True | Some m \<Rightarrow> known m_id m (merchants d)))) (\<lambda>refs_ok.
     bindT (references refs_ok ''payment_requests'') (\<lambda>_.
     bindT draw_id (\<lambda>i.
     bindT (modifyT (\<lambda>d. d\<lparr>requests := requests d @
       [\<lparr>q_id = i, q_account = acct, q_agent = agent, q_merchant = merch, q_amount = n,
         q_currency = cur3, q_purpose = purpose, q_items = items, q_key = key,
         q_fingerprint = fprint, q_policy_version = None, q_budget = None, q_reservation = None,
         q_evidence = None, q_context_hash = None\<rparr>]\<rparr>)) (\<lambda>_.
     returnT i))))))))"

definition find_by_idempotency :: "nat \<Rightarrow> string \<Rightarrow> request_row option tx" where
  "find_by_idempotency acct key =
     queryT (\<lambda>d. row_by (\<lambda>q. (q_account q, q_key q)) (acct, key) (requests d))"

definition select_payment :: "nat \<Rightarrow> payment_row option tx" where
  "select_payment pid = queryT (\<lambda>d. row_by p_id pid (payments d))"

definition insert_payment :: "nat \<Rightarrow> decimal \<Rightarrow> string \<Rightarrow> payment_state \<Rightarrow> nat tx" where
  "insert_payment req amt cur st =
     bindT (liftT (char3 cur)) (\<lambda>cur3.
     bindT (liftT (positive_num4 amt)) (\<lambda>n.
     bindT (queryT (\<lambda>d. (known p_request req (payments d), known q_id req (requests d)))) (\<lambda>(dup, ref_ok).
     bindT (guardT (\<not> dup) (UniqueViolation ''payments_payment_request_id_key'')) (\<lambda>_.
     bindT (references ref_ok ''payments'') (\<lambda>_.
     bindT draw_id (\<lambda>i.
     bindT (modifyT (\<lambda>d. d\<lparr>payments := payments d @
       [\<lparr>p_id = i, p_request = req, p_amount = n, p_currency = cur3, p_status = st, p_reference = None,
         p_operation = None, p_created = clock d, p_completed = None, p_updated = clock d\<rparr>]\<rparr>)) (\<lambda>_.
     returnT i)))))))"

definition set_status :: "payment_state \<Rightarrow> string option \<Rightarrow> int \<Rightarrow> payment_row \<Rightarrow> payment_row" where
  "set_status st ref now p =
     p\<lparr>p_status := st, p_reference := coalesce ref (p_reference p),
       p_completed := (if st \<in> {ST_SUCCEEDED, ST_FAILED} then Some now else p_completed p),
       p_updated := now\<rparr>"

definition update_status :: "nat \<Rightarrow> payment_state \<Rightarrow> string option \<Rightarrow> unit tx" where
  "update_status pid st ref =
     modifyT (\<lambda>d. d\<lparr>payments := upd_by p_id pid (set_status st ref (clock d)) (payments d)\<rparr>)"

text \<open>The pending payments, oldest first; rows that another transaction has locked are skipped by the
  server and do not occur here.\<close>

definition request_of :: "db \<Rightarrow> payment_row \<Rightarrow> request_row option" where
  "request_of d p = row_by q_id (p_request p) (requests d)"

definition executable :: "db \<Rightarrow> payment_row \<Rightarrow> bool" where
  "executable d p \<longleftrightarrow> p_status p = ST_PROCESSING \<and>
     (case request_of d p of None \<Rightarrow> False | Some q \<Rightarrow> q_reservation q \<noteq> None)"

definition pending_row ::
    "db \<Rightarrow> payment_row \<Rightarrow> nat \<times> nat \<times> num4 \<times> string \<times> nat option \<times> nat option" where
  "pending_row d p =
     (p_id p, p_request p, p_amount p, p_currency p, Option.bind (request_of d p) q_reservation,
      map_option q_account (request_of d p))"

definition pending_for_execution ::
    "nat \<Rightarrow> (nat \<times> nat \<times> num4 \<times> string \<times> nat option \<times> nat option) list tx" where
  "pending_for_execution n_rows =
     queryT (\<lambda>d. map (pending_row d) (take n_rows (sort_key p_created (filter (executable d) (payments d)))))"

definition new_operation :: "nat \<Rightarrow> string \<Rightarrow> string \<Rightarrow> nat tx" where
  "new_operation pid ty key =
     bindT (queryT (\<lambda>d. known p_id pid (payments d))) (\<lambda>ref_ok.
     bindT (references ref_ok ''provider_operations'') (\<lambda>_.
     bindT draw_id (\<lambda>i.
     bindT (modifyT (\<lambda>d. d\<lparr>operations := operations d @
       [\<lparr>o_id = i, o_payment = pid, o_type = ty, o_key = key, o_reference = None, o_status = ''PENDING'',
         o_created = clock d, o_completed = None\<rparr>]\<rparr>)) (\<lambda>_.
     returnT i))))"

text \<open>ON CONFLICT DO NOTHING followed by the SELECT of the existing row; the row that caused the
  conflict is visible, so the branch for a lost race is not reachable in one step.\<close>

definition create_provider_operation :: "nat \<Rightarrow> string \<Rightarrow> string \<Rightarrow> nat tx" where
  "create_provider_operation pid ty key =
     bindT (queryT (\<lambda>d. row_by o_key key (operations d))) (\<lambda>existing.
     bindT (case existing of
              None \<Rightarrow> new_operation pid ty key
            | Some op \<Rightarrow>
                (if o_payment op \<noteq> pid \<or> o_type op \<noteq> ty
                 then raiseT (ValueError ''provider operation idempotency key conflict'')
                 else returnT (o_id op))) (\<lambda>oid.
     bindT (modifyT (\<lambda>d. d\<lparr>payments := upd_by p_id pid
       (\<lambda>p. p\<lparr>p_operation := Some oid, p_updated := clock d\<rparr>) (payments d)\<rparr>)) (\<lambda>_.
     returnT oid)))"

section \<open>BudgetRepository\<close>

text \<open>A NUMERIC(20,4) column plus a NUMERIC parameter: the exact sum, rounded to the scale.\<close>

definition num4_plus :: "num4 \<Rightarrow> decimal \<Rightarrow> exn + num4" where
  "num4_plus n a =
     (let e = min (- 4) (dexp a) in to_num4 (Dec (at_exp (of_num4 n) e + at_exp a e) e))"

definition request_currency :: "nat \<Rightarrow> string tx" where
  "request_currency req =
     queryT (\<lambda>d. case row_by q_id req (requests d) of
                   None \<Rightarrow> [] | Some q \<Rightarrow> upper (strip (q_currency q)))"

definition budget_available :: "budget_row \<Rightarrow> decimal" where
  "budget_available b = dsub (dsub (of_num4 (b_limit b)) (of_num4 (b_consumed b))) (of_num4 (b_reserved b))"

definition insert_reservation :: "budget_row \<Rightarrow> nat \<Rightarrow> decimal \<Rightarrow> nat tx" where
  "insert_reservation b req amt =
     bindT (liftT (positive_num4 amt)) (\<lambda>n.
     bindT (queryT (\<lambda>d. row_by (\<lambda>r. (r_budget r, r_request r)) (b_id b, req) (reservations d))) (\<lambda>dup.
     bindT (guardT (dup = None) (UniqueViolation ''budget_reservations_budget_id_payment_request_id_key'')) (\<lambda>_.
     bindT (queryT (\<lambda>d. known q_id req (requests d))) (\<lambda>ref_ok.
     bindT (references ref_ok ''budget_reservations'') (\<lambda>_.
     bindT draw_id (\<lambda>i.
     bindT (modifyT (\<lambda>d. d\<lparr>reservations := reservations d @
       [\<lparr>r_id = i, r_budget = b_id b, r_request = req, r_amount = n, r_currency = b_currency b,
         r_status = ''RESERVED'', r_released = None, r_consumed = None\<rparr>]\<rparr>)) (\<lambda>_.
     returnT i)))))))"

definition budget_reserve :: "nat \<Rightarrow> nat \<Rightarrow> decimal \<Rightarrow> nat option tx" where
  "budget_reserve bid req amt =
     bindT (queryT (\<lambda>d. row_by b_id bid (budgets d))) (\<lambda>row.
     case row of
       None \<Rightarrow> returnT None
     | Some b \<Rightarrow>
         bindT (request_currency req) (\<lambda>cur.
         if upper (strip (b_currency b)) \<noteq> cur then returnT None
         else if dless (budget_available b) amt then returnT None
         else
           bindT (insert_reservation b req amt) (\<lambda>res.
           bindT (liftT (num4_plus (b_reserved b) amt)) (\<lambda>n.
           bindT (modifyT (\<lambda>d. d\<lparr>budgets := upd_by b_id bid
             (\<lambda>b. b\<lparr>b_reserved := n, b_updated := clock d\<rparr>) (budgets d)\<rparr>)) (\<lambda>_.
           returnT (Some res))))))"

text \<open>\<open>reserved_amount - %s\<close>, \<open>consumed_amount + %s\<close> with the CHECK constraints of the
  table.\<close>

definition move_budget :: "nat \<Rightarrow> num4 \<Rightarrow> num4 \<Rightarrow> unit tx" where
  "move_budget bid freed spent =
     bindT (queryT (\<lambda>d. row_by b_id bid (budgets d))) (\<lambda>row.
     case row of
       None \<Rightarrow> returnT ()
     | Some b \<Rightarrow>
         bindT (liftT (check_num4 (b_reserved b - freed))) (\<lambda>res.
         bindT (liftT (check_num4 (b_consumed b + spent))) (\<lambda>con.
         bindT (guardT (0 \<le> con \<and> 0 \<le> res) (CheckViolation ''budgets'')) (\<lambda>_.
         modifyT (\<lambda>d. d\<lparr>budgets := upd_by b_id bid
           (\<lambda>b. b\<lparr>b_reserved := res, b_consumed := con, b_updated := clock d\<rparr>) (budgets d)\<rparr>)))))"

definition budget_consume :: "nat \<Rightarrow> unit tx" where
  "budget_consume rid =
     bindT (queryT (\<lambda>d. row_by r_id rid (reservations d))) (\<lambda>row.
     case row of
       None \<Rightarrow> raiseT (ValueError ''budget reservation not found'')
     | Some r \<Rightarrow>
         if r_status r \<noteq> ''RESERVED'' then returnT ()
         else
           bindT (modifyT (\<lambda>d. d\<lparr>reservations := upd_by r_id rid
             (\<lambda>r. r\<lparr>r_status := ''CONSUMED'', r_consumed := Some (clock d)\<rparr>) (reservations d)\<rparr>)) (\<lambda>_.
           move_budget (r_budget r) (r_amount r) (r_amount r)))"

definition budget_release :: "nat \<Rightarrow> unit tx" where
  "budget_release rid =
     bindT (queryT (\<lambda>d. row_by r_id rid (reservations d))) (\<lambda>row.
     case row of
       None \<Rightarrow> raiseT (ValueError ''budget reservation not found'')
     | Some r \<Rightarrow>
         if r_status r \<noteq> ''RESERVED'' then returnT ()
         else
           bindT (modifyT (\<lambda>d. d\<lparr>reservations := upd_by r_id rid
             (\<lambda>r. r\<lparr>r_status := ''RELEASED'', r_released := Some (clock d)\<rparr>) (reservations d)\<rparr>)) (\<lambda>_.
           move_budget (r_budget r) (r_amount r) 0))"

section \<open>Rounding to the column's scale\<close>

lemma ten_thousandths_pos:
  assumes "0 < ten_thousandths a"
  shows "0 < coeff a"
proof (rule ccontr)
  assume "\<not> 0 < coeff a"
  then have le: "coeff a \<le> 0" by simp
  have "ten_thousandths a \<le> 0"
  proof (cases "- 4 \<le> dexp a")
    case True
    with le show ?thesis by (simp add: ten_thousandths_def mult_nonpos_nonneg)
  next
    case False
    have "0 \<le> (2 * \<bar>coeff a\<bar> + 10 ^ nat (- 4 - dexp a)) div (2 * 10 ^ nat (- 4 - dexp a))"
      by (simp add: pos_imp_zdiv_nonneg_iff)
    moreover have "sgn (coeff a) \<le> 0" using le by (simp add: sgn_if)
    ultimately show ?thesis
      using False by (simp add: ten_thousandths_def Let_def mult_nonpos_nonneg)
  qed
  with assms show False by simp
qed

lemma positive_num4_eq [err_simps]:
  "positive_num4 a = Inr n \<longleftrightarrow> n = ten_thousandths a \<and> 0 < n \<and> n < num4_max"
  by (auto simp: positive_num4_def to_num4_def err_simps split: if_splits)

lemma num4_plus_round:
  assumes "0 \<le> r" "0 < ten_thousandths a" "num4_plus r a = Inr m"
  shows "m = r + ten_thousandths a"
proof (cases "- 4 \<le> dexp a")
  case True
  then show ?thesis
    using assms(3) by (simp add: num4_plus_def Let_def to_num4_def err_simps ten_thousandths_def at_exp_def)
next
  case False
  let ?p = "10 ^ nat (- 4 - dexp a) :: int"
  have c: "0 < coeff a" by (rule ten_thousandths_pos [OF assms(2)])
  have "nat (- 4 - dexp a) = nat (- 4 - dexp a)" ..
  have pos: "0 < r * ?p + coeff a" using c assms(1) by (simp add: add_nonneg_pos)
  have "(2 * (r * ?p + coeff a) + ?p) div (2 * ?p) = (r * (2 * ?p) + (2 * coeff a + ?p)) div (2 * ?p)"
    by (simp add: algebra_simps)
  also have "\<dots> = r + (2 * coeff a + ?p) div (2 * ?p)" by (simp add: div_mult_self3)
  finally have "(2 * (r * ?p + coeff a) + ?p) div (2 * ?p) = r + (2 * coeff a + ?p) div (2 * ?p)" .
  then show ?thesis
    using assms(3) False c pos
    by (simp add: num4_plus_def Let_def to_num4_def err_simps ten_thousandths_def at_exp_def)
qed

lemma int_div_less:
  assumes "x < c * y" "0 < (y::int)"
  shows "x div y < c"
proof (rule ccontr)
  assume "\<not> x div y < c"
  then have "c * y \<le> (x div y) * y" using assms(2) by (simp add: mult_right_mono)
  also have "\<dots> \<le> x" using assms(2) by (simp add: minus_mod_eq_div_mult [symmetric])
  finally show False using assms(1) by simp
qed

lemma ten_thousandths_le:
  assumes "\<not> dless (of_num4 k) a" "0 < ten_thousandths a"
  shows "ten_thousandths a \<le> k"
proof (cases "- 4 \<le> dexp a")
  case True
  then show ?thesis
    using assms(1) by (simp add: dless_def at_exp_def ten_thousandths_def not_less)
next
  case False
  let ?p = "10 ^ nat (- 4 - dexp a) :: int"
  have c: "0 < coeff a" by (rule ten_thousandths_pos [OF assms(2)])
  have "coeff a \<le> k * ?p"
    using assms(1) False by (simp add: dless_def at_exp_def not_less)
  moreover have "0 < ?p" by simp
  moreover have "(k + 1) * (2 * ?p) = 2 * (k * ?p) + 2 * ?p" by (simp add: algebra_simps)
  ultimately have "2 * coeff a + ?p < (k + 1) * (2 * ?p)" by linarith
  moreover have "0 < 2 * ?p" by simp
  ultimately have "(2 * coeff a + ?p) div (2 * ?p) < k + 1"
    by (intro int_div_less)
  then show ?thesis using False c by (simp add: ten_thousandths_def Let_def)
qed

section \<open>A budget's totals are its reservations\<close>

definition total :: "string \<Rightarrow> nat \<Rightarrow> reservation_row list \<Rightarrow> num4" where
  "total st bid rs = sum_list (map (\<lambda>r. if r_budget r = bid \<and> r_status r = st then r_amount r else 0) rs)"

definition budget_ok :: "reservation_row list \<Rightarrow> budget_row \<Rightarrow> bool" where
  "budget_ok rs b \<longleftrightarrow>
     b_reserved b = total ''RESERVED'' (b_id b) rs \<and> b_consumed b = total ''CONSUMED'' (b_id b) rs \<and>
     b_reserved b + b_consumed b \<le> b_limit b \<and> b_limit b < num4_max"

definition budgets_ok :: "db \<Rightarrow> bool" where
  "budgets_ok d \<longleftrightarrow>
     distinct (map b_id (budgets d)) \<and> distinct (map r_id (reservations d)) \<and>
     (\<forall>r \<in> set (reservations d). r_id r < next_id d \<and> 0 < r_amount r \<and> known b_id (r_budget r) (budgets d)) \<and>
     (\<forall>b \<in> set (budgets d). budget_ok (reservations d) b)"

lemma total_append [simp]:
  "total st bid (rs @ [r]) = total st bid rs + (if r_budget r = bid \<and> r_status r = st then r_amount r else 0)"
  by (simp add: total_def)

lemma total_nonneg: "(\<And>r. r \<in> set rs \<Longrightarrow> 0 < r_amount r) \<Longrightarrow> 0 \<le> total st bid rs"
  unfolding total_def by (rule sum_list_nonneg) (auto simp: less_imp_le)

lemma total_upd:
  assumes "distinct (map r_id rs)" "row_by r_id rid rs = Some r"
    and "r_budget (f r) = r_budget r" "r_amount (f r) = r_amount r"
  shows "total st bid (upd_by r_id rid f rs) = total st bid rs +
    (if r_budget r = bid then (if r_status (f r) = st then r_amount r else 0) -
                              (if r_status r = st then r_amount r else 0) else 0)"
  unfolding total_def sum_upd_by [OF assms(1,2)] using assms(3,4) by simp

lemma budgets_okD:
  assumes "budgets_ok d" "row_by b_id bid (budgets d) = Some b"
  shows "budget_ok (reservations d) b" "b_id b = bid" "0 \<le> b_reserved b" "0 \<le> b_consumed b"
    "\<bar>b_limit b\<bar> < num4_max" "\<bar>b_reserved b\<bar> < num4_max" "\<bar>b_consumed b\<bar> < num4_max"
proof -
  show ok: "budget_ok (reservations d) b"
    using assms row_by_Some_in [OF assms(2)] by (simp add: budgets_ok_def)
  show "b_id b = bid" by (rule row_by_Some_key [OF assms(2)])
  have pos: "\<And>r. r \<in> set (reservations d) \<Longrightarrow> 0 < r_amount r"
    using assms(1) by (simp add: budgets_ok_def)
  show nn: "0 \<le> b_reserved b" "0 \<le> b_consumed b"
    using ok total_nonneg [OF pos] by (simp_all add: budget_ok_def)
  show "\<bar>b_limit b\<bar> < num4_max" "\<bar>b_reserved b\<bar> < num4_max" "\<bar>b_consumed b\<bar> < num4_max"
    using ok nn by (simp_all add: budget_ok_def)
qed

lemma budget_available_eq:
  assumes "budgets_ok d" "row_by b_id bid (budgets d) = Some b"
  shows "budget_available b = of_num4 (b_limit b - b_consumed b - b_reserved b)"
proof -
  note bd = budgets_okD [OF assms]
  have "dsub (of_num4 (b_limit b)) (of_num4 (b_consumed b)) = of_num4 (b_limit b - b_consumed b)"
    by (rule dsub_num4 [OF num4_diff_fits(1) [OF bd(5,7,6)]])
  then show ?thesis
    by (simp add: budget_available_def dsub_num4 [OF num4_diff_fits(2) [OF bd(5,7,6)]])
qed

lemma budget_reserve_cases:
  assumes "budget_reserve bid req amt d = Inr (z, d')"
  shows "(z = None \<and> d' = d) \<or>
    (\<exists>b m. z = Some (next_id d) \<and> row_by b_id bid (budgets d) = Some b \<and> 0 < ten_thousandths amt \<and>
       \<not> dless (budget_available b) amt \<and> num4_plus (b_reserved b) amt = Inr m \<and>
       (b_id b, req) \<notin> keys_of (\<lambda>r. (r_budget r, r_request r)) (reservations d) \<and>
       known q_id req (requests d) \<and>
       d' = d\<lparr>next_id := next_id d + 1,
              reservations := reservations d @
                [\<lparr>r_id = next_id d, r_budget = b_id b, r_request = req, r_amount = ten_thousandths amt,
                  r_currency = b_currency b, r_status = ''RESERVED'', r_released = None, r_consumed = None\<rparr>],
              budgets := upd_by b_id bid (\<lambda>b. b\<lparr>b_reserved := m, b_updated := clock d\<rparr>) (budgets d)\<rparr>)"
proof (cases "row_by b_id bid (budgets d)")
  case None
  with assms show ?thesis by (simp add: budget_reserve_def)
next
  case (Some b)
  show ?thesis
  proof (cases "z = None")
    case True
    with Some assms show ?thesis
      by (auto simp: budget_reserve_def request_currency_def err_simps split: if_splits)
  next
    case False
    with Some assms show ?thesis
      by (auto simp: budget_reserve_def request_currency_def insert_reservation_def references_def err_simps
          table_simps split: if_splits)
  qed
qed

lemma reserved_ok:
  assumes ok: "budgets_ok d" and b: "row_by b_id bid (budgets d) = Some b" and n: "0 < n"
    and le: "n \<le> b_limit b - b_consumed b - b_reserved b"
    and i: "i < nx" "next_id d \<le> nx" "i \<notin> keys_of r_id (reservations d)"
    and d': "d' = d\<lparr>next_id := nx,
              reservations := reservations d @
                [\<lparr>r_id = i, r_budget = b_id b, r_request = req, r_amount = n,
                  r_currency = b_currency b, r_status = ''RESERVED'', r_released = None, r_consumed = None\<rparr>],
              budgets := upd_by b_id bid (\<lambda>c. c\<lparr>b_reserved := b_reserved b + n, b_updated := now\<rparr>) (budgets d)\<rparr>"
  shows "budgets_ok d'"
proof -
  note bd = budgets_okD [OF ok b]
  have ids: "r_id r < next_id d" if "r \<in> set (reservations d)" for r
    using ok that by (simp add: budgets_ok_def)
  have only: "c = b" if "c \<in> set (budgets d)" "b_id c = bid" for c
    using row_by_distinct [of b_id "budgets d" c] that ok b by (simp add: budgets_ok_def)
  have rows: "\<forall>r \<in> set (reservations d'). r_id r < next_id d' \<and> 0 < r_amount r \<and>
      known b_id (r_budget r) (budgets d)"
    using ok n bd(2) row_by_Some_keys [OF b] i(1,2) by (auto simp: d' budgets_ok_def dest: ids)
  have fresh: "distinct (map r_id (reservations d'))"
    using ok i(3) by (simp add: d' budgets_ok_def)
  have "\<forall>c \<in> set (budgets d'). budget_ok (reservations d') c"
    unfolding d'
  proof (simp, rule ball_upd_by)
    fix c
    assume c: "c \<in> set (budgets d)"
    then have "budget_ok (reservations d) c" using ok by (simp add: budgets_ok_def)
    then show "budget_ok (reservations d @
        [\<lparr>r_id = i, r_budget = b_id b, r_request = req, r_amount = n,
          r_currency = b_currency b, r_status = ''RESERVED'', r_released = None, r_consumed = None\<rparr>])
        (if b_id c = bid then c\<lparr>b_reserved := b_reserved b + n, b_updated := now\<rparr> else c)"
      using only [OF c] le bd(2) by (auto simp: budget_ok_def)
  qed
  then show ?thesis using ok rows fresh by (simp add: budgets_ok_def d' table_simps)
qed

lemma keeps_budget_reserve [keeps_intros]: "keeps budgets_ok (budget_reserve bid req amt)"
proof (rule keepsI)
  fix d z d'
  assume ok: "budgets_ok d" and run: "budget_reserve bid req amt d = Inr (z, d')"
  from budget_reserve_cases [OF run] show "budgets_ok d'"
  proof (elim disjE exE conjE)
    fix b m
    let ?n = "ten_thousandths amt"
    assume b: "row_by b_id bid (budgets d) = Some b" and n: "0 < ?n"
      and av: "\<not> dless (budget_available b) amt" and m: "num4_plus (b_reserved b) amt = Inr m"
      and d': "d' = d\<lparr>next_id := next_id d + 1,
              reservations := reservations d @
                [\<lparr>r_id = next_id d, r_budget = b_id b, r_request = req, r_amount = ?n,
                  r_currency = b_currency b, r_status = ''RESERVED'', r_released = None, r_consumed = None\<rparr>],
              budgets := upd_by b_id bid (\<lambda>b. b\<lparr>b_reserved := m, b_updated := clock d\<rparr>) (budgets d)\<rparr>"
    have m': "m = b_reserved b + ?n" by (rule num4_plus_round [OF budgets_okD(3) [OF ok b] n m])
    have le: "?n \<le> b_limit b - b_consumed b - b_reserved b"
      using av ten_thousandths_le [OF _ n] by (simp add: budget_available_eq [OF ok b])
    have new: "next_id d \<notin> keys_of r_id (reservations d)" using ok by (auto simp: budgets_ok_def)
    show ?thesis by (rule reserved_ok [OF ok b n le _ _ new d' [unfolded m']]) simp_all
  qed (use ok in simp)
qed

text \<open>Settling a reservation: it gets a new status and its amount leaves the reserved total, for the
  consumed total when it is consumed.\<close>

definition settled_db :: "(reservation_row \<Rightarrow> reservation_row) \<Rightarrow> reservation_row \<Rightarrow> num4 \<Rightarrow> db \<Rightarrow> db" where
  "settled_db f r spent d = d\<lparr>reservations := upd_by r_id (r_id r) f (reservations d),
     budgets := upd_by b_id (r_budget r)
       (\<lambda>b. b\<lparr>b_reserved := b_reserved b - r_amount r, b_consumed := b_consumed b + spent, b_updated := clock d\<rparr>)
       (budgets d)\<rparr>"

lemma settle_total:
  assumes ok: "budgets_ok d" and r: "row_by r_id rid (reservations d) = Some r"
    and st: "r_status r = ''RESERVED''" "\<And>r. r_status (f r) = st" "st \<noteq> ''RESERVED''"
    and f: "\<And>r. r_id (f r) = r_id r" "\<And>r. r_budget (f r) = r_budget r" "\<And>r. r_amount (f r) = r_amount r"
  shows "total s k (upd_by r_id rid f (reservations d)) = total s k (reservations d) +
      (if r_budget r = k then (if st = s then r_amount r else 0) - (if s = ''RESERVED'' then r_amount r else 0)
       else 0)"
    and "0 \<le> total s k (upd_by r_id rid f (reservations d))"
proof -
  have dist: "distinct (map r_id (reservations d))" using ok by (simp add: budgets_ok_def)
  show "total s k (upd_by r_id rid f (reservations d)) = total s k (reservations d) +
      (if r_budget r = k then (if st = s then r_amount r else 0) - (if s = ''RESERVED'' then r_amount r else 0)
       else 0)"
    using total_upd [where f = f, OF dist r f(2) f(3), of s k] st by auto
  have "0 < r_amount x" if "x \<in> set (upd_by r_id rid f (reservations d))" for x
    using in_upd_by [OF that] ok f(3) by (auto simp: budgets_ok_def)
  then show "0 \<le> total s k (upd_by r_id rid f (reservations d))" by (rule total_nonneg)
qed

lemma settle_step:
  assumes ok: "budgets_ok d" and r: "row_by r_id rid (reservations d) = Some r"
    and st: "r_status r = ''RESERVED''" "\<And>r. r_status (f r) = st" "st \<noteq> ''RESERVED''"
    and f: "\<And>r. r_id (f r) = r_id r" "\<And>r. r_budget (f r) = r_budget r" "\<And>r. r_amount (f r) = r_amount r"
    and spent: "spent = (if st = ''CONSUMED'' then r_amount r else 0)"
  shows "move_budget (r_budget r) (r_amount r) spent
      (d\<lparr>reservations := upd_by r_id rid f (reservations d)\<rparr>) = Inr ((), settled_db f r spent d) \<and>
    budgets_ok (settled_db f r spent d)"
proof -
  let ?rs = "upd_by r_id rid f (reservations d)"
  note tot = settle_total [where f = f, OF ok r st f]
  have rid: "r_id r = rid" and rin: "r \<in> set (reservations d)"
    using row_by_Some_key [OF r] row_by_Some_in [OF r] by simp_all
  have amt: "0 < r_amount r" and kb: "known b_id (r_budget r) (budgets d)"
    using ok rin by (auto simp: budgets_ok_def)
  then obtain b where b: "row_by b_id (r_budget r) (budgets d) = Some b"
    by (cases "row_by b_id (r_budget r) (budgets d)") (auto simp: table_simps)
  note bd = budgets_okD [OF ok b]
  have le: "r_amount r \<le> b_reserved b"
    using tot(2) [of "''RESERVED''" "r_budget r"] bd(1,2) st by (simp add: tot(1) budget_ok_def)
  have sp: "0 \<le> spent" "spent \<le> r_amount r" using amt by (simp_all add: spent)
  have fits: "\<bar>b_reserved b - r_amount r\<bar> < num4_max" "\<bar>b_consumed b + spent\<bar> < num4_max"
    using bd(1,3,4,5) le amt sp by (simp_all add: budget_ok_def)
  have only: "c = b" if "c \<in> set (budgets d)" "b_id c = r_budget r" for c
    using row_by_distinct [of b_id "budgets d" c] that ok b by (simp add: budgets_ok_def)
  then have "upd_by b_id (r_budget r) (\<lambda>c. c\<lparr>b_reserved := b_reserved b - r_amount r,
        b_consumed := b_consumed b + spent, b_updated := clock d\<rparr>) (budgets d) =
      budgets (settled_db f r spent d)"
    unfolding settled_db_def upd_by_def by (auto intro!: map_cong)
  then have run: "move_budget (r_budget r) (r_amount r) spent (d\<lparr>reservations := ?rs\<rparr>) =
      Inr ((), settled_db f r spent d)"
    using b fits bd(4) le sp by (simp add: move_budget_def check_num4_def settled_db_def rid)
  have rows: "\<forall>x \<in> set ?rs. r_id x < next_id d \<and> 0 < r_amount x \<and> known b_id (r_budget x) (budgets d)"
    by (rule ball_upd_by) (use ok f in \<open>auto simp: budgets_ok_def\<close>)
  have "\<forall>c \<in> set (budgets (settled_db f r spent d)). budget_ok ?rs c"
    unfolding settled_db_def by (simp, rule ball_upd_by) (use ok st(3) sp in \<open>auto simp: budgets_ok_def budget_ok_def tot(1) spent\<close>)
  then have "budgets_ok (settled_db f r spent d)"
    using ok rows by (simp add: budgets_ok_def settled_db_def rid table_simps f)
  with run show ?thesis by simp
qed

lemma budget_consume_run:
  assumes "budgets_ok d" "row_by r_id rid (reservations d) = Some r"
  shows "budget_consume rid d = Inr ((), if r_status r = ''RESERVED''
      then settled_db (\<lambda>r. r\<lparr>r_status := ''CONSUMED'', r_consumed := Some (clock d)\<rparr>) r (r_amount r) d else d)"
  using assms settle_step [OF assms, of "\<lambda>r. r\<lparr>r_status := ''CONSUMED'', r_consumed := Some (clock d)\<rparr>" "''CONSUMED''"]
  by (simp add: budget_consume_def)

lemma budget_release_run:
  assumes "budgets_ok d" "row_by r_id rid (reservations d) = Some r"
  shows "budget_release rid d = Inr ((), if r_status r = ''RESERVED''
      then settled_db (\<lambda>r. r\<lparr>r_status := ''RELEASED'', r_released := Some (clock d)\<rparr>) r 0 d else d)"
  using assms settle_step [OF assms, of "\<lambda>r. r\<lparr>r_status := ''RELEASED'', r_released := Some (clock d)\<rparr>" "''RELEASED''"]
  by (simp add: budget_release_def)

lemma keeps_budget_consume [keeps_intros]: "keeps budgets_ok (budget_consume rid)"
proof (rule keepsI)
  fix d z d'
  assume ok: "budgets_ok d" and run: "budget_consume rid d = Inr (z, d')"
  then obtain r where r: "row_by r_id rid (reservations d) = Some r"
    by (cases "row_by r_id rid (reservations d)") (auto simp: budget_consume_def)
  show "budgets_ok d'"
    using run budget_consume_run [OF ok r] ok
      settle_step [OF ok r, of "\<lambda>r. r\<lparr>r_status := ''CONSUMED'', r_consumed := Some (clock d)\<rparr>" "''CONSUMED''"]
    by (auto split: if_splits)
qed

lemma keeps_budget_release [keeps_intros]: "keeps budgets_ok (budget_release rid)"
proof (rule keepsI)
  fix d z d'
  assume ok: "budgets_ok d" and run: "budget_release rid d = Inr (z, d')"
  then obtain r where r: "row_by r_id rid (reservations d) = Some r"
    by (cases "row_by r_id rid (reservations d)") (auto simp: budget_release_def)
  show "budgets_ok d'"
    using run budget_release_run [OF ok r] ok
      settle_step [OF ok r, of "\<lambda>r. r\<lparr>r_status := ''RELEASED'', r_released := Some (clock d)\<rparr>" "''RELEASED''"]
    by (auto split: if_splits)
qed

text \<open>The invariant does not look at the other tables.\<close>

lemma budgets_ok_frame [simp]:
  "budgets_ok (d\<lparr>profile := v_profile\<rparr>) = budgets_ok d"
  "budgets_ok (d\<lparr>clock := v_clock\<rparr>) = budgets_ok d"
  "budgets_ok (d\<lparr>accounts := v_accounts\<rparr>) = budgets_ok d"
  "budgets_ok (d\<lparr>agents := v_agents\<rparr>) = budgets_ok d"
  "budgets_ok (d\<lparr>merchants := v_merchants\<rparr>) = budgets_ok d"
  "budgets_ok (d\<lparr>policies := v_policies\<rparr>) = budgets_ok d"
  "budgets_ok (d\<lparr>policy_versions := v_policy_versions\<rparr>) = budgets_ok d"
  "budgets_ok (d\<lparr>evidences := v_evidences\<rparr>) = budgets_ok d"
  "budgets_ok (d\<lparr>requests := v_requests\<rparr>) = budgets_ok d"
  "budgets_ok (d\<lparr>approvals := v_approvals\<rparr>) = budgets_ok d"
  "budgets_ok (d\<lparr>payments := v_payments\<rparr>) = budgets_ok d"
  "budgets_ok (d\<lparr>operations := v_operations\<rparr>) = budgets_ok d"
  "budgets_ok (d\<lparr>transactions := v_transactions\<rparr>) = budgets_ok d"
  "budgets_ok (d\<lparr>journals := v_journals\<rparr>) = budgets_ok d"
  "budgets_ok (d\<lparr>postings := v_postings\<rparr>) = budgets_ok d"
  "budgets_ok (d\<lparr>wallets := v_wallets\<rparr>) = budgets_ok d"
  "budgets_ok (d\<lparr>ledger_accounts := v_ledger_accounts\<rparr>) = budgets_ok d"
  "budgets_ok (d\<lparr>provider_accounts := v_provider_accounts\<rparr>) = budgets_ok d"
  "budgets_ok (d\<lparr>provider_events := v_provider_events\<rparr>) = budgets_ok d"
  "budgets_ok (d\<lparr>settlements := v_settlements\<rparr>) = budgets_ok d"
  "budgets_ok (d\<lparr>reconciliations := v_reconciliations\<rparr>) = budgets_ok d"
  "budgets_ok (d\<lparr>outbox := v_outbox\<rparr>) = budgets_ok d"
  "budgets_ok (d\<lparr>audit_log := v_audit_log\<rparr>) = budgets_ok d"
  "budgets_ok (d\<lparr>notifications := v_notifications\<rparr>) = budgets_ok d"
  by (simp_all add: budgets_ok_def)

lemma keeps_draw_budgets_ok [keeps_intros]: "keeps budgets_ok draw_id"
  by (rule keepsI) (auto simp: budgets_ok_def less_Suc_eq)

section \<open>Refinement of the in-memory budget\<close>

text \<open>A budget row read as the in-memory budget of the service.\<close>

definition budget_of :: "budget_row \<Rightarrow> Budget" where
  "budget_of b = \<lparr>limit = of_num4 (b_limit b), consumed = of_num4 (b_consumed b), reserved = of_num4 (b_reserved b)\<rparr>"

lemma dzero_num4: "dle (of_num4 n) dzero \<longleftrightarrow> n \<le> 0"
  by (simp add: dle_def at_exp_def)

text \<open>C21: reserving through the repository is the in-memory reservation on the budget's row:
  the repository answers None and changes nothing exactly when the in-memory budget refuses, and
  otherwise it records a new reservation and the row becomes the reserved in-memory budget.\<close>

theorem reserve_refines:
  assumes ok: "budgets_ok d" and b: "row_by b_id bid (budgets d) = Some b"
    and q: "row_by q_id req (requests d) = Some q" "upper (strip (q_currency q)) = upper (strip (b_currency b))"
    and fresh: "(bid, req) \<notin> keys_of (\<lambda>r. (r_budget r, r_request r)) (reservations d)"
    and n: "0 < n" "n < num4_max"
  shows "if fst (projr (reserve (budget_of b) (of_num4 n)))
    then \<exists>rid d' b'. budget_reserve bid req (of_num4 n) d = Inr (Some rid, d') \<and>
      row_by b_id bid (budgets d') = Some b' \<and> reserve (budget_of b) (of_num4 n) = Inr (True, budget_of b') \<and>
      known r_id rid (reservations d')
    else reserve (budget_of b) (of_num4 n) = Inr (False, budget_of b) \<and>
      budget_reserve bid req (of_num4 n) d = Inr (None, d)"
proof -
  note bd = budgets_okD [OF ok b]
  have av: "available (budget_of b) = budget_available b"
    by (simp add: available_def budget_of_def budget_available_def)
  have pos: "\<not> dle (of_num4 n) dzero" using n by (simp add: dzero_num4)
  have kq: "known q_id req (requests d)" by (rule row_by_Some_keys [OF q(1)])
  have cur: "request_currency req d = Inr (upper (strip (b_currency b)), d)"
    using q by (simp add: request_currency_def)
  show ?thesis
  proof (cases "dless (budget_available b) (of_num4 n)")
    case True
    with pos av b cur show ?thesis
      by (simp add: reserve_def budget_reserve_def)
  next
    case False
    then have le: "n \<le> b_limit b - b_consumed b - b_reserved b"
      by (simp add: budget_available_eq [OF ok b] not_less)
    have fits: "\<bar>b_reserved b + n\<bar> < num4_max" using le n(1) bd(1,3,4) by (simp add: budget_ok_def)
    have plus: "num4_plus (b_reserved b) (of_num4 n) = Inr (b_reserved b + n)"
      using fits by (simp add: num4_plus_def at_exp_def to_num4_def ten_thousandths_def check_num4_def Let_def)
    have dplus: "dadd (of_num4 (b_reserved b)) (of_num4 n) = of_num4 (b_reserved b + n)"
      using fits num4_max_lt by (intro dadd_num4) simp
    have nodup: "row_by (\<lambda>r. (r_budget r, r_request r)) (bid, req) (reservations d) = None"
      using fresh by (simp add: table_simps)
    have "positive_num4 (of_num4 n) = Inr n" using n by (simp add: positive_num4_eq)
    then show ?thesis
      using False pos av b cur nodup kq plus dplus bd(2)
      by (simp add: reserve_def budget_reserve_def insert_reservation_def references_def table_simps budget_of_def)
  qed
qed

theorem reserve_refines_witness:
  "if fst (projr (reserve (budget_of sample_budget) (of_num4 250000)))
   then \<exists>rid d' b'. budget_reserve 3 4 (of_num4 250000) sample_db = Inr (Some rid, d') \<and>
     row_by b_id 3 (budgets d') = Some b' \<and>
     reserve (budget_of sample_budget) (of_num4 250000) = Inr (True, budget_of b') \<and> known r_id rid (reservations d')
   else reserve (budget_of sample_budget) (of_num4 250000) = Inr (False, budget_of sample_budget) \<and>
     budget_reserve 3 4 (of_num4 250000) sample_db = Inr (None, sample_db)"
proof -
  have h: "budgets_ok sample_db" "row_by b_id 3 (budgets sample_db) = Some sample_budget"
    "row_by q_id 4 (requests sample_db) = Some sample_request"
    "upper (strip (q_currency sample_request)) = upper (strip (b_currency sample_budget))"
    "(3, 4) \<notin> keys_of (\<lambda>r. (r_budget r, r_request r)) (reservations sample_db)"
    "0 < (250000::int)" "250000 < num4_max"
    by (simp_all add: budgets_ok_def budget_ok_def total_def sample_defs num4_max_def)
  show ?thesis by (rule reserve_refines [OF h])
qed

text \<open>C22: settling a held reservation never fails, whatever the other reservations are, and
  moves the budget's row exactly as the in-memory budget moves: consuming is \<open>consume\<close> and releasing
  is \<open>release\<close> of the reserved amount; settling it a second time, in either way, changes nothing.\<close>

theorem settle_refines:
  assumes ok: "budgets_ok d" and r: "row_by r_id rid (reservations d) = Some r" "r_status r = ''RESERVED''"
    and b: "row_by b_id (r_budget r) (budgets d) = Some b"
  shows "(\<exists>d' b'. budget_consume rid d = Inr ((), d') \<and> row_by b_id (r_budget r) (budgets d') = Some b' \<and>
      consume (budget_of b) (of_num4 (r_amount r)) = Inr (budget_of b') \<and>
      budget_consume rid d' = Inr ((), d') \<and> budget_release rid d' = Inr ((), d')) \<and>
    (\<exists>d' b'. budget_release rid d = Inr ((), d') \<and> row_by b_id (r_budget r) (budgets d') = Some b' \<and>
      release (budget_of b) (of_num4 (r_amount r)) = Inr (budget_of b') \<and>
      budget_consume rid d' = Inr ((), d') \<and> budget_release rid d' = Inr ((), d'))"
proof -
  note bd = budgets_okD [OF ok b]
  have rid: "r_id r = rid" by (rule row_by_Some_key [OF r(1)])
  have amt: "0 < r_amount r" using ok row_by_Some_in [OF r(1)] by (simp add: budgets_ok_def)
  have le: "r_amount r \<le> b_reserved b"
  proof -
    have "0 \<le> total ''RESERVED'' (r_budget r)
        (upd_by r_id rid (\<lambda>r. r\<lparr>r_status := ''RELEASED''\<rparr>) (reservations d))"
      by (rule total_nonneg) (use ok in_upd_by in \<open>fastforce simp: budgets_ok_def\<close>)
    moreover have "distinct (map r_id (reservations d))" using ok by (simp add: budgets_ok_def)
    ultimately show ?thesis
      using total_upd [where f = "\<lambda>r. r\<lparr>r_status := ''RELEASED''\<rparr>", OF _ r(1), of "''RESERVED''" "r_budget r"]
        bd(1,2) r(2) by (simp add: budget_ok_def)
  qed
  have dec: "dsub (of_num4 (b_reserved b)) (of_num4 (r_amount r)) = of_num4 (b_reserved b - r_amount r)"
    using amt le bd(3,6) num4_max_lt by (intro dsub_num4) simp
  have inc: "dadd (of_num4 (b_consumed b)) (of_num4 (r_amount r)) = of_num4 (b_consumed b + r_amount r)"
    using amt le bd(1,3,4) num4_max_lt by (intro dadd_num4) (simp add: budget_ok_def)
  show ?thesis
    using budget_consume_run [OF ok r(1)] budget_release_run [OF ok r(1)] r b rid le dec inc
    by (simp add: settled_db_def table_simps consume_def release_def budget_of_def budget_consume_def
        budget_release_def not_less)
qed

definition held_db :: db where
  "held_db = sample_db\<lparr>next_id := 11,
     reservations := [\<lparr>r_id = 10, r_budget = 3, r_request = 4, r_amount = 250000, r_currency = ''USD'',
       r_status = ''RESERVED'', r_released = None, r_consumed = None\<rparr>],
     budgets := [sample_budget\<lparr>b_reserved := 250000\<rparr>]\<rparr>"

theorem settle_refines_witness:
  "\<exists>r b d' b'. row_by r_id 10 (reservations held_db) = Some r \<and> row_by b_id 3 (budgets held_db) = Some b \<and>
     budget_consume 10 held_db = Inr ((), d') \<and> row_by b_id 3 (budgets d') = Some b' \<and>
     consume (budget_of b) (of_num4 250000) = Inr (budget_of b') \<and> budget_release 10 d' = Inr ((), d')"
proof -
  let ?r = "\<lparr>r_id = 10, r_budget = 3, r_request = 4, r_amount = 250000, r_currency = ''USD'',
       r_status = ''RESERVED'', r_released = None, r_consumed = None\<rparr>"
  have h: "budgets_ok held_db" "row_by r_id 10 (reservations held_db) = Some ?r" "r_status ?r = ''RESERVED''"
    "row_by b_id (r_budget ?r) (budgets held_db) = Some (sample_budget\<lparr>b_reserved := 250000\<rparr>)"
    by (simp_all add: budgets_ok_def budget_ok_def total_def sample_defs held_db_def num4_max_def)
  show ?thesis using settle_refines [OF h] h by auto
qed

end
