(* ===== verification/Ledger.thy ===== *)
theory Ledger
  imports Repositories
begin

text \<open>
  \<open>ledger.py\<close>: the in-memory journal and ledger, and \<open>post_journal\<close>, which persists a
  double-entry journal in the caller's transaction. The code adds amounts in the decimal context; the
  lemmas show when these sums are exact. The invariant \<open>ledger_ok\<close> says that every stored journal
  is balanced.
\<close>

section \<open>The in-memory ledger\<close>

datatype direction = DEBIT | CREDIT

record posting =
  po_account :: string
  po_direction :: direction
  po_amount :: decimal
  po_currency :: string

record journal =
  journal_id :: string
  journal_postings :: "posting list"

definition sum_decimals :: "decimal list \<Rightarrow> decimal" where
  "sum_decimals xs = foldl dadd dzero xs"

definition side_amounts :: "direction \<Rightarrow> posting list \<Rightarrow> decimal list" where
  "side_amounts s ps = map po_amount (filter (\<lambda>p. po_direction p = s) ps)"

definition journal_validate :: "journal \<Rightarrow> exn + unit" where
  "journal_validate j =
     (let ps = journal_postings j;
          debit = sum_decimals (side_amounts DEBIT ps);
          credit = sum_decimals (side_amounts CREDIT ps)
      in if ps = [] then Inl (ValueError ''journal must contain postings'')
         else if card (po_currency ` set ps) \<noteq> 1 then Inl (ValueError ''journal must contain one currency'')
         else if dle debit dzero \<or> dle credit dzero \<or> \<not> deq debit credit then
           Inl (ValueError ''journal is not balanced'')
         else if (\<exists>p \<in> set ps. dle (po_amount p) dzero) then
           Inl (ValueError ''posting amount must be positive'')
         else Inr ())"

text \<open>Equality of two journals, where amounts compare by number.\<close>

definition posting_value :: "posting \<Rightarrow> string \<times> direction \<times> rat \<times> string" where
  "posting_value p = (po_account p, po_direction p, dval (po_amount p), po_currency p)"

definition same_journal :: "journal \<Rightarrow> journal \<Rightarrow> bool" where
  "same_journal a b \<longleftrightarrow> journal_id a = journal_id b \<and>
     map posting_value (journal_postings a) = map posting_value (journal_postings b)"

type_synonym ledger = "string \<rightharpoonup> journal"

definition ledger_post :: "ledger \<Rightarrow> journal \<Rightarrow> exn + ledger" where
  "ledger_post l j =
     bindE (journal_validate j) (\<lambda>_.
       case l (journal_id j) of
         Some old \<Rightarrow> (if \<not> same_journal old j then Inl (ValueError ''journal id conflict'') else Inr l)
       | None \<Rightarrow> Inr (l(journal_id j \<mapsto> j)))"

section \<open>Exact sums\<close>

text \<open>Amounts with at most four decimal places and at most \<open>10 ^ 16\<close> in size, a million of them at
  most: their sums stay within the context's precision.\<close>

definition small_amounts :: "decimal list \<Rightarrow> bool" where
  "small_amounts xs \<longleftrightarrow> length xs \<le> 10 ^ 6 \<and> (\<forall>x \<in> set xs. - 4 \<le> dexp x \<and> \<bar>dval x\<bar> \<le> 10 ^ 16)"

lemma sum_decimals_exact:
  assumes "small_amounts xs"
  shows "dval (sum_decimals xs) = sum_list (map dval xs)"
proof -
  have "dval (foldl dadd a xs) = dval a + sum_list (map dval xs)"
    if "\<forall>x \<in> set xs. - 4 \<le> dexp x \<and> \<bar>dval x\<bar> \<le> 10 ^ 16" "- 4 \<le> dexp a"
      "\<bar>dval a\<bar> + of_nat (length xs) * 10 ^ 16 \<le> 10 ^ 22" for a xs
    using that
  proof (induction xs arbitrary: a)
    case Nil
    then show ?case by simp
  next
    case (Cons x xs)
    have x: "- 4 \<le> dexp x" "\<bar>dval x\<bar> \<le> 10 ^ 16" using Cons.prems(1) by auto
    have nn: "0 \<le> (of_nat (length xs) :: rat) * 10 ^ 16" by simp
    have le: "\<bar>dval a\<bar> + 10 ^ 16 + of_nat (length xs) * 10 ^ 16 \<le> 10 ^ 22"
      using Cons.prems(3) by (simp add: algebra_simps)
    have b: "\<bar>dval a\<bar> \<le> 10 ^ 23" "\<bar>dval x\<bar> \<le> 10 ^ 23"
      using le nn x by simp_all
    have s: "dval (dadd a x) = dval a + dval x" "dexp (dadd a x) = min (dexp a) (dexp x)"
      using dadd_dsub_money [OF Cons.prems(2) x(1)] b by auto
    have tri: "\<bar>dval a + dval x\<bar> \<le> \<bar>dval a\<bar> + 10 ^ 16" using x(2) by linarith
    have "dval (foldl dadd (dadd a x) xs) = dval (dadd a x) + sum_list (map dval xs)"
      by (rule Cons.IH) (use Cons.prems(1,2) x(1) s tri le in auto)
    then show ?case using s by simp
  qed
  from this [of xs dzero] show ?thesis
    using assms by (simp add: sum_decimals_def dval_def small_amounts_def)
qed

section \<open>What validation accepts\<close>

definition side_sum :: "direction \<Rightarrow> posting list \<Rightarrow> rat" where
  "side_sum s ps = sum_list (map dval (side_amounts s ps))"

definition balanced :: "journal \<Rightarrow> bool" where
  "balanced j \<longleftrightarrow>
     (\<exists>c. \<forall>p \<in> set (journal_postings j). po_currency p = c) \<and>
     (\<forall>p \<in> set (journal_postings j). 0 < dval (po_amount p)) \<and>
     side_sum DEBIT (journal_postings j) = side_sum CREDIT (journal_postings j) \<and>
     0 < side_sum DEBIT (journal_postings j)"

lemma small_side_amounts: "small_amounts (map po_amount ps) \<Longrightarrow> small_amounts (side_amounts s ps)"
  by (auto simp: small_amounts_def side_amounts_def intro: le_trans [OF length_filter_le])

lemma card_image_1: "card (f ` set xs) = 1 \<longleftrightarrow> xs \<noteq> [] \<and> (\<exists>c. \<forall>x \<in> set xs. f x = c)"
proof
  assume "card (f ` set xs) = 1"
  then obtain c where "f ` set xs = {c}" by (auto simp: card_1_singleton_iff)
  then show "xs \<noteq> [] \<and> (\<exists>c. \<forall>x \<in> set xs. f x = c)" by auto
next
  assume r: "xs \<noteq> [] \<and> (\<exists>c. \<forall>x \<in> set xs. f x = c)"
  then obtain c where c: "\<forall>x \<in> set xs. f x = c" by blast
  then have "f ` set xs = {c}" using r by (cases xs) auto
  then show "card (f ` set xs) = 1" by simp
qed

lemma validate_balanced:
  assumes "small_amounts (map po_amount (journal_postings j))"
  shows "journal_validate j = Inr () \<longleftrightarrow> balanced j"
proof -
  let ?ps = "journal_postings j"
  have sums: "dval (sum_decimals (side_amounts s ?ps)) = side_sum s ?ps" for s
    by (simp add: side_sum_def sum_decimals_exact [OF small_side_amounts [OF assms]])
  have ne: "0 < side_sum DEBIT ?ps \<Longrightarrow> ?ps \<noteq> []"
    by (auto simp: side_sum_def side_amounts_def)
  show ?thesis
    using ne by (auto simp: journal_validate_def Let_def balanced_def dec_simps sums card_image_1 [unfolded One_nat_def] not_le
        split: if_splits) (metis not_less)
qed

text \<open>For journals of money amounts (at most four decimal places, at most
  \<open>10 ^ 16\<close> each and a million postings) validation accepts exactly the balanced ones: a single
  currency, positive amounts, and debits and credits that are equal as exact numbers and not zero; the
  rounding of the decimal context never makes it accept or refuse a journal wrongly.\<close>

theorem journal_validate_iff:
  assumes "small_amounts (map po_amount (journal_postings j))"
  shows "journal_validate j = Inr () \<longleftrightarrow> balanced j"
  by (rule validate_balanced [OF assms])

definition sample_journal :: journal where
  "sample_journal = \<lparr>journal_id = ''j'', journal_postings =
     [\<lparr>po_account = ''customer'', po_direction = DEBIT, po_amount = Dec 25 0, po_currency = ''USD''\<rparr>,
      \<lparr>po_account = ''clearing'', po_direction = CREDIT, po_amount = Dec 2500 (- 2), po_currency = ''USD''\<rparr>]\<rparr>"

theorem journal_validate_iff_witness:
  "small_amounts (map po_amount (journal_postings sample_journal)) \<and>
   (journal_validate sample_journal = Inr () \<longleftrightarrow> balanced sample_journal)"
proof -
  have h: "small_amounts (map po_amount (journal_postings sample_journal))"
    by (simp add: small_amounts_def sample_journal_def dval_def)
  show ?thesis using h journal_validate_iff [OF h] by blast
qed

section \<open>Stores that remember the first entry of a key\<close>

text \<open>The contract shared by the in-memory ledger and the in-memory outbox: adding an entry under a new
  key stores it, adding an equal entry again changes at most the representation of what is stored, and
  adding a different one raises.\<close>

locale keyed_store =
  fixes key :: "'e \<Rightarrow> string" and same :: "'e \<Rightarrow> 'e \<Rightarrow> bool"
    and look :: "'s \<Rightarrow> string \<Rightarrow> 'e option" and add :: "'s \<Rightarrow> 'e \<Rightarrow> exn + 's"
  assumes same_refl: "same e e"
    and same_sym: "same a b \<Longrightarrow> same b a"
    and same_trans: "same a b \<Longrightarrow> same b c \<Longrightarrow> same a c"
    and add_effect: "add s e = Inr s' \<Longrightarrow>
       (\<exists>e'. look s' = (look s)(key e \<mapsto> e') \<and> same e' e \<and>
         (\<forall>old. look s (key e) = Some old \<longrightarrow> same old e'))"
begin

fun add_all :: "'s \<Rightarrow> 'e list \<Rightarrow> 's" where
  "add_all s [] = s"
| "add_all s (e # es) = add_all (case add s e of Inl _ \<Rightarrow> s | Inr s' \<Rightarrow> s') es"

lemma add_keeps:
  assumes "look s k = Some e"
  shows "\<exists>e'. look (case add s x of Inl _ \<Rightarrow> s | Inr s' \<Rightarrow> s') k = Some e' \<and> same e e'"
proof (cases "add s x")
  case (Inl e)
  with assms same_refl show ?thesis by auto
next
  case (Inr s')
  then obtain e' where s': "look s' = (look s)(key x \<mapsto> e')"
    and old: "\<And>o1. look s (key x) = Some o1 \<Longrightarrow> same o1 e'"
    using add_effect by blast
  show ?thesis
    using assms Inr old same_refl by (cases "k = key x") (auto simp: s')
qed

lemma add_all_keeps:
  assumes "look s k = Some e"
  shows "\<exists>e'. look (add_all s es) k = Some e' \<and> same e e'"
  using assms
proof (induction es arbitrary: s e)
  case Nil
  then show ?case using same_refl by simp
next
  case (Cons x es)
  obtain e1 where "look (case add s x of Inl _ \<Rightarrow> s | Inr s' \<Rightarrow> s') k = Some e1" "same e e1"
    using add_keeps [where s = s and k = k, OF Cons.prems] by blast
  with Cons.IH [of "case add s x of Inl _ \<Rightarrow> s | Inr s' \<Rightarrow> s'" e1] same_trans show ?case by auto
qed

lemma first_entry_stays:
  assumes "add s e = Inr s'"
  shows "\<exists>e'. look (add_all s' es) (key e) = Some e' \<and> same e' e"
proof -
  obtain e0 where s': "look s' = (look s)(key e \<mapsto> e0)" "same e0 e" using add_effect [OF assms] by blast
  then have "look s' (key e) = Some e0" by simp
  from add_all_keeps [where s = s' and k = "key e", OF this] s'(2) same_sym same_trans show ?thesis by blast
qed

end

lemma same_journal_refl: "same_journal j j"
  by (simp add: same_journal_def)

lemma ledger_post_effect:
  assumes "ledger_post l j = Inr l'"
  shows "\<exists>e'. l' = l(journal_id j \<mapsto> e') \<and> same_journal e' j \<and>
    (\<forall>old. l (journal_id j) = Some old \<longrightarrow> same_journal old e')"
proof (cases "l (journal_id j)")
  case None
  with assms show ?thesis by (auto simp: ledger_post_def err_simps same_journal_refl)
next
  case (Some old)
  with assms have "l' = l" "same_journal old j" by (auto simp: ledger_post_def err_simps split: if_splits)
  with Some show ?thesis by (intro exI [of _ old]) (auto simp: same_journal_refl)
qed

interpretation ledger_store: keyed_store journal_id same_journal "\<lambda>l k. l k" ledger_post
proof
  show "same_journal e e" for e by (rule same_journal_refl)
  show "same_journal a b \<Longrightarrow> same_journal b a" for a b
    by (simp add: same_journal_def)
  show "same_journal a b \<Longrightarrow> same_journal b c \<Longrightarrow> same_journal a c" for a b c
    by (simp add: same_journal_def)
  show "ledger_post s e = Inr s' \<Longrightarrow> \<exists>e'. (\<lambda>k. s' k) = (\<lambda>k. s k)(journal_id e \<mapsto> e') \<and> same_journal e' e \<and>
      (\<forall>old. s (journal_id e) = Some old \<longrightarrow> same_journal old e')" for s e s'
    by (rule ledger_post_effect)
qed

fun post_all :: "ledger \<Rightarrow> journal list \<Rightarrow> ledger" where
  "post_all l [] = l"
| "post_all l (j # js) = post_all (case ledger_post l j of Inl _ \<Rightarrow> l | Inr l' \<Rightarrow> l') js"

lemma post_all_store: "post_all l js = ledger_store.add_all l js"
  by (induction js arbitrary: l) simp_all

text \<open>Once a journal has been posted, the ledger keeps it: whatever is posted later,
  accepted or refused, the journal id still leads to a journal with the same postings.\<close>

theorem posted_journal_stays:
  assumes "ledger_post l j = Inr l'"
  shows "\<exists>e. post_all l' js (journal_id j) = Some e \<and> same_journal e j"
  unfolding post_all_store by (rule ledger_store.first_entry_stays [OF assms])

theorem posted_journal_stays_witness:
  "\<exists>e. post_all [''j'' \<mapsto> sample_journal] [sample_journal\<lparr>journal_postings := []\<rparr>] ''j'' = Some e \<and>
     same_journal e sample_journal"
proof -
  have "balanced sample_journal"
    by (simp add: balanced_def sample_journal_def side_sum_def side_amounts_def dval_def)
  moreover have "small_amounts (map po_amount (journal_postings sample_journal))"
    by (simp add: small_amounts_def sample_journal_def dval_def)
  ultimately have "journal_validate sample_journal = Inr ()" using validate_balanced by blast
  then have h: "ledger_post Map.empty sample_journal = Inr [''j'' \<mapsto> sample_journal]"
    by (simp add: ledger_post_def sample_journal_def)
  have k: "journal_id sample_journal = ''j''" by (simp add: sample_journal_def)
  show ?thesis using posted_journal_stays [OF h, of "[sample_journal\<lparr>journal_postings := []\<rparr>]"] unfolding k .
qed

section \<open>The persistent ledger\<close>

record posting_spec =
  ps_account :: nat
  ps_side :: string
  ps_amount :: decimal
  ps_currency :: string

definition spec_amounts :: "string \<Rightarrow> posting_spec list \<Rightarrow> decimal list" where
  "spec_amounts side ps = map ps_amount (filter (\<lambda>p. ps_side p = side) ps)"

definition insert_posting :: "nat \<Rightarrow> posting_spec \<Rightarrow> unit tx" where
  "insert_posting jid p =
     bindT (liftT (char3 (ps_currency p))) (\<lambda>cur3.
     bindT (liftT (positive_num4 (ps_amount p))) (\<lambda>n.
     bindT (guardT (ps_side p \<in> {''DEBIT'', ''CREDIT''}) (CheckViolation ''ledger_postings_side_check'')) (\<lambda>_.
     bindT (queryT (\<lambda>d. known la_id (ps_account p) (ledger_accounts d))) (\<lambda>ref_ok.
     bindT (references ref_ok ''ledger_postings'') (\<lambda>_.
     modifyT (\<lambda>d. d\<lparr>postings := postings d @
       [\<lparr>l_journal = jid, l_account = ps_account p, l_side = ps_side p, l_amount = n, l_currency = cur3\<rparr>]\<rparr>))))))"

fun insert_postings :: "nat \<Rightarrow> posting_spec list \<Rightarrow> unit tx" where
  "insert_postings jid [] = returnT ()"
| "insert_postings jid (p # ps) = bindT (insert_posting jid p) (\<lambda>_. insert_postings jid ps)"

definition insert_journal :: "string \<Rightarrow> string \<Rightarrow> nat option \<Rightarrow> string \<Rightarrow> string option \<Rightarrow> nat tx" where
  "insert_journal cur rtype ref key corr =
     bindT (liftT (char3 cur)) (\<lambda>cur3.
     bindT draw_id (\<lambda>i.
     bindT (modifyT (\<lambda>d. d\<lparr>journals := journals d @
       [\<lparr>j_id = i, j_currency = cur3, j_reference_type = rtype, j_reference = ref, j_key = key,
         j_correlation = corr\<rparr>]\<rparr>)) (\<lambda>_.
     returnT i)))"

definition post_journal ::
    "string \<Rightarrow> string \<Rightarrow> nat option \<Rightarrow> string \<Rightarrow> string option \<Rightarrow> posting_spec list \<Rightarrow> nat tx" where
  "post_journal cur rtype ref key corr ps =
     (let debit = sum_decimals (spec_amounts ''DEBIT'' ps);
          credit = sum_decimals (spec_amounts ''CREDIT'' ps)
      in if ps = [] \<or> dle debit dzero \<or> dle credit dzero \<or> \<not> deq debit credit then
           raiseT (ValueError ''ledger journal must be balanced'')
         else if (\<exists>p \<in> set ps. ps_currency p \<noteq> cur) then
           raiseT (ValueError ''all postings must use the journal currency'')
         else
           bindT (queryT (\<lambda>d. row_by j_key key (journals d))) (\<lambda>existing.
           case existing of
             Some j \<Rightarrow> returnT (j_id j)
           | None \<Rightarrow>
               bindT (insert_journal cur rtype ref key corr) (\<lambda>jid.
               bindT (insert_postings jid ps) (\<lambda>_.
               returnT jid))))"

text \<open>Posting draws ids and appends to the two ledger tables only.\<close>

lemma keeps_post_journal_appends:
  assumes "keeps I draw_id" "\<And>d j. I d \<Longrightarrow> I (d\<lparr>journals := journals d @ [j]\<rparr>)"
    "\<And>d l. I d \<Longrightarrow> I (d\<lparr>postings := postings d @ [l]\<rparr>)"
  shows "keeps I (post_journal cur rtype ref key corr ps)"
proof -
  have "keeps I (insert_postings jid ps)" for jid
  proof (induction ps)
    case Nil
    show ?case unfolding insert_postings.simps by (rule keeps_return)
  next
    case (Cons p ps)
    then show ?case
      unfolding insert_postings.simps insert_posting_def references_def
      by (intro keeps_intros keeps_modify) (simp_all add: assms(3))
  qed
  then show ?thesis
    unfolding post_journal_def insert_journal_def
    by (intro keeps_intros keeps_modify assms(1)) (simp_all add: assms(2))
qed

lemma keeps_post_journal:
  assumes "keeps I draw_id" "\<And>d js. I (d\<lparr>journals := js\<rparr>) = I d" "\<And>d ls. I (d\<lparr>postings := ls\<rparr>) = I d"
  shows "keeps I (post_journal cur rtype ref key corr ps)"
  by (rule keeps_post_journal_appends [OF assms(1)]) (simp_all add: assms(2,3))

section \<open>The ledger stays balanced\<close>

definition line_total :: "string \<Rightarrow> nat \<Rightarrow> posting_row list \<Rightarrow> num4" where
  "line_total side jid ls = sum_list (map (\<lambda>l. if l_journal l = jid \<and> l_side l = side then l_amount l else 0) ls)"

definition journal_ok :: "posting_row list \<Rightarrow> journal_row \<Rightarrow> bool" where
  "journal_ok ls j \<longleftrightarrow>
     line_total ''DEBIT'' (j_id j) ls = line_total ''CREDIT'' (j_id j) ls \<and>
     0 < line_total ''DEBIT'' (j_id j) ls \<and>
     (\<forall>l \<in> set ls. l_journal l = j_id j \<longrightarrow> l_currency l = j_currency j)"

definition ledger_ok :: "db \<Rightarrow> bool" where
  "ledger_ok d \<longleftrightarrow>
     distinct (map j_id (journals d)) \<and> distinct (map j_key (journals d)) \<and>
     (\<forall>j \<in> set (journals d). j_id j < next_id d \<and> journal_ok (postings d) j) \<and>
     (\<forall>l \<in> set (postings d). known j_id (l_journal l) (journals d) \<and> 0 < l_amount l \<and>
        l_side l \<in> {''DEBIT'', ''CREDIT''})"

definition stored_line :: "nat \<Rightarrow> string \<Rightarrow> posting_spec \<Rightarrow> posting_row" where
  "stored_line jid cur3 p = \<lparr>l_journal = jid, l_account = ps_account p, l_side = ps_side p,
     l_amount = ten_thousandths (ps_amount p), l_currency = cur3\<rparr>"

lemma insert_postings_effect:
  assumes "insert_postings jid ps d = Inr (u, d')" "\<forall>p \<in> set ps. ps_currency p = cur" "char3 cur = Inr cur3"
  shows "d' = d\<lparr>postings := postings d @ map (stored_line jid cur3) ps\<rparr> \<and>
    (\<forall>p \<in> set ps. 0 < ten_thousandths (ps_amount p) \<and> ps_side p \<in> {''DEBIT'', ''CREDIT''})"
  using assms(1,2)
proof (induction ps arbitrary: d)
  case Nil
  then show ?case by simp
next
  case (Cons p ps)
  then obtain d1 where 1: "insert_posting jid p d = Inr ((), d1)" and 2: "insert_postings jid ps d1 = Inr (u, d')"
    by (auto simp: err_simps)
  have d1: "d1 = d\<lparr>postings := postings d @ [stored_line jid cur3 p]\<rparr>"
    and ok: "0 < ten_thousandths (ps_amount p)" "ps_side p \<in> {''DEBIT'', ''CREDIT''}"
    using 1 Cons.prems(2) assms(3)
    by (auto simp: insert_posting_def references_def err_simps stored_line_def split: if_splits)
  from Cons.IH [OF 2] Cons.prems(2) ok show ?case by (simp add: d1)
qed

lemma post_journal_cases:
  assumes "post_journal cur rtype ref key corr ps d = Inr (jid, d')"
  shows "(d' = d \<and> known j_key key (journals d)) \<or>
    (\<exists>cur3. jid = next_id d \<and> char3 cur = Inr cur3 \<and> key \<notin> keys_of j_key (journals d) \<and>
      deq (sum_decimals (spec_amounts ''DEBIT'' ps)) (sum_decimals (spec_amounts ''CREDIT'' ps)) \<and>
      0 < dval (sum_decimals (spec_amounts ''DEBIT'' ps)) \<and>
      (\<forall>p \<in> set ps. 0 < ten_thousandths (ps_amount p) \<and> ps_side p \<in> {''DEBIT'', ''CREDIT''}) \<and>
      d' = d\<lparr>next_id := next_id d + 1,
             journals := journals d @ [\<lparr>j_id = next_id d, j_currency = cur3, j_reference_type = rtype,
               j_reference = ref, j_key = key, j_correlation = corr\<rparr>],
             postings := postings d @ map (stored_line (next_id d) cur3) ps\<rparr>)"
proof (cases "row_by j_key key (journals d)")
  case (Some j)
  then have "d' = d" using assms by (auto simp: post_journal_def Let_def split: if_split_asm)
  with row_by_Some_keys [OF Some] show ?thesis by simp
next
  case None
  then have nk: "key \<notin> keys_of j_key (journals d)" by (simp add: table_simps)
  let ?deb = "sum_decimals (spec_amounts ''DEBIT'' ps)" and ?cre = "sum_decimals (spec_amounts ''CREDIT'' ps)"
  have c1: "\<not> (ps = [] \<or> dle ?deb dzero \<or> dle ?cre dzero \<or> \<not> deq ?deb ?cre)"
  proof
    assume "ps = [] \<or> dle ?deb dzero \<or> dle ?cre dzero \<or> \<not> deq ?deb ?cre"
    then show False using assms unfolding post_journal_def Let_def by simp
  qed
  have c2: "\<not> (\<exists>p \<in> set ps. ps_currency p \<noteq> cur)"
  proof
    assume "\<exists>p \<in> set ps. ps_currency p \<noteq> cur"
    then show False using assms c1 unfolding post_journal_def Let_def by simp
  qed
  have run0: "bindT (insert_journal cur rtype ref key corr) (\<lambda>jid. bindT (insert_postings jid ps) (\<lambda>_. returnT jid)) d =
      Inr (jid, d')"
    using assms c1 c2 None unfolding post_journal_def Let_def by simp
  obtain cur3 where c3: "char3 cur = Inr cur3"
    using run0 by (cases "char3 cur") (auto simp: insert_journal_def)
  let ?d1 = "d\<lparr>next_id := next_id d + 1, journals := journals d @ [\<lparr>j_id = next_id d, j_currency = cur3,
     j_reference_type = rtype, j_reference = ref, j_key = key, j_correlation = corr\<rparr>]\<rparr>"
  obtain u where run: "insert_postings (next_id d) ps ?d1 = Inr (u, d')" and jid: "jid = next_id d"
    using run0 c3 by (cases "insert_postings (next_id d) ps ?d1") (auto simp: insert_journal_def)
  have pre: "\<forall>p \<in> set ps. ps_currency p = cur" "deq ?deb ?cre" "0 < dval ?deb"
    using c1 c2 by (simp_all add: dec_simps not_le)
  from insert_postings_effect [OF run pre(1) c3] show ?thesis
    using pre jid c3 nk by simp
qed

definition stored_sum :: "string \<Rightarrow> posting_spec list \<Rightarrow> num4" where
  "stored_sum side ps = sum_list (map ten_thousandths (spec_amounts side ps))"

lemma line_total_append:
  "line_total side k (ls @ map (stored_line i c) ps) =
     line_total side k ls + (if i = k then stored_sum side ps else 0)"
proof -
  have "line_total side k (map (stored_line i c) ps) = (if i = k then stored_sum side ps else 0)"
    by (induction ps) (auto simp: line_total_def stored_sum_def spec_amounts_def stored_line_def)
  then show ?thesis by (simp add: line_total_def)
qed

lemma line_total_fresh: "(\<And>l. l \<in> set ls \<Longrightarrow> l_journal l \<noteq> k) \<Longrightarrow> line_total side k ls = 0"
  unfolding line_total_def by (induction ls) auto

lemma stored_sum_pos:
  assumes "\<forall>p \<in> set ps. 0 < ten_thousandths (ps_amount p)" "spec_amounts side ps \<noteq> []"
  shows "0 < stored_sum side ps"
proof -
  have "0 < sum_list (map ten_thousandths xs)" if "xs \<noteq> []" "\<forall>x \<in> set xs. 0 < ten_thousandths x" for xs
    using that
  proof (induction xs)
    case (Cons x xs)
    then show ?case by (cases "xs = []") auto
  qed simp
  moreover have "\<forall>x \<in> set (spec_amounts side ps). 0 < ten_thousandths x"
    using assms(1) by (auto simp: spec_amounts_def)
  ultimately show ?thesis using assms(2) unfolding stored_sum_def by blast
qed

lemma post_journal_ledger_ok:
  assumes ok: "ledger_ok d" and run: "post_journal cur rtype ref key corr ps d = Inr (jid, d')"
    and eq: "stored_sum ''DEBIT'' ps = stored_sum ''CREDIT'' ps"
  shows "ledger_ok d'"
  using post_journal_cases [OF run]
proof (elim disjE exE conjE)
  assume "d' = d"
  with ok show ?thesis by simp
next
  fix cur3
  let ?j = "\<lparr>j_id = next_id d, j_currency = cur3, j_reference_type = rtype, j_reference = ref, j_key = key,
    j_correlation = corr\<rparr>"
  let ?new = "map (stored_line (next_id d) cur3) ps"
  assume nk: "key \<notin> keys_of j_key (journals d)" and pos: "0 < dval (sum_decimals (spec_amounts ''DEBIT'' ps))"
    and lines: "\<forall>p \<in> set ps. 0 < ten_thousandths (ps_amount p) \<and> ps_side p \<in> {''DEBIT'', ''CREDIT''}"
    and d': "d' = d\<lparr>next_id := next_id d + 1, journals := journals d @ [?j], postings := postings d @ ?new\<rparr>"
  have ids: "\<And>j. j \<in> set (journals d) \<Longrightarrow> j_id j < next_id d" using ok by (simp add: ledger_ok_def)
  have old: "\<And>l. l \<in> set (postings d) \<Longrightarrow> l_journal l \<noteq> next_id d"
    using ok ids by (fastforce simp: ledger_ok_def)
  have ne: "spec_amounts ''DEBIT'' ps \<noteq> []"
  proof
    assume "spec_amounts ''DEBIT'' ps = []"
    with pos show False by (simp add: sum_decimals_def dval_def)
  qed
  have "0 < stored_sum ''DEBIT'' ps" by (rule stored_sum_pos) (use lines ne in auto)
  then have new: "journal_ok (postings d @ ?new) ?j"
    using eq old by (auto simp: journal_ok_def line_total_append line_total_fresh stored_line_def)
  have olds: "journal_ok (postings d @ ?new) j" if "j \<in> set (journals d)" for j
  proof -
    have "j_id j \<noteq> next_id d" using ids [OF that] by simp
    moreover have "journal_ok (postings d) j" using ok that by (simp add: ledger_ok_def)
    ultimately show ?thesis by (auto simp: journal_ok_def line_total_append stored_line_def)
  qed
  have ls: "\<forall>l \<in> set (postings d @ ?new). known j_id (l_journal l) (journals d @ [?j]) \<and> 0 < l_amount l \<and>
      l_side l \<in> {''DEBIT'', ''CREDIT''}"
    using ok lines by (auto simp: ledger_ok_def stored_line_def)
  have js: "\<forall>j \<in> set (journals d @ [?j]). j_id j < next_id d + 1 \<and> journal_ok (postings d @ ?new) j"
    using olds new ids by (auto simp: less_Suc_eq)
  have dist: "distinct (map j_id (journals d @ [?j]))" "distinct (map j_key (journals d @ [?j]))"
    using ok nk less_irrefl by (auto simp: ledger_ok_def dest: ids)
  show ?thesis
    unfolding ledger_ok_def d' using dist js ls by simp
qed

lemma ledger_ok_frame [simp]:
  "ledger_ok (d\<lparr>profile := v_profile\<rparr>) = ledger_ok d"
  "ledger_ok (d\<lparr>clock := v_clock\<rparr>) = ledger_ok d"
  "ledger_ok (d\<lparr>accounts := v_accounts\<rparr>) = ledger_ok d"
  "ledger_ok (d\<lparr>agents := v_agents\<rparr>) = ledger_ok d"
  "ledger_ok (d\<lparr>merchants := v_merchants\<rparr>) = ledger_ok d"
  "ledger_ok (d\<lparr>policies := v_policies\<rparr>) = ledger_ok d"
  "ledger_ok (d\<lparr>policy_versions := v_policy_versions\<rparr>) = ledger_ok d"
  "ledger_ok (d\<lparr>budgets := v_budgets\<rparr>) = ledger_ok d"
  "ledger_ok (d\<lparr>reservations := v_reservations\<rparr>) = ledger_ok d"
  "ledger_ok (d\<lparr>evidences := v_evidences\<rparr>) = ledger_ok d"
  "ledger_ok (d\<lparr>requests := v_requests\<rparr>) = ledger_ok d"
  "ledger_ok (d\<lparr>approvals := v_approvals\<rparr>) = ledger_ok d"
  "ledger_ok (d\<lparr>payments := v_payments\<rparr>) = ledger_ok d"
  "ledger_ok (d\<lparr>operations := v_operations\<rparr>) = ledger_ok d"
  "ledger_ok (d\<lparr>transactions := v_transactions\<rparr>) = ledger_ok d"
  "ledger_ok (d\<lparr>wallets := v_wallets\<rparr>) = ledger_ok d"
  "ledger_ok (d\<lparr>ledger_accounts := v_ledger_accounts\<rparr>) = ledger_ok d"
  "ledger_ok (d\<lparr>provider_accounts := v_provider_accounts\<rparr>) = ledger_ok d"
  "ledger_ok (d\<lparr>provider_events := v_provider_events\<rparr>) = ledger_ok d"
  "ledger_ok (d\<lparr>settlements := v_settlements\<rparr>) = ledger_ok d"
  "ledger_ok (d\<lparr>reconciliations := v_reconciliations\<rparr>) = ledger_ok d"
  "ledger_ok (d\<lparr>outbox := v_outbox\<rparr>) = ledger_ok d"
  "ledger_ok (d\<lparr>audit_log := v_audit_log\<rparr>) = ledger_ok d"
  "ledger_ok (d\<lparr>notifications := v_notifications\<rparr>) = ledger_ok d"
  by (simp_all add: ledger_ok_def)

lemma keeps_draw_ledger_ok [keeps_intros]: "keeps ledger_ok draw_id"
  by (rule keepsI) (auto simp: ledger_ok_def less_Suc_eq)

text \<open>The journals of the program: one debit and one credit of the same amount.\<close>

definition two_lines :: "nat \<Rightarrow> nat \<Rightarrow> decimal \<Rightarrow> string \<Rightarrow> posting_spec list" where
  "two_lines debit_account credit_account amt cur =
     [\<lparr>ps_account = debit_account, ps_side = ''DEBIT'', ps_amount = amt, ps_currency = cur\<rparr>,
      \<lparr>ps_account = credit_account, ps_side = ''CREDIT'', ps_amount = amt, ps_currency = cur\<rparr>]"

lemma keeps_post_pair [keeps_intros]:
  "keeps ledger_ok (post_journal cur rtype ref key corr (two_lines a b amt cur'))"
  by (rule keepsI, erule post_journal_ledger_ok, assumption)
    (simp add: two_lines_def stored_sum_def spec_amounts_def)

text \<open>Exactness for money amounts.\<close>

lemma stored_sum_exact:
  assumes "\<forall>x \<in> set xs. - 4 \<le> dexp x"
  shows "of_int (sum_list (map ten_thousandths xs)) * 10 powi (- 4) = sum_list (map dval xs)"
  using assms
proof (induction xs)
  case (Cons x xs)
  have "dval (of_num4 (ten_thousandths x)) = dval x" using Cons.prems by (simp add: ten_thousandths_exact)
  with Cons show ?case by (simp add: dval_of_num4 algebra_simps)
qed simp




end
