(* ===== verification/Outbox.thy ===== *)
theory Outbox
  imports Ledger
begin

text \<open>
  \<open>outbox.py\<close>: the in-memory outbox and the transactional outbox in PostgreSQL: enqueueing in the
  caller's transaction, claiming a batch, acknowledging, returning to pending with a back-off, and
  recovering claims whose lease has expired. The lemmas describe the life of one event.
\<close>

section \<open>The in-memory outbox\<close>

record outbox_event =
  event_id :: string
  event_type :: string
  aggregate_id :: string
  event_payload :: json
  event_created :: int

text \<open>Equality of events; the members of a payload are compared without regard to their order.\<close>

definition same_event :: "outbox_event \<Rightarrow> outbox_event \<Rightarrow> bool" where
  "same_event a b \<longleftrightarrow>
     a\<lparr>event_payload := JNull\<rparr> = b\<lparr>event_payload := JNull\<rparr> \<and>
     sort_members (event_payload a) = sort_members (event_payload b)"

type_synonym memory_outbox = "outbox_event list"

definition outbox_append :: "memory_outbox \<Rightarrow> outbox_event \<Rightarrow> exn + memory_outbox" where
  "outbox_append es e =
     (case row_by event_id (event_id e) es of
        None \<Rightarrow> Inr (es @ [e])
      | Some old \<Rightarrow>
          (if \<not> same_event old e then Inl (ValueError ''outbox event id conflict'')
           else Inr (upd_by event_id (event_id e) (\<lambda>_. e) es)))"

definition outbox_pending :: "memory_outbox \<Rightarrow> outbox_event list" where
  "outbox_pending es = es"

definition new_event :: "int \<Rightarrow> string \<Rightarrow> string \<Rightarrow> string \<Rightarrow> json \<Rightarrow> outbox_event" where
  "new_event now eid ty agg payload =
     \<lparr>event_id = eid, event_type = ty, aggregate_id = agg, event_payload = payload, event_created = now\<rparr>"

lemma row_by_replace:
  "row_by event_id k (upd_by event_id (event_id e) (\<lambda>_. e) es) =
     (if k = event_id e then map_option (\<lambda>_. e) (row_by event_id k es) else row_by event_id k es)"
  by (induction es) auto

lemma outbox_append_effect:
  assumes "outbox_append es e = Inr es'"
  shows "\<exists>e'. (\<lambda>k. row_by event_id k es') = (\<lambda>k. row_by event_id k es)(event_id e \<mapsto> e') \<and> same_event e' e \<and>
    (\<forall>old. row_by event_id (event_id e) es = Some old \<longrightarrow> same_event old e')"
proof (cases "row_by event_id (event_id e) es")
  case None
  with assms have "es' = es @ [e]" by (simp add: outbox_append_def)
  with None show ?thesis
    by (intro exI [of _ e]) (auto simp: row_by_append same_event_def fun_eq_iff split: option.split)
next
  case (Some old)
  with assms have "es' = upd_by event_id (event_id e) (\<lambda>_. e) es" "same_event old e"
    by (auto simp: outbox_append_def split: if_splits)
  with Some show ?thesis
    by (intro exI [of _ e]) (auto simp: row_by_replace same_event_def fun_eq_iff)
qed

interpretation outbox_store: keyed_store event_id same_event "\<lambda>es k. row_by event_id k es" outbox_append
proof
  show "same_event e e" for e by (simp add: same_event_def)
  show "same_event a b \<Longrightarrow> same_event b a" for a b by (simp add: same_event_def)
  show "same_event a b \<Longrightarrow> same_event b c \<Longrightarrow> same_event a c" for a b c by (simp add: same_event_def)
  show "outbox_append s e = Inr s' \<Longrightarrow> \<exists>e'. (\<lambda>k. row_by event_id k s') = (\<lambda>k. row_by event_id k s)(event_id e \<mapsto> e') \<and>
      same_event e' e \<and> (\<forall>old. row_by event_id (event_id e) s = Some old \<longrightarrow> same_event old e')" for s e s'
    by (rule outbox_append_effect)
qed

lemma appended_event_stays:
  "outbox_append es e = Inr es' \<Longrightarrow>
     \<exists>e'. row_by event_id (event_id e) (outbox_store.add_all es' later) = Some e' \<and> same_event e' e"
  by (rule outbox_store.first_entry_stays)

section \<open>The transactional outbox\<close>

definition enqueue :: "string \<Rightarrow> string \<Rightarrow> nat \<Rightarrow> json \<Rightarrow> string option \<Rightarrow> nat tx" where
  "enqueue ty aggty agg payload corr =
     bindT draw_id (\<lambda>i.
     bindT (modifyT (\<lambda>d. d\<lparr>outbox := outbox d @
       [\<lparr>x_id = i, x_type = ty, x_aggregate_type = aggty, x_aggregate = agg, x_payload = payload,
         x_correlation = corr, x_status = ''PENDING'', x_attempts = 0, x_available = clock d,
         x_processing = None, x_published = None, x_created = clock d, x_error = None\<rparr>]\<rparr>)) (\<lambda>_.
     returnT i))"

text \<open>The rows a batch claims: pending and due, oldest first, at most \<open>n\<close>. RETURNING has no
  promised order; the model returns the rows in table order.\<close>

definition due :: "int \<Rightarrow> outbox_row \<Rightarrow> bool" where
  "due now x \<longleftrightarrow> x_status x = ''PENDING'' \<and> x_available x \<le> now"

definition batch_ids :: "nat \<Rightarrow> db \<Rightarrow> nat list" where
  "batch_ids n d = map x_id (take n (sort_key x_created (filter (due (clock d)) (outbox d))))"

definition claim_row :: "int \<Rightarrow> outbox_row \<Rightarrow> outbox_row" where
  "claim_row now x = x\<lparr>x_status := ''PROCESSING'', x_attempts := x_attempts x + 1, x_processing := Some now\<rparr>"

definition claim_batch :: "nat \<Rightarrow> outbox_row list tx" where
  "claim_batch n =
     bindT (queryT (batch_ids n)) (\<lambda>ids.
     bindT (modifyT (\<lambda>d. d\<lparr>outbox := map (\<lambda>x. if x_id x \<in> set ids then claim_row (clock d) x else x) (outbox d)\<rparr>)) (\<lambda>_.
     queryT (\<lambda>d. filter (\<lambda>x. x_id x \<in> set ids) (outbox d))))"

definition update_processing :: "nat \<Rightarrow> (int \<Rightarrow> outbox_row \<Rightarrow> outbox_row) \<Rightarrow> unit tx" where
  "update_processing eid f =
     modifyT (\<lambda>d. d\<lparr>outbox := upd_by x_id eid
       (\<lambda>x. if x_status x = ''PROCESSING'' then f (clock d) x else x) (outbox d)\<rparr>)"

definition mark_published :: "nat \<Rightarrow> unit tx" where
  "mark_published eid =
     update_processing eid (\<lambda>now x. x\<lparr>x_status := ''PUBLISHED'', x_published := Some now, x_processing := None\<rparr>)"

definition mark_failed :: "nat \<Rightarrow> int \<Rightarrow> string option \<Rightarrow> unit tx" where
  "mark_failed eid retry_after error =
     bindT (guardT (0 \<le> retry_after) (ValueError ''retry_after_seconds must be non-negative'')) (\<lambda>_.
     update_processing eid (\<lambda>now x. x\<lparr>x_status := ''PENDING'', x_available := now + retry_after * 1000000,
       x_error := error, x_processing := None\<rparr>))"

definition lease_expired :: "int \<Rightarrow> int \<Rightarrow> outbox_row \<Rightarrow> bool" where
  "lease_expired now lease x \<longleftrightarrow> x_status x = ''PROCESSING'' \<and>
     (case x_processing x of None \<Rightarrow> False | Some t \<Rightarrow> t < now - lease * 1000000)"

definition recover_row :: "int \<Rightarrow> int \<Rightarrow> outbox_row \<Rightarrow> outbox_row" where
  "recover_row now max_attempts x =
     x\<lparr>x_status := (if max_attempts \<le> int (x_attempts x) then ''DEAD_LETTER'' else ''PENDING''),
       x_available := now, x_processing := None,
       x_error := coalesce (x_error x) (Some ''worker lease expired'')\<rparr>"

definition recover_stale :: "int \<Rightarrow> int \<Rightarrow> nat tx" where
  "recover_stale lease max_attempts =
     bindT (guardT (1 \<le> lease \<and> 1 \<le> max_attempts) (ValueError ''lease_seconds and max_attempts must be positive'')) (\<lambda>_.
     bindT (queryT (\<lambda>d. length (filter (lease_expired (clock d) lease) (outbox d)))) (\<lambda>n.
     bindT (modifyT (\<lambda>d. d\<lparr>outbox := map (\<lambda>x. if lease_expired (clock d) lease x
       then recover_row (clock d) max_attempts x else x) (outbox d)\<rparr>)) (\<lambda>_.
     returnT n)))"

section \<open>The life of an event\<close>

text \<open>One transaction of a publisher, at any time.\<close>

inductive outbox_step :: "db \<Rightarrow> db \<Rightarrow> bool" where
  claimed: "claim_batch n d = Inr (rows, d') \<Longrightarrow> outbox_step d d'"
| published: "mark_published eid d = Inr (u, d') \<Longrightarrow> outbox_step d d'"
| failed: "mark_failed eid retry error d = Inr (u, d') \<Longrightarrow> outbox_step d d'"
| recovered: "recover_stale lease max_attempts d = Inr (n, d') \<Longrightarrow> outbox_step d d'"
| enqueued: "enqueue ty aggty agg payload corr d = Inr (i, d') \<Longrightarrow> outbox_step d d'"
| time: "clock d \<le> t \<Longrightarrow> outbox_step d (d\<lparr>clock := t\<rparr>)"

definition terminal_status :: "string \<Rightarrow> bool" where
  "terminal_status s \<longleftrightarrow> s \<in> {''PUBLISHED'', ''DEAD_LETTER''}"

definition outbox_ids_ok :: "db \<Rightarrow> bool" where
  "outbox_ids_ok d \<longleftrightarrow> distinct (map x_id (outbox d)) \<and> (\<forall>x \<in> set (outbox d). x_id x < next_id d)"

lemma outbox_ids_ok_frame [simp]:
  "outbox_ids_ok (d\<lparr>profile := v_profile\<rparr>) = outbox_ids_ok d"
  "outbox_ids_ok (d\<lparr>clock := v_clock\<rparr>) = outbox_ids_ok d"
  "outbox_ids_ok (d\<lparr>accounts := v_accounts\<rparr>) = outbox_ids_ok d"
  "outbox_ids_ok (d\<lparr>agents := v_agents\<rparr>) = outbox_ids_ok d"
  "outbox_ids_ok (d\<lparr>merchants := v_merchants\<rparr>) = outbox_ids_ok d"
  "outbox_ids_ok (d\<lparr>policies := v_policies\<rparr>) = outbox_ids_ok d"
  "outbox_ids_ok (d\<lparr>policy_versions := v_policy_versions\<rparr>) = outbox_ids_ok d"
  "outbox_ids_ok (d\<lparr>budgets := v_budgets\<rparr>) = outbox_ids_ok d"
  "outbox_ids_ok (d\<lparr>reservations := v_reservations\<rparr>) = outbox_ids_ok d"
  "outbox_ids_ok (d\<lparr>evidences := v_evidences\<rparr>) = outbox_ids_ok d"
  "outbox_ids_ok (d\<lparr>requests := v_requests\<rparr>) = outbox_ids_ok d"
  "outbox_ids_ok (d\<lparr>approvals := v_approvals\<rparr>) = outbox_ids_ok d"
  "outbox_ids_ok (d\<lparr>payments := v_payments\<rparr>) = outbox_ids_ok d"
  "outbox_ids_ok (d\<lparr>operations := v_operations\<rparr>) = outbox_ids_ok d"
  "outbox_ids_ok (d\<lparr>transactions := v_transactions\<rparr>) = outbox_ids_ok d"
  "outbox_ids_ok (d\<lparr>journals := v_journals\<rparr>) = outbox_ids_ok d"
  "outbox_ids_ok (d\<lparr>postings := v_postings\<rparr>) = outbox_ids_ok d"
  "outbox_ids_ok (d\<lparr>wallets := v_wallets\<rparr>) = outbox_ids_ok d"
  "outbox_ids_ok (d\<lparr>ledger_accounts := v_ledger_accounts\<rparr>) = outbox_ids_ok d"
  "outbox_ids_ok (d\<lparr>provider_accounts := v_provider_accounts\<rparr>) = outbox_ids_ok d"
  "outbox_ids_ok (d\<lparr>provider_events := v_provider_events\<rparr>) = outbox_ids_ok d"
  "outbox_ids_ok (d\<lparr>settlements := v_settlements\<rparr>) = outbox_ids_ok d"
  "outbox_ids_ok (d\<lparr>reconciliations := v_reconciliations\<rparr>) = outbox_ids_ok d"
  "outbox_ids_ok (d\<lparr>audit_log := v_audit_log\<rparr>) = outbox_ids_ok d"
  "outbox_ids_ok (d\<lparr>notifications := v_notifications\<rparr>) = outbox_ids_ok d"
  by (simp_all add: outbox_ids_ok_def)

lemma keeps_draw_outbox_ids_ok [keeps_intros]: "keeps outbox_ids_ok draw_id"
  by (rule keepsI) (auto simp: outbox_ids_ok_def less_Suc_eq)

text \<open>What one step may do to an event: keep it, claim it when it is pending, or settle it when it is in
  process. Its identity and content never change.\<close>

definition event_moves :: "outbox_row \<Rightarrow> outbox_row \<Rightarrow> bool" where
  "event_moves x y \<longleftrightarrow>
     x_id y = x_id x \<and> x_type y = x_type x \<and> x_aggregate y = x_aggregate x \<and> x_payload y = x_payload x \<and>
     x_created y = x_created x \<and>
     (y = x \<or>
      (x_status x = ''PENDING'' \<and> x_status y = ''PROCESSING'' \<and> x_attempts y = x_attempts x + 1) \<or>
      (x_status x = ''PROCESSING'' \<and> x_status y \<in> {''PUBLISHED'', ''PENDING'', ''DEAD_LETTER''} \<and>
       x_attempts y = x_attempts x))"

lemma event_moves_refl [simp]: "event_moves x x"
  by (simp add: event_moves_def)

lemma map_moves:
  assumes "\<And>x. x \<in> set xs \<Longrightarrow> event_moves x (f x)"
  shows "list_all2 event_moves xs (map f xs)"
  using assms by (induction xs) auto

lemma batch_due:
  assumes "outbox_ids_ok d" "x \<in> set (outbox d)" "x_id x \<in> set (batch_ids n d)"
  shows "due (clock d) x"
proof -
  obtain y where y: "y \<in> set (outbox d)" "due (clock d) y" "x_id y = x_id x"
  proof -
    from assms(3) obtain y where "y \<in> set (take n (sort_key x_created (filter (due (clock d)) (outbox d))))"
      "x_id y = x_id x" by (auto simp: batch_ids_def)
    with that show thesis by (auto dest!: in_set_takeD)
  qed
  have "y = x"
    using row_by_distinct [of x_id "outbox d"] assms(1,2) y unfolding outbox_ids_ok_def by (metis option.inject)
  with y show ?thesis by simp
qed

lemma moved_in_place:
  assumes "outbox_ids_ok d" "outbox d' = map f (outbox d)" "next_id d' = next_id d"
    and moves: "\<And>x. x \<in> set (outbox d) \<Longrightarrow> event_moves x (f x)"
  shows "\<exists>old new. outbox d' = old @ new \<and> list_all2 event_moves (outbox d) old \<and>
    (\<forall>x \<in> set new. x_status x = ''PENDING'' \<and> x_attempts x = 0) \<and> outbox_ids_ok d'"
proof -
  have "x_id (f x) = x_id x" if "x \<in> set (outbox d)" for x using moves [OF that] by (simp add: event_moves_def)
  then have "map x_id (outbox d') = map x_id (outbox d)" by (simp add: assms(2))
  moreover from this have "x_id ` set (outbox d') = x_id ` set (outbox d)" by (metis set_map)
  ultimately have "outbox_ids_ok d'" using assms(1,3) by (force simp: outbox_ids_ok_def)
  with map_moves [OF moves] show ?thesis by (intro exI [of _ "outbox d'"] exI [of _ "[]"]) (simp add: assms(2))
qed

lemma outbox_step_moves:
  assumes "outbox_step d d'" "outbox_ids_ok d"
  shows "\<exists>old new. outbox d' = old @ new \<and> list_all2 event_moves (outbox d) old \<and>
    (\<forall>x \<in> set new. x_status x = ''PENDING'' \<and> x_attempts x = 0) \<and> outbox_ids_ok d'"
  using assms(1)
proof (cases rule: outbox_step.cases)
  case (claimed n rows)
  then have "outbox d' = map (\<lambda>x. if x_id x \<in> set (batch_ids n d) then claim_row (clock d) x else x) (outbox d)"
    "next_id d' = next_id d"
    by (auto simp: claim_batch_def)
  then show ?thesis
    by (rule moved_in_place [OF assms(2)])
      (use batch_due [OF assms(2)] in \<open>auto simp: event_moves_def claim_row_def due_def\<close>)
next
  case (published eid u)
  then have "outbox d' = upd_by x_id eid (\<lambda>x. if x_status x = ''PROCESSING''
      then x\<lparr>x_status := ''PUBLISHED'', x_published := Some (clock d), x_processing := None\<rparr> else x) (outbox d)"
    "next_id d' = next_id d"
    by (auto simp: mark_published_def update_processing_def)
  then show ?thesis unfolding upd_by_def by (rule moved_in_place [OF assms(2)]) (auto simp: event_moves_def)
next
  case (failed eid retry error u)
  then have "outbox d' = upd_by x_id eid (\<lambda>x. if x_status x = ''PROCESSING''
      then x\<lparr>x_status := ''PENDING'', x_available := clock d + retry * 1000000,
        x_error := error, x_processing := None\<rparr> else x) (outbox d)"
    "next_id d' = next_id d"
    by (auto simp: mark_failed_def update_processing_def split: if_splits)
  then show ?thesis unfolding upd_by_def by (rule moved_in_place [OF assms(2)]) (auto simp: event_moves_def)
next
  case (recovered lease max_attempts n)
  then have "outbox d' = map (\<lambda>x. if lease_expired (clock d) lease x then recover_row (clock d) max_attempts x else x)
      (outbox d)" "next_id d' = next_id d"
    by (auto simp: recover_stale_def split: if_splits)
  then show ?thesis
    by (rule moved_in_place [OF assms(2)]) (auto simp: event_moves_def recover_row_def lease_expired_def)
next
  case (enqueued ty aggty agg payload corr i)
  then obtain x where x: "outbox d' = outbox d @ [x]" "x_id x = next_id d" "x_status x = ''PENDING''" "x_attempts x = 0"
    "next_id d' = next_id d + 1"
    by (auto simp: enqueue_def)
  have "next_id d \<notin> keys_of x_id (outbox d)" using assms(2) by (fastforce simp: outbox_ids_ok_def)
  then have "outbox_ids_ok d'" using assms(2) x by (auto simp: outbox_ids_ok_def less_Suc_eq)
  with x show ?thesis by (intro exI [of _ "outbox d"] exI [of _ "[x]"]) (auto intro!: list.rel_refl)
next
  case (time t)
  then show ?thesis
    using assms(2) by (intro exI [of _ "outbox d"] exI [of _ "[]"]) (auto intro!: list.rel_refl simp: outbox_ids_ok_def)
qed

lemma list_all2_in1: "list_all2 R xs ys \<Longrightarrow> x \<in> set xs \<Longrightarrow> \<exists>y \<in> set ys. R x y"
  by (induction rule: list_all2_induct) auto

lemma outbox_step_event:
  assumes "outbox_step d d'" "outbox_ids_ok d" "x \<in> set (outbox d)"
  shows "\<exists>y \<in> set (outbox d'). event_moves x y"
  using outbox_step_moves [OF assms(1,2)] list_all2_in1 [OF _ assms(3)] by fastforce

lemma event_moves_terminal: "event_moves x y \<Longrightarrow> terminal_status (x_status x) \<Longrightarrow> y = x"
  by (auto simp: event_moves_def terminal_status_def)

text \<open>No event is lost or altered: after any number of transactions of any number of
  publishers, an event of the outbox is still there with its type, aggregate and payload, its attempt
  count never decreased, and once it was published or dead-lettered it never changes again.\<close>

theorem outbox_history:
  assumes "outbox_step\<^sup>*\<^sup>* d d'" "outbox_ids_ok d" "x \<in> set (outbox d)"
  shows "\<exists>y. y \<in> set (outbox d') \<and> x_id y = x_id x \<and> x_type y = x_type x \<and> x_aggregate y = x_aggregate x \<and>
    x_payload y = x_payload x \<and> x_attempts x \<le> x_attempts y \<and> (terminal_status (x_status x) \<longrightarrow> y = x)"
proof -
  have "outbox_ids_ok d' \<and> (\<exists>y \<in> set (outbox d'). x_id y = x_id x \<and> x_type y = x_type x \<and>
      x_aggregate y = x_aggregate x \<and> x_payload y = x_payload x \<and> x_attempts x \<le> x_attempts y \<and>
      (terminal_status (x_status x) \<longrightarrow> y = x))"
    using assms(1)
  proof (induction rule: rtranclp_induct)
    case base
    then show ?case using assms(2,3) by auto
  next
    case (step d1 d2)
    then obtain y where y: "y \<in> set (outbox d1)" "x_id y = x_id x" "x_type y = x_type x"
      "x_aggregate y = x_aggregate x" "x_payload y = x_payload x" "x_attempts x \<le> x_attempts y"
      "terminal_status (x_status x) \<longrightarrow> y = x" by blast
    obtain z where z: "z \<in> set (outbox d2)" "event_moves y z"
      using outbox_step_event [OF step.hyps(2) _ y(1)] step.IH by blast
    have "outbox_ids_ok d2" using outbox_step_moves [OF step.hyps(2)] step.IH by blast
    moreover have "terminal_status (x_status x) \<longrightarrow> z = x"
      using event_moves_terminal [OF z(2)] y(7) by metis
    ultimately show ?case using y z by (fastforce simp: event_moves_def)
  qed
  then show ?thesis by blast
qed

definition sample_event :: outbox_row where
  "sample_event = \<lparr>x_id = 10, x_type = ''PaymentStarted'', x_aggregate_type = ''payment'', x_aggregate = 5,
     x_payload = JObj [], x_correlation = None, x_status = ''PENDING'', x_attempts = 0, x_available = 0,
     x_processing = None, x_published = None, x_created = 0, x_error = None\<rparr>"

definition event_db :: db where
  "event_db = sample_db\<lparr>next_id := 11, outbox := [sample_event]\<rparr>"

theorem outbox_history_witness:
  "\<exists>d' y. outbox_step\<^sup>*\<^sup>* event_db d' \<and> outbox_ids_ok event_db \<and> outbox d' \<noteq> outbox event_db \<and>
     y \<in> set (outbox d') \<and> x_id y = 10 \<and> x_payload y = x_payload sample_event"
proof -
  let ?d' = "event_db\<lparr>outbox := [claim_row 0 sample_event]\<rparr>"
  have "claim_batch 5 event_db = Inr ([claim_row 0 sample_event], ?d')"
    by (simp add: claim_batch_def batch_ids_def event_db_def sample_event_def due_def sample_db_def claim_row_def)
  then have h: "outbox_step\<^sup>*\<^sup>* event_db ?d'" by (blast intro: outbox_step.claimed)
  have o1: "outbox_ids_ok event_db" "sample_event \<in> set (outbox event_db)"
    by (simp_all add: outbox_ids_ok_def event_db_def sample_event_def)
  have ne: "outbox ?d' \<noteq> outbox event_db"
    by (simp add: event_db_def claim_row_def sample_event_def)
  have "x_id sample_event = 10" by (simp add: sample_event_def)
  with outbox_history [OF h o1] h o1 ne show ?thesis by metis
qed



end
