(* ===== verification/Provider.thy ===== *)
theory Provider
  imports Domain
begin

text \<open>
  \<open>provider.py\<close> and \<open>rails.py\<close>: the outcome of a provider call, the three
  provider implementations of the repository (mock, sandbox, simulated rail) and the contract
  they share: the first call with an idempotency key is executed and recorded, every later call
  with that key returns the recorded outcome and changes nothing. \<open>sha\<close> (hashlib) is a
  parameter of the operations that build provider references.
\<close>

datatype ProviderOutcome = O_SUCCEEDED | O_FAILED | O_UNKNOWN

fun outcome_value :: "ProviderOutcome \<Rightarrow> string" where
  "outcome_value O_SUCCEEDED = ''SUCCEEDED''"
| "outcome_value O_FAILED = ''FAILED''"
| "outcome_value O_UNKNOWN = ''UNKNOWN_EXTERNAL_OUTCOME''"

section \<open>The mock provider\<close>

record mock_provider =
  m_outcome :: ProviderOutcome
  m_calls :: int
  m_results :: "string \<rightharpoonup> ProviderOutcome"
  m_references :: "string \<rightharpoonup> string"

definition new_mock :: "ProviderOutcome \<Rightarrow> mock_provider" where
  "new_mock out = \<lparr>m_outcome = out, m_calls = 0, m_results = Map.empty, m_references = Map.empty\<rparr>"

definition mock_run ::
    "(string \<Rightarrow> string) \<Rightarrow> mock_provider \<Rightarrow> string \<Rightarrow> ProviderOutcome \<times> mock_provider" where
  "mock_run sha p key =
     (case m_results p key of
        Some out \<Rightarrow> (out, p)
      | None \<Rightarrow>
          (m_outcome p,
           p\<lparr>m_calls := m_calls p + 1,
             m_results := (m_results p)(key \<mapsto> m_outcome p),
             m_references := (m_references p)(key \<mapsto> ''mock-'' @ take 16 (sha key))\<rparr>))"

definition mock_reference_for :: "mock_provider \<Rightarrow> string \<Rightarrow> string option" where
  "mock_reference_for p key = m_references p key"

section \<open>The sandbox provider\<close>

record sandbox_provider =
  sb_default_outcome :: ProviderOutcome
  sb_calls :: int
  sb_results :: "string \<rightharpoonup> ProviderOutcome"
  sb_references :: "string \<rightharpoonup> string"
  sb_planned :: "string \<rightharpoonup> ProviderOutcome"

definition new_sandbox :: "ProviderOutcome \<Rightarrow> sandbox_provider" where
  "new_sandbox out = \<lparr>sb_default_outcome = out, sb_calls = 0, sb_results = Map.empty,
     sb_references = Map.empty, sb_planned = Map.empty\<rparr>"

definition sandbox_plan :: "sandbox_provider \<Rightarrow> string \<Rightarrow> ProviderOutcome \<Rightarrow> sandbox_provider" where
  "sandbox_plan p key out = p\<lparr>sb_planned := (sb_planned p)(key \<mapsto> out)\<rparr>"

definition sandbox_run ::
    "(string \<Rightarrow> string) \<Rightarrow> sandbox_provider \<Rightarrow> string \<Rightarrow> ProviderOutcome \<times> sandbox_provider" where
  "sandbox_run sha p key =
     (case sb_results p key of
        Some out \<Rightarrow> (out, p)
      | None \<Rightarrow>
          (let out = (case sb_planned p key of Some o1 \<Rightarrow> o1 | None \<Rightarrow> sb_default_outcome p)
           in (out,
               p\<lparr>sb_calls := sb_calls p + 1,
                 sb_results := (sb_results p)(key \<mapsto> out),
                 sb_references := (sb_references p)(key \<mapsto> ''sandbox-'' @ take 16 (sha key))\<rparr>)))"

definition sandbox_reference_for :: "sandbox_provider \<Rightarrow> string \<Rightarrow> string option" where
  "sandbox_reference_for p key = sb_references p key"

section \<open>The simulated rails\<close>

record payment_rail =
  rail_name :: string
  rail_outcome :: ProviderOutcome
  rail_calls :: int
  rail_results :: "string \<rightharpoonup> ProviderOutcome"

definition new_rail :: "string \<Rightarrow> ProviderOutcome \<Rightarrow> payment_rail" where
  "new_rail nm out = \<lparr>rail_name = nm, rail_outcome = out, rail_calls = 0, rail_results = Map.empty\<rparr>"

definition wallet_rail :: "ProviderOutcome \<Rightarrow> payment_rail" where
  "wallet_rail out = new_rail ''wallet'' out"

definition virtual_card_rail :: "ProviderOutcome \<Rightarrow> payment_rail" where
  "virtual_card_rail out = new_rail ''virtual_card'' out"

definition rail_run :: "payment_rail \<Rightarrow> string \<Rightarrow> ProviderOutcome \<times> payment_rail" where
  "rail_run p key =
     (case rail_results p key of
        Some out \<Rightarrow> (out, p)
      | None \<Rightarrow> (rail_outcome p,
                 p\<lparr>rail_calls := rail_calls p + 1, rail_results := (rail_results p)(key \<mapsto> rail_outcome p)\<rparr>))"

section \<open>The provider interface\<close>

text \<open>
  \<open>PaymentProvider\<close>: the four operations, each taking the payment id, the amount in minor
  units, the currency and the idempotency key, and the optional method \<open>reference_for\<close> the
  worker looks up with \<open>getattr\<close>. An operation may raise; the provider is an external
  system, so its new state is returned with the exception.
\<close>

type_synonym 'p provider_call =
  "'p \<Rightarrow> string \<Rightarrow> int \<Rightarrow> string \<Rightarrow> string \<Rightarrow> (exn + ProviderOutcome) \<times> 'p"

record 'p payment_provider =
  pp_charge :: "'p provider_call"
  pp_capture :: "'p provider_call"
  pp_void :: "'p provider_call"
  pp_refund :: "'p provider_call"
  pp_reference_for :: "('p \<Rightarrow> string \<Rightarrow> string option) option"

definition keyed_call :: "('p \<Rightarrow> string \<Rightarrow> ProviderOutcome \<times> 'p) \<Rightarrow> 'p provider_call" where
  "keyed_call run p pid minor cur key = (let (out, p') = run p key in (Inr out, p'))"

definition keyed_provider ::
    "('p \<Rightarrow> string \<Rightarrow> ProviderOutcome \<times> 'p) \<Rightarrow> ('p \<Rightarrow> string \<Rightarrow> string option) option
      \<Rightarrow> 'p payment_provider" where
  "keyed_provider run ref =
     \<lparr>pp_charge = keyed_call run, pp_capture = keyed_call run, pp_void = keyed_call run,
      pp_refund = keyed_call run, pp_reference_for = ref\<rparr>"

definition MockProvider :: "(string \<Rightarrow> string) \<Rightarrow> mock_provider payment_provider" where
  "MockProvider sha = keyed_provider (mock_run sha) (Some mock_reference_for)"

definition SandboxProvider :: "(string \<Rightarrow> string) \<Rightarrow> sandbox_provider payment_provider" where
  "SandboxProvider sha = keyed_provider (sandbox_run sha) (Some sandbox_reference_for)"

definition SimulatedPaymentRail :: "payment_rail payment_provider" where
  "SimulatedPaymentRail = keyed_provider rail_run None"

text \<open>The base class: every operation raises \<open>NotImplementedError\<close>.\<close>

definition base_call :: "'p provider_call" where
  "base_call p pid minor cur key = (Inl NotImplementedError, p)"

definition PaymentProvider :: "'p payment_provider" where
  "PaymentProvider = \<lparr>pp_charge = base_call, pp_capture = base_call, pp_void = base_call,
     pp_refund = base_call, pp_reference_for = None\<rparr>"

section \<open>The contract of an idempotent provider\<close>

locale idempotent_provider =
  fixes run :: "'p \<Rightarrow> string \<Rightarrow> ProviderOutcome \<times> 'p"
    and recorded :: "'p \<Rightarrow> string \<rightharpoonup> ProviderOutcome"
    and calls :: "'p \<Rightarrow> int"
  assumes run_replay: "recorded p key = Some out \<Longrightarrow> run p key = (out, p)"
    and run_fresh: "recorded p key = None \<Longrightarrow>
      recorded (snd (run p key)) = (recorded p)(key \<mapsto> fst (run p key)) \<and>
      calls (snd (run p key)) = calls p + 1"
begin

fun run_all :: "'p \<Rightarrow> string list \<Rightarrow> ProviderOutcome list \<times> 'p" where
  "run_all p [] = ([], p)"
| "run_all p (k # ks) =
     (let (out, p1) = run p k; (outs, p2) = run_all p1 ks in (out # outs, p2))"

lemma run_recorded: "recorded (snd (run p key)) key = Some (fst (run p key))"
  by (cases "recorded p key") (simp_all add: run_replay run_fresh)

lemma run_mono: "recorded p k = Some out \<Longrightarrow> recorded (snd (run p key)) k = Some out"
  by (cases "recorded p key") (auto simp: run_replay run_fresh)

lemma run_other: "k \<noteq> key \<Longrightarrow> recorded (snd (run p key)) k = recorded p k"
  by (cases "recorded p key") (auto simp: run_replay run_fresh)

lemma run_all_mono: "recorded p k = Some out \<Longrightarrow> recorded (snd (run_all p ks)) k = Some out"
  by (induction ks arbitrary: p) (simp_all add: split_beta Let_def run_mono)

lemma run_all_untouched: "k \<notin> set ks \<Longrightarrow> recorded (snd (run_all p ks)) k = recorded p k"
  by (induction ks arbitrary: p) (simp_all add: split_beta Let_def run_other)

text \<open>Every answer of a sequence of calls is the outcome recorded for its key at the end.\<close>

lemma run_all_answers:
  "length (fst (run_all p ks)) = length ks"
  "i < length ks \<Longrightarrow> recorded (snd (run_all p ks)) (ks ! i) = Some (fst (run_all p ks) ! i)"
proof (induction ks arbitrary: p i)
  case Nil
  { case 1 then show ?case by simp }
  { case 2 then show ?case by simp }
next
  case (Cons k ks)
  { case 1 then show ?case by (simp add: split_beta Let_def Cons.IH) }
  { case 2
    then show ?case
      by (cases i) (auto simp: split_beta Let_def Cons.IH intro: run_all_mono run_recorded) }
qed

text \<open>The provider executes each key once: the number of executed calls grows by the number of
  keys it had not seen.\<close>

lemma run_all_calls:
  "calls (snd (run_all p ks)) = calls p + int (card (set ks - dom (recorded p)))"
proof (induction ks arbitrary: p)
  case Nil
  then show ?case by simp
next
  case (Cons k ks)
  let ?p = "snd (run p k)"
  have step: "calls (snd (run_all p (k # ks))) = calls ?p + int (card (set ks - dom (recorded ?p)))"
    using Cons.IH by (simp add: split_beta Let_def)
  show ?case
  proof (cases "recorded p k")
    case (Some out)
    then have "set (k # ks) - dom (recorded p) = set ks - dom (recorded p)" by auto
    with Some step show ?thesis by (simp add: run_replay)
  next
    case None
    then have "set (k # ks) - dom (recorded p) = insert k (set ks - dom (recorded ?p))"
      by (auto simp: run_fresh)
    moreover have "k \<notin> set ks - dom (recorded ?p)"
      using run_recorded [of p k] by auto
    ultimately show ?thesis using None step by (simp add: run_fresh)
  qed
qed

end

text \<open>Providers that also hand out a reference for an executed key. \<open>ok\<close> is the
  implementation's invariant.\<close>

locale referenced_provider = idempotent_provider run recorded calls
  for run :: "'p \<Rightarrow> string \<Rightarrow> ProviderOutcome \<times> 'p" and recorded calls +
  fixes reference_for :: "'p \<Rightarrow> string \<Rightarrow> string option"
    and ok :: "'p \<Rightarrow> bool"
  assumes ref_dom: "ok p \<Longrightarrow> reference_for p key \<noteq> None \<longleftrightarrow> recorded p key \<noteq> None"
    and ok_run: "ok p \<Longrightarrow> ok (snd (run p key))"
    and ref_stable: "reference_for p k = Some r \<Longrightarrow> ok p \<Longrightarrow> reference_for (snd (run p key)) k = Some r"
begin

lemma run_has_reference: "ok p \<Longrightarrow> reference_for (snd (run p key)) key \<noteq> None"
  using ref_dom [OF ok_run] run_recorded by simp

lemma run_all_ok: "ok p \<Longrightarrow> ok (snd (run_all p ks))"
  by (induction ks arbitrary: p) (simp_all add: split_beta Let_def ok_run)

lemma run_all_ref_stable:
  "ok p \<Longrightarrow> reference_for p k = Some r \<Longrightarrow> reference_for (snd (run_all p ks)) k = Some r"
  by (induction ks arbitrary: p) (simp_all add: split_beta Let_def ok_run ref_stable)

end

definition mock_ok :: "mock_provider \<Rightarrow> bool" where
  "mock_ok p \<longleftrightarrow> dom (m_references p) = dom (m_results p)"

definition sandbox_ok :: "sandbox_provider \<Rightarrow> bool" where
  "sandbox_ok p \<longleftrightarrow> dom (sb_references p) = dom (sb_results p)"

interpretation mock: referenced_provider "mock_run sha" m_results m_calls mock_reference_for mock_ok
  for sha
  by unfold_locales
    (auto simp: mock_run_def mock_reference_for_def mock_ok_def split: option.splits)

interpretation sandbox: referenced_provider "sandbox_run sha" sb_results sb_calls
    sandbox_reference_for sandbox_ok
  for sha
  by unfold_locales
    (auto simp: sandbox_run_def sandbox_reference_for_def sandbox_ok_def Let_def split: option.splits)

interpretation rail: idempotent_provider rail_run rail_results rail_calls
  by unfold_locales (auto simp: rail_run_def split: option.splits)

section \<open>Properties\<close>

text \<open>A list of calls to a provider object, by their idempotency keys.\<close>

fun call_keys :: "('p \<Rightarrow> string \<Rightarrow> ProviderOutcome \<times> 'p) \<Rightarrow> 'p \<Rightarrow> string list
    \<Rightarrow> ProviderOutcome list \<times> 'p" where
  "call_keys run p [] = ([], p)"
| "call_keys run p (k # ks) =
     (let (out, p1) = run p k; (outs, p2) = call_keys run p1 ks in (out # outs, p2))"

lemma call_keys_mock: "call_keys (mock_run sha) p ks = mock.run_all sha p ks"
  by (induction ks arbitrary: p) simp_all

lemma call_keys_sandbox: "call_keys (sandbox_run sha) p ks = sandbox.run_all sha p ks"
  by (induction ks arbitrary: p) simp_all

text \<open>Whatever sequence of operations is sent to a mock provider, with retries
  and in any order, it executes every idempotency key at most once: the call counter grows by exactly
  the number of new keys, and two calls with the same key are answered alike.\<close>

theorem mock_exactly_once:
  assumes "call_keys (mock_run sha) p ks = (outs, p')"
  shows "m_calls p' = m_calls p + int (card (set ks - dom (m_results p))) \<and> length outs = length ks \<and>
    (\<forall>i < length ks. \<forall>j < length ks. ks ! i = ks ! j \<longrightarrow> outs ! i = outs ! j)"
proof -
  have "mock.run_all sha p ks = (outs, p')"
    using assms by (simp add: call_keys_mock)
  then show ?thesis
    using mock.run_all_calls [where sha = sha and p = p and ks = ks]
      mock.run_all_answers [where sha = sha and p = p and ks = ks]
    by (metis fst_conv option.inject snd_conv)
qed

theorem mock_exactly_once_witness:
  "call_keys (mock_run id) (new_mock O_SUCCEEDED) [''a'', ''b'', ''a''] =
     (fst (call_keys (mock_run id) (new_mock O_SUCCEEDED) [''a'', ''b'', ''a'']),
      snd (call_keys (mock_run id) (new_mock O_SUCCEEDED) [''a'', ''b'', ''a''])) \<and>
   m_calls (snd (call_keys (mock_run id) (new_mock O_SUCCEEDED) [''a'', ''b'', ''a''])) = 2"
proof -
  let ?r = "call_keys (mock_run id) (new_mock O_SUCCEEDED) [''a'', ''b'', ''a'']"
  have h: "?r = (fst ?r, snd ?r)" by simp
  show ?thesis using h mock_exactly_once [OF h] by (simp add: new_mock_def card_insert_if)
qed

text \<open>A planned outcome of the sandbox provider decides the first execution of its
  key, survives any number of operations on other keys in between, and a plan made after the key was
  executed no longer changes its answer; the reference handed out for the key is stable.\<close>

theorem sandbox_plan_respected:
  assumes "sandbox_ok p" "sb_results p key = None" "key \<notin> set ks"
  shows "fst (sandbox_run sha (snd (call_keys (sandbox_run sha) (sandbox_plan p key out) ks)) key) = out \<and>
    (let q = snd (sandbox_run sha (sandbox_plan p key out) key)
     in fst (sandbox_run sha (sandbox_plan (snd (call_keys (sandbox_run sha) q ks)) key out') key) = out \<and>
        sandbox_reference_for (snd (call_keys (sandbox_run sha) q ks)) key =
          Some (''sandbox-'' @ take 16 (sha key)))"
proof -
  let ?p = "sandbox_plan p key out"
  have planned: "sb_planned (snd (call_keys (sandbox_run sha) q ks)) = sb_planned q" for q
    by (induction ks arbitrary: q)
      (auto simp: split_beta Let_def sandbox_run_def split: option.splits)
  let ?q0 = "snd (call_keys (sandbox_run sha) ?p ks)"
  have "sb_results ?q0 key = None"
    using assms(2,3) sandbox.run_all_untouched [of key ks sha ?p]
    by (simp add: call_keys_sandbox sandbox_plan_def)
  then have first: "fst (sandbox_run sha ?q0 key) = out"
    using planned [of ?p] by (simp add: sandbox_run_def sandbox_plan_def)
  define q where "q = snd (sandbox_run sha ?p key)"
  have q: "sb_results q key = Some out" "sandbox_ok q"
    "sandbox_reference_for q key = Some (''sandbox-'' @ take 16 (sha key))"
    using assms(1,2)
    by (auto simp: q_def sandbox_run_def sandbox_plan_def sandbox_reference_for_def sandbox_ok_def Let_def)
  let ?q = "snd (call_keys (sandbox_run sha) q ks)"
  have "sb_results (sandbox_plan ?q key out') key = Some out"
    using sandbox.run_all_mono [OF q(1)] by (simp add: call_keys_sandbox sandbox_plan_def)
  then have "fst (sandbox_run sha (sandbox_plan ?q key out') key) = out"
    by (simp add: sandbox_run_def)
  moreover have "sandbox_reference_for ?q key = Some (''sandbox-'' @ take 16 (sha key))"
    using sandbox.run_all_ref_stable [OF q(2,3)] by (simp add: call_keys_sandbox)
  ultimately show ?thesis
    using first by (simp add: q_def [symmetric] Let_def)
qed

theorem sandbox_plan_respected_witness:
  "sandbox_ok (new_sandbox O_SUCCEEDED) \<and> sb_results (new_sandbox O_SUCCEEDED) ''k'' = None \<and>
   ''k'' \<notin> set [''x''] \<and>
   fst (sandbox_run id (snd (call_keys (sandbox_run id)
     (sandbox_plan (new_sandbox O_SUCCEEDED) ''k'' O_UNKNOWN) [''x''])) ''k'') = O_UNKNOWN"
proof -
  have h: "sandbox_ok (new_sandbox O_SUCCEEDED)" "sb_results (new_sandbox O_SUCCEEDED) ''k'' = None"
    "''k'' \<notin> set [''x'']"
    by (simp_all add: sandbox_ok_def new_sandbox_def)
  show ?thesis using h sandbox_plan_respected [OF h] by blast
qed

end
