(* ===== verification/Router.thy ===== *)
theory Router
  imports Provider
begin

text \<open>
  \<open>router.py\<close> and \<open>instruments.py\<close>: the provider router with its route list and
  identifier index, and the selection of a payment instrument. Provider objects are shared
  (two routes may name the same object, a router may be a route of another router), so they live
  in a store and routes hold references.
\<close>

section \<open>Routes\<close>

record provider_route =
  provider_id :: string
  provider :: nat
  merchant_domains :: "string set"
  currencies :: "string set"

record router =
  routes :: "provider_route list"
  by_id :: "string \<rightharpoonup> provider_route"

definition new_router :: router where
  "new_router = \<lparr>routes = [], by_id = Map.empty\<rparr>"

definition matches :: "provider_route \<Rightarrow> string \<Rightarrow> string \<Rightarrow> bool" where
  "matches r dmn cur \<longleftrightarrow>
     (merchant_domains r = {} \<or> dmn \<in> merchant_domains r) \<and> (currencies r = {} \<or> cur \<in> currencies r)"

definition or_empty :: "string set option \<Rightarrow> string set" where
  "or_empty s = (case s of None \<Rightarrow> {} | Some x \<Rightarrow> x)"

definition register ::
    "router \<Rightarrow> string \<Rightarrow> nat \<Rightarrow> string set option \<Rightarrow> string set option \<Rightarrow> exn + router" where
  "register rt pid prov dmns curs =
     (if by_id rt pid \<noteq> None then Inl (ValueError (''provider already registered: '' @ pid))
      else let r = \<lparr>provider_id = pid, provider = prov, merchant_domains = or_empty dmns,
                    currencies = or_empty curs\<rparr>
           in Inr \<lparr>routes = routes rt @ [r], by_id = (by_id rt)(pid \<mapsto> r)\<rparr>)"

definition no_route_message :: "string \<Rightarrow> string \<Rightarrow> string" where
  "no_route_message dmn cur =
     ''no payment provider route for domain='' @ [CHR 39] @ dmn @ [CHR 39] @
     '', currency='' @ [CHR 39] @ cur @ [CHR 39]"

definition for_payment :: "router \<Rightarrow> string \<Rightarrow> string \<Rightarrow> exn + nat" where
  "for_payment rt dmn cur =
     (case find (\<lambda>r. matches r dmn cur) (routes rt) of
        Some r \<Rightarrow> Inr (provider r)
      | None \<Rightarrow> Inl (ProviderRoutingError (no_route_message dmn cur)))"

definition provider_id_for :: "router \<Rightarrow> string \<Rightarrow> string \<Rightarrow> exn + string" where
  "provider_id_for rt dmn cur =
     (case find (\<lambda>r. matches r dmn cur) (routes rt) of
        Some r \<Rightarrow> Inr (provider_id r)
      | None \<Rightarrow> Inl (ProviderRoutingError (no_route_message dmn cur)))"

section \<open>Provider objects and calls through a router\<close>

datatype provider_obj =
    MockObj mock_provider
  | SandboxObj sandbox_provider
  | RailObj payment_rail
  | BaseObj
  | RouterObj router

type_synonym store = "nat \<rightharpoonup> provider_obj"

text \<open>
  One of the four operations of the object behind a reference: the three implementations ignore
  everything but the idempotency key, the base class raises, a router forwards to its first route.
  \<open>depth\<close> is the recursion depth the interpreter allows, so that a router reachable from
  itself ends in a \<open>RecursionError\<close> (a \<open>RuntimeError\<close>).
\<close>

fun store_call ::
    "(string \<Rightarrow> string) \<Rightarrow> nat \<Rightarrow> store \<Rightarrow> nat \<Rightarrow> string \<Rightarrow> int \<Rightarrow> string \<Rightarrow> string
      \<Rightarrow> (exn + ProviderOutcome) \<times> store" where
  "store_call sha 0 s ref pid minor cur key =
     (Inl (RuntimeError ''maximum recursion depth exceeded''), s)"
| "store_call sha (Suc depth) s ref pid minor cur key =
     (case s ref of
        None \<Rightarrow> (Inl (AttributeError ''no such object''), s)
      | Some (MockObj p) \<Rightarrow> (let (out, p') = mock_run sha p key in (Inr out, s(ref \<mapsto> MockObj p')))
      | Some (SandboxObj p) \<Rightarrow> (let (out, p') = sandbox_run sha p key in (Inr out, s(ref \<mapsto> SandboxObj p')))
      | Some (RailObj p) \<Rightarrow> (let (out, p') = rail_run p key in (Inr out, s(ref \<mapsto> RailObj p')))
      | Some BaseObj \<Rightarrow> (Inl NotImplementedError, s)
      | Some (RouterObj rt) \<Rightarrow>
          (case routes rt of
             [] \<Rightarrow> (Inl (ProviderRoutingError ''no payment providers registered''), s)
           | r # _ \<Rightarrow> store_call sha depth s (provider r) pid minor cur key))"

lemma store_call_routers:
  "s ref = Some (RouterObj rt) \<Longrightarrow> snd (store_call sha depth s r pid minor cur key) ref = Some (RouterObj rt)"
  by (induction sha depth s r pid minor cur key rule: store_call.induct)
    (auto simp: split_beta Let_def split: option.splits provider_obj.splits list.splits)

section \<open>Registration keeps the index and the list together\<close>

definition router_inv :: "router \<Rightarrow> bool" where
  "router_inv rt \<longleftrightarrow>
     distinct (map provider_id (routes rt)) \<and> by_id rt = (\<lambda>k. row_by provider_id k (routes rt))"

lemma router_inv_new [simp]: "router_inv new_router"
  by (simp add: router_inv_def new_router_def)

lemma register_inv: "router_inv rt \<Longrightarrow> register rt pid prov dmns curs = Inr rt' \<Longrightarrow> router_inv rt'"
  by (auto simp: register_def router_inv_def Let_def fun_eq_iff table_simps split: if_splits option.splits
      dest: row_by_Some_keys)

text \<open>A registration as data, and a list of registrations.\<close>

type_synonym registration = "string \<times> nat \<times> string set option \<times> string set option"

fun register_all :: "router \<Rightarrow> registration list \<Rightarrow> exn + router" where
  "register_all rt [] = Inr rt"
| "register_all rt ((pid, prov, dmns, curs) # rs) =
     bindE (register rt pid prov dmns curs) (\<lambda>rt'. register_all rt' rs)"

lemma register_all_inv: "router_inv rt \<Longrightarrow> register_all rt rs = Inr rt' \<Longrightarrow> router_inv rt'"
  by (induction rt rs rule: register_all.induct) (auto simp: err_simps dest: register_inv)

lemma register_all_routes:
  "register_all rt rs = Inr rt' \<Longrightarrow> \<exists>new. routes rt' = routes rt @ new"
proof (induction rt rs rule: register_all.induct)
  case (1 rt)
  then show ?case by simp
next
  case (2 rt pid prov dmns curs rs)
  then obtain rt1 where r: "register rt pid prov dmns curs = Inr rt1" "register_all rt1 rs = Inr rt'"
    by (auto simp: err_simps)
  with 2 obtain new where "routes rt' = routes rt1 @ new" by blast
  moreover have "\<exists>x. routes rt1 = routes rt @ [x]"
    using r(1) by (auto simp: register_def Let_def split: if_splits)
  ultimately show ?case by auto
qed

lemma find_append_Some: "find P xs = Some x \<Longrightarrow> find P (xs @ ys) = Some x"
  by (induction xs) (auto split: if_splits)

text \<open>A router answers a payment with the first registered matching route; providers
  registered later never change the provider or the provider id chosen for a payment that already had
  a route, and the id and the object it reports belong to the same registered route.\<close>

theorem routing_stable:
  assumes "register_all new_router rs1 = Inr rt" "register_all rt rs2 = Inr rt'"
    and "for_payment rt dmn cur = Inr prov"
  shows "for_payment rt' dmn cur = Inr prov \<and>
    (\<exists>pid r. provider_id_for rt dmn cur = Inr pid \<and> provider_id_for rt' dmn cur = Inr pid \<and>
       by_id rt' pid = Some r \<and> provider r = prov \<and> matches r dmn cur)"
proof -
  obtain r where r: "find (\<lambda>r. matches r dmn cur) (routes rt) = Some r" and p: "prov = provider r"
    using assms(3) by (auto simp: for_payment_def split: option.splits)
  obtain new where new: "routes rt' = routes rt @ new"
    using register_all_routes [OF assms(2)] by blast
  have r': "find (\<lambda>r. matches r dmn cur) (routes rt') = Some r"
    unfolding new by (rule find_append_Some [OF r])
  have inv: "router_inv rt'"
    using register_all_inv [OF register_all_inv [OF router_inv_new assms(1)] assms(2)] .
  have "r \<in> set (routes rt')" and m: "matches r dmn cur"
    using r' by (auto simp: find_Some_iff)
  then have "by_id rt' (provider_id r) = Some r"
    using inv by (simp add: router_inv_def row_by_distinct)
  with r r' p m show ?thesis by (simp add: for_payment_def provider_id_for_def)
qed

theorem routing_stable_witness:
  "\<exists>rt rt'. register_all new_router [(''mock'', 0, None, Some {''USD''})] = Inr rt \<and>
     register_all rt [(''wallet'', 1, None, None)] = Inr rt' \<and>
     for_payment rt ''shop.example'' ''USD'' = Inr 0 \<and> for_payment rt' ''shop.example'' ''USD'' = Inr 0"
proof -
  define rt where "rt = projr (register_all new_router [(''mock'', 0, None, Some {''USD''})])"
  define rt' where "rt' = projr (register_all rt [(''wallet'', 1, None, None)])"
  have h: "register_all new_router [(''mock'', 0, None, Some {''USD''})] = Inr rt"
    "register_all rt [(''wallet'', 1, None, None)] = Inr rt'"
    "for_payment rt ''shop.example'' ''USD'' = Inr 0"
    by (simp_all add: rt_def rt'_def register_def new_router_def Let_def for_payment_def matches_def
        or_empty_def)
  show ?thesis using h routing_stable [OF h] by blast
qed

section \<open>Payment instruments\<close>

datatype InstrumentStatus = IS_ACTIVE | IS_SUSPENDED | IS_CLOSED

datatype InstrumentType = IT_WALLET | IT_VIRTUAL_CARD | IT_BANK_ACCOUNT | IT_PAYMENT_GATEWAY | IT_OTHER

fun instrument_status_value :: "InstrumentStatus \<Rightarrow> string" where
  "instrument_status_value IS_ACTIVE = ''ACTIVE''"
| "instrument_status_value IS_SUSPENDED = ''SUSPENDED''"
| "instrument_status_value IS_CLOSED = ''CLOSED''"

record payment_instrument =
  instrument_id :: string
  instrument_account :: string
  instrument_type :: InstrumentType
  instrument_currency :: string
  instrument_status :: InstrumentStatus
  instrument_domains :: "string set"
  instrument_provider_reference :: "string option"

definition instrument_validate ::
    "payment_instrument \<Rightarrow> string \<Rightarrow> string \<Rightarrow> string option \<Rightarrow> exn + unit" where
  "instrument_validate i acct cur dmn =
     (if instrument_account i \<noteq> acct then
        Inl (InstrumentEligibilityError ''payment instrument belongs to a different account'')
      else if instrument_status i \<noteq> IS_ACTIVE then
        Inl (InstrumentEligibilityError
          (''payment instrument is '' @ lower (instrument_status_value (instrument_status i))))
      else if upper (instrument_currency i) \<noteq> upper cur then
        Inl (InstrumentEligibilityError ''payment instrument currency is incompatible'')
      else if instrument_domains i \<noteq> {} \<and> (case dmn of None \<Rightarrow> True | Some d \<Rightarrow> d \<notin> instrument_domains i) then
        Inl (InstrumentEligibilityError ''payment instrument is not permitted for this merchant'')
      else Inr ())"

fun semi_join :: "string list \<Rightarrow> string" where
  "semi_join [] = []"
| "semi_join [x] = x"
| "semi_join (x # xs) = x @ ''; '' @ semi_join xs"

fun select_aux ::
    "string list \<Rightarrow> payment_instrument list \<Rightarrow> string \<Rightarrow> string \<Rightarrow> string option
      \<Rightarrow> exn + payment_instrument" where
  "select_aux errors [] acct cur dmn =
     Inl (InstrumentEligibilityError (''no eligible payment instrument: '' @
       (if errors = [] then ''no instruments configured'' else semi_join errors)))"
| "select_aux errors (i # is) acct cur dmn =
     (case instrument_validate i acct cur dmn of
        Inl e \<Rightarrow> select_aux (errors @ [instrument_id i @ '': '' @ exn_message e]) is acct cur dmn
      | Inr _ \<Rightarrow> Inr i)"

definition select_instrument ::
    "payment_instrument list \<Rightarrow> string \<Rightarrow> string \<Rightarrow> string option \<Rightarrow> exn + payment_instrument" where
  "select_instrument is acct cur dmn = select_aux [] is acct cur dmn"

definition eligible :: "string \<Rightarrow> string \<Rightarrow> string option \<Rightarrow> payment_instrument \<Rightarrow> bool" where
  "eligible acct cur dmn i \<longleftrightarrow>
     instrument_account i = acct \<and> instrument_status i = IS_ACTIVE \<and>
     upper (instrument_currency i) = upper cur \<and>
     (instrument_domains i = {} \<or> (\<exists>d \<in> instrument_domains i. dmn = Some d))"

lemma validate_eligible: "is_ok (instrument_validate i acct cur dmn) \<longleftrightarrow> eligible acct cur dmn i"
  by (auto simp: instrument_validate_def eligible_def split: option.splits)

lemma select_aux_find:
  "(case select_aux errs is acct cur dmn of Inr i \<Rightarrow> Some i | Inl _ \<Rightarrow> None) = find (eligible acct cur dmn) is"
proof (induction "is" arbitrary: errs)
  case Nil
  then show ?case by simp
next
  case (Cons i "is")
  then show ?case
    using validate_eligible [of i acct cur dmn]
    by (cases "instrument_validate i acct cur dmn") auto
qed

text \<open>Instrument selection is deterministic and safe: it returns the first
  configured instrument that belongs to the account, is active, has the payment's currency and admits
  the merchant, and it fails with an eligibility error exactly when no configured instrument does.\<close>

theorem select_first_eligible:
  "(select_instrument is acct cur dmn = Inr i \<longleftrightarrow> find (eligible acct cur dmn) is = Some i) \<and>
   (\<not> is_ok (select_instrument is acct cur dmn) \<longleftrightarrow> (\<forall>j \<in> set is. \<not> eligible acct cur dmn j))"
proof -
  have f: "find (eligible acct cur dmn) is = None \<longleftrightarrow> (\<forall>j \<in> set is. \<not> eligible acct cur dmn j)"
    by (auto simp: find_None_iff)
  show ?thesis
    unfolding f [symmetric] select_aux_find [where errs = "[]", symmetric] select_instrument_def
    by (cases "select_aux [] is acct cur dmn") auto
qed

definition sample_instrument :: payment_instrument where
  "sample_instrument = \<lparr>instrument_id = ''i1'', instrument_account = ''acct'', instrument_type = IT_WALLET,
     instrument_currency = ''usd'', instrument_status = IS_ACTIVE, instrument_domains = {},
     instrument_provider_reference = None\<rparr>"

theorem select_first_eligible_witness:
  "select_instrument [sample_instrument\<lparr>instrument_status := IS_CLOSED\<rparr>, sample_instrument] ''acct'' ''USD'' None
     = Inr sample_instrument"
  using select_first_eligible [of "[sample_instrument\<lparr>instrument_status := IS_CLOSED\<rparr>, sample_instrument]"
      "''acct''" "''USD''" None sample_instrument]
  by (simp add: eligible_def sample_instrument_def text_eval)

end
