(* ===== verification/Service.thy ===== *)
theory Service
  imports Budget Policy Router
begin

text \<open>
  \<open>service.py\<close>: the in-memory payment service, which evaluates the policy, reserves the
  budget, charges the provider and remembers the result under the idempotency key. The service's
  provider is a reference into the store of provider objects, and a router is asked for the route
  before anything is reserved.
\<close>

record payment_result =
  result_payment_id :: string
  result_status :: PaymentStatus
  result_decision :: Decision

type_synonym fp = "string \<times> string \<times> rat \<times> string \<times> string"

record payment_service =
  svc_policy :: SpendingPolicy
  svc_budget :: Budget
  svc_provider :: nat
  svc_store :: store
  svc_idempotency :: "string \<rightharpoonup> fp \<times> payment_result"

definition new_service :: "SpendingPolicy \<Rightarrow> Budget \<Rightarrow> nat \<Rightarrow> store \<Rightarrow> payment_service" where
  "new_service pol b prov st = \<lparr>svc_policy = pol, svc_budget = b, svc_provider = prov, svc_store = st,
     svc_idempotency = Map.empty\<rparr>"

definition provider_for :: "payment_service \<Rightarrow> payment_intent \<Rightarrow> exn + nat" where
  "provider_for s i =
     (case svc_store s (svc_provider s) of
        Some (RouterObj rt) \<Rightarrow> for_payment rt (merchant_domain i) (money_currency (amount i))
      | _ \<Rightarrow> Inr (svc_provider s))"

text \<open>\<open>int(amount * Decimal("100"))\<close>.\<close>

definition minor_units :: "decimal \<Rightarrow> int" where
  "minor_units d = dtrunc (dmul d (Dec 100 0))"

definition charge_key :: "string \<Rightarrow> string" where
  "charge_key pid = ''payment:'' @ pid @ '':charge''"

text \<open>\<open>_execute\<close>: the amount has been reserved; the provider is charged and the reservation
  consumed, released, or left in place when the outcome is unknown.\<close>

definition execute ::
    "(string \<Rightarrow> string) \<Rightarrow> nat \<Rightarrow> payment_service \<Rightarrow> payment_intent \<Rightarrow> Decision \<Rightarrow> nat
      \<Rightarrow> (exn + payment_result) \<times> payment_service" where
  "execute sha depth s i dec prov =
     (let pid = payment_id i; amt = money_value (amount i);
          (r, st) = store_call sha depth (svc_store s) prov pid (minor_units amt)
                      (money_currency (amount i)) (charge_key pid);
          s1 = s\<lparr>svc_store := st\<rparr>
      in case r of
           Inl e \<Rightarrow> (Inl e, s1)
         | Inr O_SUCCEEDED \<Rightarrow>
             (case consume (svc_budget s1) amt of
                Inl e \<Rightarrow> (Inl e, s1)
              | Inr b \<Rightarrow> (Inr \<lparr>result_payment_id = pid, result_status = PS_SUCCEEDED, result_decision = dec\<rparr>,
                          s1\<lparr>svc_budget := b\<rparr>))
         | Inr O_FAILED \<Rightarrow>
             (case release (svc_budget s1) amt of
                Inl e \<Rightarrow> (Inl e, s1)
              | Inr b \<Rightarrow> (Inr \<lparr>result_payment_id = pid, result_status = PS_FAILED, result_decision = dec\<rparr>,
                          s1\<lparr>svc_budget := b\<rparr>))
         | Inr O_UNKNOWN \<Rightarrow>
             (Inr \<lparr>result_payment_id = pid, result_status = PS_UNKNOWN_EXTERNAL_OUTCOME, result_decision = dec\<rparr>,
              s1))"

definition decide_and_execute ::
    "(string \<Rightarrow> string) \<Rightarrow> nat \<Rightarrow> payment_service \<Rightarrow> payment_intent
      \<Rightarrow> (exn + payment_result) \<times> payment_service" where
  "decide_and_execute sha depth s i =
     (let dec = evaluate (svc_policy s) i None; pid = payment_id i
      in if dec = DENY then
           (Inr \<lparr>result_payment_id = pid, result_status = PS_FAILED, result_decision = dec\<rparr>, s)
         else if dec = REQUIRE_APPROVAL then
           (Inr \<lparr>result_payment_id = pid, result_status = PS_APPROVAL_REQUIRED, result_decision = dec\<rparr>, s)
         else case provider_for s i of
           Inl e \<Rightarrow> (Inl e, s)
         | Inr prov \<Rightarrow>
             (case reserve (svc_budget s) (money_value (amount i)) of
                Inl e \<Rightarrow> (Inl e, s)
              | Inr (False, b) \<Rightarrow>
                  (Inr \<lparr>result_payment_id = pid, result_status = PS_FAILED, result_decision = DENY\<rparr>,
                   s\<lparr>svc_budget := b\<rparr>)
              | Inr (True, b) \<Rightarrow> execute sha depth (s\<lparr>svc_budget := b\<rparr>) i dec prov))"

definition create_payment ::
    "(string \<Rightarrow> string) \<Rightarrow> nat \<Rightarrow> payment_service \<Rightarrow> payment_intent
      \<Rightarrow> (exn + payment_result) \<times> payment_service" where
  "create_payment sha depth s i =
     (case svc_idempotency s (idempotency_key i) of
        Some (old_fingerprint, result) \<Rightarrow>
          (if old_fingerprint \<noteq> fingerprint i then (Inl (ValueError ''idempotency key conflict''), s)
           else (Inr result, s))
      | None \<Rightarrow>
          (let (r, s1) = decide_and_execute sha depth s i
           in case r of
                Inl e \<Rightarrow> (Inl e, s1)
              | Inr result \<Rightarrow>
                  (Inr result,
                   s1\<lparr>svc_idempotency := (svc_idempotency s1)(idempotency_key i \<mapsto> (fingerprint i, result))\<rparr>)))"

fun create_payments ::
    "(string \<Rightarrow> string) \<Rightarrow> nat \<Rightarrow> payment_service \<Rightarrow> payment_intent list
      \<Rightarrow> (exn + payment_result) list \<times> payment_service" where
  "create_payments sha depth s [] = ([], s)"
| "create_payments sha depth s (i # is) =
     (let (r, s1) = create_payment sha depth s i; (rs, s2) = create_payments sha depth s1 is
      in (r # rs, s2))"

section \<open>Accounting\<close>

text \<open>What the service has on its books under one status: the sum of the amounts of the
  remembered results with that status, one per idempotency key.\<close>

definition entry_amount :: "PaymentStatus \<Rightarrow> fp \<times> payment_result \<Rightarrow> rat" where
  "entry_amount st e = (if result_status (snd e) = st then fst (snd (snd (fst e))) else 0)"

definition booked :: "PaymentStatus \<Rightarrow> (string \<rightharpoonup> fp \<times> payment_result) \<Rightarrow> rat" where
  "booked st m = (\<Sum>k \<in> dom m. entry_amount st (the (m k)))"

definition books_inv :: "payment_service \<Rightarrow> bool" where
  "books_inv s \<longleftrightarrow>
     budget_inv (svc_budget s) \<and> finite (dom (svc_idempotency s)) \<and>
     dval (consumed (svc_budget s)) = booked PS_SUCCEEDED (svc_idempotency s) \<and>
     booked PS_UNKNOWN_EXTERNAL_OUTCOME (svc_idempotency s) \<le> dval (reserved (svc_budget s))"

lemma booked_upd:
  assumes "finite (dom m)" "m k = None"
  shows "booked st (m(k \<mapsto> e)) = booked st m + entry_amount st e"
proof -
  have k: "k \<notin> dom m" using assms(2) by auto
  let ?f = "\<lambda>x. entry_amount st (the ((m(k \<mapsto> e)) x))"
  have same: "sum ?f (dom m) = booked st m"
    unfolding booked_def using k by (intro sum.cong) auto
  have "sum ?f (insert k (dom m)) = ?f k + sum ?f (dom m)"
    using assms(1) k by (rule sum.insert)
  then show ?thesis
    unfolding same by (simp add: booked_def)
qed

lemma intent_amount [simp]: "fst (snd (snd (fingerprint i))) = dval (money_value (amount i))"
  by (simp add: fingerprint_def)

text \<open>The effect of one charge on a service whose budget holds the reservation.\<close>

lemma execute_effect:
  assumes "budget_inv (svc_budget s)" "scale4 amt" "0 < dval amt" "amt = money_value (amount i)"
    and "dval amt \<le> dval (reserved (svc_budget s))"
    and "execute sha depth s i dec prov = (r, s')"
  shows "budget_inv (svc_budget s') \<and> svc_idempotency s' = svc_idempotency s \<and> svc_policy s' = svc_policy s \<and>
    (case r of
       Inl _ \<Rightarrow> svc_budget s' = svc_budget s
     | Inr res \<Rightarrow>
         (result_status res = PS_SUCCEEDED \<and>
            dval (consumed (svc_budget s')) = dval (consumed (svc_budget s)) + dval amt \<and>
            dval (reserved (svc_budget s')) = dval (reserved (svc_budget s)) - dval amt) \<or>
         (result_status res = PS_FAILED \<and>
            dval (consumed (svc_budget s')) = dval (consumed (svc_budget s)) \<and>
            dval (reserved (svc_budget s')) = dval (reserved (svc_budget s)) - dval amt) \<or>
         (result_status res = PS_UNKNOWN_EXTERNAL_OUTCOME \<and> svc_budget s' = svc_budget s))"
proof -
  obtain q st where q: "store_call sha depth (svc_store s) prov (payment_id i) (minor_units amt)
      (money_currency (amount i)) (charge_key (payment_id i)) = (q, st)" by force
  obtain bc where bc: "consume (svc_budget s) amt = Inr bc"
    using assms(5) by (simp add: consume_def dec_simps)
  obtain br where br: "release (svc_budget s) amt = Inr br"
    using assms(5) by (simp add: release_def dec_simps)
  note ec = consume_effect [OF assms(1,2) _ bc] and er = release_effect [OF assms(1,2) _ br]
  show ?thesis
  proof (cases q)
    case (Inl e)
    with assms q show ?thesis by (auto simp: execute_def Let_def)
  next
    case (Inr out)
    then show ?thesis
      using assms q bc br ec er by (cases out) (auto simp: execute_def Let_def)
  qed
qed

lemma decide_effect:
  assumes "budget_inv (svc_budget s)" "scale4 (money_value (amount i))"
    and "decide_and_execute sha depth s i = (r, s')"
  shows "budget_inv (svc_budget s') \<and> svc_idempotency s' = svc_idempotency s \<and>
    (case r of
       Inl _ \<Rightarrow> dval (consumed (svc_budget s')) = dval (consumed (svc_budget s)) \<and>
                dval (reserved (svc_budget s)) \<le> dval (reserved (svc_budget s'))
     | Inr res \<Rightarrow>
         dval (consumed (svc_budget s')) = dval (consumed (svc_budget s)) +
           (if result_status res = PS_SUCCEEDED then dval (money_value (amount i)) else 0) \<and>
         dval (reserved (svc_budget s')) = dval (reserved (svc_budget s)) +
           (if result_status res = PS_UNKNOWN_EXTERNAL_OUTCOME then dval (money_value (amount i)) else 0))"
proof (cases "evaluate (svc_policy s) i None = DENY \<or> evaluate (svc_policy s) i None = REQUIRE_APPROVAL
    \<or> (\<exists>e. provider_for s i = Inl e) \<or> dval (money_value (amount i)) \<le> 0")
  case True
  then show ?thesis
    using assms
    by (auto simp: decide_and_execute_def Let_def reserve_def dec_simps split: if_splits sum.splits)
next
  case False
  then obtain prov where prov: "provider_for s i = Inr prov"
    by (cases "provider_for s i") auto
  have pos: "0 < dval (money_value (amount i))" using False by auto
  from reserve_cases [OF assms(1,2) pos] show ?thesis
  proof (elim disjE exE conjE)
    assume "reserve (svc_budget s) (money_value (amount i)) = Inr (False, svc_budget s)"
    with False prov assms show ?thesis by (auto simp: decide_and_execute_def Let_def)
  next
    fix b
    assume b: "reserve (svc_budget s) (money_value (amount i)) = Inr (True, b)" "budget_inv b"
      "consumed b = consumed (svc_budget s)"
      "dval (reserved b) = dval (reserved (svc_budget s)) + dval (money_value (amount i))"
    let ?s = "s\<lparr>svc_budget := b\<rparr>"
    have ex: "execute sha depth ?s i (evaluate (svc_policy s) i None) prov = (r, s')"
      using False prov assms(3) b(1) by (simp add: decide_and_execute_def Let_def)
    have "0 \<le> dval (reserved (svc_budget s))"
      using assms(1) by (simp add: budget_inv_def)
    then have "dval (money_value (amount i)) \<le> dval (reserved (svc_budget ?s))"
      using b(4) by simp
    from execute_effect [OF _ assms(2) pos refl this ex] b show ?thesis
      using pos by (auto split: sum.splits)
  qed
qed

lemma create_payment_books:
  assumes "books_inv s" "scale4 (money_value (amount i))" "create_payment sha depth s i = (r, s')"
  shows "books_inv s'"
proof (cases "svc_idempotency s (idempotency_key i)")
  case (Some e)
  with assms show ?thesis by (cases e) (auto simp: create_payment_def split: if_splits)
next
  case None
  obtain q s1 where q: "decide_and_execute sha depth s i = (q, s1)" by force
  have b: "budget_inv (svc_budget s)" using assms(1) by (simp add: books_inv_def)
  note eff = decide_effect [OF b assms(2) q]
  show ?thesis
  proof (cases q)
    case (Inl e)
    then have "s' = s1" using assms(3) None q by (simp add: create_payment_def)
    with eff Inl assms(1) show ?thesis by (auto simp: books_inv_def)
  next
    case (Inr res)
    then have s': "s' = s1\<lparr>svc_idempotency := (svc_idempotency s1)(idempotency_key i \<mapsto> (fingerprint i, res))\<rparr>"
      using assms(3) None q by (simp add: create_payment_def)
    have same: "svc_idempotency s1 = svc_idempotency s" using eff by simp
    have fin: "finite (dom (svc_idempotency s))" using assms(1) by (simp add: books_inv_def)
    show ?thesis
      using eff Inr assms(1) unfolding s' books_inv_def same
      by (auto simp: same booked_upd [OF fin None] entry_amount_def)
  qed
qed

lemma create_payments_books:
  assumes "books_inv s" "\<forall>i \<in> set is. scale4 (money_value (amount i))"
    and "create_payments sha depth s is = (rs, s')"
  shows "books_inv s'"
  using assms
proof (induction "is" arbitrary: s rs)
  case Nil
  then show ?case by simp
next
  case (Cons i "is")
  obtain r s1 where 1: "create_payment sha depth s i = (r, s1)" by force
  obtain rs1 s2 where 2: "create_payments sha depth s1 is = (rs1, s2)" by force
  from Cons.prems 1 2 show ?case
    using Cons.IH create_payment_books [OF Cons.prems(1) _ 1] by auto
qed

text \<open>C17: after any sequence of payment calls (retries, conflicts, denials, provider
  failures, unknown outcomes and routing errors included) the budget's consumed amount is exactly the
  sum of the amounts of the distinct payments remembered as succeeded, every payment with an unknown
  outcome still holds its reservation, and consumed plus reserved never exceeds the limit.\<close>

theorem service_books:
  assumes "scale4 l" "0 \<le> dval l" "dval l \<le> 10 ^ 22"
    and "\<forall>i \<in> set is. scale4 (money_value (amount i))"
    and "create_payments sha depth (new_service pol (new_budget l) prov st) is = (rs, s)"
  shows "dval (consumed (svc_budget s)) = booked PS_SUCCEEDED (svc_idempotency s) \<and>
    booked PS_UNKNOWN_EXTERNAL_OUTCOME (svc_idempotency s) \<le> dval (reserved (svc_budget s)) \<and>
    dval (consumed (svc_budget s)) + dval (reserved (svc_budget s)) \<le> dval (limit (svc_budget s))"
proof -
  have "books_inv (new_service pol (new_budget l) prov st)"
    using budget_inv_new [OF assms(1-3)] by (simp add: books_inv_def new_service_def booked_def new_budget_def)
  then have "books_inv s"
    using assms(4,5) by (rule create_payments_books)
  then show ?thesis by (simp add: books_inv_def budget_inv_def)
qed

definition sample_store :: store where
  "sample_store = [0 \<mapsto> MockObj (new_mock O_SUCCEEDED)]"

theorem service_books_witness:
  "scale4 (Dec 1000 0) \<and> 0 \<le> dval (Dec 1000 0) \<and> dval (Dec 1000 0) \<le> 10 ^ 22 \<and>
   scale4 (money_value (amount sample_intent)) \<and>
   dval (consumed (svc_budget (snd (create_payments id 8
     (new_service sample_policy (new_budget (Dec 1000 0)) 0 sample_store) [sample_intent, sample_intent]))))
   = booked PS_SUCCEEDED (svc_idempotency (snd (create_payments id 8
     (new_service sample_policy (new_budget (Dec 1000 0)) 0 sample_store) [sample_intent, sample_intent])))"
proof -
  let ?r = "create_payments id 8
     (new_service sample_policy (new_budget (Dec 1000 0)) 0 sample_store) [sample_intent, sample_intent]"
  have h: "scale4 (Dec 1000 0)" "0 \<le> dval (Dec 1000 0)" "dval (Dec 1000 0) \<le> 10 ^ 22"
    "\<forall>i \<in> set [sample_intent, sample_intent]. scale4 (money_value (amount i))" "?r = (fst ?r, snd ?r)"
    by (simp_all add: scale4_def dval_def sample_intent_def)
  show ?thesis using h(1-3) h(4) service_books [OF h] by simp
qed

text \<open>No step of a payment forgets a remembered result.\<close>

lemma execute_idempotency: "svc_idempotency (snd (execute sha depth s i dec prov)) = svc_idempotency s"
  by (simp add: execute_def Let_def split: prod.split sum.split ProviderOutcome.split)

lemma decide_idempotency: "svc_idempotency (snd (decide_and_execute sha depth s i)) = svc_idempotency s"
  by (simp add: decide_and_execute_def Let_def execute_idempotency split: prod.split sum.split bool.split)

lemma create_payment_keeps:
  assumes "svc_idempotency t k = Some e"
  shows "svc_idempotency (snd (create_payment sha depth t x)) k = Some e"
proof (cases "svc_idempotency t (idempotency_key x)")
  case None
  then have "k \<noteq> idempotency_key x" using assms by auto
  then show ?thesis
    using None assms decide_idempotency [of sha depth t x]
    by (cases "decide_and_execute sha depth t x") (simp add: create_payment_def split: sum.split)
next
  case (Some e')
  then show ?thesis using assms by (simp add: create_payment_def split: prod.split)
qed

lemma create_payments_keeps:
  "svc_idempotency t k = Some e \<Longrightarrow> svc_idempotency (snd (create_payments sha depth t xs)) k = Some e"
proof (induction xs arbitrary: t)
  case (Cons x xs)
  have "svc_idempotency (snd (create_payment sha depth t x)) k = Some e"
    by (rule create_payment_keeps [OF Cons.prems])
  from Cons.IH [OF this] show ?case by (simp add: Let_def split_beta)
qed simp

lemma create_payment_remembers:
  assumes "create_payment sha depth s i = (Inr res, s1)"
  shows "svc_idempotency s1 (idempotency_key i) = Some (fingerprint i, res)"
proof (cases "svc_idempotency s (idempotency_key i)")
  case None
  with assms show ?thesis
    by (cases "decide_and_execute sha depth s i") (auto simp: create_payment_def split: sum.splits)
next
  case (Some e)
  with assms show ?thesis by (cases e) (auto simp: create_payment_def split: if_splits)
qed

text \<open>The sample intent, evaluated: notified, reserved, charged and consumed.\<close>

lemma sample_allowed: "evaluate sample_policy sample_intent None = ALLOW_NOTIFY"
  by (simp add: evaluate_eq sample_policy_def sample_intent_def denial_reasons_def n_currency_def n_domain_def
   n_category_def n_region_def n_instrument_def or_else_def norm_text_def opt_denied_def opt_not_allowed_def
   weekday_reasons_def window_reasons_def above_def dec_simps reason_if_def text_eval dval_def)

lemma sample_fields: "money_value (amount sample_intent) = Dec 5000 (-2)" "money_currency (amount sample_intent) = ''USD''"
   "payment_id sample_intent = ''pay_1''"
  by (simp_all add: sample_intent_def)

lemma sample_paid: "\<exists>s1. create_payment id 8 (new_service sample_policy (new_budget (Dec 1000 0)) 0 sample_store) sample_intent =
  (Inr \<lparr>result_payment_id = ''pay_1'', result_status = PS_SUCCEEDED, result_decision = ALLOW_NOTIFY\<rparr>, s1)"
proof -
  have i: "budget_inv (new_budget (Dec 1000 0))" "scale4 (Dec 5000 (-2))" "0 < dval (Dec 5000 (-2))"
    by (simp_all add: budget_inv_def new_budget_def scale4_def dval_def)
  have av: "\<not> dval (available (new_budget (Dec 1000 0))) < dval (Dec 5000 (-2))"
    unfolding available_val [OF i(1)] by (simp add: new_budget_def dval_def)
  from reserve_cases [OF i] av obtain b where b: "reserve (new_budget (Dec 1000 0)) (Dec 5000 (-2)) = Inr (True, b)"
    "dval (reserved b) = dval (Dec 5000 (-2))" by (auto simp: new_budget_def)
  show ?thesis
  by (simp add: create_payment_def decide_and_execute_def Let_def new_service_def sample_allowed sample_fields b
   provider_for_def sample_store_def execute_def eval_nat_numeral mock_run_def new_mock_def consume_def dec_simps  )
qed

text \<open>C18: once a payment has been answered, repeating the same intent under its idempotency
  key returns the same result and changes nothing (no budget movement, no provider call), and using the
  key for an intent with a different fingerprint raises the conflict error and changes nothing; this
  still holds after any number of other payments.\<close>

theorem service_replay:
  assumes "create_payment sha depth s i = (Inr res, s1)"
    and "create_payments sha depth s1 others = (rs, s2)"
    and "idempotency_key j = idempotency_key i" "fingerprint j \<noteq> fingerprint i"
  shows "create_payment sha depth s2 i = (Inr res, s2) \<and>
    create_payment sha depth s2 j = (Inl (ValueError ''idempotency key conflict''), s2)"
proof -
  have "svc_idempotency s2 (idempotency_key i) = Some (fingerprint i, res)"
    using create_payments_keeps [OF create_payment_remembers [OF assms(1)], of sha depth others] assms(2)
    by simp
  then show ?thesis using assms(3,4) by (simp add: create_payment_def)
qed

theorem service_replay_witness:
  "\<exists>res s1 s2. let s0 = new_service sample_policy (new_budget (Dec 1000 0)) 0 sample_store;
        i = sample_intent; j = sample_intent\<lparr>merchant_domain := ''other.example''\<rparr>;
        k = sample_intent\<lparr>idempotency_key := ''other''\<rparr> in
      create_payment id 8 s0 i = (Inr res, s1) \<and> s2 = snd (create_payments id 8 s1 [k]) \<and>
      create_payment id 8 s2 i = (Inr res, s2) \<and>
      create_payment id 8 s2 j = (Inl (ValueError ''idempotency key conflict''), s2)"
proof -
  let ?s0 = "new_service sample_policy (new_budget (Dec 1000 0)) 0 sample_store"
  let ?i = sample_intent
  let ?j = "sample_intent\<lparr>merchant_domain := ''other.example''\<rparr>"
  let ?k = "sample_intent\<lparr>idempotency_key := ''other''\<rparr>"
  obtain s1 where 1: "create_payment id 8 ?s0 ?i =
      (Inr \<lparr>result_payment_id = ''pay_1'', result_status = PS_SUCCEEDED, result_decision = ALLOW_NOTIFY\<rparr>, s1)"
    using sample_paid by blast
  obtain rs s2 where 2: "create_payments id 8 s1 [?k] = (rs, s2)" by force
  have j: "idempotency_key ?j = idempotency_key ?i" "fingerprint ?j \<noteq> fingerprint ?i"
    by (simp_all add: fingerprint_def sample_intent_def)
  show ?thesis using 1 2 service_replay [OF 1 2 j] unfolding Let_def by (metis snd_conv)
qed

end
