(* ===== verification/Orchestrator.thy ===== *)
theory Orchestrator
  imports Outbox Provider Service
begin

text \<open>
  \<open>orchestrator.py\<close>: preparing a payment (authorization, reservation), executing it at the provider
  outside any transaction, and finalizing it in a new one. The statements of a transaction are one value
  of type \<open>tx\<close>. The lemmas say which tables each statement leaves alone, that every transaction
  keeps \<open>budgets_ok\<close> and \<open>ledger_ok\<close>, and what preparing and finalizing do to the books.
\<close>

section \<open>Preparing a payment\<close>

text \<open>The join of a payment and its request, with the verification status of its evidence.\<close>

definition evidence_status :: "db \<Rightarrow> request_row \<Rightarrow> string option" where
  "evidence_status d q =
     (case q_evidence q of None \<Rightarrow> None | Some e \<Rightarrow> map_option ev_status (row_by ev_id e (evidences d)))"

definition bound_payment :: "nat \<Rightarrow> nat \<Rightarrow> db \<Rightarrow> (payment_row \<times> request_row) option" where
  "bound_payment pid rid d =
     (case row_by p_id pid (payments d) of
        None \<Rightarrow> None
      | Some p \<Rightarrow>
          if p_request p \<noteq> rid then None
          else map_option (Pair p) (row_by q_id rid (requests d)))"

definition terminal_states :: "payment_state set" where
  "terminal_states = {ST_SUCCEEDED, ST_FAILED, ST_CANCELLED, ST_VOIDED, ST_REFUNDED}"

definition uuid_json :: "nat \<Rightarrow> json" where
  "uuid_json i = JStr (str_uuid i)"

definition reservation_payload :: "nat \<Rightarrow> json" where
  "reservation_payload res = JObj [(''reservation_id'', uuid_json res)]"

definition prepare :: "nat \<Rightarrow> nat \<Rightarrow> nat \<Rightarrow> decimal \<Rightarrow> string \<Rightarrow> string option \<Rightarrow> nat tx" where
  "prepare pid rid bid amt cur corr =
     bindT (queryT (\<lambda>d. map_option (\<lambda>(p, q). (p, q, evidence_status d q)) (bound_payment pid rid d))) (\<lambda>bound.
     case bound of
       None \<Rightarrow> raiseT (ValueError ''payment and payment request binding is invalid'')
     | Some (p, q, vstatus) \<Rightarrow>
         if q_evidence q = None \<or> vstatus \<noteq> Some ''VERIFIED'' then
           raiseT (PermissionError ''verified authorization evidence is required before execution'')
         else if \<not> deq (of_num4 (q_amount q)) amt \<or> upper (strip (q_currency q)) \<noteq> upper cur then
           raiseT (ValueError ''execution amount/currency does not match payment intent'')
         else if p_status p \<in> terminal_states then raiseT (ValueError ''payment is already terminal'')
         else
           bindT (budget_reserve bid rid amt) (\<lambda>res.
           case res of
             None \<Rightarrow>
               bindT (update_status pid ST_FAILED None) (\<lambda>_.
               bindT (enqueue ''PaymentFailed'' ''payment'' pid (JObj [(''reason'', JStr ''BUDGET_INSUFFICIENT'')]) corr) (\<lambda>_.
               raiseT (ValueError ''budget insufficient'')))
           | Some reservation \<Rightarrow>
               bindT (modifyT (\<lambda>d. d\<lparr>requests := upd_by q_id rid (\<lambda>q. q\<lparr>q_reservation := Some reservation\<rparr>) (requests d)\<rparr>)) (\<lambda>_.
               bindT (update_status pid ST_PROCESSING None) (\<lambda>_.
               bindT (enqueue ''PaymentStarted'' ''payment'' pid (reservation_payload reservation) corr) (\<lambda>_.
               returnT reservation)))))"

section \<open>Execution at the provider\<close>

definition charge_name :: "nat \<Rightarrow> string" where
  "charge_name pid = payment_key pid ''charge''"

definition execute_external ::
    "'p payment_provider \<Rightarrow> 'p \<Rightarrow> nat \<Rightarrow> decimal \<Rightarrow> string \<Rightarrow> (exn + ProviderOutcome) \<times> 'p" where
  "execute_external V prov pid amt cur =
     pp_charge V prov (str_uuid pid) (minor_units amt) cur (charge_name pid)"

section \<open>Finalizing a payment\<close>

definition is_charge_of :: "nat \<Rightarrow> operation_row \<Rightarrow> bool" where
  "is_charge_of pid op \<longleftrightarrow> o_payment op = pid \<and> o_type op = ''CHARGE''"

definition update_charges :: "nat \<Rightarrow> (int \<Rightarrow> operation_row \<Rightarrow> operation_row) \<Rightarrow> unit tx" where
  "update_charges pid f =
     modifyT (\<lambda>d. d\<lparr>operations := map (\<lambda>op. if is_charge_of pid op then f (clock d) op else op) (operations d)\<rparr>)"

definition complete_operation :: "string \<Rightarrow> string option \<Rightarrow> int \<Rightarrow> operation_row \<Rightarrow> operation_row" where
  "complete_operation st ref now op =
     op\<lparr>o_status := st, o_reference := coalesce ref (o_reference op), o_completed := Some now\<rparr>"

definition upsert_capture :: "nat \<Rightarrow> decimal \<Rightarrow> string \<Rightarrow> nat tx" where
  "upsert_capture pid amt cur =
     bindT (liftT (char3 cur)) (\<lambda>cur3.
     bindT (liftT (positive_num4 amt)) (\<lambda>n.
     bindT (queryT (\<lambda>d. row_by t_key (Some (tx_key pid ''capture'')) (transactions d))) (\<lambda>existing.
     case existing of
       Some t \<Rightarrow>
         bindT (modifyT (\<lambda>d. d\<lparr>transactions := upd_by t_key (Some (tx_key pid ''capture''))
           (\<lambda>t. t\<lparr>t_status := TX_POSTED, t_posted := coalesce (t_posted t) (Some (clock d))\<rparr>) (transactions d)\<rparr>)) (\<lambda>_.
         returnT (t_id t))
     | None \<Rightarrow>
         bindT (queryT (\<lambda>d. known p_id pid (payments d))) (\<lambda>ref_ok.
         bindT (references ref_ok ''transactions'') (\<lambda>_.
         bindT draw_id (\<lambda>i.
         bindT (modifyT (\<lambda>d. d\<lparr>transactions := transactions d @
           [\<lparr>t_id = i, t_payment = pid, t_type = ''CAPTURE'', t_status = TX_POSTED, t_amount = n,
             t_currency = cur3, t_original = None, t_external = None,
             t_key = Some (tx_key pid ''capture''), t_posted = Some (clock d)\<rparr>]\<rparr>)) (\<lambda>_.
         returnT i)))))))"

definition amount_payload :: "decimal \<Rightarrow> string \<Rightarrow> json" where
  "amount_payload amt cur = JObj [(''amount'', JStr (str_dec amt)), (''currency'', JStr cur)]"

definition finalize_unknown :: "nat \<Rightarrow> nat \<Rightarrow> string option \<Rightarrow> string option \<Rightarrow> payment_state tx" where
  "finalize_unknown pid res ref corr =
     bindT (update_charges pid (\<lambda>now op. op\<lparr>o_status := ''UNKNOWN''\<rparr>)) (\<lambda>_.
     bindT (update_status pid ST_UNKNOWN_EXTERNAL_OUTCOME ref) (\<lambda>_.
     bindT (enqueue ''PaymentOutcomeUnknown'' ''payment'' pid (reservation_payload res) corr) (\<lambda>_.
     returnT ST_UNKNOWN_EXTERNAL_OUTCOME)))"

definition finalize_failed :: "nat \<Rightarrow> nat \<Rightarrow> string option \<Rightarrow> string option \<Rightarrow> payment_state tx" where
  "finalize_failed pid res ref corr =
     bindT (update_charges pid (complete_operation ''FAILED'' ref)) (\<lambda>_.
     bindT (budget_release res) (\<lambda>_.
     bindT (update_status pid ST_FAILED ref) (\<lambda>_.
     bindT (enqueue ''PaymentFailed'' ''payment'' pid (reservation_payload res) corr) (\<lambda>_.
     returnT ST_FAILED))))"

definition finalize_succeeded ::
    "nat \<Rightarrow> nat \<Rightarrow> decimal \<Rightarrow> string \<Rightarrow> nat \<Rightarrow> nat \<Rightarrow> string option \<Rightarrow> string option \<Rightarrow> payment_state tx" where
  "finalize_succeeded pid res amt cur customer clearing ref corr =
     bindT (update_charges pid (complete_operation ''SUCCEEDED'' ref)) (\<lambda>_.
     bindT (budget_consume res) (\<lambda>_.
     bindT (upsert_capture pid amt cur) (\<lambda>tx.
     bindT (post_journal cur ''TRANSACTION'' (Some tx) (payment_key pid ''capture'') corr
              (two_lines customer clearing amt cur)) (\<lambda>_.
     bindT (update_status pid ST_SUCCEEDED ref) (\<lambda>_.
     bindT (enqueue ''PaymentSucceeded'' ''payment'' pid (amount_payload amt cur) corr) (\<lambda>_.
     returnT ST_SUCCEEDED))))))"

definition finalize ::
    "nat \<Rightarrow> nat \<Rightarrow> nat \<Rightarrow> decimal \<Rightarrow> string \<Rightarrow> nat \<Rightarrow> nat \<Rightarrow> ProviderOutcome \<Rightarrow> string option \<Rightarrow> string option
      \<Rightarrow> payment_state tx" where
  "finalize pid rid res amt cur customer clearing out ref corr =
     bindT (select_payment pid) (\<lambda>row.
     case row of
       None \<Rightarrow> raiseT (ValueError ''payment and payment request binding is invalid'')
     | Some p \<Rightarrow>
         if p_request p \<noteq> rid then raiseT (ValueError ''payment and payment request binding is invalid'')
         else if \<not> deq (of_num4 (p_amount p)) amt \<or> upper (strip (p_currency p)) \<noteq> upper cur then
           raiseT (ValueError ''finalization amount/currency does not match payment'')
         else if p_status p = ST_SUCCEEDED \<and> out = O_SUCCEEDED then returnT ST_SUCCEEDED
         else if p_status p = ST_FAILED \<and> out = O_FAILED then returnT ST_FAILED
         else if p_status p = ST_UNKNOWN_EXTERNAL_OUTCOME \<and> out = O_UNKNOWN then
           returnT ST_UNKNOWN_EXTERNAL_OUTCOME
         else if p_status p \<notin> {ST_PROCESSING, ST_UNKNOWN_EXTERNAL_OUTCOME} then
           raiseT (ValueError ''payment is not in an executable finalization state'')
         else case out of
           O_UNKNOWN \<Rightarrow> finalize_unknown pid res ref corr
         | O_FAILED \<Rightarrow> finalize_failed pid res ref corr
         | O_SUCCEEDED \<Rightarrow> finalize_succeeded pid res amt cur customer clearing ref corr)"

section \<open>Invariants\<close>

lemma keeps_outcome [keeps_intros]:
  "keeps I f \<Longrightarrow> keeps I g \<Longrightarrow> keeps I h \<Longrightarrow>
    keeps I (case out of O_SUCCEEDED \<Rightarrow> f | O_FAILED \<Rightarrow> g | O_UNKNOWN \<Rightarrow> h)"
  by (cases out) simp_all

lemma keeps_enqueue [keeps_intros]:
  "keeps budgets_ok (enqueue ty aggty agg payload corr)"
  "keeps ledger_ok (enqueue ty aggty agg payload corr)"
  unfolding enqueue_def by (intro keeps_intros keeps_modify; simp)+

lemma keeps_update_status [keeps_intros]:
  "keeps budgets_ok (update_status pid st ref)"
  "keeps ledger_ok (update_status pid st ref)"
  unfolding update_status_def by (intro keeps_modify; simp)+

lemma keeps_update_charges [keeps_intros]:
  "keeps budgets_ok (update_charges pid f)"
  "keeps ledger_ok (update_charges pid f)"
  unfolding update_charges_def by (intro keeps_modify; simp)+

lemma keeps_ledger_budgets [keeps_intros]:
  "keeps ledger_ok (budget_reserve bid req amt)"
  "keeps ledger_ok (budget_consume res)"
  "keeps ledger_ok (budget_release res)"
  unfolding budget_reserve_def budget_consume_def budget_release_def insert_reservation_def request_currency_def
    references_def move_budget_def
  by (intro keeps_intros keeps_modify; simp)+

lemma keeps_budgets_journal [keeps_intros]: "keeps budgets_ok (post_journal cur rtype ref key corr ps)"
  by (rule keeps_post_journal [OF keeps_draw_budgets_ok]) simp_all

lemma keeps_upsert_capture [keeps_intros]:
  "keeps budgets_ok (upsert_capture pid amt cur)"
  "keeps ledger_ok (upsert_capture pid amt cur)"
  unfolding upsert_capture_def references_def by (intro keeps_intros keeps_modify; simp)+

lemma keeps_operation [keeps_intros]:
  "keeps budgets_ok (create_provider_operation pid ty key)"
  "keeps ledger_ok (create_provider_operation pid ty key)"
  unfolding create_provider_operation_def new_operation_def references_def
  by (intro keeps_intros keeps_modify; simp)+

lemma keeps_prepare [keeps_intros]:
  "keeps budgets_ok (prepare pid rid bid amt cur corr)"
  "keeps ledger_ok (prepare pid rid bid amt cur corr)"
  unfolding prepare_def by (intro keeps_intros keeps_modify; simp)+

lemma keeps_finalize_parts [keeps_intros]:
  "keeps budgets_ok (finalize_unknown pid res ref corr)"
  "keeps ledger_ok (finalize_unknown pid res ref corr)"
  "keeps budgets_ok (finalize_failed pid res ref corr)"
  "keeps ledger_ok (finalize_failed pid res ref corr)"
  "keeps budgets_ok (finalize_succeeded pid res amt cur customer clearing ref corr)"
  "keeps ledger_ok (finalize_succeeded pid res amt cur customer clearing ref corr)"
  unfolding finalize_unknown_def finalize_failed_def finalize_succeeded_def
  by (intro keeps_intros keeps_modify; simp)+

lemma keeps_finalize [keeps_intros]:
  "keeps budgets_ok (finalize pid rid res amt cur customer clearing out ref corr)"
  "keeps ledger_ok (finalize pid rid res amt cur customer clearing out ref corr)"
  unfolding finalize_def select_payment_def
  by (intro keeps_intros)+

section \<open>What prepare establishes\<close>

lemma deq_rounds_to:
  assumes "deq (of_num4 n) a"
  shows "ten_thousandths a = n"
proof (cases "- 4 \<le> dexp a")
  case True
  with assms show ?thesis by (simp add: deq_ten_thousandths)
next
  case False
  let ?p = "10 ^ nat (- 4 - dexp a) :: int"
  have c: "coeff a = n * ?p" using assms False by (simp add: deq_def at_exp_def)
  have "\<bar>n * ?p\<bar> = \<bar>n\<bar> * ?p" by (simp add: abs_mult)
  moreover have "(\<bar>n\<bar> * (2 * ?p) + ?p) div (2 * ?p) = \<bar>n\<bar>"
  proof -
    have "(\<bar>n\<bar> * (2 * ?p) + ?p) div (2 * ?p) = \<bar>n\<bar> + ?p div (2 * ?p)" by (simp add: div_mult_self3)
    also have "?p div (2 * ?p) = 0" by (rule div_pos_pos_trivial) simp_all
    finally show ?thesis by simp
  qed
  moreover have "sgn (n * ?p) = sgn n" by (simp add: sgn_mult)
  ultimately show ?thesis
    using False by (simp add: ten_thousandths_def Let_def c algebra_simps sgn_mult_abs abs_mult_sgn)
qed

lemma prepare_cases:
  assumes "prepare pid rid bid amt cur corr d = Inr (res, d')"
  shows "\<exists>p q d1. bound_payment pid rid d = Some (p, q) \<and> q_evidence q \<noteq> None \<and>
    evidence_status d q = Some ''VERIFIED'' \<and> deq (of_num4 (q_amount q)) amt \<and>
    upper (strip (q_currency q)) = upper cur \<and> p_status p \<notin> terminal_states \<and>
    budget_reserve bid rid amt d = Inr (Some res, d1) \<and>
    bindT (modifyT (\<lambda>d. d\<lparr>requests := upd_by q_id rid (\<lambda>q. q\<lparr>q_reservation := Some res\<rparr>) (requests d)\<rparr>)) (\<lambda>_.
      bindT (update_status pid ST_PROCESSING None) (\<lambda>_.
      bindT (enqueue ''PaymentStarted'' ''payment'' pid (reservation_payload res) corr) (\<lambda>_. returnT res))) d1
      = Inr (res, d')"
proof (cases "bound_payment pid rid d")
  case None
  with assms show ?thesis by (simp add: prepare_def)
next
  case (Some pq)
  then obtain p q where pq: "bound_payment pid rid d = Some (p, q)" by (cases pq) auto
  have c1: "\<not> (q_evidence q = None \<or> evidence_status d q \<noteq> Some ''VERIFIED'')"
  proof
    assume "q_evidence q = None \<or> evidence_status d q \<noteq> Some ''VERIFIED''"
    with assms pq show False unfolding prepare_def by auto
  qed
  have c2: "\<not> (\<not> deq (of_num4 (q_amount q)) amt \<or> upper (strip (q_currency q)) \<noteq> upper cur)"
  proof
    assume "\<not> deq (of_num4 (q_amount q)) amt \<or> upper (strip (q_currency q)) \<noteq> upper cur"
    with assms pq c1 show False unfolding prepare_def by auto
  qed
  have c3: "p_status p \<notin> terminal_states"
  proof
    assume "p_status p \<in> terminal_states"
    with assms pq c1 c2 show False unfolding prepare_def by auto
  qed
  show ?thesis
  proof (cases "budget_reserve bid rid amt d")
    case (Inl e)
    with assms pq c1 c2 c3 show ?thesis unfolding prepare_def by auto
  next
    case (Inr zd)
    then obtain z d1 where zd: "budget_reserve bid rid amt d = Inr (z, d1)" by (cases zd) auto
    show ?thesis
    proof (cases z)
      case None
      with assms pq c1 c2 c3 zd show ?thesis unfolding prepare_def by (auto simp: update_status_def enqueue_def)
    next
      case (Some r)
      have "r = res" using assms pq c1 c2 c3 zd Some unfolding prepare_def by (auto simp: update_status_def enqueue_def)
      with assms pq c1 c2 c3 zd Some show ?thesis unfolding prepare_def by auto
    qed
  qed
qed

lemma bound_payment_Some:
  "bound_payment pid rid d = Some (p, q) \<longleftrightarrow>
     row_by p_id pid (payments d) = Some p \<and> p_request p = rid \<and> row_by q_id rid (requests d) = Some q"
  by (auto simp: bound_payment_def split: option.splits if_splits)

text \<open>What a successful reservation leaves.\<close>

lemma reserve_held:
  assumes ok: "budgets_ok d" and rs: "budget_reserve bid rid amt d = Inr (Some res, d1)"
  obtains b b' r where "row_by b_id bid (budgets d) = Some b"
    "b_reserved b + b_consumed b + ten_thousandths amt \<le> b_limit b"
    "row_by b_id bid (budgets d1) = Some b'" "b_reserved b' = b_reserved b + ten_thousandths amt"
    "b_consumed b' = b_consumed b" "row_by r_id res (reservations d1) = Some r"
    "r_amount r = ten_thousandths amt" "r_status r = ''RESERVED''"
    "payments d1 = payments d" "requests d1 = requests d" "outbox d1 = outbox d"
proof -
  obtain b m where b: "row_by b_id bid (budgets d) = Some b" and pos: "0 < ten_thousandths amt"
    and av: "\<not> dless (budget_available b) amt" and m: "num4_plus (b_reserved b) amt = Inr m"
    and res: "res = next_id d"
    and d1: "d1 = d\<lparr>next_id := next_id d + 1,
              reservations := reservations d @
                [\<lparr>r_id = next_id d, r_budget = b_id b, r_request = rid, r_amount = ten_thousandths amt,
                  r_currency = b_currency b, r_status = ''RESERVED'', r_released = None, r_consumed = None\<rparr>],
              budgets := upd_by b_id bid (\<lambda>b. b\<lparr>b_reserved := m, b_updated := clock d\<rparr>) (budgets d)\<rparr>"
    using budget_reserve_cases [OF rs] by auto
  have mm: "m = b_reserved b + ten_thousandths amt" by (rule num4_plus_round [OF budgets_okD(3) [OF ok b] pos m])
  have "ten_thousandths amt \<le> b_limit b - b_consumed b - b_reserved b"
    by (rule ten_thousandths_le [OF _ pos]) (use av in \<open>simp add: budget_available_eq [OF ok b]\<close>)
  then have le: "b_reserved b + b_consumed b + ten_thousandths amt \<le> b_limit b" by simp
  have "\<forall>r \<in> set (reservations d). r_id r < next_id d" using ok by (simp add: budgets_ok_def)
  then have fresh: "row_by r_id (next_id d) (reservations d) = None" by (fastforce simp: table_simps)
  show thesis
    by (rule that [OF b le, of "b\<lparr>b_reserved := m, b_updated := clock d\<rparr>"
        "\<lparr>r_id = next_id d, r_budget = b_id b, r_request = rid, r_amount = ten_thousandths amt,
           r_currency = b_currency b, r_status = ''RESERVED'', r_released = None, r_consumed = None\<rparr>"])
      (simp_all add: d1 res mm b fresh row_by_append row_by_upd_by)
qed

text \<open>C4: a payment is started only when it is bound to the given request, the request
  carries evidence whose verification status is VERIFIED, amount and currency are the request's own, the
  payment is not terminal and the budget still has room for the whole amount; then exactly that amount is
  held on the budget by a new reservation the request points to, the payment is PROCESSING and one
  PaymentStarted event is in the outbox.\<close>

theorem prepare_authorized:
  assumes ok: "budgets_ok d" and run: "prepare pid rid bid amt cur corr d = Inr (res, d')"
  shows "\<exists>p q e b b' r. row_by p_id pid (payments d) = Some p \<and> p_request p = rid \<and>
    row_by q_id rid (requests d) = Some q \<and>
    q_evidence q = Some e \<and> map_option ev_status (row_by ev_id e (evidences d)) = Some ''VERIFIED'' \<and>
    dval amt = dval (of_num4 (q_amount q)) \<and> upper (strip (q_currency q)) = upper cur \<and>
    p_status p \<notin> terminal_states \<and>
    row_by b_id bid (budgets d) = Some b \<and> b_reserved b + b_consumed b + q_amount q \<le> b_limit b \<and>
    row_by b_id bid (budgets d') = Some b' \<and> b_reserved b' = b_reserved b + q_amount q \<and>
    b_consumed b' = b_consumed b \<and>
    row_by r_id res (reservations d') = Some r \<and> r_amount r = q_amount q \<and> r_status r = ''RESERVED'' \<and>
    map_option q_reservation (row_by q_id rid (requests d')) = Some (Some res) \<and>
    map_option p_status (row_by p_id pid (payments d')) = Some ST_PROCESSING \<and>
    (\<exists>x. outbox d' = outbox d @ [x] \<and> x_type x = ''PaymentStarted'' \<and> x_aggregate x = pid)"
proof -
  obtain p q d1 where bp: "bound_payment pid rid d = Some (p, q)" and ev: "q_evidence q \<noteq> None"
    "evidence_status d q = Some ''VERIFIED''" and am: "deq (of_num4 (q_amount q)) amt"
    and cu: "upper (strip (q_currency q)) = upper cur" and nt: "p_status p \<notin> terminal_states"
    and rs: "budget_reserve bid rid amt d = Inr (Some res, d1)"
    and rest: "bindT (modifyT (\<lambda>d. d\<lparr>requests := upd_by q_id rid (\<lambda>q. q\<lparr>q_reservation := Some res\<rparr>) (requests d)\<rparr>)) (\<lambda>_.
      bindT (update_status pid ST_PROCESSING None) (\<lambda>_.
      bindT (enqueue ''PaymentStarted'' ''payment'' pid (reservation_payload res) corr) (\<lambda>_. returnT res))) d1
      = Inr (res, d')"
    using prepare_cases [OF run] by blast
  from bp have p: "row_by p_id pid (payments d) = Some p" "p_request p = rid" and q: "row_by q_id rid (requests d) = Some q"
    by (simp_all add: bound_payment_Some)
  from ev obtain e where e: "q_evidence q = Some e" "map_option ev_status (row_by ev_id e (evidences d)) = Some ''VERIFIED''"
    by (auto simp: evidence_status_def)
  have n: "ten_thousandths amt = q_amount q" by (rule deq_rounds_to [OF am])
  have dv: "dval amt = dval (of_num4 (q_amount q))" using am by (simp add: dec_simps)
  obtain b b' r where held: "row_by b_id bid (budgets d) = Some b" "b_reserved b + b_consumed b + q_amount q \<le> b_limit b"
    "row_by b_id bid (budgets d1) = Some b'" "b_reserved b' = b_reserved b + q_amount q"
    "b_consumed b' = b_consumed b" "row_by r_id res (reservations d1) = Some r" "r_amount r = q_amount q"
    "r_status r = ''RESERVED''" and same: "payments d1 = payments d" "requests d1 = requests d" "outbox d1 = outbox d"
    by (rule reserve_held [OF ok rs, unfolded n])
  have after: "budgets d' = budgets d1" "reservations d' = reservations d1"
    "requests d' = upd_by q_id rid (\<lambda>q. q\<lparr>q_reservation := Some res\<rparr>) (requests d1)"
    "payments d' = upd_by p_id pid (set_status ST_PROCESSING None (clock d1)) (payments d1)"
    "\<exists>x. outbox d' = outbox d1 @ [x] \<and> x_type x = ''PaymentStarted'' \<and> x_aggregate x = pid"
    using rest by (auto simp: update_status_def enqueue_def)
  have "map_option q_reservation (row_by q_id rid (requests d')) = Some (Some res)"
    "map_option p_status (row_by p_id pid (payments d')) = Some ST_PROCESSING"
    using p q by (simp_all add: after(3,4) same row_by_upd_by set_status_def)
  with p q e cu nt dv held after(1,2,5) same(3) show ?thesis by auto
qed

section \<open>What each statement leaves alone\<close>

lemma enqueue_frame:
  "frame (\<lambda>d. d\<lparr>next_id := 0, outbox := []\<rparr>) (enqueue ty aggty agg payload corr)"
  unfolding enqueue_def
  by (rule frame_rule) (intro keeps_intros keeps_modify keeps_draw_tables; simp)

lemma update_status_frame:
  "frame (\<lambda>d. d\<lparr>payments := []\<rparr>) (update_status pid st ref)"
  unfolding update_status_def
  by (rule frame_rule) (intro keeps_intros keeps_modify keeps_draw_tables; simp)

lemma update_charges_frame:
  "frame (\<lambda>d. d\<lparr>operations := []\<rparr>) (update_charges pid f)"
  unfolding update_charges_def
  by (rule frame_rule) (intro keeps_intros keeps_modify keeps_draw_tables; simp)

lemma budget_consume_frame:
  "frame (\<lambda>d. d\<lparr>budgets := [], reservations := []\<rparr>) (budget_consume res)"
  unfolding budget_consume_def move_budget_def
  by (rule frame_rule) (intro keeps_intros keeps_modify keeps_draw_tables; simp)

lemma budget_release_frame:
  "frame (\<lambda>d. d\<lparr>budgets := [], reservations := []\<rparr>) (budget_release res)"
  unfolding budget_release_def move_budget_def
  by (rule frame_rule) (intro keeps_intros keeps_modify keeps_draw_tables; simp)

lemma upsert_capture_frame:
  "frame (\<lambda>d. d\<lparr>next_id := 0, transactions := []\<rparr>) (upsert_capture pid amt cur)"
  unfolding upsert_capture_def references_def
  by (rule frame_rule) (intro keeps_intros keeps_modify keeps_draw_tables; simp)

lemma post_journal_frame:
  "frame (\<lambda>d. d\<lparr>next_id := 0, journals := [], postings := []\<rparr>) (post_journal cur rtype ref key corr ps)"
  by (rule frame_rule, rule keeps_post_journal [OF keeps_draw_tables]) simp_all

definition outcome_state :: "ProviderOutcome \<Rightarrow> payment_state" where
  "outcome_state out =
     (case out of O_SUCCEEDED \<Rightarrow> ST_SUCCEEDED | O_FAILED \<Rightarrow> ST_FAILED | O_UNKNOWN \<Rightarrow> ST_UNKNOWN_EXTERNAL_OUTCOME)"

lemma spec_amounts_two_lines [simp]:
  "spec_amounts ''DEBIT'' (two_lines a b amt cur) = [amt]"
  "spec_amounts ''CREDIT'' (two_lines a b amt cur) = [amt]"
  by (simp_all add: spec_amounts_def two_lines_def)

lemma finalize_runs:
  assumes "finalize pid rid res amt cur customer clearing out ref corr d = Inr (st, d')"
    and "row_by p_id pid (payments d) = Some p" "p_status p = ST_PROCESSING"
  shows "(case out of
           O_UNKNOWN \<Rightarrow> finalize_unknown pid res ref corr d
         | O_FAILED \<Rightarrow> finalize_failed pid res ref corr d
         | O_SUCCEEDED \<Rightarrow> finalize_succeeded pid res amt cur customer clearing ref corr d) = Inr (st, d')"
  using assms unfolding finalize_def select_payment_def by (auto split: if_splits ProviderOutcome.splits)

definition closing :: "nat \<Rightarrow> payment_state \<Rightarrow> string option \<Rightarrow> string \<Rightarrow> json \<Rightarrow> string option \<Rightarrow> payment_state tx" where
  "closing pid st ref ty payload corr =
     bindT (update_status pid st ref) (\<lambda>_. bindT (enqueue ty ''payment'' pid payload corr) (\<lambda>_. returnT st))"

lemma closing_run:
  assumes "closing pid st ref ty payload corr d = Inr (st', d')"
  shows "st' = st \<and> d'\<lparr>next_id := 0, payments := [], outbox := []\<rparr> = d\<lparr>next_id := 0, payments := [], outbox := []\<rparr> \<and>
    payments d' = upd_by p_id pid (set_status st ref (clock d)) (payments d)"
  using assms by (auto simp: closing_def update_status_def enqueue_def)

lemma finalize_closing:
  "finalize_unknown pid res ref corr =
     bindT (update_charges pid (\<lambda>now op. op\<lparr>o_status := ''UNKNOWN''\<rparr>)) (\<lambda>_.
     closing pid ST_UNKNOWN_EXTERNAL_OUTCOME ref ''PaymentOutcomeUnknown'' (reservation_payload res) corr)"
  "finalize_failed pid res ref corr =
     bindT (update_charges pid (complete_operation ''FAILED'' ref)) (\<lambda>_.
     bindT (budget_release res) (\<lambda>_.
     closing pid ST_FAILED ref ''PaymentFailed'' (reservation_payload res) corr))"
  "finalize_succeeded pid res amt cur customer clearing ref corr =
     bindT (update_charges pid (complete_operation ''SUCCEEDED'' ref)) (\<lambda>_.
     bindT (budget_consume res) (\<lambda>_.
     bindT (upsert_capture pid amt cur) (\<lambda>tx.
     bindT (post_journal cur ''TRANSACTION'' (Some tx) (payment_key pid ''capture'') corr
              (two_lines customer clearing amt cur)) (\<lambda>_.
     closing pid ST_SUCCEEDED ref ''PaymentSucceeded'' (amount_payload amt cur) corr))))"
  by (simp_all only: finalize_unknown_def finalize_failed_def finalize_succeeded_def closing_def)

lemma bindT_Inr: "bindT f g d = Inr (x, d') \<longleftrightarrow> (\<exists>y e. f d = Inr (y, e) \<and> g y e = Inr (x, d'))"
  by (cases "f d") auto

lemma set_status_fields [simp]:
  "p_id (set_status st ref n p) = p_id p" "p_request (set_status st ref n p) = p_request p"
  "p_amount (set_status st ref n p) = p_amount p" "p_currency (set_status st ref n p) = p_currency p"
  "p_status (set_status st ref n p) = st" "p_operation (set_status st ref n p) = p_operation p"
  by (simp_all add: set_status_def)

section \<open>What finalizing does to the books\<close>

lemma upsert_capture_new:
  assumes "upsert_capture pid amt cur d = Inr (i, d')" "\<not> known t_key (Some (tx_key pid ''capture'')) (transactions d)"
  shows "\<exists>cur3. transactions d' = transactions d @
       [\<lparr>t_id = next_id d, t_payment = pid, t_type = ''CAPTURE'', t_status = TX_POSTED, t_amount = ten_thousandths amt,
         t_currency = cur3, t_original = None, t_external = None,
         t_key = Some (tx_key pid ''capture''), t_posted = Some (clock d)\<rparr>]"
proof -
  have "row_by t_key (Some (tx_key pid ''capture'')) (transactions d) = None" using assms(2) by (simp add: row_by_None)
  with assms(1) show ?thesis
    by (auto simp: upsert_capture_def references_def err_simps split: if_splits)
qed

lemma post_pair_new:
  assumes "post_journal cur rtype ref key corr (two_lines a b amt cur) d = Inr (i, d')"
    "\<not> known j_key key (journals d)" "ledger_ok d"
  shows "\<exists>j. row_by j_key key (journals d') = Some j \<and> j_reference j = ref \<and>
    line_total ''DEBIT'' (j_id j) (postings d') = ten_thousandths amt \<and>
    line_total ''CREDIT'' (j_id j) (postings d') = ten_thousandths amt"
proof -
  have none: "row_by j_key key (journals d) = None" using assms(2) by (simp add: row_by_None)
  have ids: "\<And>j. j \<in> set (journals d) \<Longrightarrow> j_id j < next_id d" using assms(3) by (simp add: ledger_ok_def)
  have "\<And>l. l \<in> set (postings d) \<Longrightarrow> l_journal l \<noteq> next_id d"
    using assms(3) ids by (fastforce simp: ledger_ok_def)
  then have z: "line_total s (next_id d) (postings d) = 0" for s by (rule line_total_fresh)
  from post_journal_cases [OF assms(1)] assms(2) obtain cur3 where
    "d' = d\<lparr>next_id := next_id d + 1,
       journals := journals d @ [\<lparr>j_id = next_id d, j_currency = cur3, j_reference_type = rtype,
         j_reference = ref, j_key = key, j_correlation = corr\<rparr>],
       postings := postings d @ map (stored_line (next_id d) cur3) (two_lines a b amt cur)\<rparr>" by auto
  with none z show ?thesis by (simp add: row_by_append line_total_append stored_sum_def)
qed

text \<open>A reservation of the budget is held and is about to be settled.\<close>

definition held_reservation :: "nat \<Rightarrow> reservation_row \<Rightarrow> budget_row \<Rightarrow> db \<Rightarrow> bool" where
  "held_reservation res r b d \<longleftrightarrow> budgets_ok d \<and> ledger_ok d \<and> row_by r_id res (reservations d) = Some r \<and>
     r_status r = ''RESERVED'' \<and> row_by b_id (r_budget r) (budgets d) = Some b"

lemma held_id: "held_reservation res r b d \<Longrightarrow> r_id r = res"
  by (auto simp: held_reservation_def dest: row_by_Some_key)

lemma failed_books:
  assumes held: "held_reservation res r b d" and run: "finalize_failed pid res ref corr d = Inr (st, d')"
  shows "st = ST_FAILED \<and> transactions d' = transactions d \<and> journals d' = journals d \<and> postings d' = postings d \<and>
    map_option r_status (row_by r_id res (reservations d')) = Some ''RELEASED'' \<and>
    (\<exists>b'. row_by b_id (r_budget r) (budgets d') = Some b' \<and> b_reserved b' = b_reserved b - r_amount r \<and>
       b_consumed b' = b_consumed b)"
proof -
  define u where "u = d\<lparr>operations := map (\<lambda>op. if is_charge_of pid op
      then complete_operation ''FAILED'' ref (clock d) op else op) (operations d)\<rparr>"
  have u: "budgets_ok u" "row_by r_id res (reservations u) = Some r" and st: "r_status r = ''RESERVED''"
    and b: "row_by b_id (r_budget r) (budgets d) = Some b" and rid: "r_id r = res"
    using held held_id [OF held] by (simp_all add: u_def held_reservation_def)
  have "bindT (budget_release res) (\<lambda>_.
      closing pid ST_FAILED ref ''PaymentFailed'' (reservation_payload res) corr) u = Inr (st, d')"
    using run by (simp add: finalize_closing(2) update_charges_def u_def [symmetric])
  then have "closing pid ST_FAILED ref ''PaymentFailed'' (reservation_payload res) corr
      (settled_db (\<lambda>r. r\<lparr>r_status := ''RELEASED'', r_released := Some (clock u)\<rparr>) r 0 u) = Inr (st, d')"
    by (simp add: budget_release_run [OF u] st)
  note cl = closing_run [OF this]
  note f = db_fields [OF conjunct1 [OF conjunct2 [OF cl]], simplified]
  show ?thesis using cl f u(2) b rid by (simp add: settled_db_def u_def row_by_upd_by)
qed

lemma succeeded_steps:
  assumes held: "held_reservation res r b d"
    and run: "finalize_succeeded pid res amt cur customer clearing ref corr d = Inr (st, d')"
  obtains v tx d3 w d4 where
    "ledger_ok v" "transactions v = transactions d" "journals v = journals d" "row_by r_id res (reservations v) =
       Some (r\<lparr>r_status := ''CONSUMED'', r_consumed := Some (clock d)\<rparr>)"
    "row_by b_id (r_budget r) (budgets v) = Some (b\<lparr>b_reserved := b_reserved b - r_amount r,
       b_consumed := b_consumed b + r_amount r, b_updated := clock d\<rparr>)"
    "upsert_capture pid amt cur v = Inr (tx, d3)"
    "post_journal cur ''TRANSACTION'' (Some tx) (payment_key pid ''capture'') corr
       (two_lines customer clearing amt cur) d3 = Inr (w, d4)"
    "closing pid ST_SUCCEEDED ref ''PaymentSucceeded'' (amount_payload amt cur) corr d4 = Inr (st, d')"
proof -
  define u where "u = d\<lparr>operations := map (\<lambda>op. if is_charge_of pid op
      then complete_operation ''SUCCEEDED'' ref (clock d) op else op) (operations d)\<rparr>"
  have u: "budgets_ok u" "row_by r_id res (reservations u) = Some r" and st: "r_status r = ''RESERVED''"
    and h: "row_by b_id (r_budget r) (budgets d) = Some b" "r_id r = res" "ledger_ok d"
    using held held_id [OF held] by (simp_all add: u_def held_reservation_def)
  define v where "v = settled_db (\<lambda>r. r\<lparr>r_status := ''CONSUMED'', r_consumed := Some (clock u)\<rparr>) r (r_amount r) u"
  have "bindT (upsert_capture pid amt cur) (\<lambda>tx.
      bindT (post_journal cur ''TRANSACTION'' (Some tx) (payment_key pid ''capture'') corr
            (two_lines customer clearing amt cur)) (\<lambda>_.
      closing pid ST_SUCCEEDED ref ''PaymentSucceeded'' (amount_payload amt cur) corr)) v = Inr (st, d')"
    using run by (simp add: finalize_closing(3) update_charges_def u_def [symmetric] budget_consume_run [OF u] st
        v_def [symmetric])
  then obtain tx d3 w d4 where "upsert_capture pid amt cur v = Inr (tx, d3)"
    "post_journal cur ''TRANSACTION'' (Some tx) (payment_key pid ''capture'') corr
       (two_lines customer clearing amt cur) d3 = Inr (w, d4)"
    "closing pid ST_SUCCEEDED ref ''PaymentSucceeded'' (amount_payload amt cur) corr d4 = Inr (st, d')"
    unfolding bindT_Inr by blast
  moreover have "ledger_ok v" "transactions v = transactions d" "journals v = journals d"
    "row_by r_id res (reservations v) = Some (r\<lparr>r_status := ''CONSUMED'', r_consumed := Some (clock d)\<rparr>)"
    "row_by b_id (r_budget r) (budgets v) = Some (b\<lparr>b_reserved := b_reserved b - r_amount r,
       b_consumed := b_consumed b + r_amount r, b_updated := clock d\<rparr>)"
    using u(2) h by (simp_all add: v_def u_def settled_db_def row_by_upd_by)
  ultimately show thesis using that by blast
qed

lemma succeeded_books:
  assumes held: "held_reservation res r b d"
    and new: "\<not> known t_key (Some (tx_key pid ''capture'')) (transactions d)"
      "\<not> known j_key (payment_key pid ''capture'') (journals d)"
    and run: "finalize_succeeded pid res amt cur customer clearing ref corr d = Inr (st, d')"
  shows "st = ST_SUCCEEDED \<and> map_option r_status (row_by r_id res (reservations d')) = Some ''CONSUMED'' \<and>
    (\<exists>b'. row_by b_id (r_budget r) (budgets d') = Some b' \<and> b_reserved b' = b_reserved b - r_amount r \<and>
       b_consumed b' = b_consumed b + r_amount r) \<and>
    (\<exists>t j. transactions d' = transactions d @ [t] \<and> t_payment t = pid \<and> t_type t = ''CAPTURE'' \<and>
       t_status t = TX_POSTED \<and> t_amount t = ten_thousandths amt \<and>
       row_by j_key (payment_key pid ''capture'') (journals d') = Some j \<and>
       line_total ''DEBIT'' (j_id j) (postings d') = ten_thousandths amt \<and>
       line_total ''CREDIT'' (j_id j) (postings d') = ten_thousandths amt)"
  using held run
proof (rule succeeded_steps)
  fix v tx d3 w d4
  assume v: "ledger_ok v" "transactions v = transactions d" "journals v = journals d" "row_by r_id res (reservations v) =
       Some (r\<lparr>r_status := ''CONSUMED'', r_consumed := Some (clock d)\<rparr>)"
    "row_by b_id (r_budget r) (budgets v) = Some (b\<lparr>b_reserved := b_reserved b - r_amount r,
       b_consumed := b_consumed b + r_amount r, b_updated := clock d\<rparr>)"
    and 3: "upsert_capture pid amt cur v = Inr (tx, d3)"
    and 4: "post_journal cur ''TRANSACTION'' (Some tx) (payment_key pid ''capture'') corr
       (two_lines customer clearing amt cur) d3 = Inr (w, d4)"
    and 5: "closing pid ST_SUCCEEDED ref ''PaymentSucceeded'' (amount_payload amt cur) corr d4 = Inr (st, d')"
  note f3 = db_fields [OF frameD [OF upsert_capture_frame 3], simplified]
  note f4 = db_fields [OF frameD [OF post_journal_frame 4], simplified]
  note cl = closing_run [OF 5]
  note f5 = db_fields [OF conjunct1 [OF conjunct2 [OF cl]], simplified]
  have "\<not> known j_key (payment_key pid ''capture'') (journals d3)"
    "\<not> known t_key (Some (tx_key pid ''capture'')) (transactions v)"
    using new f3 v by simp_all
  note nk = this
  obtain t where t: "transactions d3 = transactions d @ [t]" "t_payment t = pid" "t_type t = ''CAPTURE''"
    "t_status t = TX_POSTED" "t_amount t = ten_thousandths amt"
    using upsert_capture_new [OF 3 nk(2)] v(2) by auto
  obtain j where "row_by j_key (payment_key pid ''capture'') (journals d4) = Some j"
    "line_total ''DEBIT'' (j_id j) (postings d4) = ten_thousandths amt"
    "line_total ''CREDIT'' (j_id j) (postings d4) = ten_thousandths amt"
    using post_pair_new [OF 4 nk(1) keepsD [OF keeps_upsert_capture(2) v(1) 3]] by blast
  with cl f5 f4 f3 t v show ?thesis by simp
qed

text \<open>C5: finalizing a payment that is being processed or unknown, with its reservation still
  held, follows the provider's outcome exactly: an unknown outcome leaves budget, reservations, transactions
  and ledger alone; a failure gives the reserved amount back and posts nothing; a success moves the reserved
  amount to the consumed total, records one posted capture transaction of the amount, and books the amount
  once as a debit and a credit of the capture journal, which refers to that transaction.\<close>

theorem finalize_books:
  assumes ok: "budgets_ok d" "ledger_ok d"
    and p: "row_by p_id pid (payments d) = Some p"
      "p_status p = ST_PROCESSING \<or> (p_status p = ST_UNKNOWN_EXTERNAL_OUTCOME \<and> out \<noteq> O_UNKNOWN)"
    and r: "row_by r_id res (reservations d) = Some r" "r_status r = ''RESERVED''"
    and b: "row_by b_id (r_budget r) (budgets d) = Some b"
    and new: "\<not> known t_key (Some (tx_key pid ''capture'')) (transactions d)"
      "\<not> known j_key (payment_key pid ''capture'') (journals d)"
    and run: "finalize pid rid res amt cur customer clearing out ref corr d = Inr (st, d')"
  shows "budgets_ok d' \<and> ledger_ok d' \<and> st = outcome_state out \<and>
    (case out of
       O_UNKNOWN \<Rightarrow> budgets d' = budgets d \<and> reservations d' = reservations d \<and> transactions d' = transactions d \<and>
         journals d' = journals d \<and> postings d' = postings d
     | O_FAILED \<Rightarrow> transactions d' = transactions d \<and> journals d' = journals d \<and> postings d' = postings d \<and>
         map_option r_status (row_by r_id res (reservations d')) = Some ''RELEASED'' \<and>
         (\<exists>b'. row_by b_id (r_budget r) (budgets d') = Some b' \<and> b_reserved b' = b_reserved b - r_amount r \<and>
           b_consumed b' = b_consumed b)
     | O_SUCCEEDED \<Rightarrow>
         map_option r_status (row_by r_id res (reservations d')) = Some ''CONSUMED'' \<and>
         (\<exists>b'. row_by b_id (r_budget r) (budgets d') = Some b' \<and> b_reserved b' = b_reserved b - r_amount r \<and>
           b_consumed b' = b_consumed b + r_amount r) \<and>
         (\<exists>t j. transactions d' = transactions d @ [t] \<and> t_payment t = pid \<and> t_type t = ''CAPTURE'' \<and>
           t_status t = TX_POSTED \<and> t_amount t = ten_thousandths amt \<and>
           row_by j_key (payment_key pid ''capture'') (journals d') = Some j \<and>
           line_total ''DEBIT'' (j_id j) (postings d') = ten_thousandths amt \<and>
           line_total ''CREDIT'' (j_id j) (postings d') = ten_thousandths amt))"
proof -
  have oks: "budgets_ok d'" "ledger_ok d'"
    using keepsD [OF keeps_finalize(1) ok(1) run] keepsD [OF keeps_finalize(2) ok(2) run] .
  have held: "held_reservation res r b d" using ok r b by (simp add: held_reservation_def)
  have fin: "(case out of
           O_UNKNOWN \<Rightarrow> finalize_unknown pid res ref corr d
         | O_FAILED \<Rightarrow> finalize_failed pid res ref corr d
         | O_SUCCEEDED \<Rightarrow> finalize_succeeded pid res amt cur customer clearing ref corr d) = Inr (st, d')"
    using run p unfolding finalize_def select_payment_def by (auto split: if_splits ProviderOutcome.splits)
  show ?thesis
  proof (cases out)
    case O_UNKNOWN
    with fin oks show ?thesis
      by (auto simp: finalize_unknown_def update_charges_def update_status_def enqueue_def outcome_state_def)
  next
    case O_FAILED
    with fin oks failed_books [OF held] show ?thesis by (simp add: outcome_state_def)
  next
    case O_SUCCEEDED
    with fin oks succeeded_books [OF held new] show ?thesis by (simp add: outcome_state_def)
  qed
qed

definition ready_db :: db where
  "ready_db = held_db\<lparr>requests := [sample_request\<lparr>q_reservation := Some 10\<rparr>],
     payments := [sample_payment\<lparr>p_status := ST_PROCESSING\<rparr>]\<rparr>"

lemma sum_single_num4:
  assumes "\<bar>n\<bar> < num4_max"
  shows "sum_decimals [of_num4 n] = of_num4 n"
proof -
  have "\<bar>n\<bar> < 10 ^ 28" using assms num4_max_lt by simp
  then show ?thesis by (simp add: sum_decimals_def dadd_def at_exp_def dfix_exact of_num4_def)
qed

lemma post_pair_runs:
  assumes "0 < n" "n < num4_max" "length cur = 3" "key \<notin> keys_of j_key (journals d)"
    "known la_id a (ledger_accounts d)" "known la_id b (ledger_accounts d)"
  shows "post_journal cur rtype ref key corr (two_lines a b (of_num4 n) cur) d =
    Inr (next_id d, d\<lparr>next_id := next_id d + 1,
       journals := journals d @ [\<lparr>j_id = next_id d, j_currency = cur, j_reference_type = rtype,
         j_reference = ref, j_key = key, j_correlation = corr\<rparr>],
       postings := postings d @ map (stored_line (next_id d) cur) (two_lines a b (of_num4 n) cur)\<rparr>)"
proof -
  have "row_by j_key key (journals d) = None" using assms(4) by (simp add: row_by_None)
  moreover have "positive_num4 (of_num4 n) = Inr n" using assms(1,2) by (simp add: positive_num4_eq)
  moreover have "\<not> dle (of_num4 n) dzero" using assms(1) by (simp add: dzero_num4)
  moreover have "deq (of_num4 n) (of_num4 n)" by (simp add: deq_def)
  moreover have "sum_decimals [of_num4 n] = of_num4 n" using assms(1,2) by (simp add: sum_single_num4)
  ultimately show ?thesis using assms(3,5,6)
    unfolding post_journal_def spec_amounts_two_lines
    by (simp add: Let_def) (simp add: two_lines_def insert_journal_def insert_posting_def references_def
        char3_id stored_line_def)
qed

lemma ready_db_ok: "budgets_ok ready_db" "ledger_ok ready_db"
  by (simp_all add: ready_db_def held_db_def sample_defs budgets_ok_def budget_ok_def total_def num4_max_def ledger_ok_def)

lemma ready_succeeds:
  "\<exists>d'. finalize 5 4 10 (of_num4 250000) ''USD'' 8 9 O_SUCCEEDED ref corr ready_db = Inr (ST_SUCCEEDED, d')"
  by (simp add: finalize_def select_payment_def finalize_succeeded_def update_charges_def budget_consume_def
     move_budget_def upsert_capture_def post_pair_runs num4_max_def
     references_def update_status_def enqueue_def ready_db_def held_db_def sample_defs text_eval
     char3_def positive_num4_def to_num4_def ten_thousandths_def check_num4_def deq_def)

theorem finalize_books_witness:
  "\<exists>d' b' t j. finalize 5 4 10 (of_num4 250000) ''USD'' 8 9 O_SUCCEEDED None None ready_db = Inr (ST_SUCCEEDED, d') \<and>
     budgets_ok d' \<and> ledger_ok d' \<and>
     row_by b_id 3 (budgets d') = Some b' \<and> b_reserved b' = 0 \<and> b_consumed b' = 250000 \<and>
     transactions d' = [t] \<and> t_amount t = 250000 \<and>
     row_by j_key (payment_key 5 ''capture'') (journals d') = Some j \<and>
     line_total ''DEBIT'' (j_id j) (postings d') = 250000"
proof -
  let ?r = "\<lparr>r_id = 10, r_budget = 3, r_request = 4, r_amount = 250000, r_currency = ''USD'',
       r_status = ''RESERVED'', r_released = None, r_consumed = None\<rparr>"
  obtain d' where run: "finalize 5 4 10 (of_num4 250000) ''USD'' 8 9 O_SUCCEEDED None None ready_db = Inr (ST_SUCCEEDED, d')"
    using ready_succeeds by blast
  have h: "row_by p_id 5 (payments ready_db) = Some (sample_payment\<lparr>p_status := ST_PROCESSING\<rparr>)"
    "p_status (sample_payment\<lparr>p_status := ST_PROCESSING\<rparr>) = ST_PROCESSING \<or>
      (p_status (sample_payment\<lparr>p_status := ST_PROCESSING\<rparr>) = ST_UNKNOWN_EXTERNAL_OUTCOME \<and> O_SUCCEEDED \<noteq> O_UNKNOWN)"
    "row_by r_id 10 (reservations ready_db) = Some ?r" "r_status ?r = ''RESERVED''"
    "row_by b_id (r_budget ?r) (budgets ready_db) = Some (sample_budget\<lparr>b_reserved := 250000\<rparr>)"
    "\<not> known t_key (Some (tx_key 5 ''capture'')) (transactions ready_db)"
    "\<not> known j_key (payment_key 5 ''capture'') (journals ready_db)"
    by (simp_all add: ready_db_def held_db_def sample_defs)
  have e: "transactions ready_db = []" "b_consumed (sample_budget\<lparr>b_reserved := 250000\<rparr>) = 0"
    by (simp_all add: ready_db_def held_db_def sample_defs)
  show ?thesis using run finalize_books [OF ready_db_ok h run] e by auto
qed

theorem prepare_authorized_witness:
  "\<exists>d' b'. prepare 5 4 3 (of_num4 250000) ''USD'' None sample_db = Inr (10, d') \<and>
     row_by b_id 3 (budgets d') = Some b' \<and> b_reserved b' = 250000 \<and>
     map_option p_status (row_by p_id 5 (payments d')) = Some ST_PROCESSING"
proof -
  have ok: "budgets_ok sample_db"
    by (simp add: sample_defs budgets_ok_def budget_ok_def total_def num4_max_def)
  have av: "budget_available sample_budget = of_num4 1000000"
    using budget_available_eq [OF ok, of 3 sample_budget] by (simp add: sample_defs)
  have "num4_plus 0 (of_num4 250000) = Inr 250000"
    by (simp add: num4_plus_def at_exp_def to_num4_def ten_thousandths_def check_num4_def num4_max_def)
  then have "\<exists>d'. prepare 5 4 3 (of_num4 250000) ''USD'' None sample_db = Inr (10, d')"
    using av by (simp add: prepare_def bound_payment_def evidence_status_def budget_reserve_def request_currency_def
        insert_reservation_def references_def update_status_def enqueue_def sample_defs text_eval deq_def
        positive_num4_def to_num4_def ten_thousandths_def check_num4_def num4_max_def terminal_states_def
        dless_def at_exp_def)
  then obtain d' where run: "prepare 5 4 3 (of_num4 250000) ''USD'' None sample_db = Inr (10, d')" by blast
  have "row_by b_id 3 (budgets sample_db) = Some sample_budget" "row_by q_id 4 (requests sample_db) = Some sample_request"
    "b_reserved sample_budget = 0" "q_amount sample_request = 250000" by (simp_all add: sample_defs)
  with run prepare_authorized [OF ok run] show ?thesis by auto
qed



end
