(* ===== verification/Worker.thy ===== *)
theory Worker
  imports Orchestrator
begin

text \<open>
  \<open>worker.py\<close>: one payment is claimed in a transaction, charged at the provider outside any
  transaction, and finalized in a second transaction. The theory shows that a run that was finished is
  never repeated: the durable charge operation answers for the provider.
\<close>

section \<open>The worker\<close>

text \<open>The first transaction: the payment is marked as being processed and its charge operation is made
  durable. It returns what the worker keeps: request, amount, currency and reservation.\<close>

definition claim_payment :: "nat \<Rightarrow> (nat \<times> decimal \<times> string \<times> nat) tx" where
  "claim_payment pid =
     bindT (queryT (\<lambda>d. case row_by p_id pid (payments d) of
                          None \<Rightarrow> None
                        | Some p \<Rightarrow> map_option (Pair p) (row_by q_id (p_request p) (requests d)))) (\<lambda>row.
     case row of
       None \<Rightarrow> raiseT (ValueError ''payment not found'')
     | Some (p, q) \<Rightarrow>
         (case q_reservation q of
            None \<Rightarrow> raiseT (ValueError ''payment has no budget reservation'')
          | Some res \<Rightarrow>
              bindT (create_provider_operation pid ''CHARGE'' (charge_name pid)) (\<lambda>_.
              bindT (update_status pid ST_PROCESSING None) (\<lambda>_.
              returnT (p_request p, of_num4 (p_amount p), p_currency p, res)))))"

text \<open>The latest charge operation of a payment (ORDER BY created_at DESC LIMIT 1; of operations created at
  the same instant, the one inserted last), and the outcome it records.\<close>

definition latest_charge :: "nat \<Rightarrow> db \<Rightarrow> operation_row option" where
  "latest_charge pid d =
     (let ops = sort_key o_created (filter (is_charge_of pid) (operations d))
      in if ops = [] then None else Some (last ops))"

definition durable_outcome :: "operation_row option \<Rightarrow> ProviderOutcome option" where
  "durable_outcome op =
     (case op of
        None \<Rightarrow> None
      | Some r \<Rightarrow>
          if o_status r = ''SUCCEEDED'' then Some O_SUCCEEDED
          else if o_status r = ''FAILED'' then Some O_FAILED
          else if o_status r = ''UNKNOWN'' then Some O_UNKNOWN
          else None)"

definition reference_for :: "'p payment_provider \<Rightarrow> 'p \<Rightarrow> string \<Rightarrow> string option" where
  "reference_for V prov key = (case pp_reference_for V of None \<Rightarrow> None | Some f \<Rightarrow> f prov key)"

text \<open>The provider step: a recorded outcome is used as it is, otherwise the provider is charged.\<close>

definition provider_step ::
    "'p payment_provider \<Rightarrow> 'p \<Rightarrow> nat \<Rightarrow> decimal \<Rightarrow> string \<Rightarrow> db
      \<Rightarrow> (exn + ProviderOutcome \<times> string option) \<times> 'p" where
  "provider_step V prov pid amt cur d =
     (case durable_outcome (latest_charge pid d) of
        Some out \<Rightarrow> (Inr (out, Option.bind (latest_charge pid d) o_reference), prov)
      | None \<Rightarrow>
          (case execute_external V prov pid amt cur of
             (Inl e, prov') \<Rightarrow> (Inl e, prov')
           | (Inr out, prov') \<Rightarrow> (Inr (out, reference_for V prov' (charge_name pid)), prov')))"

definition process_one ::
    "'p payment_provider \<Rightarrow> nat \<Rightarrow> nat \<Rightarrow> nat \<Rightarrow> string option \<Rightarrow> db \<times> 'p \<Rightarrow> (exn + payment_state) \<times> db \<times> 'p" where
  "process_one V pid customer clearing corr s =
     (let (d, prov) = s; (r1, d1) = transact (claim_payment pid) d
      in case r1 of
           Inl e \<Rightarrow> (Inl e, d1, prov)
         | Inr (rid, amt, cur, res) \<Rightarrow>
             (case provider_step V prov pid amt cur d1 of
                (Inl e, prov1) \<Rightarrow> (Inl e, d1, prov1)
              | (Inr (out, ref), prov1) \<Rightarrow>
                  (let (r2, d2) = transact (finalize pid rid res amt cur customer clearing out ref corr) d1
                   in (r2, d2, prov1))))"

lemma keeps_claim [keeps_intros]:
  "keeps budgets_ok (claim_payment pid)"
  "keeps ledger_ok (claim_payment pid)"
  unfolding claim_payment_def by (intro keeps_intros keeps_modify; simp)+

section \<open>A settled payment\<close>

text \<open>What a finished run of the worker leaves behind, and what a later run for the same payment finds.\<close>

definition outcome_text :: "ProviderOutcome \<Rightarrow> string" where
  "outcome_text out = (case out of O_SUCCEEDED \<Rightarrow> ''SUCCEEDED'' | O_FAILED \<Rightarrow> ''FAILED'' | O_UNKNOWN \<Rightarrow> ''UNKNOWN'')"

definition claimable :: "nat \<Rightarrow> nat \<Rightarrow> decimal \<Rightarrow> string \<Rightarrow> nat \<Rightarrow> db \<Rightarrow> bool" where
  "claimable pid rid amt cur res d \<longleftrightarrow>
     (\<exists>p q. row_by p_id pid (payments d) = Some p \<and> p_request p = rid \<and> of_num4 (p_amount p) = amt \<and>
        p_currency p = cur \<and> row_by q_id rid (requests d) = Some q \<and> q_reservation q = Some res)"

definition charged :: "nat \<Rightarrow> db \<Rightarrow> bool" where
  "charged pid d \<longleftrightarrow> (\<exists>op. row_by o_key (charge_name pid) (operations d) = Some op \<and> is_charge_of pid op)"

definition charge_status :: "nat \<Rightarrow> string \<Rightarrow> db \<Rightarrow> bool" where
  "charge_status pid st d \<longleftrightarrow> (\<forall>op \<in> set (operations d). is_charge_of pid op \<longrightarrow> o_status op = st)"

definition reservation_closed :: "nat \<Rightarrow> db \<Rightarrow> bool" where
  "reservation_closed res d \<longleftrightarrow>
     (\<exists>r. row_by r_id res (reservations d) = Some r \<and> r_status r \<noteq> ''RESERVED'')"

definition capture_posted :: "nat \<Rightarrow> db \<Rightarrow> bool" where
  "capture_posted pid d \<longleftrightarrow>
     known t_key (Some (tx_key pid ''capture'')) (transactions d) \<and>
     (\<forall>t \<in> set (transactions d). t_key t = Some (tx_key pid ''capture'') \<longrightarrow> t_status t = TX_POSTED \<and> t_posted t \<noteq> None)"

lemma latest_charge_status:
  assumes "charged pid d" "charge_status pid (outcome_text out) d"
  shows "durable_outcome (latest_charge pid d) = Some out"
proof -
  let ?ops = "sort_key o_created (filter (is_charge_of pid) (operations d))"
  obtain op where op: "op \<in> set (operations d)" "is_charge_of pid op"
    using assms(1) row_by_Some_in by (fastforce simp: charged_def)
  have set: "set ?ops = {op \<in> set (operations d). is_charge_of pid op}" by simp
  with op have ne: "?ops \<noteq> []" by (metis (mono_tags, lifting) empty_iff empty_set mem_Collect_eq)
  then have "last ?ops \<in> set ?ops" by (rule last_in_set)
  then have "o_status (last ?ops) = outcome_text out"
    using assms(2) unfolding set charge_status_def by blast
  with ne show ?thesis by (cases out) (simp_all add: latest_charge_def durable_outcome_def outcome_text_def)
qed

lemma reservation_closed_consume: "budget_consume res d = Inr (u, d') \<Longrightarrow> reservation_closed res d'"
  by (auto simp: budget_consume_def move_budget_def reservation_closed_def err_simps table_simps row_by_upd_by
      split: option.splits if_splits)

lemma reservation_closed_release: "budget_release res d = Inr (u, d') \<Longrightarrow> reservation_closed res d'"
  by (auto simp: budget_release_def move_budget_def reservation_closed_def err_simps table_simps row_by_upd_by
      split: option.splits if_splits)

lemma closed_settle:
  assumes "reservation_closed res d"
  shows "budget_consume res d = Inr ((), d)" "budget_release res d = Inr ((), d)"
  using assms by (auto simp: reservation_closed_def budget_consume_def budget_release_def)

lemma capture_posted_upsert:
  assumes "upsert_capture pid amt cur d = Inr (i, d')"
  shows "capture_posted pid d' \<and> (\<exists>n cur3. char3 cur = Inr cur3 \<and> positive_num4 amt = Inr n)"
proof -
  let ?k = "Some (tx_key pid ''capture'')"
  obtain cur3 n where c: "char3 cur = Inr cur3" "positive_num4 amt = Inr n"
    using assms by (cases "char3 cur"; cases "positive_num4 amt") (simp_all add: upsert_capture_def)
  show ?thesis
  proof (cases "row_by t_key ?k (transactions d)")
    case None
    then have "\<forall>t \<in> set (transactions d). t_key t \<noteq> ?k" by (force simp: row_by_None)
    with None assms c show ?thesis
      by (auto simp: upsert_capture_def references_def capture_posted_def err_simps split: if_splits)
  next
    case (Some t)
    from row_by_Some_keys [OF this] Some assms c show ?thesis
      by (auto simp: upsert_capture_def capture_posted_def keys_upd_by coalesce_def dest!: in_upd_by
          split: if_splits option.splits)
  qed
qed

lemma capture_again:
  assumes "capture_posted pid d" "char3 cur = Inr cur3" "positive_num4 amt = Inr n"
  shows "\<exists>i. upsert_capture pid amt cur d = Inr (i, d)"
proof -
  obtain t where t: "row_by t_key (Some (tx_key pid ''capture'')) (transactions d) = Some t"
    using assms(1) by (cases "row_by t_key (Some (tx_key pid ''capture'')) (transactions d)")
      (auto simp: capture_posted_def row_by_None)
  have "upd_by t_key (Some (tx_key pid ''capture''))
      (\<lambda>t. t\<lparr>t_status := TX_POSTED, t_posted := coalesce (t_posted t) (Some (clock d))\<rparr>) (transactions d) = transactions d"
    unfolding upd_by_def by (rule map_idI) (use assms(1) in \<open>auto simp: capture_posted_def\<close>)
  with t assms(2,3) show ?thesis by (simp add: upsert_capture_def)
qed

section \<open>Claiming\<close>

lemma claim_payment_cases:
  assumes "claim_payment pid d = Inr ((rid, amt, cur, res), d')"
  shows "claimable pid rid amt cur res d \<and> claimable pid rid amt cur res d' \<and> charged pid d' \<and>
    map_option p_status (row_by p_id pid (payments d')) = Some ST_PROCESSING \<and>
    d'\<lparr>next_id := 0, payments := [], operations := []\<rparr> = d\<lparr>next_id := 0, payments := [], operations := []\<rparr>"
proof -
  obtain p where p: "row_by p_id pid (payments d) = Some p"
    using assms by (cases "row_by p_id pid (payments d)") (auto simp: claim_payment_def)
  obtain q where q: "row_by q_id (p_request p) (requests d) = Some q"
    using assms p by (cases "row_by q_id (p_request p) (requests d)") (auto simp: claim_payment_def)
  have cl: "q_reservation q = Some res" "rid = p_request p" "amt = of_num4 (p_amount p)" "cur = p_currency p"
    using assms p q by (auto simp: claim_payment_def err_simps split: option.splits)
  obtain oid d1 where op: "create_provider_operation pid ''CHARGE'' (charge_name pid) d = Inr (oid, d1)"
    and d': "d' = d1\<lparr>payments := upd_by p_id pid (set_status ST_PROCESSING None (clock d1)) (payments d1)\<rparr>"
    using assms p q cl(1) by (auto simp: claim_payment_def update_status_def err_simps)
  have pay: "payments d1 = upd_by p_id pid (\<lambda>p. p\<lparr>p_operation := Some oid, p_updated := clock d\<rparr>) (payments d)"
    and ch: "charged pid d1"
    and fr: "d1\<lparr>next_id := 0, payments := [], operations := []\<rparr> = d\<lparr>next_id := 0, payments := [], operations := []\<rparr>"
    using op row_by_None [of o_key "charge_name pid" "operations d"]
    by (auto simp: create_provider_operation_def new_operation_def references_def charged_def is_charge_of_def
        row_by_append err_simps split: option.splits if_splits)
  have "requests d1 = requests d" using arg_cong [where f = requests, OF fr] by simp
  with p q cl pay ch fr show ?thesis
    by (simp add: d' claimable_def charged_def row_by_upd_by set_status_def)
qed

lemma claim_again:
  assumes "claimable pid rid amt cur res d" "charged pid d"
  shows "\<exists>d'. claim_payment pid d = Inr ((rid, amt, cur, res), d') \<and> d'\<lparr>payments := []\<rparr> = d\<lparr>payments := []\<rparr>"
  using assms
  by (auto simp: claimable_def charged_def claim_payment_def create_provider_operation_def is_charge_of_def
      update_status_def)

section \<open>Settling\<close>

text \<open>The part of the state that a settled payment rests on: the charge has the outcome's status, and for a
  success the reservation is consumed, the capture transaction posted and its journal stored.\<close>

definition settled :: "nat \<Rightarrow> nat \<Rightarrow> decimal \<Rightarrow> string \<Rightarrow> nat \<Rightarrow> nat \<Rightarrow> nat \<Rightarrow> ProviderOutcome \<Rightarrow> db \<Rightarrow> bool" where
  "settled pid rid amt cur res customer clearing out d \<longleftrightarrow>
     claimable pid rid amt cur res d \<and> charged pid d \<and> charge_status pid (outcome_text out) d \<and>
     map_option p_status (row_by p_id pid (payments d)) = Some (outcome_state out) \<and>
     (out \<noteq> O_UNKNOWN \<longrightarrow> reservation_closed res d) \<and>
     upper (strip cur) = upper cur \<and>
     (out = O_SUCCEEDED \<longrightarrow>
        capture_posted pid d \<and> known j_key (payment_key pid ''capture'') (journals d) \<and>
        (\<exists>n cur3. char3 cur = Inr cur3 \<and> positive_num4 amt = Inr n) \<and> 0 < dval (sum_decimals [amt]))"

lemma journal_again:
  assumes "known j_key key (journals d)" "0 < dval (sum_decimals [amt])"
  shows "\<exists>i. post_journal cur rtype ref key corr (two_lines a b amt cur) d = Inr (i, d)"
proof -
  obtain j where "row_by j_key key (journals d) = Some j"
    using assms(1) by (cases "row_by j_key key (journals d)") (auto simp: row_by_None)
  with assms(2) show ?thesis
    by (simp add: post_journal_def Let_def dec_simps) (simp add: two_lines_def)
qed

lemma journal_first:
  assumes "post_journal cur rtype ref key corr (two_lines a b amt cur) d = Inr (i, d')"
  shows "known j_key key (journals d') \<and> 0 < dval (sum_decimals [amt])"
proof -
  have "0 < dval (sum_decimals [amt])"
    using assms by (auto simp: post_journal_def Let_def dec_simps split: if_splits)
  with post_journal_cases [OF assms] show ?thesis by auto
qed

lemma finalize_again:
  assumes "row_by p_id pid (payments d) = Some p" "p_status p = ST_PROCESSING" "p_request p = rid"
    "of_num4 (p_amount p) = amt" "p_currency p = cur" "upper (strip cur) = upper cur"
  shows "finalize pid rid res amt cur customer clearing out ref corr d =
        (case out of
           O_UNKNOWN \<Rightarrow> finalize_unknown pid res ref corr d
         | O_FAILED \<Rightarrow> finalize_failed pid res ref corr d
         | O_SUCCEEDED \<Rightarrow> finalize_succeeded pid res amt cur customer clearing ref corr d)"
  using assms unfolding finalize_def select_payment_def by (auto simp: deq_def split: ProviderOutcome.splits)

lemma charges_updated:
  assumes "charged pid d" "\<And>op. o_key (f op) = o_key op" "\<And>op. is_charge_of pid (f op) = is_charge_of pid op"
    "\<And>op. o_status (f op) = st"
  shows "charged pid (d\<lparr>operations := map (\<lambda>op. if is_charge_of pid op then f op else op) (operations d)\<rparr>) \<and>
    charge_status pid st (d\<lparr>operations := map (\<lambda>op. if is_charge_of pid op then f op else op) (operations d)\<rparr>)"
proof -
  have "row_by o_key k (map (\<lambda>op. if is_charge_of pid op then f op else op) ops) =
      map_option (\<lambda>op. if is_charge_of pid op then f op else op) (row_by o_key k ops)" for k ops
    by (induction ops) (auto simp: assms(2))
  then show ?thesis using assms by (auto simp: charged_def charge_status_def)
qed

lemma update_charges_run:
  assumes "update_charges pid f d = Inr (u, d')" "charged pid d"
    "\<And>n op. o_key (f n op) = o_key op" "\<And>n op. is_charge_of pid (f n op) = is_charge_of pid op"
    "\<And>n op. o_status (f n op) = st"
  shows "charged pid d' \<and> charge_status pid st d' \<and> (\<exists>ops. d' = d\<lparr>operations := ops\<rparr>)"
  using charges_updated [of pid d "f (clock d)" st] assms by (auto simp: update_charges_def)

lemma claimable_closing:
  assumes "claimable pid rid amt cur res d" "payments d' = upd_by p_id pid (set_status st ref n) (payments d)"
    "requests d' = requests d"
  shows "claimable pid rid amt cur res d' \<and> map_option p_status (row_by p_id pid (payments d')) = Some st"
proof -
  obtain p q where p: "row_by p_id pid (payments d) = Some p" "p_request p = rid" "of_num4 (p_amount p) = amt"
    "p_currency p = cur" and q: "row_by q_id rid (requests d) = Some q" "q_reservation q = Some res"
    using assms(1) unfolding claimable_def by blast
  have "row_by p_id pid (payments d') = Some (set_status st ref n p)"
    using assms(2) p(1) by (simp add: row_by_upd_by)
  then show ?thesis using p q assms(3) unfolding claimable_def by simp
qed

lemma settled_unknown:
  assumes "finalize_unknown pid res ref corr d = Inr (st, d')" "claimable pid rid amt cur res d" "charged pid d"
    "upper (strip cur) = upper cur"
  shows "settled pid rid amt cur res customer clearing O_UNKNOWN d' \<and> st = ST_UNKNOWN_EXTERNAL_OUTCOME \<and>
    d'\<lparr>next_id := 0, payments := [], operations := [], outbox := []\<rparr> =
    d\<lparr>next_id := 0, payments := [], operations := [], outbox := []\<rparr>"
proof -
  obtain u d1 where 1: "update_charges pid (\<lambda>now op. op\<lparr>o_status := ''UNKNOWN''\<rparr>) d = Inr (u, d1)"
    and 2: "closing pid ST_UNKNOWN_EXTERNAL_OUTCOME ref ''PaymentOutcomeUnknown'' (reservation_payload res) corr d1
      = Inr (st, d')"
    using assms(1) unfolding finalize_closing bindT_Inr by blast
  have c1: "charged pid d1 \<and> charge_status pid ''UNKNOWN'' d1 \<and> (\<exists>ops. d1 = d\<lparr>operations := ops\<rparr>)"
    by (rule update_charges_run [OF 1 assms(3)]) (simp_all add: is_charge_of_def)
  note cl = closing_run [OF 2]
  note f2 = db_fields [OF conjunct1 [OF conjunct2 [OF cl]], simplified]
  have "claimable pid rid amt cur res d1" using assms(2) c1 by (auto simp: claimable_def)
  from claimable_closing [OF this, of d'] cl f2
  have "claimable pid rid amt cur res d' \<and>
      map_option p_status (row_by p_id pid (payments d')) = Some ST_UNKNOWN_EXTERNAL_OUTCOME" by blast
  with cl c1 f2 assms(4) show ?thesis
    by (auto simp: settled_def charged_def charge_status_def outcome_text_def outcome_state_def)
qed

lemma settled_failed:
  assumes "finalize_failed pid res ref corr d = Inr (st, d')" "claimable pid rid amt cur res d" "charged pid d"
    "upper (strip cur) = upper cur"
  shows "settled pid rid amt cur res customer clearing O_FAILED d' \<and> st = ST_FAILED \<and>
    d'\<lparr>next_id := 0, budgets := [], reservations := [], payments := [], operations := [], outbox := []\<rparr> =
    d\<lparr>next_id := 0, budgets := [], reservations := [], payments := [], operations := [], outbox := []\<rparr>"
proof -
  obtain u d1 v d2 where 1: "update_charges pid (complete_operation ''FAILED'' ref) d = Inr (u, d1)"
    and 2: "budget_release res d1 = Inr (v, d2)"
    and 3: "closing pid ST_FAILED ref ''PaymentFailed'' (reservation_payload res) corr d2 = Inr (st, d')"
    using assms(1) unfolding finalize_closing bindT_Inr by blast
  have c1: "charged pid d1 \<and> charge_status pid ''FAILED'' d1 \<and> (\<exists>ops. d1 = d\<lparr>operations := ops\<rparr>)"
    by (rule update_charges_run [OF 1 assms(3)]) (simp_all add: is_charge_of_def complete_operation_def)
  note f2 = db_fields [OF frameD [OF budget_release_frame 2], simplified]
  note cl = closing_run [OF 3]
  note f3 = db_fields [OF conjunct1 [OF conjunct2 [OF cl]], simplified]
  have "claimable pid rid amt cur res d2" using assms(2) c1 f2 by (auto simp: claimable_def)
  from claimable_closing [OF this, of d'] cl f3
  have "claimable pid rid amt cur res d' \<and> map_option p_status (row_by p_id pid (payments d')) = Some ST_FAILED"
    by blast
  with cl c1 f2 f3 assms(4) reservation_closed_release [OF 2] show ?thesis
    by (auto simp: settled_def charged_def charge_status_def outcome_text_def outcome_state_def reservation_closed_def)
qed

lemma settled_succeeded:
  assumes "finalize_succeeded pid res amt cur customer clearing ref corr d = Inr (st, d')"
    "claimable pid rid amt cur res d" "charged pid d" "upper (strip cur) = upper cur"
  shows "settled pid rid amt cur res customer clearing O_SUCCEEDED d' \<and> st = ST_SUCCEEDED"
proof -
  obtain u d1 v d2 tx d3 w d4 where 1: "update_charges pid (complete_operation ''SUCCEEDED'' ref) d = Inr (u, d1)"
    and 2: "budget_consume res d1 = Inr (v, d2)" and 3: "upsert_capture pid amt cur d2 = Inr (tx, d3)"
    and 4: "post_journal cur ''TRANSACTION'' (Some tx) (payment_key pid ''capture'') corr
              (two_lines customer clearing amt cur) d3 = Inr (w, d4)"
    and 5: "closing pid ST_SUCCEEDED ref ''PaymentSucceeded'' (amount_payload amt cur) corr d4 = Inr (st, d')"
    using assms(1) unfolding finalize_closing bindT_Inr by blast
  have c1: "charged pid d1 \<and> charge_status pid ''SUCCEEDED'' d1 \<and> (\<exists>ops. d1 = d\<lparr>operations := ops\<rparr>)"
    by (rule update_charges_run [OF 1 assms(3)]) (simp_all add: is_charge_of_def complete_operation_def)
  note f2 = db_fields [OF frameD [OF budget_consume_frame 2], simplified]
  note f3 = db_fields [OF frameD [OF upsert_capture_frame 3], simplified]
  note f4 = db_fields [OF frameD [OF post_journal_frame 4], simplified]
  note cl = closing_run [OF 5]
  note f5 = db_fields [OF conjunct1 [OF conjunct2 [OF cl]], simplified]
  have "claimable pid rid amt cur res d4" using assms(2) c1 f2 f3 f4 by (auto simp: claimable_def)
  from claimable_closing [OF this, of d'] cl f5
  have cs: "claimable pid rid amt cur res d' \<and> map_option p_status (row_by p_id pid (payments d')) = Some ST_SUCCEEDED"
    by blast
  have "reservation_closed res d'"
    using reservation_closed_consume [OF 2] f3 f4 f5 by (simp add: reservation_closed_def)
  moreover have "capture_posted pid d' \<and> (\<exists>n cur3. char3 cur = Inr cur3 \<and> positive_num4 amt = Inr n)"
    using capture_posted_upsert [OF 3] f4 f5 by (simp add: capture_posted_def)
  moreover have "known j_key (payment_key pid ''capture'') (journals d') \<and> 0 < dval (sum_decimals [amt])"
    using journal_first [OF 4] f5 by simp
  moreover have "charged pid d'" "charge_status pid ''SUCCEEDED'' d'"
    using c1 f2 f3 f4 f5 by (simp_all add: charged_def charge_status_def)
  ultimately show ?thesis
    using cs cl assms(4) by (simp add: settled_def outcome_text_def outcome_state_def)
qed

text \<open>The tables that hold money, and what the outside sees of them.\<close>

definition money_tables :: "db \<Rightarrow> db" where
  "money_tables d = d\<lparr>clock := 0, next_id := 0, payments := [], operations := [], outbox := []\<rparr>"

definition can_finalize :: "nat \<Rightarrow> nat \<Rightarrow> decimal \<Rightarrow> string \<Rightarrow> nat \<Rightarrow> db \<Rightarrow> bool" where
  "can_finalize pid rid amt cur res d \<longleftrightarrow> claimable pid rid amt cur res d \<and> charged pid d \<and>
     map_option p_status (row_by p_id pid (payments d)) = Some ST_PROCESSING"

lemma finalize_settles:
  assumes "can_finalize pid rid amt cur res d"
    and "finalize pid rid res amt cur customer clearing out ref corr d = Inr (st, d')"
  shows "settled pid rid amt cur res customer clearing out d' \<and> st = outcome_state out"
proof -
  obtain p where p: "row_by p_id pid (payments d) = Some p" "p_status p = ST_PROCESSING" "p_currency p = cur"
    using assms(1) by (auto simp: can_finalize_def claimable_def)
  have cur: "upper (strip cur) = upper cur"
    using assms(2) p by (auto simp: finalize_def select_payment_def split: if_splits)
  note run = finalize_runs [OF assms(2) p(1,2)]
  have c: "claimable pid rid amt cur res d" "charged pid d" using assms(1) by (simp_all add: can_finalize_def)
  show ?thesis
  proof (cases out)
    case O_UNKNOWN
    with run have "finalize_unknown pid res ref corr d = Inr (st, d')" by simp
    from settled_unknown [OF this c cur] O_UNKNOWN show ?thesis by (simp add: outcome_state_def)
  next
    case O_FAILED
    with run have "finalize_failed pid res ref corr d = Inr (st, d')" by simp
    from settled_failed [OF this c cur] O_FAILED show ?thesis by (simp add: outcome_state_def)
  next
    case O_SUCCEEDED
    with run have "finalize_succeeded pid res amt cur customer clearing ref corr d = Inr (st, d')" by simp
    from settled_succeeded [OF this c cur] O_SUCCEEDED show ?thesis by (simp add: outcome_state_def)
  qed
qed

lemma finalize_settled_again:
  assumes "settled pid rid amt cur res customer clearing out d0" "money_tables d = money_tables d0"
    and "can_finalize pid rid amt cur res d"
  shows "\<exists>d'. finalize pid rid res amt cur customer clearing out ref corr d = Inr (outcome_state out, d') \<and>
    money_tables d' = money_tables d0 \<and> (\<exists>n. payments d' = upd_by p_id pid (set_status (outcome_state out) ref n) (payments d))"
proof -
  obtain p where p: "row_by p_id pid (payments d) = Some p" "p_status p = ST_PROCESSING" "p_request p = rid"
    "of_num4 (p_amount p) = amt" "p_currency p = cur"
    using assms(3) by (auto simp: can_finalize_def claimable_def)
  have cur: "upper (strip cur) = upper cur" using assms(1) by (simp add: settled_def)
  note e = finalize_again [OF p cur]
  note m = db_fields [OF assms(2) [unfolded money_tables_def], simplified]
  let ?u = "\<lambda>f. d\<lparr>operations := map (\<lambda>op. if is_charge_of pid op then f (clock d) op else op) (operations d)\<rparr>"
  show ?thesis
  proof (cases out)
    case O_UNKNOWN
    then show ?thesis unfolding e using assms(2)
      by (simp add: finalize_unknown_def update_charges_def update_status_def enqueue_def outcome_state_def money_tables_def)
        blast
  next
    case O_FAILED
    then have "reservation_closed res (?u f)" for f
      using assms(1) m by (simp add: settled_def reservation_closed_def)
    note closed_settle(2) [OF this]
    with O_FAILED assms(2) show ?thesis unfolding e
      by (simp add: finalize_failed_def update_charges_def update_status_def enqueue_def outcome_state_def money_tables_def)
        blast
  next
    case O_SUCCEEDED
    define u where "u = ?u (complete_operation ''SUCCEEDED'' ref)"
    from O_SUCCEEDED have s: "reservation_closed res u" "capture_posted pid u"
      "known j_key (payment_key pid ''capture'') (journals u)"
      "\<exists>n cur3. char3 cur = Inr cur3 \<and> positive_num4 amt = Inr n" "0 < dval (sum_decimals [amt])"
      using assms(1) m by (auto simp: settled_def reservation_closed_def capture_posted_def u_def)
    obtain tx where tx: "upsert_capture pid amt cur u = Inr (tx, u)" using s(4) capture_again [OF s(2)] by blast
    obtain j where "post_journal cur ''TRANSACTION'' (Some tx) (payment_key pid ''capture'') corr
        (two_lines customer clearing amt cur) u = Inr (j, u)"
      using journal_again [OF s(3,5)] by blast
    then have "finalize_succeeded pid res amt cur customer clearing ref corr d =
        closing pid ST_SUCCEEDED ref ''PaymentSucceeded'' (amount_payload amt cur) corr u"
      using closed_settle(1) [OF s(1)] tx
      by (simp add: finalize_closing(3) update_charges_def u_def [symmetric])
    with O_SUCCEEDED assms(2) show ?thesis unfolding e
      by (simp add: closing_def update_status_def enqueue_def outcome_state_def money_tables_def u_def) blast
  qed
qed

lemma transact_Inr: "transact f d = (Inr x, d') \<longleftrightarrow> f d = Inr (x, d')"
  by (auto simp: transact_def split: sum.splits)

lemma process_one_cases:
  assumes "process_one V pid customer clearing corr (d, prov) = (Inr st, d', prov')"
  obtains rid amt cur res d1 out ref where
    "claim_payment pid d = Inr ((rid, amt, cur, res), d1)"
    "provider_step V prov pid amt cur d1 = (Inr (out, ref), prov')"
    "finalize pid rid res amt cur customer clearing out ref corr d1 = Inr (st, d')"
proof -
  obtain r1 d1 where t: "transact (claim_payment pid) d = (r1, d1)" by fastforce
  obtain rid amt cur res where r1: "r1 = Inr (rid, amt, cur, res)"
    using assms t by (cases r1) (auto simp: process_one_def)
  obtain r2 prov1 where s: "provider_step V prov pid amt cur d1 = (r2, prov1)" by fastforce
  obtain out ref where r2: "r2 = Inr (out, ref)"
    using assms t r1 s by (cases r2) (auto simp: process_one_def)
  have "transact (finalize pid rid res amt cur customer clearing out ref corr) d1 = (Inr st, d')" "prov1 = prov'"
    using assms t r1 s r2 by (auto simp: process_one_def split: prod.splits)
  with that t r1 s r2 show thesis by (simp add: transact_Inr)
qed

lemma claim_can_finalize:
  "claim_payment pid d = Inr ((rid, amt, cur, res), d1) \<Longrightarrow> can_finalize pid rid amt cur res d1"
  using claim_payment_cases by (fastforce simp: can_finalize_def)

lemma process_one_settles:
  assumes "process_one V pid customer clearing corr (d, prov) = (Inr st, d', prov')"
  shows "\<exists>rid amt cur res out. settled pid rid amt cur res customer clearing out d' \<and> st = outcome_state out"
  using process_one_cases [OF assms] finalize_settles claim_can_finalize by metis

text \<open>C6: running the worker again for a payment it has settled, at any later time, with any
  provider and correlation id, returns the same state; the provider is not called, and budgets, reservations,
  transactions, journals and postings stay exactly as the first run left them: nothing is charged, consumed
  or posted twice, whichever outcome the first run recorded.\<close>

theorem process_one_retry:
  assumes "process_one V pid customer clearing corr (d, prov) = (Inr st, d1, prov1)"
  shows "\<exists>d2. process_one W pid customer clearing corr' (d1\<lparr>clock := now\<rparr>, prov2) = (Inr st, d2, prov2) \<and>
    money_tables d2 = money_tables d1 \<and> map_option p_status (row_by p_id pid (payments d2)) = Some st"
proof -
  obtain rid amt cur res out where s: "settled pid rid amt cur res customer clearing out d1"
    and st: "st = outcome_state out"
    using process_one_settles [OF assms] by blast
  let ?d = "d1\<lparr>clock := now\<rparr>"
  have c: "claimable pid rid amt cur res ?d" "charged pid ?d" "charge_status pid (outcome_text out) ?d"
    using s by (simp_all add: settled_def claimable_def charged_def charge_status_def)
  obtain d2 where run: "claim_payment pid ?d = Inr ((rid, amt, cur, res), d2)"
    and fr: "d2\<lparr>payments := []\<rparr> = ?d\<lparr>payments := []\<rparr>"
    using claim_again [OF c(1,2)] by blast
  note f = db_fields [OF fr, simplified]
  have cf: "can_finalize pid rid amt cur res d2" by (rule claim_can_finalize [OF run])
  have "charge_status pid (outcome_text out) d2" using c(3) f by (simp add: charge_status_def)
  then have "durable_outcome (latest_charge pid d2) = Some out"
    using latest_charge_status cf by (simp add: can_finalize_def)
  then obtain ref where step: "provider_step W prov2 pid amt cur d2 = (Inr (out, ref), prov2)"
    by (simp add: provider_step_def)
  have "money_tables (d2\<lparr>payments := []\<rparr>) = money_tables (?d\<lparr>payments := []\<rparr>)" unfolding fr ..
  then have "money_tables d2 = money_tables d1" by (simp add: money_tables_def)
  from finalize_settled_again [OF s this cf] obtain d3 n where
    fin: "finalize pid rid res amt cur customer clearing out ref corr' d2 = Inr (st, d3)"
    "money_tables d3 = money_tables d1" "payments d3 = upd_by p_id pid (set_status st ref n) (payments d2)"
    using st by blast
  have "map_option p_status (row_by p_id pid (payments d3)) = Some st"
    using cf fin(3) by (auto simp: can_finalize_def row_by_upd_by)
  moreover have "process_one W pid customer clearing corr' (?d, prov2) = (Inr st, d3, prov2)"
    using run step fin(1) by (simp add: process_one_def transact_def)
  ultimately show ?thesis using fin(2) by blast
qed

lemma ready_processed:
  "\<exists>d' p'. process_one (MockProvider id) 5 8 9 None (ready_db, new_mock O_SUCCEEDED) = (Inr ST_SUCCEEDED, d', p')"
  by (simp add: process_one_def transact_def claim_payment_def create_provider_operation_def new_operation_def
     provider_step_def latest_charge_def is_charge_of_def durable_outcome_def execute_external_def MockProvider_def
     keyed_provider_def keyed_call_def mock_run_def new_mock_def
     finalize_def select_payment_def finalize_succeeded_def update_charges_def budget_consume_def
     move_budget_def upsert_capture_def post_pair_runs num4_max_def
     references_def update_status_def enqueue_def ready_db_def held_db_def sample_defs text_eval
     char3_def positive_num4_def to_num4_def ten_thousandths_def check_num4_def deq_def)

theorem process_one_retry_witness:
  "\<exists>d1 p1 d2. process_one (MockProvider id) 5 8 9 None (ready_db, new_mock O_SUCCEEDED) = (Inr ST_SUCCEEDED, d1, p1) \<and>
     process_one (MockProvider id) 5 8 9 None (d1\<lparr>clock := 60\<rparr>, new_mock O_FAILED) =
       (Inr ST_SUCCEEDED, d2, new_mock O_FAILED) \<and> money_tables d2 = money_tables d1"
proof -
  obtain d1 p1 where 1: "process_one (MockProvider id) 5 8 9 None (ready_db, new_mock O_SUCCEEDED) = (Inr ST_SUCCEEDED, d1, p1)"
    using ready_processed by blast
  show ?thesis using 1 process_one_retry [OF 1, of "MockProvider id" None 60 "new_mock O_FAILED"] by blast
qed

end
