(* ===== verification/Authorization.thy ===== *)
theory Authorization
  imports Domain Json
begin

text \<open>
  \<open>authorization.py\<close> and \<open>atf_evidence.py\<close>: the normalised authorization context with its
  validation, and the adapter that turns a signed ATF assertion into such a context. Fetching the key
  and checking the JWT (signature, issuer, audience, expiry, required claims) is PyJWT's work and a
  parameter \<open>decode\<close>: \<open>None\<close> stands for a \<open>PyJWTError\<close>. The digest of the assertion is a
  parameter as well.
\<close>

section \<open>Decimals that may be infinite or not a number\<close>

text \<open>Ordering a NaN signals \<open>InvalidOperation\<close>; an infinity compares by its sign.\<close>

fun pd_less :: "pydec \<Rightarrow> pydec \<Rightarrow> exn + bool" where
  "pd_less NaN _ = Inl InvalidOperation"
| "pd_less _ NaN = Inl InvalidOperation"
| "pd_less (Infinite neg) (Infinite neg') = Inr (neg \<and> \<not> neg')"
| "pd_less (Infinite neg) (Finite _) = Inr neg"
| "pd_less (Finite _) (Infinite neg) = Inr (\<not> neg)"
| "pd_less (Finite a) (Finite b) = Inr (dless a b)"

fun pd_le :: "pydec \<Rightarrow> pydec \<Rightarrow> exn + bool" where
  "pd_le NaN _ = Inl InvalidOperation"
| "pd_le _ NaN = Inl InvalidOperation"
| "pd_le (Infinite neg) (Infinite neg') = Inr (neg \<or> \<not> neg')"
| "pd_le (Infinite neg) (Finite _) = Inr neg"
| "pd_le (Finite _) (Infinite neg) = Inr (\<not> neg)"
| "pd_le (Finite a) (Finite b) = Inr (dle a b)"

section \<open>\<open>str\<close> of a JSON value\<close>

text \<open>The texts of containers and of quoted members follow Python's \<open>repr\<close>.\<close>

definition hex2 :: "nat \<Rightarrow> string" where
  "hex2 n = [hex_char (n div 16), hex_char (n mod 16)]"

definition repr_char :: "char \<Rightarrow> char \<Rightarrow> string" where
  "repr_char q c =
     (let n = of_char c :: nat
      in if c = q \<or> n = 92 then [CHR 92, c]
         else if n = 10 then [CHR 92, CHR ''n'']
         else if n = 13 then [CHR 92, CHR ''r'']
         else if n = 9 then [CHR 92, CHR ''t'']
         else if n < 32 \<or> n = 127 then [CHR 92, CHR ''x''] @ hex2 n
         else [c])"

definition repr_str :: "string \<Rightarrow> string" where
  "repr_str s =
     (let q = (if CHR 39 \<in> set s \<and> CHR 34 \<notin> set s then CHR 34 else CHR 39)
      in [q] @ concat (map (repr_char q) s) @ [q])"

fun py_repr :: "json \<Rightarrow> string" where
  "py_repr JNull = ''None''"
| "py_repr (JBool b) = (if b then ''True'' else ''False'')"
| "py_repr (JInt i) = str_int i"
| "py_repr (JFloat r) = r"
| "py_repr (JStr s) = repr_str s"
| "py_repr (JArr vs) = ''['' @ join '', '' (map py_repr vs) @ '']''"
| "py_repr (JObj ms) = ''{'' @ join '', '' (map (\<lambda>m. repr_str (fst m) @ '': '' @ py_repr (snd m)) ms) @ ''}''"

fun py_str :: "json \<Rightarrow> string" where
  "py_str (JStr s) = s"
| "py_str v = py_repr v"

text \<open>\<open>obj[key]\<close>.\<close>

definition jindex :: "(string \<times> json) list \<Rightarrow> string \<Rightarrow> exn + json" where
  "jindex ms k = (case map_of ms k of Some v \<Rightarrow> Inr v | None \<Rightarrow> Inl (KeyError k))"

section \<open>The normalised context\<close>

record authorization_context =
  evidence_id :: string
  issuer :: string
  ctx_agent :: string
  ctx_account :: string
  delegation_id :: "string option"
  scope :: "string set"
  max_amount :: "pydec option"
  ctx_currency :: "string option"
  valid_until :: "datetime option"
  ctx_digest :: "string option"
  ctx_version :: "string option"

abbreviation auth_error :: "string \<Rightarrow> exn + 'a" where
  "auth_error m \<equiv> Inl (AuthorizationError m)"

definition validate_context ::
    "datetime \<Rightarrow> authorization_context \<Rightarrow> string \<Rightarrow> string \<Rightarrow> decimal \<Rightarrow> string \<Rightarrow> string \<Rightarrow> exn + unit" where
  "validate_context now c agent acct amt cur action =
     (if evidence_id c = [] \<or> issuer c = [] then auth_error ''authorization evidence is incomplete''
      else if ctx_agent c = [] \<or> ctx_account c = [] then auth_error ''authorization identity is incomplete''
      else if ctx_agent c \<noteq> agent \<or> ctx_account c \<noteq> acct then
        auth_error ''authorization subject/account mismatch''
      else if scope c = {} \<or> action \<notin> scope c then
        auth_error ''requested action is outside authorization scope''
      else if dle amt dzero then auth_error ''payment amount must be positive''
      else case max_amount c of
        None \<Rightarrow> auth_error ''authorized maximum amount is required''
      | Some m \<Rightarrow>
          bindE (pd_le m (Finite dzero)) (\<lambda>nonpos.
          if nonpos then auth_error ''authorized maximum amount is required''
          else bindE (pd_less m (Finite amt)) (\<lambda>exceeds.
          if exceeds then auth_error ''payment exceeds authorized amount''
          else case ctx_currency c of
            None \<Rightarrow> auth_error ''authorized currency is required''
          | Some k \<Rightarrow>
              (if k = [] then auth_error ''authorized currency is required''
               else if upper k \<noteq> upper cur then auth_error ''payment currency is outside authorization''
               else case valid_until c of
                 None \<Rightarrow> auth_error ''authorization expiry is required''
               | Some e \<Rightarrow>
                   (if instant (default_utc e) \<le> instant now
                    then auth_error ''authorization evidence is expired'' else Inr ())))))"

section \<open>Signed ATF assertions\<close>

record atf_config =
  atf_jwks_url :: "string option"
  atf_issuer :: "string option"
  atf_audience :: "string option"

definition configured :: "string option \<Rightarrow> bool" where
  "configured v = (case v of None \<Rightarrow> False | Some s \<Rightarrow> s \<noteq> [])"

abbreviation atf_error :: "string \<Rightarrow> exn + 'a" where
  "atf_error m \<equiv> Inl (ATFEvidenceVerificationError m)"

text \<open>\<open>datetime.fromtimestamp(v, tz=utc)\<close> on whole seconds (the years 1 to 9999); a float's
  rounding to microseconds is a parameter.\<close>

definition from_seconds :: "int \<Rightarrow> exn + datetime" where
  "from_seconds s =
     (let day = s div 86400 + 719163; r = nat (s mod 86400)
      in if 1 \<le> day \<and> day \<le> 3652059
         then Inr \<lparr>dt_ordinal = day, dt_time = Time (r div 3600) (r mod 3600 div 60) (r mod 60) 0,
                   dt_utcoffset = Some 0\<rparr>
         else Inl (ValueError ''year is out of range''))"

fun fromtimestamp :: "(string \<Rightarrow> exn + datetime) \<Rightarrow> json \<Rightarrow> exn + datetime" where
  "fromtimestamp float_time (JInt s) = from_seconds s"
| "fromtimestamp float_time (JBool b) = from_seconds (if b then 1 else 0)"
| "fromtimestamp float_time (JFloat r) = float_time r"
| "fromtimestamp float_time v = Inl (TypeError ''an integer is required'')"

fun atf_scope :: "json \<Rightarrow> string set" where
  "atf_scope (JStr s) = set (split_ws s)"
| "atf_scope (JArr vs) = set (map py_str vs)"
| "atf_scope v = {}"

definition atf_max_amount :: "(string \<times> json) list \<Rightarrow> exn + pydec" where
  "atf_max_amount claims =
     bindE (jindex claims ''max_amount'') (\<lambda>v.
       case parse_decimal (py_str v) of
         Inl _ \<Rightarrow> atf_error ''ATF maximum amount is invalid''
       | Inr m \<Rightarrow> Inr m)"

definition atf_checks ::
    "(string \<times> json) list \<Rightarrow> string \<Rightarrow> string \<Rightarrow> exn + unit" where
  "atf_checks claims agent acct =
     (if jget claims ''protocol_version'' \<noteq> JStr ''atf/v1'' then atf_error ''unsupported ATF protocol version''
      else if jget claims ''decision'' \<noteq> JStr ''ALLOW'' then
        atf_error ''ATF authorization decision does not allow payment''
      else if jget claims ''action'' \<noteq> JStr ''PAYMENT'' then atf_error ''ATF authorization action is not PAYMENT''
      else if jget claims ''revocation_status'' \<noteq> JStr ''VALID'' then
        atf_error ''ATF authorization evidence is not currently valid''
      else if jget claims ''subject_agent'' \<noteq> JStr agent then
        atf_error ''ATF evidence subject does not match agent''
      else if jget claims ''account_id'' \<noteq> JStr acct then
        atf_error ''ATF evidence account does not match payment account''
      else if ''PAYMENT'' \<notin> atf_scope (jget_or claims ''scope'' (JArr [JStr ''PAYMENT''])) then
        atf_error ''ATF evidence does not grant PAYMENT scope''
      else Inr ())"

definition atf_amounts ::
    "(string \<times> json) list \<Rightarrow> pydec \<Rightarrow> decimal \<Rightarrow> string \<Rightarrow> exn + string" where
  "atf_amounts claims m amt cur =
     bindE (pd_le m (Finite dzero)) (\<lambda>nonpos.
     if nonpos then atf_error ''ATF maximum amount must be positive''
     else bindE (jindex claims ''currency'') (\<lambda>kv.
       let k = upper (py_str kv)
       in if length k \<noteq> 3 \<or> k \<noteq> upper cur then
            atf_error ''ATF currency does not match payment currency''
          else if dle amt dzero then atf_error ''payment exceeds ATF authorized amount''
          else bindE (pd_less m (Finite amt)) (\<lambda>exceeds.
            if exceeds then atf_error ''payment exceeds ATF authorized amount'' else Inr k)))"

definition verify_signed_assertion ::
    "(string \<Rightarrow> string) \<Rightarrow> (string \<Rightarrow> exn + datetime) \<Rightarrow> (string \<Rightarrow> (string \<times> json) list option)
      \<Rightarrow> atf_config \<Rightarrow> string \<Rightarrow> string \<Rightarrow> string \<Rightarrow> decimal \<Rightarrow> string \<Rightarrow> exn + authorization_context" where
  "verify_signed_assertion sha float_time decode cfg assertion agent acct amt cur =
     (if \<not> configured (atf_jwks_url cfg) \<or> \<not> configured (atf_issuer cfg) \<or> \<not> configured (atf_audience cfg)
      then atf_error ''ATF evidence verification is not fully configured''
      else if assertion = [] then atf_error ''signed ATF authorization evidence is required''
      else case decode assertion of
        None \<Rightarrow> atf_error ''invalid signed ATF authorization evidence''
      | Some claims \<Rightarrow>
          bindE (atf_checks claims agent acct) (\<lambda>_.
          bindE (atf_max_amount claims) (\<lambda>m.
          bindE (atf_amounts claims m amt cur) (\<lambda>k.
          if jget claims ''exp'' = JNull then atf_error ''ATF evidence expiry is required''
          else
            bindE (jindex claims ''evidence_id'') (\<lambda>eid.
            bindE (jindex claims ''iss'') (\<lambda>iss.
            bindE (fromtimestamp float_time (jget claims ''exp'')) (\<lambda>expiry.
            bindE (jindex claims ''version'') (\<lambda>ver.
            Inr \<lparr>evidence_id = py_str eid, issuer = py_str iss, ctx_agent = agent, ctx_account = acct,
                 delegation_id = (if jtruth (jget claims ''delegation_id'')
                                  then Some (py_str (jget claims ''delegation_id'')) else None),
                 scope = atf_scope (jget_or claims ''scope'' (JArr [JStr ''PAYMENT''])),
                 max_amount = Some m, ctx_currency = Some k, valid_until = Some expiry,
                 ctx_digest = Some (sha assertion), ctx_version = Some (py_str ver)\<rparr>))))))))"

section \<open>What a verified assertion establishes\<close>

text \<open>An amount within a maximum, which may be infinite.\<close>

definition within_max :: "decimal \<Rightarrow> pydec \<Rightarrow> bool" where
  "within_max amt m =
     (case m of Finite x \<Rightarrow> 0 < dval x \<and> dval amt \<le> dval x | Infinite neg \<Rightarrow> \<not> neg | NaN \<Rightarrow> False)"

lemma within_max_iff:
  "within_max amt m \<longleftrightarrow> pd_le m (Finite dzero) = Inr False \<and> pd_less m (Finite amt) = Inr False"
  by (cases m) (auto simp: within_max_def dec_simps)

lemma verify_facts:
  assumes "verify_signed_assertion sha ft decode cfg a agent acct amt cur = Inr c"
  shows "\<exists>claims m k.
    decode a = Some claims \<and> configured (atf_jwks_url cfg) \<and> a \<noteq> [] \<and>
    jget claims ''decision'' = JStr ''ALLOW'' \<and> jget claims ''action'' = JStr ''PAYMENT'' \<and>
    jget claims ''revocation_status'' = JStr ''VALID'' \<and>
    jget claims ''subject_agent'' = JStr agent \<and> jget claims ''account_id'' = JStr acct \<and>
    ''PAYMENT'' \<in> scope c \<and> 0 < dval amt \<and> within_max amt m \<and> max_amount c = Some m \<and>
    k = upper cur \<and> length k = 3 \<and> ctx_currency c = Some k \<and> valid_until c \<noteq> None \<and>
    ctx_agent c = agent \<and> ctx_account c = acct"
  using assms
  by (auto simp: verify_signed_assertion_def atf_checks_def atf_amounts_def within_max_iff Let_def
      err_simps dec_simps not_le split: option.splits if_splits)
    (metis length_upper)+


text \<open>A complete set of claims, for the witnesses.\<close>

definition sample_claims :: "(string \<times> json) list" where
  "sample_claims =
     [(''protocol_version'', JStr ''atf/v1''), (''decision'', JStr ''ALLOW''), (''action'', JStr ''PAYMENT''),
      (''revocation_status'', JStr ''VALID''), (''subject_agent'', JStr ''agt_1''),
      (''account_id'', JStr ''acc_1''), (''max_amount'', JStr ''100''), (''currency'', JStr ''usd''),
      (''exp'', JInt 1800000000), (''evidence_id'', JStr ''ev_1''), (''iss'', JStr ''atf''),
      (''version'', JStr ''1'')]"

definition sample_atf_config :: atf_config where
  "sample_atf_config = \<lparr>atf_jwks_url = Some ''u'', atf_issuer = Some ''atf'', atf_audience = Some ''pay''\<rparr>"

lemma sample_verified:
  "\<exists>c. verify_signed_assertion id (\<lambda>r. Inl (ValueError r)) (\<lambda>t. Some sample_claims) sample_atf_config
     ''jwt'' ''agt_1'' ''acc_1'' (Dec 25 0) ''USD'' = Inr c"
proof -
  have p: "parse_decimal ''100'' = Inr (Finite (Dec 100 0))"
    using parse_str_dec [of "Dec 100 0"] by (simp add: str_dec_def str_nat_def nat_digits.simps digit_char_def
        char_of_def bit_0)
  show ?thesis
    by (simp add: verify_signed_assertion_def sample_claims_def sample_atf_config_def configured_def
        atf_checks_def atf_amounts_def atf_max_amount_def jget_def jget_or_def jindex_def p dec_simps
        dval_def from_seconds_def Let_def text_eval)
qed


text \<open>After the adapter has accepted an assertion, the normalised validation the API
  runs on the same payment can only fail for an empty evidence id, issuer, agent or account, or because
  the evidence has expired by now; every financial bound was already established, so the two layers
  agree on them.\<close>

theorem atf_then_validate:
  assumes "verify_signed_assertion sha ft decode cfg a agent acct amt cur = Inr c"
  shows "validate_context now c agent acct amt cur ''PAYMENT'' = Inr () \<longleftrightarrow>
    evidence_id c \<noteq> [] \<and> issuer c \<noteq> [] \<and> agent \<noteq> [] \<and> acct \<noteq> [] \<and>
    instant now < instant (the (valid_until c))"
proof -
  obtain m where m: "max_amount c = Some m" "within_max amt m" "0 < dval amt"
    and k: "ctx_currency c = Some (upper cur)" "length (upper cur) = 3"
    and e: "valid_until c \<noteq> None" and i: "ctx_agent c = agent" "ctx_account c = acct" "''PAYMENT'' \<in> scope c"
    using verify_facts [OF assms] by blast
  have "upper (upper cur) = upper cur" "upper cur \<noteq> []" using k(2) by auto
  then show ?thesis
    using m k e i
    by (auto simp: validate_context_def within_max_iff dec_simps not_le split: option.splits)
qed

theorem atf_then_validate_witness:
  "\<exists>c. verify_signed_assertion id (\<lambda>r. Inl (ValueError r)) (\<lambda>t. Some sample_claims) sample_atf_config
     ''jwt'' ''agt_1'' ''acc_1'' (Dec 25 0) ''USD'' = Inr c \<and>
     (validate_context \<lparr>dt_ordinal = 1, dt_time = Time 0 0 0 0, dt_utcoffset = Some 0\<rparr> c ''agt_1'' ''acc_1''
        (Dec 25 0) ''USD'' ''PAYMENT'' = Inr () \<longleftrightarrow>
      evidence_id c \<noteq> [] \<and> issuer c \<noteq> [] \<and>
      instant \<lparr>dt_ordinal = 1, dt_time = Time 0 0 0 0, dt_utcoffset = Some 0\<rparr> < instant (the (valid_until c)))"
proof -
  obtain c where c: "verify_signed_assertion id (\<lambda>r. Inl (ValueError r)) (\<lambda>t. Some sample_claims) sample_atf_config
     ''jwt'' ''agt_1'' ''acc_1'' (Dec 25 0) ''USD'' = Inr c"
    using sample_verified by blast
  show ?thesis using c atf_then_validate [OF c] by auto
qed

end
