(* ===== verification/Auth.thy ===== *)
theory Auth
  imports Authorization
begin

text \<open>
  \<open>auth.py\<close>: who is calling. The process environment is a function \<open>getenv\<close>; fetching the OIDC
  key and checking the token is PyJWT's work and a parameter \<open>decode\<close> (\<open>None\<close> for a
  \<open>PyJWTError\<close>).
\<close>

type_synonym environ = "string \<Rightarrow> string option"

record principal =
  pr_agent :: string
  pr_account :: string
  pr_scopes :: "string set"
  pr_subject :: "string option"
  pr_issuer :: "string option"

abbreviation permission_error :: "string \<Rightarrow> exn + 'a" where
  "permission_error m \<equiv> Inl (PermissionError m)"

definition getenv_or :: "environ \<Rightarrow> string \<Rightarrow> string \<Rightarrow> string" where
  "getenv_or env k v0 = (case env k of Some v \<Rightarrow> v | None \<Rightarrow> v0)"

definition auth_mode :: "environ \<Rightarrow> string" where
  "auth_mode env = getenv_or env ''AGENT_PAY_AUTH_MODE'' ''strict''"

fun jtext :: "json \<Rightarrow> string option" where
  "jtext (JStr s) = Some s"
| "jtext v = None"

definition oidc_principal ::
    "(string \<Rightarrow> (string \<times> json) list option) \<Rightarrow> environ \<Rightarrow> string \<Rightarrow> exn + principal" where
  "oidc_principal decode env token =
     (if \<not> configured (env ''AGENT_PAY_OIDC_JWKS_URL'') \<or> \<not> configured (env ''AGENT_PAY_OIDC_ISSUER'') \<or>
         \<not> configured (env ''AGENT_PAY_OIDC_AUDIENCE'')
      then permission_error ''OIDC authentication is not fully configured''
      else case decode token of
        None \<Rightarrow> permission_error ''invalid OIDC bearer token''
      | Some claims \<Rightarrow>
          (case (jget claims ''agent_id'', jget claims ''account_id'') of
             (JStr agent, JStr acct) \<Rightarrow>
               bindE (jindex claims ''sub'') (\<lambda>sub.
               bindE (jindex claims ''iss'') (\<lambda>iss.
               Inr \<lparr>pr_agent = agent, pr_account = acct,
                    pr_scopes = (case jget_or claims ''scope'' (JStr []) of JStr s \<Rightarrow> set (split_ws s) | _ \<Rightarrow> {}),
                    pr_subject = jtext sub, pr_issuer = jtext iss\<rparr>))
           | _ \<Rightarrow> permission_error ''OIDC token is missing Agent-Pay identity claims''))"

definition resolve_bearer ::
    "(string \<Rightarrow> (string \<times> json) list option) \<Rightarrow> environ \<Rightarrow> string option \<Rightarrow> exn + principal" where
  "resolve_bearer decode env token =
     (case token of
        None \<Rightarrow> permission_error ''bearer token is required''
      | Some t \<Rightarrow>
          if t = [] then permission_error ''bearer token is required''
          else if auth_mode env = ''development'' then
            (if t \<noteq> getenv_or env ''AGENT_PAY_DEV_TOKEN'' ''local-agent-token''
             then permission_error ''invalid development bearer token''
             else case (env ''AGENT_PAY_DEV_AGENT_ID'', env ''AGENT_PAY_DEV_ACCOUNT_ID'') of
               (Some agent, Some acct) \<Rightarrow>
                 (if agent = [] \<or> acct = [] then permission_error ''development principal is not configured''
                  else Inr \<lparr>pr_agent = agent, pr_account = acct,
                            pr_scopes = {''payments:create'', ''payments:read''},
                            pr_subject = None, pr_issuer = None\<rparr>)
             | _ \<Rightarrow> permission_error ''development principal is not configured'')
          else if auth_mode env = ''oidc'' then oidc_principal decode env t
          else permission_error ''production authentication adapter is not configured'')"

definition resolve_approval_bearer :: "environ \<Rightarrow> string option \<Rightarrow> exn + string" where
  "resolve_approval_bearer env token =
     (if auth_mode env \<noteq> ''development''
      then permission_error ''production approval authentication adapter is not configured''
      else if token \<noteq> Some (getenv_or env ''AGENT_PAY_APPROVAL_TOKEN'' ''local-approval-token'')
      then permission_error ''invalid development approval bearer token''
      else Inr (getenv_or env ''AGENT_PAY_APPROVAL_ACTOR'' ''local-user''))"

definition require_agent :: "principal \<Rightarrow> string \<Rightarrow> string \<Rightarrow> exn + unit" where
  "require_agent p agent acct =
     (if pr_agent p \<noteq> agent \<or> pr_account p \<noteq> acct
      then permission_error ''authenticated principal does not match payment actor''
      else if ''payments:create'' \<notin> pr_scopes p
      then permission_error ''principal lacks payments:create scope''
      else Inr ())"

text \<open>\<open>authorization[7:].strip()\<close> of a header that starts with \<open>Bearer \<close>.\<close>

definition bearer_token :: "string \<Rightarrow> string" where
  "bearer_token h = strip (drop 7 h)"

definition is_bearer :: "string \<Rightarrow> bool" where
  "is_bearer h \<longleftrightarrow> take 7 h = ''Bearer ''"

text \<open>A caller may act for an agent and an account.\<close>

definition may_act ::
    "(string \<Rightarrow> (string \<times> json) list option) \<Rightarrow> environ \<Rightarrow> string \<Rightarrow> string \<Rightarrow> string \<Rightarrow> bool" where
  "may_act decode env token agent acct \<longleftrightarrow>
     is_ok (bindE (resolve_bearer decode env (Some token)) (\<lambda>p. require_agent p agent acct))"

lemma oidc_may_act:
  "is_ok (bindE (oidc_principal decode env t) (\<lambda>p. require_agent p agent acct)) \<longleftrightarrow>
     configured (env ''AGENT_PAY_OIDC_JWKS_URL'') \<and> configured (env ''AGENT_PAY_OIDC_ISSUER'') \<and>
     configured (env ''AGENT_PAY_OIDC_AUDIENCE'') \<and>
     (\<exists>claims s. decode t = Some claims \<and> jget claims ''agent_id'' = JStr agent \<and>
        jget claims ''account_id'' = JStr acct \<and> map_of claims ''sub'' \<noteq> None \<and> map_of claims ''iss'' \<noteq> None \<and>
        jget claims ''scope'' = JStr s \<and> ''payments:create'' \<in> set (split_ws s))"
  (is "?ok \<longleftrightarrow> ?conf \<and> ?conf2 \<and> ?conf3 \<and> ?claims")
proof (cases "?conf \<and> ?conf2 \<and> ?conf3")
  case conf: True
  show ?thesis
  proof (cases "decode t")
    case None
    with conf show ?thesis by (simp add: oidc_principal_def)
  next
    case (Some claims)
    have sc: "''payments:create'' \<in> (case jget_or claims ''scope'' (JStr []) of JStr s \<Rightarrow> set (split_ws s) | _ \<Rightarrow> {})
        \<longleftrightarrow> (\<exists>s. jget claims ''scope'' = JStr s \<and> ''payments:create'' \<in> set (split_ws s))"
      by (cases "map_of claims ''scope''"; cases "jget claims ''scope''")
        (auto simp: jget_or_def jget_def split_ws_def)
    show ?thesis
    proof (cases "\<exists>a c. jget claims ''agent_id'' = JStr a \<and> jget claims ''account_id'' = JStr c")
      case True
      then obtain a c where id: "jget claims ''agent_id'' = JStr a" "jget claims ''account_id'' = JStr c"
        by blast
      show ?thesis
        using conf Some id
        by (cases "map_of claims ''sub''"; cases "map_of claims ''iss''")
          (auto simp: oidc_principal_def jindex_def require_agent_def sc)
    next
      case False
      then have "oidc_principal decode env t =
          permission_error ''OIDC token is missing Agent-Pay identity claims''"
        using conf Some
        by (cases "jget claims ''agent_id''"; cases "jget claims ''account_id''") (auto simp: oidc_principal_def)
      with False Some show ?thesis by auto
    qed
  qed
next
  case False
  then show ?thesis by (auto simp: oidc_principal_def)
qed

text \<open>C29: a bearer token lets a caller act for an agent and account only in two
  configurations: in development mode with the configured token and principal, or in OIDC mode with a
  token whose signature and claims were accepted, whose agent_id and account_id claims are exactly that
  agent and account and whose scope text contains payments:create; with the mode unset or any other
  value nobody may act.\<close>

theorem auth_fails_closed:
  "may_act decode env t agent acct \<longleftrightarrow> t \<noteq> [] \<and>
     ((auth_mode env = ''development'' \<and> t = getenv_or env ''AGENT_PAY_DEV_TOKEN'' ''local-agent-token'' \<and>
       env ''AGENT_PAY_DEV_AGENT_ID'' = Some agent \<and> env ''AGENT_PAY_DEV_ACCOUNT_ID'' = Some acct \<and>
       agent \<noteq> [] \<and> acct \<noteq> []) \<or>
      (auth_mode env = ''oidc'' \<and> configured (env ''AGENT_PAY_OIDC_JWKS_URL'') \<and>
       configured (env ''AGENT_PAY_OIDC_ISSUER'') \<and> configured (env ''AGENT_PAY_OIDC_AUDIENCE'') \<and>
       (\<exists>claims s. decode t = Some claims \<and> jget claims ''agent_id'' = JStr agent \<and>
          jget claims ''account_id'' = JStr acct \<and> map_of claims ''sub'' \<noteq> None \<and>
          map_of claims ''iss'' \<noteq> None \<and>
          jget claims ''scope'' = JStr s \<and> ''payments:create'' \<in> set (split_ws s))))"
proof (cases "t = [] \<or> auth_mode env \<notin> {''development'', ''oidc''}")
  case True
  then show ?thesis by (auto simp: may_act_def resolve_bearer_def)
next
  case False
  then consider "auth_mode env = ''development''" | "auth_mode env = ''oidc''" by blast
  then show ?thesis
  proof cases
    case 1
    with False show ?thesis
      by (cases "env ''AGENT_PAY_DEV_AGENT_ID''"; cases "env ''AGENT_PAY_DEV_ACCOUNT_ID''")
        (auto simp: may_act_def resolve_bearer_def require_agent_def)
  next
    case 2
    with False show ?thesis
      using oidc_may_act [of decode env t agent acct] by (simp add: may_act_def resolve_bearer_def)
  qed
qed

end
