(* ===== verification/Runner.thy ===== *)
theory Runner
  imports Worker Auth
begin

text \<open>
  \<open>worker_runner.py\<close>: the entry point of the worker process. It reads the ids of the payments that
  wait for execution, resolves the two ledger accounts of each and hands it to \<open>process_one\<close>, one
  connection per payment and one mock provider for the whole run. An exception ends the run; what the
  earlier payments committed stays.
\<close>

section \<open>Looking up the accounts\<close>

definition outcome_of_text :: "string \<Rightarrow> exn + ProviderOutcome" where
  "outcome_of_text s =
     (if s = outcome_value O_SUCCEEDED then Inr O_SUCCEEDED
      else if s = outcome_value O_FAILED then Inr O_FAILED
      else if s = outcome_value O_UNKNOWN then Inr O_UNKNOWN
      else Inl (ValueError (repr_str s @ '' is not a valid ProviderOutcome'')))"

definition payment_currency :: "nat \<Rightarrow> db \<Rightarrow> exn + string" where
  "payment_currency pid d =
     (case row_by p_id pid (payments d) of
        None \<Rightarrow> Inl (ValueError ''payment not found'')
      | Some p \<Rightarrow> Inr (upper (strip (p_currency p))))"

text \<open>The ledger account of an active wallet in the payment's currency. The query has LIMIT 1 and no
  order; the first row in insertion order is taken.\<close>

definition wallet_accounts :: "nat \<Rightarrow> string \<Rightarrow> db \<Rightarrow> nat list" where
  "wallet_accounts acct cur d =
     concat (map (\<lambda>w. map la_id (filter (\<lambda>la. la_wallet la = Some (w_id w)) (ledger_accounts d)))
       (filter (\<lambda>w. w_account w = acct \<and> bp_eq (w_currency w) cur \<and> w_status w = ''ACTIVE'') (wallets d)))"

definition clearing_account :: "string \<Rightarrow> string \<Rightarrow> db \<Rightarrow> nat option" where
  "clearing_account name cur d =
     (case filter (\<lambda>a. ppa_provider a = name \<and> bp_eq (ppa_currency a) cur \<and> ppa_status a = ''ACTIVE'')
        (provider_accounts d) of
        [] \<Rightarrow> None
      | a # _ \<Rightarrow> Some (ppa_ledger a))"

text \<open>The query of the runner, with the currency of the clearing account as its parameter, and of the
  HTTP endpoints, which use the payment's own. Both accounts have to be there.\<close>

definition payment_accounts :: "string \<Rightarrow> nat \<Rightarrow> db \<Rightarrow> (nat \<times> nat) option" where
  "payment_accounts clearing_cur pid d =
     (case row_by p_id pid (payments d) of
        None \<Rightarrow> None
      | Some p \<Rightarrow>
          (case row_by q_id (p_request p) (requests d) of
             None \<Rightarrow> None
           | Some q \<Rightarrow>
               (case wallet_accounts (q_account q) (p_currency p) d of
                  [] \<Rightarrow> None
                | customer # _ \<Rightarrow> map_option (Pair customer) (clearing_account ''mock'' clearing_cur d))))"

section \<open>The run\<close>

fun run_payments ::
    "(string \<Rightarrow> string) \<Rightarrow> nat list \<Rightarrow> nat \<Rightarrow> db \<times> mock_provider \<Rightarrow> (exn + nat) \<times> db \<times> mock_provider" where
  "run_payments sha [] n s = (Inr n, s)"
| "run_payments sha (pid # pids) n (d, prov) =
     (case payment_currency pid d of
        Inl e \<Rightarrow> (Inl e, d, prov)
      | Inr cur \<Rightarrow>
          (case payment_accounts cur pid d of
             None \<Rightarrow>
               (Inl (RuntimeError ''customer wallet ledger account or provider clearing account is missing''), d, prov)
           | Some (customer, clearing) \<Rightarrow>
               (case process_one (MockProvider sha) pid customer clearing None (d, prov) of
                  (Inl e, s) \<Rightarrow> (Inl e, s)
                | (Inr _, s) \<Rightarrow> run_payments sha pids (n + 1) s)))"

definition run_once :: "(string \<Rightarrow> string) \<Rightarrow> environ \<Rightarrow> nat \<Rightarrow> db \<Rightarrow> (exn + nat) \<times> db" where
  "run_once sha env n_rows d =
     (let (r, d1) = connection (unit_of_work (exec (pending_for_execution n_rows))) d
      in case r of
           Inl e \<Rightarrow> (Inl e, d1)
         | Inr rows \<Rightarrow>
             (case outcome_of_text (getenv_or env ''AGENT_PAY_MOCK_OUTCOME'' ''SUCCEEDED'') of
                Inl e \<Rightarrow> (Inl e, d1)
              | Inr out \<Rightarrow> (let (r, s) = run_payments sha (map fst rows) 0 (d1, new_mock out) in (r, fst s))))"

section \<open>What a run keeps and reaches\<close>

lemma transact_snd: "keeps I f \<Longrightarrow> I d \<Longrightarrow> transact f d = (r, d') \<Longrightarrow> I d'"
  by (metis snd_conv transact_keeps)

text \<open>Whatever both transactions keep, the worker keeps, also when it raises.\<close>

lemma process_one_keeps:
  assumes "keeps I (claim_payment pid)" "\<And>rid res amt cur out ref. keeps I (finalize pid rid res amt cur customer clearing out ref corr)"
    and "I d" "process_one V pid customer clearing corr (d, prov) = (r, d', prov')"
  shows "I d'"
proof -
  obtain r1 d1 where t: "transact (claim_payment pid) d = (r1, d1)" by fastforce
  have I1: "I d1" by (rule transact_snd [OF assms(1,3) t])
  show ?thesis
  proof (cases r1)
    case (Inl e)
    with assms(4) t I1 show ?thesis by (simp add: process_one_def)
  next
    case (Inr z)
    obtain rid amt cur res where z: "z = (rid, amt, cur, res)" by (cases z)
    obtain r2 prov1 where s: "provider_step V prov pid amt cur d1 = (r2, prov1)" by fastforce
    show ?thesis
    proof (cases r2)
      case (Inl e)
      with assms(4) t I1 \<open>r1 = Inr z\<close> z s show ?thesis by (simp add: process_one_def)
    next
      case (Inr w)
      obtain out ref where w: "w = (out, ref)" by (cases w)
      obtain r3 d2 where f: "transact (finalize pid rid res amt cur customer clearing out ref corr) d1 = (r3, d2)"
        by fastforce
      have "I d2" by (rule transact_snd [OF assms(2) I1 f])
      with assms(4) t \<open>r1 = Inr z\<close> z s Inr w f show ?thesis by (simp add: process_one_def)
    qed
  qed
qed

lemma process_one_books:
  assumes "budgets_ok d" "ledger_ok d" "process_one V pid customer clearing corr (d, prov) = (r, d', prov')"
  shows "budgets_ok d' \<and> ledger_ok d'"
  using process_one_keeps [OF keeps_claim(1) keeps_finalize(1) assms(1,3)]
    process_one_keeps [OF keeps_claim(2) keeps_finalize(2) assms(2,3)] by simp

definition status_in :: "payment_state set \<Rightarrow> nat \<Rightarrow> db \<Rightarrow> bool" where
  "status_in S pid d \<longleftrightarrow> (\<exists>p. row_by p_id pid (payments d) = Some p \<and> p_status p \<in> S)"

definition answered :: "payment_state set" where
  "answered = {ST_SUCCEEDED, ST_FAILED, ST_UNKNOWN_EXTERNAL_OUTCOME}"

lemma outcome_state_answered [simp]: "outcome_state out \<in> answered"
  by (cases out) (simp_all add: outcome_state_def answered_def)

text \<open>The worker changes the status of no other payment.\<close>

lemma keeps_other_status:
  assumes "k \<noteq> pid"
  shows "keeps (status_in S k) (claim_payment pid)"
    "keeps (status_in S k) (finalize pid rid res amt cur customer clearing out ref corr)"
proof -
  have upd: "keeps (status_in S k) (update_status pid st ref)" for st ref
    unfolding update_status_def
    by (rule keeps_modify) (use assms in \<open>simp add: status_in_def row_by_upd_by\<close>)
  have enq: "keeps (status_in S k) (enqueue a b c e g)" for a b c e g
    unfolding enqueue_def by (intro keeps_intros keeps_modify keeps_draw_tables; simp add: status_in_def)
  have upc: "keeps (status_in S k) (update_charges pid f)" for f
    unfolding update_charges_def by (intro keeps_modify) (simp add: status_in_def)
  have bud: "keeps (status_in S k) (budget_consume res)" "keeps (status_in S k) (budget_release res)"
    unfolding budget_consume_def budget_release_def move_budget_def
    by (intro keeps_intros keeps_modify; simp add: status_in_def)+
  have ups: "keeps (status_in S k) (upsert_capture pid amt cur)"
    unfolding upsert_capture_def references_def
    by (intro keeps_intros keeps_modify keeps_draw_tables; simp add: status_in_def)
  have jr: "keeps (status_in S k) (post_journal cur a b c corr ps)" for a b c ps
    by (rule keeps_post_journal [OF keeps_draw_tables]) (simp_all add: status_in_def)
  show "keeps (status_in S k) (finalize pid rid res amt cur customer clearing out ref corr)"
    unfolding finalize_def select_payment_def finalize_unknown_def finalize_failed_def finalize_succeeded_def
    by (intro keeps_intros upd enq upc bud ups jr)
  have op: "keeps (status_in S k) (create_provider_operation pid ty key)" for ty key
    unfolding create_provider_operation_def new_operation_def references_def
    by (intro keeps_intros keeps_modify keeps_draw_tables)
      (use assms in \<open>simp_all add: status_in_def row_by_upd_by\<close>)
  show "keeps (status_in S k) (claim_payment pid)"
    unfolding claim_payment_def by (intro keeps_intros upd op)
qed

lemma process_one_status:
  assumes "process_one V pid customer clearing corr (d, prov) = (Inr st, d', prov')"
  shows "status_in answered pid d'"
proof -
  obtain rid amt cur res out where "settled pid rid amt cur res customer clearing out d'"
    using process_one_settles [OF assms] by blast
  then have "map_option p_status (row_by p_id pid (payments d')) = Some (outcome_state out)"
    by (simp add: settled_def)
  then show ?thesis using outcome_state_answered [of out] by (auto simp: status_in_def)
qed

lemma run_payments_settles:
  assumes "run_payments sha pids n (d, prov) = (Inr m, d', prov')"
  shows "m = n + length pids \<and> (\<forall>pid \<in> set pids. status_in answered pid d') \<and>
    (\<forall>pid. status_in answered pid d \<longrightarrow> status_in answered pid d') \<and>
    (budgets_ok d \<longrightarrow> ledger_ok d \<longrightarrow> budgets_ok d' \<and> ledger_ok d')"
  using assms
proof (induction pids arbitrary: n d prov)
  case Nil
  then show ?case by simp
next
  case (Cons pid pids)
  obtain cur where cur: "payment_currency pid d = Inr cur"
    using Cons.prems by (cases "payment_currency pid d") simp_all
  obtain customer clearing where acc: "payment_accounts cur pid d = Some (customer, clearing)"
    using Cons.prems cur by (cases "payment_accounts cur pid d") auto
  obtain r d1 prov1 where one: "process_one (MockProvider sha) pid customer clearing None (d, prov) = (r, d1, prov1)"
    by (cases "process_one (MockProvider sha) pid customer clearing None (d, prov)")
  obtain st where r: "r = Inr st" using Cons.prems cur acc one by (cases r) auto
  have rest: "run_payments sha pids (n + 1) (d1, prov1) = (Inr m, d', prov')"
    using Cons.prems cur acc one r by simp
  have now: "status_in answered pid d1" by (rule process_one_status) (use one r in simp)
  have others: "status_in answered k d \<longrightarrow> status_in answered k d1" for k
    using now process_one_keeps [OF keeps_other_status, OF _ _ _ one] by (cases "k = pid") blast+
  from Cons.IH [OF rest] now others process_one_books [OF _ _ one] show ?case by auto
qed

text \<open>When a run of the worker process returns a count, it is the number of pending
  payments up to the limit, each of them now has an answer (SUCCEEDED, FAILED or
  UNKNOWN_EXTERNAL_OUTCOME), and the budgets' totals and the ledger are as consistent as before.\<close>

theorem run_once_settles:
  assumes "run_once sha env n_rows d = (Inr n, d')" "budgets_ok d" "ledger_ok d"
  shows "n = min n_rows (length (filter (executable d) (payments d))) \<and>
    (\<forall>p \<in> set (take n_rows (sort_key p_created (filter (executable d) (payments d)))).
       status_in answered (p_id p) d') \<and> budgets_ok d' \<and> ledger_ok d'"
proof -
  let ?ps = "take n_rows (sort_key p_created (filter (executable d) (payments d)))"
  have c: "connection (unit_of_work (exec (pending_for_execution n_rows))) d = (Inr (map (pending_row d) ?ps), d)"
    by (simp add: connection_unit_of_work transact_def pending_for_execution_def)
  have ids: "map fst (map (pending_row d) ?ps) = map p_id ?ps" by (simp add: pending_row_def comp_def)
  obtain out where out: "outcome_of_text (getenv_or env ''AGENT_PAY_MOCK_OUTCOME'' ''SUCCEEDED'') = Inr out"
    using assms(1) c by (cases "outcome_of_text (getenv_or env ''AGENT_PAY_MOCK_OUTCOME'' ''SUCCEEDED'')")
      (simp_all add: run_once_def)
  obtain r d1 prov1 where run: "run_payments sha (map p_id ?ps) 0 (d, new_mock out) = (r, d1, prov1)"
    by (cases "run_payments sha (map p_id ?ps) 0 (d, new_mock out)")
  have "r = Inr n" "d1 = d'" using assms(1) c out run by (simp_all add: run_once_def ids del: map_map)
  with run_payments_settles [of sha "map p_id ?ps" 0 d "new_mock out" n d' prov1] run assms(2,3)
  show ?thesis by simp
qed

theorem run_once_settles_witness:
  "\<exists>d'. run_once id Map.empty 25 ready_db = (Inr 1, d') \<and> status_in answered 5 d' \<and> budgets_ok d' \<and> ledger_ok d'"
proof -
  obtain d' p' where one: "process_one (MockProvider id) 5 8 9 None (ready_db, new_mock O_SUCCEEDED) = (Inr ST_SUCCEEDED, d', p')"
    using ready_processed by blast
  have acc: "payment_currency 5 ready_db = Inr ''USD''" "payment_accounts ''USD'' 5 ready_db = Some (8, 9)"
    by (simp_all add: payment_currency_def payment_accounts_def wallet_accounts_def clearing_account_def
        ready_db_def held_db_def sample_defs text_eval bp_eq_def)
  have pend: "filter (executable ready_db) (payments ready_db) = [sample_payment\<lparr>p_status := ST_PROCESSING\<rparr>]"
    by (simp add: executable_def request_of_def ready_db_def held_db_def sample_defs)
  have row: "fst (pending_row ready_db (sample_payment\<lparr>p_status := ST_PROCESSING\<rparr>)) = 5"
    by (simp add: pending_row_def sample_payment_def)
  have run: "run_once id Map.empty 25 ready_db = (Inr 1, d')"
    using one acc row
    by (simp add: run_once_def connection_unit_of_work transact_def pending_for_execution_def pend getenv_or_def
        outcome_of_text_def)
  show ?thesis using run run_once_settles [OF run ready_db_ok] pend by (simp add: sample_payment_def)
qed

end
