(* ===== verification/Lifecycle.thy ===== *)
theory Lifecycle
  imports Runner DecimalText
begin

text \<open>
  \<open>lifecycle.py\<close>: capture, void and refund of a payment. Each operation is one transaction with
  the provider call in its middle: the statements before it, the call, and the statements after it. An
  exception undoes the statements, never the call, so the provider's state is returned next to the
  result. The lemmas bound the refunds of a payment by its captures and describe replays.
\<close>

section \<open>A provider call inside a transaction\<close>

text \<open>The statements before the call return early with a result or ask for the call.\<close>

definition around_call ::
    "('r + 'q) tx \<Rightarrow> ('q \<Rightarrow> 'p \<Rightarrow> (exn + ProviderOutcome) \<times> 'p) \<Rightarrow> ('q \<Rightarrow> ProviderOutcome \<Rightarrow> 'r tx)
      \<Rightarrow> 'p \<Rightarrow> db \<Rightarrow> (exn + 'r \<times> db) \<times> 'p" where
  "around_call before call after prov d =
     (case before d of
        Inl e \<Rightarrow> (Inl e, prov)
      | Inr (Inl r, d1) \<Rightarrow> (Inr (r, d1), prov)
      | Inr (Inr q, d1) \<Rightarrow>
          (case call q prov of
             (Inl e, prov1) \<Rightarrow> (Inl e, prov1)
           | (Inr out, prov1) \<Rightarrow> (after q out d1, prov1)))"

lemma around_call_keeps:
  assumes "keeps I before" "\<And>q out. keeps I (after q out)"
    and "around_call before call after prov d = (Inr (r, d'), prov')" "I d"
  shows "I d'"
proof -
  obtain z d1 where b: "before d = Inr (z, d1)"
    using assms(3) by (cases "before d") (auto simp: around_call_def)
  have 1: "I d1" by (rule keepsD [OF assms(1,4) b])
  show ?thesis
  proof (cases z)
    case (Inl r')
    with assms(3) b 1 show ?thesis by (simp add: around_call_def)
  next
    case (Inr q)
    obtain o' prov1 where c: "call q prov = (o', prov1)" by fastforce
    then obtain out where "o' = Inr out" using assms(3) b Inr by (cases o') (auto simp: around_call_def)
    with assms(3) b Inr c have "after q out d1 = Inr (r, d')" by (simp add: around_call_def)
    from keepsD [OF assms(2) 1 this] show ?thesis .
  qed
qed

section \<open>Amounts\<close>

definition amount_minor :: "decimal \<Rightarrow> exn + int" where
  "amount_minor amt =
     (if dle amt dzero then Inl (ValueError ''operation amount must be positive'')
      else let cents = dmul amt (Dec 100 0)
           in if \<not> deq cents (to_integral_value cents)
              then Inl (ValueError ''reference payment rails support at most two decimal places'')
              else Inr (dtrunc cents))"

definition validate_operation_amount :: "decimal \<Rightarrow> string \<Rightarrow> decimal \<Rightarrow> string \<Rightarrow> exn + decimal \<times> string" where
  "validate_operation_amount amt cur payment_amt payment_cur =
     (let c = upper (strip cur)
      in if dle amt dzero then Inl (ValueError ''operation amount must be positive'')
         else if \<not> deq amt payment_amt then Inl (ValueError ''operation amount does not match payment amount'')
         else if c \<noteq> upper (strip payment_cur) then
           Inl (ValueError ''operation currency does not match payment currency'')
         else Inr (amt, c))"

definition validate_refund_amount :: "decimal \<Rightarrow> string \<Rightarrow> string \<Rightarrow> exn + decimal \<times> string" where
  "validate_refund_amount amt cur payment_cur =
     (let c = upper (strip cur)
      in if dle amt dzero then Inl (ValueError ''operation amount must be positive'')
         else if c \<noteq> upper (strip payment_cur) then
           Inl (ValueError ''operation currency does not match payment currency'')
         else Inr (amt, c))"

definition refund_replay_status :: "tx_state \<Rightarrow> decimal \<Rightarrow> payment_state option" where
  "refund_replay_status st refundable =
     (case st of
        TX_POSTED \<Rightarrow> Some (if deq refundable dzero then ST_REFUNDED else ST_SUCCEEDED)
      | TX_FAILED \<Rightarrow> Some ST_REFUND_FAILED
      | _ \<Rightarrow> None)"

section \<open>Transactions\<close>

definition create_transaction ::
    "nat \<Rightarrow> string \<Rightarrow> decimal \<Rightarrow> string \<Rightarrow> string \<Rightarrow> nat option \<Rightarrow> string option \<Rightarrow> tx_state \<Rightarrow> nat tx" where
  "create_transaction pid ty amt cur key orig ext st =
     bindT (queryT (\<lambda>d. row_by t_key (Some key) (transactions d))) (\<lambda>existing.
     case existing of
       Some t \<Rightarrow> returnT (t_id t)
     | None \<Rightarrow>
         bindT (liftT (char3 cur)) (\<lambda>cur3.
         bindT (liftT (positive_num4 amt)) (\<lambda>n.
         bindT (queryT (\<lambda>d. known p_id pid (payments d))) (\<lambda>ref_ok.
         bindT (references ref_ok ''transactions'') (\<lambda>_.
         bindT draw_id (\<lambda>i.
         bindT (modifyT (\<lambda>d. d\<lparr>transactions := transactions d @
           [\<lparr>t_id = i, t_payment = pid, t_type = ty, t_status = st, t_amount = n, t_currency = cur3,
             t_original = orig, t_external = ext, t_key = Some key,
             t_posted = (if st = TX_POSTED then Some (clock d) else None)\<rparr>]\<rparr>)) (\<lambda>_.
         returnT i)))))))"

definition set_transaction :: "nat \<Rightarrow> (int \<Rightarrow> transaction_row \<Rightarrow> transaction_row) \<Rightarrow> unit tx" where
  "set_transaction i f = modifyT (\<lambda>d. d\<lparr>transactions := upd_by t_id i (f (clock d)) (transactions d)\<rparr>)"

definition post_transaction :: "nat \<Rightarrow> unit tx" where
  "post_transaction i = set_transaction i (\<lambda>now t. t\<lparr>t_status := TX_POSTED, t_posted := Some now\<rparr>)"

definition fail_transaction :: "nat \<Rightarrow> unit tx" where
  "fail_transaction i = set_transaction i (\<lambda>now t. t\<lparr>t_status := TX_FAILED\<rparr>)"

text \<open>COALESCE(SUM(amount), 0) over the posted transactions of a type: without a row it is the integer
  0, otherwise it has the column's scale.\<close>

definition posted_rows :: "string \<Rightarrow> nat \<Rightarrow> transaction_row list \<Rightarrow> transaction_row list" where
  "posted_rows ty pid ts = filter (\<lambda>t. t_payment t = pid \<and> t_type t = ty \<and> t_status t = TX_POSTED) ts"

definition posted_total :: "string \<Rightarrow> nat \<Rightarrow> transaction_row list \<Rightarrow> num4" where
  "posted_total ty pid ts = sum_list (map t_amount (posted_rows ty pid ts))"

definition posted_sum :: "string \<Rightarrow> nat \<Rightarrow> db \<Rightarrow> decimal" where
  "posted_sum ty pid d =
     (if posted_rows ty pid (transactions d) = [] then dzero else of_num4 (posted_total ty pid (transactions d)))"

section \<open>Capture\<close>

definition capture_begin ::
    "nat \<Rightarrow> decimal \<Rightarrow> string \<Rightarrow> (payment_state + decimal \<times> string \<times> int) tx" where
  "capture_begin pid amt cur =
     bindT (select_payment pid) (\<lambda>row.
     case row of
       None \<Rightarrow> raiseT (ValueError ''payment not found'')
     | Some p \<Rightarrow>
         if p_status p = ST_SUCCEEDED then
           bindT (liftT (validate_operation_amount amt cur (of_num4 (p_amount p)) (p_currency p))) (\<lambda>_.
           returnT (Inl ST_SUCCEEDED))
         else if p_status p \<noteq> ST_AUTHORIZED then raiseT (ValueError ''payment is not authorized for capture'')
         else
           bindT (liftT (validate_operation_amount amt cur (of_num4 (p_amount p)) (p_currency p))) (\<lambda>(a, c).
           bindT (create_provider_operation pid ''CAPTURE'' (payment_key pid ''capture'')) (\<lambda>_.
           bindT (liftT (amount_minor a)) (\<lambda>minor.
           returnT (Inr (a, c, minor))))))"

definition capture_end ::
    "nat \<Rightarrow> nat \<Rightarrow> nat \<Rightarrow> string option \<Rightarrow> decimal \<times> string \<times> int \<Rightarrow> ProviderOutcome \<Rightarrow> payment_state tx" where
  "capture_end pid customer clearing corr q out =
     (case q of (a, c, _) \<Rightarrow>
       (case out of
          O_UNKNOWN \<Rightarrow>
            bindT (update_status pid ST_UNKNOWN_EXTERNAL_OUTCOME None) (\<lambda>_. returnT ST_UNKNOWN_EXTERNAL_OUTCOME)
        | O_FAILED \<Rightarrow>
            bindT (update_status pid ST_FAILED None) (\<lambda>_.
            bindT (create_transaction pid ''CAPTURE'' a c (tx_key pid ''capture:failed'') None None TX_FAILED) (\<lambda>_.
            returnT ST_FAILED))
        | O_SUCCEEDED \<Rightarrow>
            bindT (create_transaction pid ''CAPTURE'' a c (tx_key pid ''capture'') None None TX_POSTED) (\<lambda>tx.
            bindT (post_journal c ''TRANSACTION'' (Some tx) (payment_key pid ''capture'') corr
                     (two_lines customer clearing a c)) (\<lambda>_.
            bindT (update_status pid ST_SUCCEEDED None) (\<lambda>_.
            returnT ST_SUCCEEDED)))))"

definition capture ::
    "'p payment_provider \<Rightarrow> nat \<Rightarrow> decimal \<Rightarrow> string \<Rightarrow> nat \<Rightarrow> nat \<Rightarrow> string option \<Rightarrow> 'p \<Rightarrow> db
      \<Rightarrow> (exn + payment_state \<times> db) \<times> 'p" where
  "capture V pid amt cur customer clearing corr =
     around_call (capture_begin pid amt cur)
       (\<lambda>(a, c, minor) prov. pp_capture V prov (str_uuid pid) minor c (payment_key pid ''capture''))
       (capture_end pid customer clearing corr)"

section \<open>Void\<close>

definition void_begin ::
    "nat \<Rightarrow> decimal \<Rightarrow> string \<Rightarrow> (payment_state + decimal \<times> string \<times> int) tx" where
  "void_begin pid amt cur =
     bindT (select_payment pid) (\<lambda>row.
     case row of
       None \<Rightarrow> raiseT (ValueError ''payment not found'')
     | Some p \<Rightarrow>
         if p_status p = ST_VOIDED then
           bindT (liftT (validate_operation_amount amt cur (of_num4 (p_amount p)) (p_currency p))) (\<lambda>_.
           returnT (Inl ST_VOIDED))
         else if p_status p \<noteq> ST_AUTHORIZED then raiseT (ValueError ''only an authorized payment can be voided'')
         else
           bindT (liftT (validate_operation_amount amt cur (of_num4 (p_amount p)) (p_currency p))) (\<lambda>(a, c).
           bindT (update_status pid ST_VOID_REQUESTED None) (\<lambda>_.
           bindT (create_provider_operation pid ''VOID'' (payment_key pid ''void'')) (\<lambda>_.
           bindT (liftT (amount_minor a)) (\<lambda>minor.
           returnT (Inr (a, c, minor)))))))"

definition void_end :: "nat \<Rightarrow> decimal \<times> string \<times> int \<Rightarrow> ProviderOutcome \<Rightarrow> payment_state tx" where
  "void_end pid q out =
     (case q of (a, c, _) \<Rightarrow>
       (case out of
          O_UNKNOWN \<Rightarrow>
            bindT (update_status pid ST_UNKNOWN_EXTERNAL_OUTCOME None) (\<lambda>_. returnT ST_UNKNOWN_EXTERNAL_OUTCOME)
        | O_FAILED \<Rightarrow>
            bindT (update_status pid ST_VOID_FAILED None) (\<lambda>_.
            bindT (create_transaction pid ''VOID'' a c (tx_key pid ''void:failed'') None None TX_FAILED) (\<lambda>_.
            returnT ST_VOID_FAILED))
        | O_SUCCEEDED \<Rightarrow>
            bindT (create_transaction pid ''VOID'' a c (tx_key pid ''void'') None None TX_POSTED) (\<lambda>_.
            bindT (update_status pid ST_VOIDED None) (\<lambda>_.
            returnT ST_VOIDED))))"

definition void ::
    "'p payment_provider \<Rightarrow> nat \<Rightarrow> decimal \<Rightarrow> string \<Rightarrow> 'p \<Rightarrow> db \<Rightarrow> (exn + payment_state \<times> db) \<times> 'p" where
  "void V pid amt cur =
     around_call (void_begin pid amt cur)
       (\<lambda>(a, c, minor) prov. pp_void V prov (str_uuid pid) minor c (payment_key pid ''void''))
       (void_end pid)"

section \<open>Refund\<close>

definition refund_text :: "decimal \<Rightarrow> string \<Rightarrow> string" where
  "refund_text amt cur = ''refund:'' @ str_dec amt @ '':'' @ cur"

record refund_ask =
  ra_amount :: decimal
  ra_currency :: string
  ra_minor :: int
  ra_id :: nat
  ra_captured :: decimal
  ra_refunded :: decimal

text \<open>The operation's key has the currency as it was given, the transaction's key the normalized one.\<close>

definition refund_begin :: "nat \<Rightarrow> decimal \<Rightarrow> string \<Rightarrow> (payment_state + refund_ask) tx" where
  "refund_begin pid amt cur =
     bindT (select_payment pid) (\<lambda>row.
     case row of
       None \<Rightarrow> raiseT (ValueError ''payment not found'')
     | Some p \<Rightarrow>
         if p_status p \<notin> {ST_SUCCEEDED, ST_REFUND_FAILED, ST_REFUNDED} then
           raiseT (ValueError ''only a captured payment can be refunded'')
         else
           bindT (liftT (validate_refund_amount amt cur (p_currency p))) (\<lambda>(a, c).
           bindT (queryT (\<lambda>d. row_by t_key (Some (tx_key pid (refund_text a c))) (transactions d))) (\<lambda>existing.
           bindT (queryT (posted_sum ''CAPTURE'' pid)) (\<lambda>captured.
           bindT (queryT (posted_sum ''REFUND'' pid)) (\<lambda>refunded.
           let refundable = dsub captured refunded in
           case Option.bind existing (\<lambda>t. refund_replay_status (t_status t) refundable) of
             Some st \<Rightarrow> returnT (Inl st)
           | None \<Rightarrow>
               if dless refundable a then raiseT (ValueError ''refund amount exceeds refundable captured amount'')
               else
                 bindT (update_status pid ST_REFUND_PROCESSING None) (\<lambda>_.
                 bindT (create_provider_operation pid ''REFUND'' (payment_key pid (refund_text amt cur))) (\<lambda>_.
                 bindT (create_transaction pid ''REFUND'' a c (tx_key pid (refund_text a c)) None None TX_PENDING) (\<lambda>i.
                 bindT (liftT (amount_minor a)) (\<lambda>minor.
                 returnT (Inr \<lparr>ra_amount = a, ra_currency = c, ra_minor = minor, ra_id = i,
                   ra_captured = captured, ra_refunded = refunded\<rparr>))))))))))"

definition refund_end ::
    "nat \<Rightarrow> string \<Rightarrow> nat \<Rightarrow> nat \<Rightarrow> string option \<Rightarrow> refund_ask \<Rightarrow> ProviderOutcome \<Rightarrow> payment_state tx" where
  "refund_end pid key customer clearing corr q out =
     (case out of
        O_UNKNOWN \<Rightarrow>
          bindT (update_status pid ST_UNKNOWN_EXTERNAL_OUTCOME None) (\<lambda>_. returnT ST_UNKNOWN_EXTERNAL_OUTCOME)
      | O_FAILED \<Rightarrow>
          bindT (fail_transaction (ra_id q)) (\<lambda>_.
          bindT (update_status pid ST_REFUND_FAILED None) (\<lambda>_.
          returnT ST_REFUND_FAILED))
      | O_SUCCEEDED \<Rightarrow>
          bindT (post_transaction (ra_id q)) (\<lambda>_.
          bindT (post_journal (ra_currency q) ''TRANSACTION'' (Some (ra_id q)) key corr
                   (two_lines clearing customer (ra_amount q) (ra_currency q))) (\<lambda>_.
          let remaining = dsub (ra_captured q) (dadd (ra_refunded q) (ra_amount q)) in
          bindT (update_status pid (if deq remaining dzero then ST_REFUNDED else ST_SUCCEEDED) None) (\<lambda>_.
          returnT ST_REFUNDED))))"

definition refund ::
    "'p payment_provider \<Rightarrow> nat \<Rightarrow> decimal \<Rightarrow> string \<Rightarrow> nat \<Rightarrow> nat \<Rightarrow> string option \<Rightarrow> 'p \<Rightarrow> db
      \<Rightarrow> (exn + payment_state \<times> db) \<times> 'p" where
  "refund V pid amt cur customer clearing corr =
     around_call (refund_begin pid amt cur)
       (\<lambda>q prov. pp_refund V prov (str_uuid pid) (ra_minor q) (ra_currency q) (payment_key pid (refund_text amt cur)))
       (refund_end pid (payment_key pid (refund_text amt cur)) customer clearing corr)"

end
