(* ===== verification/Refunds.thy ===== *)
theory Refunds
  imports Lifecycle
begin

text \<open>
  What the transactions of a payment say, and that its refunds never exceed its captures. The keys of the
  table determine what their rows are: the capture keys name captures, a refund key names a refund of the
  amount it spells out. Every operation that writes transactions keeps this, so a retried refund finds a
  row of its own amount.
\<close>

section \<open>Keys and totals\<close>

lemma str_dec_no_colon: "CHR '':'' \<notin> set (str_dec a)"
proof
  assume "CHR '':'' \<in> set (str_dec a)"
  from set_str_dec [OF this] show False by (simp add: dec_char_def is_digit_def Let_def)
qed

lemma refund_text_inject [simp]: "refund_text a c = refund_text a' c' \<longleftrightarrow> a = a' \<and> c = c'"
  using colon_split [OF str_dec_no_colon str_dec_no_colon, of a c a' c'] by (auto simp: refund_text_def)

lemma refund_text_other [simp]:
  "refund_text a c \<noteq> ''capture''" "refund_text a c \<noteq> ''capture:failed''" "refund_text a c \<noteq> ''void''"
  "refund_text a c \<noteq> ''void:failed''"
  "''capture'' \<noteq> refund_text a c" "''capture:failed'' \<noteq> refund_text a c" "''void'' \<noteq> refund_text a c"
  "''void:failed'' \<noteq> refund_text a c"
  by (simp_all add: refund_text_def)

definition row_matches_key :: "transaction_row \<Rightarrow> bool" where
  "row_matches_key t \<longleftrightarrow>
     (\<forall>pid. t_key t = Some (tx_key pid ''capture'') \<or> t_key t = Some (payment_key pid ''capture:transaction'')
        \<longrightarrow> t_type t = ''CAPTURE'') \<and>
     (\<forall>pid a c. t_key t = Some (tx_key pid (refund_text a c)) \<longrightarrow>
        t_payment t = pid \<and> t_type t = ''REFUND'' \<and> t_amount t = ten_thousandths a)"

definition counted :: "string \<Rightarrow> nat \<Rightarrow> transaction_row \<Rightarrow> num4" where
  "counted ty pid t = (if t_payment t = pid \<and> t_type t = ty \<and> t_status t = TX_POSTED then t_amount t else 0)"

lemma posted_total_counted: "posted_total ty pid ts = sum_list (map (counted ty pid) ts)"
  by (induction ts) (simp_all add: posted_total_def posted_rows_def counted_def)

lemma posted_total_append [simp]: "posted_total ty pid (ts @ [t]) = posted_total ty pid ts + counted ty pid t"
  by (simp add: posted_total_counted)

lemma posted_total_upd:
  assumes "distinct (map t_id ts)" "row_by t_id i ts = Some t"
  shows "posted_total ty pid (upd_by t_id i f ts) = posted_total ty pid ts - counted ty pid t + counted ty pid (f t)"
  unfolding posted_total_counted by (rule sum_upd_by [OF assms])

definition transactions_ok :: "db \<Rightarrow> bool" where
  "transactions_ok d \<longleftrightarrow>
     distinct (map t_id (transactions d)) \<and>
     (\<forall>t \<in> set (transactions d). t_id t < next_id d \<and> 0 < t_amount t \<and> t_amount t < num4_max \<and> row_matches_key t) \<and>
     (\<forall>pid. posted_total ''REFUND'' pid (transactions d) \<le> posted_total ''CAPTURE'' pid (transactions d))"

lemma transactions_ok_frame [simp]:
  "transactions_ok (d\<lparr>profile := v_profile\<rparr>) = transactions_ok d"
  "transactions_ok (d\<lparr>clock := v_clock\<rparr>) = transactions_ok d"
  "transactions_ok (d\<lparr>accounts := v_accounts\<rparr>) = transactions_ok d"
  "transactions_ok (d\<lparr>agents := v_agents\<rparr>) = transactions_ok d"
  "transactions_ok (d\<lparr>merchants := v_merchants\<rparr>) = transactions_ok d"
  "transactions_ok (d\<lparr>policies := v_policies\<rparr>) = transactions_ok d"
  "transactions_ok (d\<lparr>policy_versions := v_policy_versions\<rparr>) = transactions_ok d"
  "transactions_ok (d\<lparr>budgets := v_budgets\<rparr>) = transactions_ok d"
  "transactions_ok (d\<lparr>reservations := v_reservations\<rparr>) = transactions_ok d"
  "transactions_ok (d\<lparr>evidences := v_evidences\<rparr>) = transactions_ok d"
  "transactions_ok (d\<lparr>requests := v_requests\<rparr>) = transactions_ok d"
  "transactions_ok (d\<lparr>approvals := v_approvals\<rparr>) = transactions_ok d"
  "transactions_ok (d\<lparr>payments := v_payments\<rparr>) = transactions_ok d"
  "transactions_ok (d\<lparr>operations := v_operations\<rparr>) = transactions_ok d"
  "transactions_ok (d\<lparr>journals := v_journals\<rparr>) = transactions_ok d"
  "transactions_ok (d\<lparr>postings := v_postings\<rparr>) = transactions_ok d"
  "transactions_ok (d\<lparr>wallets := v_wallets\<rparr>) = transactions_ok d"
  "transactions_ok (d\<lparr>ledger_accounts := v_ledger_accounts\<rparr>) = transactions_ok d"
  "transactions_ok (d\<lparr>provider_accounts := v_provider_accounts\<rparr>) = transactions_ok d"
  "transactions_ok (d\<lparr>provider_events := v_provider_events\<rparr>) = transactions_ok d"
  "transactions_ok (d\<lparr>settlements := v_settlements\<rparr>) = transactions_ok d"
  "transactions_ok (d\<lparr>reconciliations := v_reconciliations\<rparr>) = transactions_ok d"
  "transactions_ok (d\<lparr>outbox := v_outbox\<rparr>) = transactions_ok d"
  "transactions_ok (d\<lparr>audit_log := v_audit_log\<rparr>) = transactions_ok d"
  "transactions_ok (d\<lparr>notifications := v_notifications\<rparr>) = transactions_ok d"
  by (simp_all add: transactions_ok_def)

lemma keeps_draw_transactions [keeps_intros]: "keeps transactions_ok draw_id"
  by (rule keepsI) (auto simp: transactions_ok_def less_Suc_eq)

section \<open>Writing transactions\<close>

text \<open>A new row is harmless when its key agrees with it and it is not a posted refund; a change of a row by
  its id when it leaves payment, type, amount and key alone, and posts a refund only within the bound.\<close>

lemma transactions_ok_insert:
  assumes "transactions_ok d" "t_id t = next_id d" "0 < t_amount t" "t_amount t < num4_max" "row_matches_key t"
    "t_type t = ''REFUND'' \<Longrightarrow> t_status t \<noteq> TX_POSTED"
  shows "transactions_ok (d\<lparr>next_id := next_id d + 1, transactions := transactions d @ [t]\<rparr>)"
proof -
  have "counted ''REFUND'' pid t = 0" "0 \<le> counted ''CAPTURE'' pid t" for pid
    using assms(3,6) by (auto simp: counted_def)
  moreover have "\<forall>x \<in> set (transactions d). t_id x < next_id d" using assms(1) by (simp add: transactions_ok_def)
  ultimately show ?thesis
    using assms by (auto simp: transactions_ok_def less_Suc_eq add_increasing2)
qed

lemma transactions_ok_set:
  assumes ok: "transactions_ok d" and t: "row_by t_id i (transactions d) = Some t"
    and f: "\<And>t. t_id (f t) = t_id t" "\<And>t. t_payment (f t) = t_payment t" "\<And>t. t_type (f t) = t_type t"
      "\<And>t. t_amount (f t) = t_amount t" "\<And>t. t_key (f t) = t_key t"
    and bound: "posted_total ''REFUND'' (t_payment t) (transactions d) + counted ''REFUND'' (t_payment t) (f t) -
        counted ''REFUND'' (t_payment t) t \<le>
      posted_total ''CAPTURE'' (t_payment t) (transactions d) + counted ''CAPTURE'' (t_payment t) (f t) -
        counted ''CAPTURE'' (t_payment t) t"
  shows "transactions_ok (d\<lparr>transactions := upd_by t_id i f (transactions d)\<rparr>)"
proof -
  let ?ts = "upd_by t_id i f (transactions d)"
  have dist: "distinct (map t_id (transactions d))" using ok by (simp add: transactions_ok_def)
  have other: "counted ty pid t = 0" "counted ty pid (f t) = 0" if "pid \<noteq> t_payment t" for ty pid
    using that f(2) by (simp_all add: counted_def)
  have le: "posted_total ''REFUND'' pid ?ts \<le> posted_total ''CAPTURE'' pid ?ts" for pid
  proof (cases "pid = t_payment t")
    case True
    with bound show ?thesis by (simp add: posted_total_upd [OF dist t])
  next
    case False
    with ok other show ?thesis by (simp add: posted_total_upd [OF dist t] transactions_ok_def)
  qed
  have rows: "\<forall>x \<in> set ?ts. t_id x < next_id d \<and> 0 < t_amount x \<and> t_amount x < num4_max \<and> row_matches_key x"
    by (rule ball_upd_by) (use ok f in \<open>auto simp: transactions_ok_def row_matches_key_def\<close>)
  show ?thesis using dist le rows f by (simp add: transactions_ok_def map_keys_upd_by)
qed

lemma create_transaction_new:
  assumes "create_transaction pid ty amt cur key orig ext st d = Inr (i, d')"
    "row_by t_key (Some key) (transactions d) = None"
  shows "\<exists>cur3. i = next_id d \<and> 0 < ten_thousandths amt \<and> ten_thousandths amt < num4_max \<and> d' = d\<lparr>next_id := next_id d + 1,
       transactions := transactions d @ [\<lparr>t_id = next_id d, t_payment = pid, t_type = ty, t_status = st,
         t_amount = ten_thousandths amt, t_currency = cur3, t_original = orig, t_external = ext, t_key = Some key,
         t_posted = (if st = TX_POSTED then Some (clock d) else None)\<rparr>]\<rparr>"
  using assms by (auto simp: create_transaction_def references_def err_simps split: if_splits)

definition key_allows :: "string \<Rightarrow> nat \<Rightarrow> string \<Rightarrow> decimal \<Rightarrow> bool" where
  "key_allows key pid ty amt \<longleftrightarrow>
     (\<forall>k. key = tx_key k ''capture'' \<or> key = payment_key k ''capture:transaction'' \<longrightarrow> ty = ''CAPTURE'') \<and>
     (\<forall>k a c. key = tx_key k (refund_text a c) \<longrightarrow> pid = k \<and> ty = ''REFUND'' \<and> amt = a)"

lemma key_allows [simp]:
  "key_allows (tx_key pid ''capture'') pid ''CAPTURE'' amt"
  "key_allows (tx_key pid ''capture:failed'') pid ''CAPTURE'' amt"
  "key_allows (tx_key pid ''void'') pid ''VOID'' amt"
  "key_allows (tx_key pid ''void:failed'') pid ''VOID'' amt"
  "key_allows (tx_key pid (refund_text amt c)) pid ''REFUND'' amt"
  "key_allows (payment_key pid ''capture:transaction'') pid ''CAPTURE'' amt"
  by (simp_all add: key_allows_def)

lemma keeps_create_transaction:
  assumes "key_allows key pid ty amt" "ty = ''REFUND'' \<Longrightarrow> st \<noteq> TX_POSTED"
  shows "keeps transactions_ok (create_transaction pid ty amt cur key orig ext st)"
proof (rule keepsI)
  fix d i d'
  assume ok: "transactions_ok d" and run: "create_transaction pid ty amt cur key orig ext st d = Inr (i, d')"
  show "transactions_ok d'"
  proof (cases "row_by t_key (Some key) (transactions d)")
    case None
    from create_transaction_new [OF run None] obtain cur3 where pos: "0 < ten_thousandths amt" "ten_thousandths amt < num4_max" and
      d': "d' = d\<lparr>next_id := next_id d + 1,
       transactions := transactions d @ [\<lparr>t_id = next_id d, t_payment = pid, t_type = ty, t_status = st,
         t_amount = ten_thousandths amt, t_currency = cur3, t_original = orig, t_external = ext, t_key = Some key,
         t_posted = (if st = TX_POSTED then Some (clock d) else None)\<rparr>]\<rparr>" by blast
    show ?thesis
      unfolding d' by (rule transactions_ok_insert [OF ok])
        (use assms pos in \<open>auto simp: row_matches_key_def key_allows_def\<close>)
  next
    case (Some t)
    with run ok show ?thesis by (simp add: create_transaction_def)
  qed
qed

lemma keeps_post_transaction:
  "keeps (\<lambda>d. transactions_ok d \<and> (\<exists>t. row_by t_id i (transactions d) = Some t \<and> t_type t \<noteq> ''REFUND''))
     (post_transaction i)"
proof (rule keepsI, elim conjE exE)
  fix d x d' t
  assume ok: "transactions_ok d" and t: "row_by t_id i (transactions d) = Some t" "t_type t \<noteq> ''REFUND''"
    and run: "post_transaction i d = Inr (x, d')"
  let ?f = "\<lambda>t. t\<lparr>t_status := TX_POSTED, t_posted := Some (clock d)\<rparr>"
  have d': "d' = d\<lparr>transactions := upd_by t_id i ?f (transactions d)\<rparr>"
    using run by (simp add: post_transaction_def set_transaction_def)
  have pos: "0 < t_amount t" using ok row_by_Some_in [OF t(1)] by (simp add: transactions_ok_def)
  have le: "posted_total ''REFUND'' (t_payment t) (transactions d) \<le> posted_total ''CAPTURE'' (t_payment t) (transactions d)"
    using ok by (simp add: transactions_ok_def)
  have "transactions_ok d'"
    unfolding d' by (rule transactions_ok_set [OF ok t(1)]) (use t(2) pos le in \<open>auto simp: counted_def\<close>)
  moreover have "row_by t_id i (transactions d') = Some (?f t)" using t(1) by (simp add: d' row_by_upd_by)
  ultimately show "transactions_ok d' \<and> (\<exists>t. row_by t_id i (transactions d') = Some t \<and> t_type t \<noteq> ''REFUND'')"
    using t(2) by auto
qed

section \<open>The other statements\<close>

lemma keeps_transactions_other [keeps_intros]:
  "keeps transactions_ok (enqueue ty aggty agg payload corr)"
  "keeps transactions_ok (update_status pid st ref)"
  "keeps transactions_ok (update_charges pid f)"
  "keeps transactions_ok (budget_reserve bid req amt)"
  "keeps transactions_ok (budget_consume res)"
  "keeps transactions_ok (budget_release res)"
  "keeps transactions_ok (create_provider_operation pid oty key)"
  unfolding enqueue_def update_status_def update_charges_def budget_reserve_def insert_reservation_def
    request_currency_def budget_consume_def budget_release_def move_budget_def create_provider_operation_def
    new_operation_def references_def
  by (intro keeps_intros keeps_modify; simp)+

lemma keeps_transactions_journal [keeps_intros]: "keeps transactions_ok (post_journal cur rtype ref key corr ps)"
  by (rule keeps_post_journal [OF keeps_draw_transactions]) simp_all

lemma transactions_ok_post_key:
  assumes "transactions_ok d" "k = Some (tx_key pid ''capture'')"
  shows "transactions_ok (d\<lparr>transactions := upd_by t_key k
    (\<lambda>t. t\<lparr>t_status := TX_POSTED, t_posted := coalesce (t_posted t) now\<rparr>) (transactions d)\<rparr>)"
proof -
  let ?f = "\<lambda>t. t\<lparr>t_status := TX_POSTED, t_posted := coalesce (t_posted t) now\<rparr>"
  let ?ts = "upd_by t_key k ?f (transactions d)"
  have rows: "\<forall>t \<in> set ?ts. t_id t < next_id d \<and> 0 < t_amount t \<and> t_amount t < num4_max \<and> row_matches_key t"
    by (rule ball_upd_by) (use assms in \<open>auto simp: transactions_ok_def row_matches_key_def\<close>)
  have ty: "t_type t = ''CAPTURE'' \<and> 0 \<le> t_amount t" if "t \<in> set (transactions d)" "t_key t = k" for t
    using assms that by (auto simp: transactions_ok_def row_matches_key_def intro: less_imp_le)
  have ref: "posted_total ''REFUND'' p ?ts = posted_total ''REFUND'' p (transactions d)" for p
    using ty unfolding posted_total_counted upd_by_def map_map
    by (intro arg_cong [where f = sum_list] map_cong) (auto simp: counted_def)
  have cap: "posted_total ''CAPTURE'' p (transactions d) \<le> posted_total ''CAPTURE'' p ?ts" for p
  proof -
    have "counted ''CAPTURE'' p t \<le> counted ''CAPTURE'' p (if t_key t = k then ?f t else t)"
      if "t \<in> set (transactions d)" for t
      using ty [OF that] by (cases "t_key t = k") (simp_all add: counted_def)
    then show ?thesis
      unfolding posted_total_counted upd_by_def map_map comp_def by (rule sum_list_mono)
  qed
  have le: "posted_total ''REFUND'' p ?ts \<le> posted_total ''CAPTURE'' p ?ts" for p
  proof -
    have "posted_total ''REFUND'' p (transactions d) \<le> posted_total ''CAPTURE'' p (transactions d)"
      using assms(1) by (simp add: transactions_ok_def)
    from order_trans [OF this cap] show ?thesis unfolding ref .
  qed
  have "distinct (map t_id ?ts)" using assms(1) by (simp add: transactions_ok_def map_keys_upd_by)
  with rows le show ?thesis by (simp add: transactions_ok_def)
qed

lemma keeps_transactions_upsert [keeps_intros]: "keeps transactions_ok (upsert_capture pid amt cur)"
proof (rule keepsI)
  fix d i d'
  assume ok: "transactions_ok d" and run: "upsert_capture pid amt cur d = Inr (i, d')"
  show "transactions_ok d'"
  proof (cases "row_by t_key (Some (tx_key pid ''capture'')) (transactions d)")
    case None
    then obtain cur3 where d': "d' = d\<lparr>next_id := next_id d + 1, transactions := transactions d @
       [\<lparr>t_id = next_id d, t_payment = pid, t_type = ''CAPTURE'', t_status = TX_POSTED, t_amount = ten_thousandths amt,
         t_currency = cur3, t_original = None, t_external = None,
         t_key = Some (tx_key pid ''capture''), t_posted = Some (clock d)\<rparr>]\<rparr>" "0 < ten_thousandths amt"
      "ten_thousandths amt < num4_max"
      using run by (auto simp: upsert_capture_def references_def err_simps split: if_splits)
    show ?thesis unfolding d'(1)
      by (rule transactions_ok_insert [OF ok]) (use d'(2,3) in \<open>auto simp: row_matches_key_def\<close>)
  next
    case (Some t)
    then have d': "d' = d\<lparr>transactions := upd_by t_key (Some (tx_key pid ''capture''))
        (\<lambda>t. t\<lparr>t_status := TX_POSTED, t_posted := coalesce (t_posted t) (Some (clock d))\<rparr>) (transactions d)\<rparr>"
      using run by (auto simp: upsert_capture_def err_simps)
    show ?thesis unfolding d' by (rule transactions_ok_post_key [OF ok refl])
  qed
qed

lemma keeps_transactions_worker [keeps_intros]:
  "keeps transactions_ok (prepare pid rid bid amt cur corr)"
  "keeps transactions_ok (claim_payment pid)"
  "keeps transactions_ok (finalize pid rid res amt cur customer clearing out ref corr)"
  unfolding prepare_def claim_payment_def finalize_def select_payment_def finalize_unknown_def finalize_failed_def
    finalize_succeeded_def
  by (intro keeps_intros keeps_modify; simp)+

lemma keeps_transactions_capture [keeps_intros]:
  "keeps transactions_ok (capture_begin pid amt cur)"
  "keeps transactions_ok (capture_end pid customer clearing corr q out)"
  "keeps transactions_ok (void_begin pid amt cur)"
  "keeps transactions_ok (void_end pid q out)"
  unfolding capture_begin_def capture_end_def void_begin_def void_end_def select_payment_def
  by (intro keeps_intros keeps_create_transaction; simp)+

section \<open>A refund\<close>

lemma create_operation_frame:
  "frame (\<lambda>d. d\<lparr>next_id := 0, payments := [], operations := []\<rparr>) (create_provider_operation pid ty key)"
  unfolding create_provider_operation_def new_operation_def references_def
  by (rule frame_rule) (intro keeps_intros keeps_modify keeps_draw_tables; simp)

text \<open>What the statements before the call establish: the amount fits what is refundable, and the row of
  this refund is in the table, not yet posted or failed.\<close>

definition open_refund :: "nat \<Rightarrow> refund_ask \<Rightarrow> db \<Rightarrow> bool" where
  "open_refund pid q d \<longleftrightarrow>
     (\<exists>t. row_by t_id (ra_id q) (transactions d) = Some t \<and> t_payment t = pid \<and> t_type t = ''REFUND'' \<and>
        t_amount t = ten_thousandths (ra_amount q) \<and> t_status t \<notin> {TX_POSTED, TX_FAILED})"

lemma create_refund_open:
  assumes ok: "transactions_ok d"
    and run: "create_transaction pid ''REFUND'' a c (tx_key pid (refund_text a c)) None None TX_PENDING d = Inr (i, d')"
    and "\<And>t. row_by t_key (Some (tx_key pid (refund_text a c))) (transactions d) = Some t \<Longrightarrow>
      t_status t \<notin> {TX_POSTED, TX_FAILED}"
  shows "\<exists>t. row_by t_id i (transactions d') = Some t \<and> t_payment t = pid \<and> t_type t = ''REFUND'' \<and>
      t_amount t = ten_thousandths a \<and> t_status t \<notin> {TX_POSTED, TX_FAILED}"
proof (cases "row_by t_key (Some (tx_key pid (refund_text a c))) (transactions d)")
  case None
  have "row_by t_id (next_id d) (transactions d) = None"
  proof -
    have "\<forall>t \<in> set (transactions d). t_id t < next_id d" using ok by (simp add: transactions_ok_def)
    then show ?thesis by (fastforce simp: row_by_None)
  qed
  with create_transaction_new [OF run None] show ?thesis by (auto simp: row_by_append)
next
  case (Some t)
  then have "i = t_id t" "d' = d" using run by (simp_all add: create_transaction_def)
  moreover have "t \<in> set (transactions d)" "t_key t = Some (tx_key pid (refund_text a c))"
    using row_by_Some_in [OF Some] row_by_Some_key [OF Some] by simp_all
  moreover have "distinct (map t_id (transactions d))" "row_matches_key t"
    using ok \<open>t \<in> set (transactions d)\<close> by (simp_all add: transactions_ok_def)
  ultimately show ?thesis
    using assms(3) [OF Some] row_by_distinct [of t_id "transactions d" t] unfolding row_matches_key_def by blast
qed

lemma refund_begin_steps:
  assumes run: "refund_begin pid amt cur d = Inr (Inr q, d')"
  obtains p c d1 v d2 i minor where "row_by p_id pid (payments d) = Some p"
    "p_status p \<in> {ST_SUCCEEDED, ST_REFUND_FAILED, ST_REFUNDED}"
    "validate_refund_amount amt cur (p_currency p) = Inr (amt, c)"
    "Option.bind (row_by t_key (Some (tx_key pid (refund_text amt c))) (transactions d))
       (\<lambda>t. refund_replay_status (t_status t) (dsub (posted_sum ''CAPTURE'' pid d) (posted_sum ''REFUND'' pid d))) = None"
    "\<not> dless (dsub (posted_sum ''CAPTURE'' pid d) (posted_sum ''REFUND'' pid d)) amt"
    "update_status pid ST_REFUND_PROCESSING None d = Inr ((), d1)"
    "create_provider_operation pid ''REFUND'' (payment_key pid (refund_text amt cur)) d1 = Inr (v, d2)"
    "create_transaction pid ''REFUND'' amt c (tx_key pid (refund_text amt c)) None None TX_PENDING d2 = Inr (i, d')"
    "q = \<lparr>ra_amount = amt, ra_currency = c, ra_minor = minor, ra_id = i,
       ra_captured = posted_sum ''CAPTURE'' pid d, ra_refunded = posted_sum ''REFUND'' pid d\<rparr>"
proof -
  obtain p where p: "row_by p_id pid (payments d) = Some p"
    using run by (cases "row_by p_id pid (payments d)") (auto simp: refund_begin_def select_payment_def)
  have st: "p_status p \<in> {ST_SUCCEEDED, ST_REFUND_FAILED, ST_REFUNDED}"
    using run p by (auto simp: refund_begin_def select_payment_def split: if_splits)
  obtain c where c: "validate_refund_amount amt cur (p_currency p) = Inr (amt, c)"
    using run p st
    by (cases "validate_refund_amount amt cur (p_currency p)")
      (auto simp: refund_begin_def select_payment_def validate_refund_amount_def Let_def split: if_splits)
  let ?old = "row_by t_key (Some (tx_key pid (refund_text amt c))) (transactions d)"
  let ?ref = "dsub (posted_sum ''CAPTURE'' pid d) (posted_sum ''REFUND'' pid d)"
  have none: "Option.bind ?old (\<lambda>t. refund_replay_status (t_status t) ?ref) = None"
    using run p st c
    by (cases "Option.bind ?old (\<lambda>t. refund_replay_status (t_status t) ?ref)")
      (auto simp: refund_begin_def select_payment_def Let_def)
  have le: "\<not> dless ?ref amt"
    using run p st c none by (auto simp: refund_begin_def select_payment_def Let_def split: if_splits)
  obtain d1 v d2 i minor where "update_status pid ST_REFUND_PROCESSING None d = Inr ((), d1)"
    "create_provider_operation pid ''REFUND'' (payment_key pid (refund_text amt cur)) d1 = Inr (v, d2)"
    "create_transaction pid ''REFUND'' amt c (tx_key pid (refund_text amt c)) None None TX_PENDING d2 = Inr (i, d')"
    "q = \<lparr>ra_amount = amt, ra_currency = c, ra_minor = minor, ra_id = i,
       ra_captured = posted_sum ''CAPTURE'' pid d, ra_refunded = posted_sum ''REFUND'' pid d\<rparr>"
    using run p st c none le
    by (auto simp: refund_begin_def select_payment_def Let_def err_simps split: if_splits)
  from that [OF p st c none le this] show thesis .
qed

lemma refund_begin_ask:
  assumes ok: "transactions_ok d" and run: "refund_begin pid amt cur d = Inr (Inr q, d')"
  shows "transactions_ok d' \<and> open_refund pid q d' \<and> ra_amount q = amt \<and>
    ra_captured q = posted_sum ''CAPTURE'' pid d \<and> ra_refunded q = posted_sum ''REFUND'' pid d \<and>
    \<not> dless (dsub (ra_captured q) (ra_refunded q)) amt \<and> 0 < ten_thousandths amt \<and> ten_thousandths amt < num4_max \<and>
    (\<forall>ty. posted_total ty pid (transactions d') = posted_total ty pid (transactions d))"
proof -
  obtain p c d1 v d2 i minor where
    none: "Option.bind (row_by t_key (Some (tx_key pid (refund_text amt c))) (transactions d))
       (\<lambda>t. refund_replay_status (t_status t) (dsub (posted_sum ''CAPTURE'' pid d) (posted_sum ''REFUND'' pid d))) = None"
    and le: "\<not> dless (dsub (posted_sum ''CAPTURE'' pid d) (posted_sum ''REFUND'' pid d)) amt"
    and 1: "update_status pid ST_REFUND_PROCESSING None d = Inr ((), d1)"
    and 2: "create_provider_operation pid ''REFUND'' (payment_key pid (refund_text amt cur)) d1 = Inr (v, d2)"
    and 3: "create_transaction pid ''REFUND'' amt c (tx_key pid (refund_text amt c)) None None TX_PENDING d2 = Inr (i, d')"
    and q: "q = \<lparr>ra_amount = amt, ra_currency = c, ra_minor = minor, ra_id = i,
       ra_captured = posted_sum ''CAPTURE'' pid d, ra_refunded = posted_sum ''REFUND'' pid d\<rparr>"
    using refund_begin_steps [OF run] by metis
  let ?old = "row_by t_key (Some (tx_key pid (refund_text amt c))) (transactions d)"
  note f1 = db_fields [OF frameD [OF update_status_frame 1], simplified]
  note f2 = db_fields [OF frameD [OF create_operation_frame 2], simplified]
  have ok2: "transactions_ok d2"
    using keepsD [OF keeps_transactions_other(7) keepsD [OF keeps_transactions_other(2) ok 1] 2] .
  have ok3: "transactions_ok d'"
    by (rule keepsD [OF keeps_create_transaction ok2 3]) simp_all
  have tr: "transactions d2 = transactions d" using f1 f2 by simp
  have notdone: "t_status t \<notin> {TX_POSTED, TX_FAILED}" if "?old = Some t" for t
    using none that by (cases "t_status t") (simp_all add: refund_replay_status_def)
  have "open_refund pid q d'"
    using create_refund_open [OF ok2 3] notdone unfolding tr open_refund_def q by simp
  moreover have "posted_total ty pid (transactions d') = posted_total ty pid (transactions d)" for ty
  proof (cases ?old)
    case None
    from create_transaction_new [OF 3] None show ?thesis by (auto simp: tr counted_def)
  next
    case (Some t)
    with 3 have "d2 = d'" by (simp add: create_transaction_def tr)
    with tr show ?thesis by simp
  qed
  moreover have "0 < ten_thousandths amt \<and> ten_thousandths amt < num4_max"
  proof -
    obtain t where "t \<in> set (transactions d')" "t_amount t = ten_thousandths amt"
      using \<open>open_refund pid q d'\<close> q row_by_Some_in by (fastforce simp: open_refund_def)
    with ok3 show ?thesis by (metis transactions_ok_def)
  qed
  ultimately show ?thesis using ok3 le q by simp
qed

lemma posted_sum_total: "dval (posted_sum ty pid d) = dval (of_num4 (posted_total ty pid (transactions d)))"
  by (simp add: posted_sum_def posted_total_def dval_of_num4)

lemma posted_total_nonneg: "transactions_ok d \<Longrightarrow> 0 \<le> posted_total ty pid (transactions d)"
  unfolding posted_total_counted by (rule sum_list_nonneg) (auto simp: transactions_ok_def counted_def less_imp_le)

text \<open>Below 10 to the 28 ten-thousandths the difference is exact.\<close>

lemma refundable_exact:
  assumes "transactions_ok d"
    "posted_total ''CAPTURE'' pid (transactions d) - posted_total ''REFUND'' pid (transactions d) < 10 ^ 28"
  shows "dval (dsub (posted_sum ''CAPTURE'' pid d) (posted_sum ''REFUND'' pid d)) =
    dval (of_num4 (posted_total ''CAPTURE'' pid (transactions d) - posted_total ''REFUND'' pid (transactions d)))"
proof -
  let ?c = "posted_total ''CAPTURE'' pid (transactions d)" and ?r = "posted_total ''REFUND'' pid (transactions d)"
  have le: "0 \<le> ?r" "?r \<le> ?c" using assms(1) posted_total_nonneg by (auto simp: transactions_ok_def)
  then have fits: "\<bar>?c - ?r\<bar> < 10 ^ 28" using assms(2) by simp
  have zero: "posted_sum ty pid d = dzero \<Longrightarrow> posted_total ty pid (transactions d) = 0" for ty
    by (simp add: posted_sum_def posted_total_def of_num4_def split: if_splits)
  have form: "posted_sum ty pid d = dzero \<or> posted_sum ty pid d = of_num4 (posted_total ty pid (transactions d))" for ty
    by (simp add: posted_sum_def)
  have "dsub dzero dzero = dzero" "\<bar>n\<bar> < 10 ^ 28 \<Longrightarrow> dsub (of_num4 n) dzero = of_num4 n"
    "\<bar>n\<bar> < 10 ^ 28 \<Longrightarrow> dsub dzero (of_num4 n) = of_num4 (- n)" for n
    by (simp_all add: dsub_def at_exp_def dfix_exact of_num4_def)
  then show ?thesis
    using form [of "''CAPTURE''"] form [of "''REFUND''"] zero [of "''CAPTURE''"] zero [of "''REFUND''"] fits
    by (auto simp: dsub_num4 dval_of_num4)
qed

text \<open>Above, the difference is rounded, but then no amount of the column is too large.\<close>

lemma refund_fits:
  assumes ok: "transactions_ok d" and amt: "0 < ten_thousandths amt" "ten_thousandths amt < num4_max"
    and le: "\<not> dless (dsub (posted_sum ''CAPTURE'' pid d) (posted_sum ''REFUND'' pid d)) amt"
  shows "ten_thousandths amt \<le>
    posted_total ''CAPTURE'' pid (transactions d) - posted_total ''REFUND'' pid (transactions d)"
proof (cases "posted_total ''CAPTURE'' pid (transactions d) - posted_total ''REFUND'' pid (transactions d) < 10 ^ 28")
  case True
  show ?thesis
    by (rule ten_thousandths_le [OF _ amt(1)]) (use le refundable_exact [OF ok True] in \<open>simp add: dless_dval\<close>)
next
  case False
  with amt(2) num4_max_lt show ?thesis by simp
qed

lemma post_refund_ok:
  assumes ok: "transactions_ok d" and op: "open_refund pid q d"
    and le: "posted_total ''REFUND'' pid (transactions d) + ten_thousandths (ra_amount q) \<le>
      posted_total ''CAPTURE'' pid (transactions d)"
  shows "\<exists>d'. post_transaction (ra_id q) d = Inr ((), d') \<and> transactions_ok d' \<and>
    posted_total ''REFUND'' pid (transactions d') =
      posted_total ''REFUND'' pid (transactions d) + ten_thousandths (ra_amount q) \<and>
    posted_total ''CAPTURE'' pid (transactions d') = posted_total ''CAPTURE'' pid (transactions d)"
proof -
  obtain t where t: "row_by t_id (ra_id q) (transactions d) = Some t" "t_payment t = pid" "t_type t = ''REFUND''"
    "t_amount t = ten_thousandths (ra_amount q)" "t_status t \<notin> {TX_POSTED, TX_FAILED}"
    using op unfolding open_refund_def by blast
  let ?f = "\<lambda>t. t\<lparr>t_status := TX_POSTED, t_posted := Some (clock d)\<rparr>"
  have cnt: "counted ''REFUND'' pid (?f t) = ten_thousandths (ra_amount q)" "counted ty pid t = 0"
    "counted ''CAPTURE'' pid (?f t) = 0" for ty
    using t by (simp_all add: counted_def)
  have dist: "distinct (map t_id (transactions d))" using ok by (simp add: transactions_ok_def)
  have "transactions_ok (d\<lparr>transactions := upd_by t_id (ra_id q) ?f (transactions d)\<rparr>)"
    by (rule transactions_ok_set [OF ok t(1)]) (use le cnt t(2) in simp_all)
  then show ?thesis
    by (simp add: post_transaction_def set_transaction_def posted_total_upd [OF dist t(1)] cnt)
qed

lemma fail_refund_ok:
  assumes ok: "transactions_ok d" and op: "open_refund pid q d"
  shows "\<exists>d'. fail_transaction (ra_id q) d = Inr ((), d') \<and> transactions_ok d' \<and>
    (\<forall>ty. posted_total ty pid (transactions d') = posted_total ty pid (transactions d))"
proof -
  obtain t where t: "row_by t_id (ra_id q) (transactions d) = Some t" "t_payment t = pid"
    "t_status t \<notin> {TX_POSTED, TX_FAILED}"
    using op unfolding open_refund_def by blast
  let ?f = "\<lambda>t. t\<lparr>t_status := TX_FAILED\<rparr>"
  have cnt: "counted ty pid (?f t) = 0" "counted ty pid t = 0" for ty
    using t by (simp_all add: counted_def)
  have dist: "distinct (map t_id (transactions d))" using ok by (simp add: transactions_ok_def)
  have "transactions_ok (d\<lparr>transactions := upd_by t_id (ra_id q) ?f (transactions d)\<rparr>)"
    by (rule transactions_ok_set [OF ok t(1)]) (use ok cnt t(2) in \<open>auto simp: transactions_ok_def\<close>)
  then show ?thesis
    by (simp add: fail_transaction_def set_transaction_def posted_total_upd [OF dist t(1)] cnt)
qed

lemma refund_end_cases:
  assumes ok: "transactions_ok d" and op: "open_refund pid q d"
    and le: "posted_total ''REFUND'' pid (transactions d) + ten_thousandths (ra_amount q) \<le>
      posted_total ''CAPTURE'' pid (transactions d)"
    and run: "refund_end pid key customer clearing corr q out d = Inr (st, d')"
  shows "transactions_ok d' \<and>
    posted_total ''CAPTURE'' pid (transactions d') = posted_total ''CAPTURE'' pid (transactions d) \<and>
    posted_total ''REFUND'' pid (transactions d') = posted_total ''REFUND'' pid (transactions d) +
      (if out = O_SUCCEEDED then ten_thousandths (ra_amount q) else 0) \<and>
    st = (case out of O_SUCCEEDED \<Rightarrow> ST_REFUNDED | O_FAILED \<Rightarrow> ST_REFUND_FAILED | O_UNKNOWN \<Rightarrow> ST_UNKNOWN_EXTERNAL_OUTCOME)"
proof (cases out)
  case O_UNKNOWN
  with run ok show ?thesis by (auto simp: refund_end_def update_status_def)
next
  case O_FAILED
  obtain d1 where 1: "fail_transaction (ra_id q) d = Inr ((), d1)" "transactions_ok d1"
    "\<forall>ty. posted_total ty pid (transactions d1) = posted_total ty pid (transactions d)"
    using fail_refund_ok [OF ok op] by blast
  with O_FAILED run show ?thesis by (auto simp: refund_end_def update_status_def)
next
  case O_SUCCEEDED
  obtain d1 where 1: "post_transaction (ra_id q) d = Inr ((), d1)" "transactions_ok d1"
    "posted_total ''REFUND'' pid (transactions d1) =
      posted_total ''REFUND'' pid (transactions d) + ten_thousandths (ra_amount q)"
    "posted_total ''CAPTURE'' pid (transactions d1) = posted_total ''CAPTURE'' pid (transactions d)"
    using post_refund_ok [OF ok op le] by blast
  obtain j d2 where 2: "post_journal (ra_currency q) ''TRANSACTION'' (Some (ra_id q)) key corr
      (two_lines clearing customer (ra_amount q) (ra_currency q)) d1 = Inr (j, d2)"
    using O_SUCCEEDED run 1(1) by (auto simp: refund_end_def err_simps Let_def)
  note f = db_fields [OF frameD [OF post_journal_frame 2], simplified]
  have "transactions_ok d2" by (rule keepsD [OF keeps_transactions_journal 1(2) 2])
  with O_SUCCEEDED run 1 2 f show ?thesis by (auto simp: refund_end_def update_status_def Let_def)
qed

lemma refund_bounds:
  assumes ok: "transactions_ok d" and run: "refund V pid amt cur customer clearing corr prov d = (Inr (st, d'), prov')"
  shows "transactions_ok d' \<and>
    posted_total ''CAPTURE'' pid (transactions d') = posted_total ''CAPTURE'' pid (transactions d) \<and>
    (posted_total ''REFUND'' pid (transactions d') = posted_total ''REFUND'' pid (transactions d) \<or>
     posted_total ''REFUND'' pid (transactions d') = posted_total ''REFUND'' pid (transactions d) + ten_thousandths amt \<and>
       0 < ten_thousandths amt \<and> st = ST_REFUNDED)"
proof -
  obtain z d1 where b: "refund_begin pid amt cur d = Inr (z, d1)"
    using run by (cases "refund_begin pid amt cur d") (auto simp: refund_def around_call_def)
  show ?thesis
  proof (cases z)
    case (Inl st')
    then have "d1 = d"
      using b by (auto simp: refund_begin_def select_payment_def Let_def err_simps split: option.splits if_splits)
    with run b Inl ok show ?thesis by (simp add: refund_def around_call_def)
  next
    case (Inr q)
    note ask = refund_begin_ask [OF ok b [unfolded Inr]]
    let ?C = "posted_total ''CAPTURE'' pid (transactions d)" and ?R = "posted_total ''REFUND'' pid (transactions d)"
    have "\<not> dless (dsub (posted_sum ''CAPTURE'' pid d) (posted_sum ''REFUND'' pid d)) amt" using ask by metis
    then have "ten_thousandths amt \<le> ?C - ?R"
      using ask by (intro refund_fits [OF ok]) blast+
    then have le: "posted_total ''REFUND'' pid (transactions d1) + ten_thousandths (ra_amount q) \<le>
        posted_total ''CAPTURE'' pid (transactions d1)" using ask by simp
    obtain o' prov1 where c: "pp_refund V prov (str_uuid pid) (ra_minor q) (ra_currency q)
        (payment_key pid (refund_text amt cur)) = (o', prov1)" by fastforce
    obtain out where "o' = Inr out"
      using run b Inr c by (cases o') (auto simp: refund_def around_call_def)
    with run b Inr c have "refund_end pid (payment_key pid (refund_text amt cur)) customer clearing corr q out d1 =
        Inr (st, d')" by (simp add: refund_def around_call_def)
    from refund_end_cases [OF _ _ le this] ask show ?thesis by (cases out) simp_all
  qed
qed

text \<open>C11: a refund never takes more out than was captured: when the operation returns, the
  posted refunds of every payment are at most its posted captures and the keys still say what their rows
  are. The captured total of the payment stays, and its refunded total stays or grows by exactly the amount
  asked for, which is then positive and answered with REFUNDED.\<close>

theorem refund_bounded:
  assumes ok: "transactions_ok d" and run: "refund V pid amt cur customer clearing corr prov d = (Inr (st, d'), prov')"
  shows "transactions_ok d' \<and>
    posted_total ''CAPTURE'' pid (transactions d') = posted_total ''CAPTURE'' pid (transactions d) \<and>
    (posted_total ''REFUND'' pid (transactions d') = posted_total ''REFUND'' pid (transactions d) \<or>
     posted_total ''REFUND'' pid (transactions d') = posted_total ''REFUND'' pid (transactions d) + ten_thousandths amt \<and>
       0 < ten_thousandths amt \<and> st = ST_REFUNDED)"
  by (rule refund_bounds [OF assms])

section \<open>A repeated refund\<close>

lemma row_by_key_upd_id:
  "(\<And>t. t_key (f t) = t_key t) \<Longrightarrow>
     row_by t_key k (upd_by t_id i f ts) = map_option (\<lambda>t. if t_id t = i then f t else t) (row_by t_key k ts)"
  by (induction ts) auto

lemma create_transaction_row:
  assumes "create_transaction pid ty amt cur key orig ext st d = Inr (i, d')"
  shows "\<exists>t. row_by t_key (Some key) (transactions d') = Some t \<and> t_id t = i"
proof (cases "row_by t_key (Some key) (transactions d)")
  case None
  from create_transaction_new [OF assms None] None show ?thesis by (auto simp: row_by_append)
next
  case (Some t)
  with assms show ?thesis by (auto simp: create_transaction_def)
qed

lemma create_transaction_frame:
  "frame (\<lambda>d. d\<lparr>next_id := 0, transactions := []\<rparr>) (create_transaction pid ty amt cur key orig ext st)"
  unfolding create_transaction_def references_def
  by (rule frame_rule) (intro keeps_intros keeps_modify keeps_draw_tables; simp)

lemma refund_settles:
  assumes "refund_begin pid amt cur d = Inr (Inr q, d1)"
    and "refund_end pid key customer clearing corr q O_SUCCEEDED d1 = Inr (st, d')"
  shows "\<exists>p c t. row_by p_id pid (payments d') = Some p \<and> p_status p \<in> {ST_SUCCEEDED, ST_REFUNDED} \<and>
    validate_refund_amount amt cur (p_currency p) = Inr (amt, c) \<and>
    row_by t_key (Some (tx_key pid (refund_text amt c))) (transactions d') = Some t \<and> t_status t = TX_POSTED"
proof -
  obtain p c d0 v d2 i minor where p: "row_by p_id pid (payments d) = Some p"
    and c: "validate_refund_amount amt cur (p_currency p) = Inr (amt, c)"
    and 1: "update_status pid ST_REFUND_PROCESSING None d = Inr ((), d0)"
    and 2: "create_provider_operation pid ''REFUND'' (payment_key pid (refund_text amt cur)) d0 = Inr (v, d2)"
    and 3: "create_transaction pid ''REFUND'' amt c (tx_key pid (refund_text amt c)) None None TX_PENDING d2 = Inr (i, d1)"
    and q: "q = \<lparr>ra_amount = amt, ra_currency = c, ra_minor = minor, ra_id = i,
       ra_captured = posted_sum ''CAPTURE'' pid d, ra_refunded = posted_sum ''REFUND'' pid d\<rparr>"
    using refund_begin_steps [OF assms(1)] by metis
  let ?f = "\<lambda>t. t\<lparr>t_status := TX_POSTED, t_posted := Some (clock d1)\<rparr>"
  let ?s = "if deq (dsub (ra_captured q) (dadd (ra_refunded q) (ra_amount q))) dzero then ST_REFUNDED else ST_SUCCEEDED"
  obtain j d3 where 4: "post_journal c ''TRANSACTION'' (Some i) key corr (two_lines clearing customer amt c)
      (d1\<lparr>transactions := upd_by t_id i ?f (transactions d1)\<rparr>) = Inr (j, d3)"
    and d': "d' = d3\<lparr>payments := upd_by p_id pid (set_status ?s None (clock d3)) (payments d3)\<rparr>"
    using assms(2) q
    by (auto simp: refund_end_def post_transaction_def set_transaction_def update_status_def err_simps Let_def)
  note f4 = db_fields [OF frameD [OF post_journal_frame 4], simplified]
  obtain t where t: "row_by t_key (Some (tx_key pid (refund_text amt c))) (transactions d1) = Some t" "t_id t = i"
    using create_transaction_row [OF 3] by blast
  have tr: "row_by t_key (Some (tx_key pid (refund_text amt c))) (transactions d') = Some (?f t)"
    using t f4 by (simp add: d' row_by_key_upd_id)
  have "\<exists>p2. row_by p_id pid (payments d2) = Some p2 \<and> p_currency p2 = p_currency p"
    using 1 2 p
    by (auto simp: update_status_def create_provider_operation_def new_operation_def references_def err_simps
        row_by_upd_by set_status_def split: option.splits if_splits)
  then obtain p2 where p2: "row_by p_id pid (payments d2) = Some p2" "p_currency p2 = p_currency p" by blast
  have "payments d1 = payments d2"
    using arg_cong [where f = payments, OF frameD [OF create_transaction_frame 3]] by simp
  then have "row_by p_id pid (payments d') = Some (set_status ?s None (clock d3) p2)"
    using p2 f4 by (simp add: d' row_by_upd_by)
  then show ?thesis using tr c p2 by auto
qed

text \<open>C26: the same refund asked for again, by amount and currency, after one that the provider
  confirmed is answered from the stored transaction: no provider is called and nothing changes. The answer
  of the repetition is REFUNDED only when everything captured has been refunded, and SUCCEEDED otherwise.\<close>

theorem refund_replay:
  assumes "refund_begin pid amt cur d = Inr (Inr q, d1)"
    and "refund_end pid (payment_key pid (refund_text amt cur)) customer clearing corr q O_SUCCEEDED d1 = Inr (st, d')"
  shows "st = ST_REFUNDED \<and>
    refund V pid amt cur customer' clearing' corr' prov d' =
      (Inr (if deq (dsub (posted_sum ''CAPTURE'' pid d') (posted_sum ''REFUND'' pid d')) dzero
            then ST_REFUNDED else ST_SUCCEEDED, d'), prov)"
proof -
  obtain p c t where s: "row_by p_id pid (payments d') = Some p" "p_status p \<in> {ST_SUCCEEDED, ST_REFUNDED}"
    "validate_refund_amount amt cur (p_currency p) = Inr (amt, c)"
    "row_by t_key (Some (tx_key pid (refund_text amt c))) (transactions d') = Some t" "t_status t = TX_POSTED"
    using refund_settles [OF assms] by blast
  have "st = ST_REFUNDED" using assms(2) by (auto simp: refund_end_def err_simps Let_def)
  moreover have "refund_begin pid amt cur d' = Inr (Inl (if deq (dsub (posted_sum ''CAPTURE'' pid d')
      (posted_sum ''REFUND'' pid d')) dzero then ST_REFUNDED else ST_SUCCEEDED), d')"
    using s by (auto simp: refund_begin_def select_payment_def Let_def refund_replay_status_def)
  ultimately show ?thesis by (simp add: refund_def around_call_def)
qed

section \<open>A captured payment\<close>

definition paid_db :: db where
  "paid_db = sample_db\<lparr>next_id := 12, payments := [sample_payment\<lparr>p_status := ST_SUCCEEDED\<rparr>],
     transactions := [\<lparr>t_id = 11, t_payment = 5, t_type = ''CAPTURE'', t_status = TX_POSTED, t_amount = 250000,
       t_currency = ''USD'', t_original = None, t_external = None, t_key = Some (tx_key 5 ''capture''),
       t_posted = Some 0\<rparr>]\<rparr>"

lemma paid_db_ok: "transactions_ok paid_db"
  by (simp add: paid_db_def num4_max_def transactions_ok_def posted_total_counted counted_def row_matches_key_def)

lemma paid_begin:
  "\<exists>q d1. refund_begin 5 (of_num4 100000) ''USD'' paid_db = Inr (Inr q, d1) \<and>
     (\<exists>d'. refund_end 5 (payment_key 5 (refund_text (of_num4 100000) ''USD'')) 8 9 None q O_SUCCEEDED d1 =
        Inr (ST_REFUNDED, d'))"
proof -
  have "dsub (of_num4 250000) dzero = of_num4 250000" "dadd dzero (of_num4 100000) = of_num4 100000"
    by (simp_all add: dsub_def dadd_def at_exp_def dfix_exact of_num4_def)
  moreover have "amount_minor (of_num4 100000) = Inr 1000"
    by (simp add: amount_minor_def dmul_def to_integral_value_def dtrunc_def dfix_exact round_half_even_def Let_def deq_def at_exp_def
        dzero_num4)
  ultimately show ?thesis
    by (simp add: refund_begin_def select_payment_def validate_refund_amount_def posted_sum_def posted_rows_def
      posted_total_def paid_db_def sample_defs text_eval dzero_num4 Let_def update_status_def
      create_provider_operation_def new_operation_def references_def create_transaction_def char3_def positive_num4_def
      to_num4_def ten_thousandths_def check_num4_def num4_max_def dless_def at_exp_def
      refund_end_def post_transaction_def set_transaction_def post_pair_runs)
qed

theorem refund_replay_witness:
  "\<exists>q d1 d' st. refund_begin 5 (of_num4 100000) ''USD'' paid_db = Inr (Inr q, d1) \<and>
     refund_end 5 (payment_key 5 (refund_text (of_num4 100000) ''USD'')) 8 9 None q O_SUCCEEDED d1 = Inr (ST_REFUNDED, d') \<and>
     refund (MockProvider id) 5 (of_num4 100000) ''USD'' 8 9 None (new_mock O_FAILED) d' = (Inr (st, d'), new_mock O_FAILED)"
proof -
  obtain q d1 d' where r: "refund_begin 5 (of_num4 100000) ''USD'' paid_db = Inr (Inr q, d1)"
    "refund_end 5 (payment_key 5 (refund_text (of_num4 100000) ''USD'')) 8 9 None q O_SUCCEEDED d1 = Inr (ST_REFUNDED, d')"
    using paid_begin by blast
  show ?thesis using r refund_replay [OF r, of "MockProvider id" 8 9 None "new_mock O_FAILED"] by blast
qed

theorem refund_bounded_witness:
  "\<exists>d' p'. refund (MockProvider id) 5 (of_num4 100000) ''USD'' 8 9 None (new_mock O_SUCCEEDED) paid_db =
      (Inr (ST_REFUNDED, d'), p') \<and> transactions_ok d' \<and>
    posted_total ''CAPTURE'' 5 (transactions d') = 250000"
proof -
  obtain q d1 d' where r: "refund_begin 5 (of_num4 100000) ''USD'' paid_db = Inr (Inr q, d1)"
    "refund_end 5 (payment_key 5 (refund_text (of_num4 100000) ''USD'')) 8 9 None q O_SUCCEEDED d1 = Inr (ST_REFUNDED, d')"
    using paid_begin by blast
  obtain p' where run: "refund (MockProvider id) 5 (of_num4 100000) ''USD'' 8 9 None (new_mock O_SUCCEEDED) paid_db =
      (Inr (ST_REFUNDED, d'), p')"
    using r by (simp add: refund_def around_call_def MockProvider_def keyed_provider_def keyed_call_def mock_run_def new_mock_def)
  have "posted_total ''CAPTURE'' 5 (transactions paid_db) = 250000"
    by (simp add: paid_db_def posted_total_counted counted_def)
  with run refund_bounded [OF paid_db_ok run] show ?thesis by auto
qed

end
