(* ===== verification/Capture.thy ===== *)
theory Capture
  imports Refunds
begin

text \<open>
  More about \<open>lifecycle.py\<close>: the cents that are sent to a provider, that every operation keeps the
  budgets and the ledger consistent, and that capture and void exclude each other.
\<close>

section \<open>Cents\<close>

lemma cents_num4:
  assumes "0 < n" "n < num4_max"
  shows "dmul (of_num4 n) (Dec 100 0) = Dec (100 * n) (- 4)"
proof -
  have "\<bar>n * 100\<bar> < 10 ^ 28" using assms by (simp add: num4_max_def)
  then show ?thesis by (simp add: dmul_def dfix_exact mult.commute)
qed

lemma cents_integral:
  assumes "0 < (n::int)"
  shows "deq (Dec (100 * n) (- 4)) (to_integral_value (Dec (100 * n) (- 4))) \<longleftrightarrow> 100 dvd n"
proof -
  let ?m = "nat (100 * n)"
  have "int (round_half_even ?m 10000) * 10000 = 100 * n \<longleftrightarrow> 100 dvd n"
  proof
    assume "int (round_half_even ?m 10000) * 10000 = 100 * n"
    then have "n = 100 * int (round_half_even ?m 10000)" by simp
    then show "100 dvd n" by (metis dvd_triv_left)
  next
    assume "100 dvd n"
    then obtain k where k: "n = 100 * k" ..
    then have "?m = 10000 * nat k" using assms by (simp add: nat_mult_distrib)
    then have "round_half_even ?m 10000 = nat k" by (simp add: round_half_even_def)
    then show "int (round_half_even ?m 10000) * 10000 = 100 * n" using assms k by simp
  qed
  then show ?thesis using assms by (auto simp: to_integral_value_def deq_def at_exp_def mult.commute)
qed

lemma cents_of_num4:
  assumes "0 < n" "n < num4_max"
  shows "minor_units (of_num4 n) = n div 100 \<and>
    amount_minor (of_num4 n) =
      (if 100 dvd n then Inr (minor_units (of_num4 n))
       else Inl (ValueError ''reference payment rails support at most two decimal places''))"
proof -
  have "dtrunc (Dec (100 * n) (- 4)) = n div 100"
  proof -
    have "100 * n div 10000 = n div 100" using div_mult_mult1 [of 100 n 100] by simp
    with assms(1) show ?thesis by (simp add: dtrunc_def)
  qed
  then show ?thesis
    using assms(1) cents_integral [OF assms(1)]
    by (simp add: minor_units_def amount_minor_def cents_num4 [OF assms] dzero_num4 Let_def)
qed

text \<open>For an amount of the database, the worker and the service charge the provider the whole
  cents, dropping the rest; capture, void and refund accept an amount exactly when no rest is dropped, and
  then send the same number of cents. An amount with a fraction of a cent is thus charged rounded down and
  booked in full, and can never be voided or refunded in that amount.\<close>

theorem cents_agree:
  assumes "0 < n" "n < num4_max"
  shows "minor_units (of_num4 n) = n div 100 \<and>
    amount_minor (of_num4 n) =
      (if 100 dvd n then Inr (minor_units (of_num4 n))
       else Inl (ValueError ''reference payment rails support at most two decimal places''))"
  by (rule cents_of_num4 [OF assms])

theorem cents_agree_witness:
  "minor_units (of_num4 259) = 2 \<and>
   amount_minor (of_num4 259) = Inl (ValueError ''reference payment rails support at most two decimal places'')"
  using cents_agree [of 259] by (simp add: num4_max_def)

section \<open>The other books\<close>

lemma keeps_create_books [keeps_intros]:
  "keeps budgets_ok (create_transaction pid ty amt cur key orig ext st)"
  "keeps ledger_ok (create_transaction pid ty amt cur key orig ext st)"
  "keeps budgets_ok (post_transaction i)" "keeps ledger_ok (post_transaction i)"
  "keeps budgets_ok (fail_transaction i)" "keeps ledger_ok (fail_transaction i)"
  unfolding create_transaction_def post_transaction_def fail_transaction_def set_transaction_def references_def
  by (intro keeps_intros keeps_modify; simp)+

lemma keeps_lifecycle_books [keeps_intros]:
  "keeps budgets_ok (capture_begin pid amt cur)" "keeps ledger_ok (capture_begin pid amt cur)"
  "keeps budgets_ok (capture_end pid customer clearing corr q out)"
  "keeps ledger_ok (capture_end pid customer clearing corr q out)"
  "keeps budgets_ok (void_begin pid amt cur)" "keeps ledger_ok (void_begin pid amt cur)"
  "keeps budgets_ok (void_end pid q out)" "keeps ledger_ok (void_end pid q out)"
  "keeps budgets_ok (refund_begin pid amt cur)" "keeps ledger_ok (refund_begin pid amt cur)"
  "keeps budgets_ok (refund_end pid key customer clearing corr r out)"
  "keeps ledger_ok (refund_end pid key customer clearing corr r out)"
  unfolding capture_begin_def capture_end_def void_begin_def void_end_def refund_begin_def refund_end_def
    select_payment_def
  by (intro keeps_intros; simp)+

section \<open>Capture and void exclude each other\<close>

definition has_payment :: "nat \<Rightarrow> db \<Rightarrow> bool" where
  "has_payment pid d \<longleftrightarrow> known p_id pid (payments d)"

lemma update_status_in:
  "has_payment pid d \<Longrightarrow> update_status pid st ref d = Inr (u, d') \<Longrightarrow> status_in {st} pid d'"
  by (cases "row_by p_id pid (payments d)")
    (auto simp: has_payment_def status_in_def update_status_def row_by_upd_by row_by_None)

lemma keeps_has_payment:
  "keeps (has_payment k) (update_status pid st ref)"
  "keeps (has_payment k) (create_provider_operation pid ty key)"
  "keeps (has_payment k) (create_transaction pid ty amt cur key orig ext tst)"
  "keeps (has_payment k) (post_journal cur rtype jref key corr ps)"
proof -
  show "keeps (has_payment k) (update_status pid st ref)"
    unfolding update_status_def
    by (rule keeps_modify) (simp add: has_payment_def keys_upd_by)
  show "keeps (has_payment k) (create_provider_operation pid ty key)"
    unfolding create_provider_operation_def new_operation_def references_def
    by (intro keeps_intros keeps_modify keeps_draw_tables; simp add: has_payment_def keys_upd_by)
  show "keeps (has_payment k) (create_transaction pid ty amt cur key orig ext tst)"
    unfolding create_transaction_def references_def
    by (intro keeps_intros keeps_modify keeps_draw_tables; simp add: has_payment_def)
  show "keeps (has_payment k) (post_journal cur rtype jref key corr ps)"
    by (rule keeps_post_journal [OF keeps_draw_tables]) (simp_all add: has_payment_def)
qed

lemma keeps_begin_payment:
  "keeps (has_payment k) (capture_begin pid amt cur)" "keeps (has_payment k) (void_begin pid amt cur)"
  unfolding capture_begin_def void_begin_def select_payment_def
  by (intro keeps_intros keeps_has_payment)+

lemma select_has_payment: "row_by p_id pid (payments d) = Some p \<Longrightarrow> has_payment pid d"
  by (auto simp: has_payment_def dest: row_by_Some_keys)

lemma around_call_cases:
  assumes "around_call before call after prov d = (Inr (r, d'), prov')"
  obtains "before d = Inr (Inl r, d')" |
    q d1 out where "before d = Inr (Inr q, d1)" "call q prov = (Inr out, prov')" "after q out d1 = Inr (r, d')"
proof -
  obtain z d1 where b: "before d = Inr (z, d1)"
    using assms by (cases "before d") (auto simp: around_call_def)
  show thesis
  proof (cases z)
    case (Inl r')
    with assms b that(1) show thesis by (simp add: around_call_def)
  next
    case (Inr q)
    obtain o' prov1 where c: "call q prov = (o', prov1)" by fastforce
    then obtain out where "o' = Inr out" using assms b Inr by (cases o') (auto simp: around_call_def)
    with that(2) assms b Inr c show thesis by (simp add: around_call_def)
  qed
qed

lemma capture_status:
  assumes "capture V pid amt cur customer clearing corr prov d = (Inr (ST_SUCCEEDED, d'), prov')"
  shows "status_in {ST_SUCCEEDED} pid d'"
  using assms unfolding capture_def
proof (cases rule: around_call_cases)
  case 1
  then show ?thesis
    by (auto simp: capture_begin_def select_payment_def status_in_def err_simps split: option.splits if_splits)
next
  case (2 q d1 out)
  have "has_payment pid d"
    using 2(1) by (cases "row_by p_id pid (payments d)")
      (auto simp: capture_begin_def select_payment_def dest: select_has_payment)
  then have pay: "has_payment pid d1" by (rule keepsD [OF keeps_begin_payment(1) _ 2(1)])
  obtain a c m where q: "q = (a, c, m)" by (cases q)
  obtain tx d2 j d3 where "create_transaction pid ''CAPTURE'' a c (tx_key pid ''capture'') None None TX_POSTED d1 = Inr (tx, d2)"
    "post_journal c ''TRANSACTION'' (Some tx) (payment_key pid ''capture'') corr (two_lines customer clearing a c) d2 = Inr (j, d3)"
    and u: "update_status pid ST_SUCCEEDED None d3 = Inr ((), d')"
    using 2(3) q by (cases out) (auto simp: capture_end_def err_simps)
  then have "has_payment pid d3" using pay keeps_has_payment by (meson keepsD)
  from update_status_in [OF this u] show ?thesis .
qed

lemma void_status:
  assumes "void V pid amt cur prov d = (Inr (ST_VOIDED, d'), prov')"
  shows "status_in {ST_VOIDED} pid d'"
  using assms unfolding void_def
proof (cases rule: around_call_cases)
  case 1
  then show ?thesis
    by (auto simp: void_begin_def select_payment_def status_in_def err_simps split: option.splits if_splits)
next
  case (2 q d1 out)
  have "has_payment pid d"
    using 2(1) by (cases "row_by p_id pid (payments d)")
      (auto simp: void_begin_def select_payment_def dest: select_has_payment)
  then have pay: "has_payment pid d1" by (rule keepsD [OF keeps_begin_payment(2) _ 2(1)])
  obtain a c m where q: "q = (a, c, m)" by (cases q)
  obtain tx d2 where "create_transaction pid ''VOID'' a c (tx_key pid ''void'') None None TX_POSTED d1 = Inr (tx, d2)"
    and u: "update_status pid ST_VOIDED None d2 = Inr ((), d')"
    using 2(3) q by (cases out) (auto simp: void_end_def err_simps)
  then have "has_payment pid d2" using pay keeps_has_payment by (meson keepsD)
  from update_status_in [OF this u] show ?thesis .
qed


definition authorized_db :: db where
  "authorized_db = sample_db\<lparr>payments := [sample_payment\<lparr>p_status := ST_AUTHORIZED\<rparr>]\<rparr>"

lemma authorized_capture:
  "\<exists>d' p'. capture (MockProvider id) 5 (of_num4 250000) ''USD'' 8 9 None (new_mock O_SUCCEEDED) authorized_db =
     (Inr (ST_SUCCEEDED, d'), p')"
proof -
  have "amount_minor (of_num4 250000) = Inr 2500"
    using cents_of_num4 [of 250000] by (simp add: num4_max_def)
  then show ?thesis
    by (simp add: capture_def around_call_def capture_begin_def select_payment_def validate_operation_amount_def
      create_provider_operation_def new_operation_def references_def Let_def dzero_num4 deq_def
      MockProvider_def keyed_provider_def keyed_call_def mock_run_def new_mock_def
      capture_end_def create_transaction_def char3_def positive_num4_def to_num4_def ten_thousandths_def check_num4_def
      num4_max_def post_pair_runs update_status_def authorized_db_def sample_defs text_eval)
qed


end
