(* ===== verification/ProviderEvents.thy ===== *)
theory ProviderEvents
  imports Capture
begin

text \<open>
  \<open>provider_events.py\<close>: what is kept of a provider's event. Values under secret names are redacted at
  every depth before anything is stored or hashed, an event is stored once per provider and event id, and
  a signature is compared with the keyed hash of the body. SHA-256 and HMAC are parameters.
\<close>

section \<open>Redaction\<close>

definition secret_keys :: "string list" where
  "secret_keys = [''pan'', ''card_number'', ''cvv'', ''cvc'', ''pin'', ''private_key'', ''secret'', ''api_key'',
     ''access_token'', ''refresh_token'', ''authorization'']"

definition is_secret :: "string \<Rightarrow> bool" where
  "is_secret k \<longleftrightarrow> lower k \<in> set secret_keys"

fun sanitize_payload :: "json \<Rightarrow> json" where
  "sanitize_payload (JObj ms) =
     JObj (map (\<lambda>(k, v). (k, if is_secret k then JStr ''[REDACTED]'' else sanitize_payload v)) ms)"
| "sanitize_payload (JArr vs) = JArr (map sanitize_payload vs)"
| "sanitize_payload v = v"

text \<open>No value under a secret name, at any depth, other than the mark.\<close>

fun redacted :: "json \<Rightarrow> bool" where
  "redacted (JObj ms) = list_all (\<lambda>(k, v). if is_secret k then v = JStr ''[REDACTED]'' else redacted v) ms"
| "redacted (JArr vs) = list_all redacted vs"
| "redacted v = True"

lemma sanitize_redacted: "redacted (sanitize_payload v)"
proof (induction v rule: sanitize_payload.induct)
  case (1 ms)
  then show ?case by (auto simp: list_all_iff split: if_splits)
next
  case (2 vs)
  then show ?case by (simp add: list_all_iff)
qed simp_all

lemma redacted_sanitize: "redacted v \<Longrightarrow> sanitize_payload v = v"
proof (induction v rule: sanitize_payload.induct)
  case (1 ms)
  have "(k, if is_secret k then JStr ''[REDACTED]'' else sanitize_payload w) = (k, w)" if "(k, w) \<in> set ms" for k w
    using 1(1) [OF that refl] 1(2) that by (auto simp: list_all_iff split: if_splits)
  then show ?case by (auto intro!: map_idI)
next
  case (2 vs)
  then show ?case by (auto simp: list_all_iff intro!: map_idI)
qed simp_all


section \<open>Storing an event\<close>

definition record_event ::
    "(string \<Rightarrow> string) \<Rightarrow> string \<Rightarrow> string \<Rightarrow> string \<Rightarrow> json \<Rightarrow> bool \<Rightarrow> nat option tx" where
  "record_event sha prov_name event ty payload valid =
     (let safe = sanitize_payload payload
      in bindT (queryT (\<lambda>d. known (\<lambda>e. (pe_provider e, pe_event e)) (prov_name, event) (provider_events d))) (\<lambda>dup.
         if dup then returnT None
         else
           bindT draw_id (\<lambda>i.
           bindT (modifyT (\<lambda>d. d\<lparr>provider_events := provider_events d @
             [\<lparr>pe_id = i, pe_provider = prov_name, pe_event = event, pe_type = ty, pe_signature_valid = valid,
               pe_payload = safe, pe_digest = sha (canonical safe), pe_status = ''RECEIVED'', pe_processed = None,
               pe_operation = None\<rparr>]\<rparr>)) (\<lambda>_.
           returnT (Some i)))))"

definition mark_processed :: "nat \<Rightarrow> unit tx" where
  "mark_processed i =
     modifyT (\<lambda>d. d\<lparr>provider_events := upd_by pe_id i
       (\<lambda>e. e\<lparr>pe_status := ''PROCESSED'', pe_processed := Some (clock d)\<rparr>) (provider_events d)\<rparr>)"

section \<open>Signatures\<close>

definition removeprefix :: "string \<Rightarrow> string \<Rightarrow> string" where
  "removeprefix p s = (if take (length p) s = p then drop (length p) s else s)"

definition is_ascii :: "string \<Rightarrow> bool" where
  "is_ascii s \<longleftrightarrow> list_all (\<lambda>c. (of_char c :: nat) < 128) s"

text \<open>\<open>hmac secret body\<close> is the hexadecimal digest; \<open>compare_digest\<close> raises a TypeError for text
  outside ASCII.\<close>

definition verify_hmac_signature :: "(string \<Rightarrow> string \<Rightarrow> string) \<Rightarrow> string \<Rightarrow> string \<Rightarrow> string \<Rightarrow> exn + bool" where
  "verify_hmac_signature hmac body signature key =
     (let supplied = removeprefix ''sha256='' signature
      in if \<not> is_ascii supplied
         then Inl (TypeError ''comparing strings with non-ASCII characters is not supported'')
         else Inr (hmac key body = supplied))"

end
