(* ===== verification/Resolver.thy ===== *)
theory Resolver
  imports ProviderEvents
begin

text \<open>
  \<open>webhook_resolution.py\<close>: a stored provider event is turned into the outcome of its payment, in one
  unit of work of its own. The event is marked as processed in the same transaction, so it is resolved
  once.
\<close>

definition resolver_transaction :: "nat \<Rightarrow> string \<Rightarrow> decimal \<Rightarrow> string \<Rightarrow> string \<Rightarrow> string option \<Rightarrow> nat tx" where
  "resolver_transaction pid ty amt cur key ext = create_transaction pid ty amt cur key None ext TX_POSTED"

definition resolvable :: "payment_state set" where
  "resolvable = {ST_UNKNOWN_EXTERNAL_OUTCOME, ST_PROCESSING, ST_PAYMENT_PENDING}"

definition close_operation :: "nat \<Rightarrow> string \<Rightarrow> string option \<Rightarrow> unit tx" where
  "close_operation i st ref =
     modifyT (\<lambda>d. d\<lparr>operations := upd_by o_id i
       (\<lambda>op. op\<lparr>o_status := st, o_reference := coalesce ref (o_reference op), o_completed := Some (clock d)\<rparr>)
       (operations d)\<rparr>)"

text \<open>The operation with its payment and request.\<close>

definition joined_operation ::
    "nat \<Rightarrow> db \<Rightarrow> (operation_row \<times> payment_row \<times> request_row) option" where
  "joined_operation i d =
     (case row_by o_id i (operations d) of
        None \<Rightarrow> None
      | Some op \<Rightarrow>
          (case row_by p_id (o_payment op) (payments d) of
             None \<Rightarrow> None
           | Some p \<Rightarrow> map_option (\<lambda>q. (op, p, q)) (row_by q_id (p_request p) (requests d))))"

definition book_charge ::
    "nat \<Rightarrow> nat option \<Rightarrow> decimal \<Rightarrow> string \<Rightarrow> string option \<Rightarrow> nat \<Rightarrow> nat \<Rightarrow> string option \<Rightarrow> unit tx" where
  "book_charge pid reservation amt cur ref customer clearing corr =
     (case reservation of
        None \<Rightarrow> raiseT (ValueError ''successful charge has no budget reservation'')
      | Some res \<Rightarrow>
          bindT (budget_consume res) (\<lambda>_.
          bindT (resolver_transaction pid ''CAPTURE'' amt cur (payment_key pid ''capture:transaction'') ref) (\<lambda>tx.
          bindT (post_journal cur ''PAYMENT'' (Some pid) (payment_key pid ''capture'') corr
                   (two_lines customer clearing amt cur)) (\<lambda>_.
          post_transaction tx))))"

definition resolve_succeeded ::
    "operation_row \<Rightarrow> payment_row \<Rightarrow> request_row \<Rightarrow> string option \<Rightarrow> nat \<Rightarrow> nat \<Rightarrow> string option \<Rightarrow> unit tx" where
  "resolve_succeeded op p q ref customer clearing corr =
     bindT (close_operation (o_id op) ''SUCCEEDED'' ref) (\<lambda>_.
     bindT (if o_type op = ''CHARGE''
            then book_charge (p_id p) (q_reservation q) (of_num4 (p_amount p)) (upper (strip (p_currency p))) ref
                   customer clearing corr
            else returnT ()) (\<lambda>_.
     update_status (p_id p) ST_SUCCEEDED ref))"

definition resolve_failed :: "operation_row \<Rightarrow> payment_row \<Rightarrow> request_row \<Rightarrow> string option \<Rightarrow> unit tx" where
  "resolve_failed op p q ref =
     bindT (close_operation (o_id op) ''FAILED'' ref) (\<lambda>_.
     bindT (case q_reservation q of
              None \<Rightarrow> returnT ()
            | Some res \<Rightarrow> if o_type op = ''CHARGE'' then budget_release res else returnT ()) (\<lambda>_.
     update_status (p_id p) ST_FAILED ref))"

definition resolve ::
    "nat \<Rightarrow> nat \<Rightarrow> string \<Rightarrow> string option \<Rightarrow> nat \<Rightarrow> nat \<Rightarrow> string option \<Rightarrow> string tx" where
  "resolve ev oid outcome ref customer clearing corr =
     bindT (queryT (\<lambda>d. row_by pe_id ev (provider_events d))) (\<lambda>event.
     case event of
       None \<Rightarrow> raiseT (ValueError ''provider event not found'')
     | Some e \<Rightarrow>
         if \<not> pe_signature_valid e then raiseT (PermissionError ''provider event signature is not valid'')
         else if pe_status e = ''PROCESSED'' then returnT ''DUPLICATE''
         else
           bindT (queryT (joined_operation oid)) (\<lambda>row.
           case row of
             None \<Rightarrow> raiseT (ValueError ''provider operation not found'')
           | Some (op, p, q) \<Rightarrow>
               if p_status p \<notin> resolvable then
                 bindT (mark_processed ev) (\<lambda>_. returnT ''IGNORED'')
               else
                 bindT (if outcome = ''SUCCEEDED'' then resolve_succeeded op p q ref customer clearing corr
                        else if outcome = ''FAILED'' then resolve_failed op p q ref
                        else raiseT (ValueError ''unsupported provider outcome'')) (\<lambda>_.
                 bindT (mark_processed ev) (\<lambda>_.
                 returnT ''RESOLVED''))))"

section \<open>The books\<close>

lemma keeps_mark_processed:
  "(\<And>d v. P (d\<lparr>provider_events := v\<rparr>) = P d) \<Longrightarrow> keeps P (mark_processed ev)"
  unfolding mark_processed_def by (rule keeps_modify) simp

lemma keeps_close_operation:
  "(\<And>d v. P (d\<lparr>operations := v\<rparr>) = P d) \<Longrightarrow> keeps P (close_operation i st ref)"
  unfolding close_operation_def by (rule keeps_modify) simp

text \<open>The transaction of a charge is a capture, also when it is found under its key.\<close>

lemma keeps_book_transactions [keeps_intros]:
  "keeps transactions_ok (book_charge pid res amt cur ref customer clearing corr)"
proof (cases res)
  case None
  then show ?thesis by (simp add: book_charge_def keeps_raise)
next
  case (Some r)
  show ?thesis
  proof (rule keepsI)
    fix d u d'
    assume ok: "transactions_ok d" and "book_charge pid res amt cur ref customer clearing corr d = Inr (u, d')"
    then obtain d1 tx d2 j d3 where 1: "budget_consume r d = Inr ((), d1)"
      and 2: "create_transaction pid ''CAPTURE'' amt cur (payment_key pid ''capture:transaction'') None ref TX_POSTED d1 = Inr (tx, d2)"
      and 3: "post_journal cur ''PAYMENT'' (Some pid) (payment_key pid ''capture'') corr
                (two_lines customer clearing amt cur) d2 = Inr (j, d3)"
      and 4: "post_transaction tx d3 = Inr (u, d')"
      using Some by (auto simp: book_charge_def resolver_transaction_def err_simps)
    have ok1: "transactions_ok d1" by (rule keepsD [OF keeps_transactions_other(5) ok 1])
    have "keeps transactions_ok (create_transaction pid ''CAPTURE'' amt cur (payment_key pid ''capture:transaction'') None ref TX_POSTED)"
      by (rule keeps_create_transaction) simp_all
    from keepsD [OF this ok1 2] have ok2: "transactions_ok d2" .
    from keepsD [OF keeps_transactions_journal this 3] have ok3: "transactions_ok d3" .
    obtain t where t: "row_by t_key (Some (payment_key pid ''capture:transaction'')) (transactions d2) = Some t" "t_id t = tx"
      using create_transaction_row [OF 2] by blast
    have key: "row_matches_key t" using ok2 row_by_Some_in [OF t(1)] by (simp add: transactions_ok_def)
    have ty: "t_type t = ''CAPTURE''"
      using key row_by_Some_key [OF t(1)] by (auto simp: row_matches_key_def)
    have tr: "transactions d3 = transactions d2"
      using db_fields [OF frameD [OF post_journal_frame 3], simplified] by simp
    have "row_by t_id tx (transactions d3) = Some t"
      using ok2 row_by_distinct [of t_id "transactions d2" t] row_by_Some_in [OF t(1)] t(2)
      by (simp add: tr transactions_ok_def)
    with ok3 ty have "transactions_ok d3 \<and> (\<exists>t. row_by t_id tx (transactions d3) = Some t \<and> t_type t \<noteq> ''REFUND'')"
      by auto
    from keepsD [OF keeps_post_transaction this 4] show "transactions_ok d'" ..
  qed
qed

lemma keeps_resolve [keeps_intros]:
  "keeps transactions_ok (resolve ev oid outcome ref customer clearing corr)"
  "keeps budgets_ok (resolve ev oid outcome ref customer clearing corr)"
  "keeps ledger_ok (resolve ev oid outcome ref customer clearing corr)"
proof -
  show "keeps transactions_ok (resolve ev oid outcome ref customer clearing corr)"
    unfolding resolve_def resolve_succeeded_def resolve_failed_def
    by (intro keeps_intros keeps_mark_processed keeps_close_operation; simp)
  show "keeps budgets_ok (resolve ev oid outcome ref customer clearing corr)"
    "keeps ledger_ok (resolve ev oid outcome ref customer clearing corr)"
    unfolding resolve_def resolve_succeeded_def resolve_failed_def book_charge_def resolver_transaction_def
    by (intro keeps_intros keeps_mark_processed keeps_close_operation; simp)+
qed

section \<open>Once per event\<close>

lemma joined_operation_Some:
  "joined_operation i d = Some (op, p, q) \<Longrightarrow>
     row_by o_id i (operations d) = Some op \<and> row_by p_id (o_payment op) (payments d) = Some p \<and>
     row_by q_id (p_request p) (requests d) = Some q"
  by (auto simp: joined_operation_def split: option.splits)

lemma close_operation_frame:
  "frame (\<lambda>d. d\<lparr>operations := []\<rparr>) (close_operation i st ref)"
  unfolding close_operation_def by (rule frame_rule) (rule keeps_modify, simp)

text \<open>Booking a charge touches neither the events nor the payments.\<close>

lemma book_charge_frame:
  "frame (\<lambda>d. (provider_events d, payments d)) (book_charge pid res amt cur ref customer clearing corr)"
  unfolding book_charge_def resolver_transaction_def create_transaction_def post_transaction_def set_transaction_def
    references_def budget_consume_def move_budget_def
  by (rule frame_rule)
    (intro keeps_intros keeps_modify keeps_draw_tables keeps_post_journal; simp)

lemma budget_release_events: "frame (\<lambda>d. (provider_events d, payments d)) (budget_release res)"
  unfolding budget_release_def move_budget_def
  by (rule frame_rule) (intro keeps_intros keeps_modify; simp)

definition resolved_state :: "string \<Rightarrow> payment_state" where
  "resolved_state outcome = (if outcome = ''SUCCEEDED'' then ST_SUCCEEDED else ST_FAILED)"

lemma resolved_update:
  assumes 1: "close_operation (o_id op) ost ref d = Inr (v, d1)" and 2: "f d1 = Inr (w, d2)"
    and f: "frame (\<lambda>d. (provider_events d, payments d)) f"
    and 3: "update_status (p_id p) st ref d2 = Inr (u, d')"
    and p: "row_by p_id (p_id p) (payments d) = Some p"
  shows "provider_events d' = provider_events d \<and>
    (\<exists>p'. row_by p_id (p_id p) (payments d') = Some p' \<and> p_status p' = st)"
proof -
  note f1 = db_fields [OF frameD [OF close_operation_frame 1], simplified]
  show ?thesis
    using f1 frameD [OF f 2] 3 p by (auto simp: update_status_def row_by_upd_by set_status_def)
qed

lemma resolved_payment:
  assumes run: "(if outcome = ''SUCCEEDED'' then resolve_succeeded op p q ref customer clearing corr
          else if outcome = ''FAILED'' then resolve_failed op p q ref
          else raiseT (ValueError ''unsupported provider outcome'')) d = Inr (u, d')"
    and p: "row_by p_id (p_id p) (payments d) = Some p"
  shows "outcome \<in> {''SUCCEEDED'', ''FAILED''} \<and> provider_events d' = provider_events d \<and>
    (\<exists>p'. row_by p_id (p_id p) (payments d') = Some p' \<and> p_status p' = resolved_state outcome)"
proof -
  show ?thesis
  proof (cases "outcome = ''SUCCEEDED''")
    case True
    with run have "resolve_succeeded op p q ref customer clearing corr d = Inr (u, d')" by simp
    then obtain v d1 w d2 where 1: "close_operation (o_id op) ''SUCCEEDED'' ref d = Inr (v, d1)"
      and 2: "(if o_type op = ''CHARGE''
            then book_charge (p_id p) (q_reservation q) (of_num4 (p_amount p)) (upper (strip (p_currency p))) ref
                   customer clearing corr
            else returnT ()) d1 = Inr (w, d2)"
      and 3: "update_status (p_id p) ST_SUCCEEDED ref d2 = Inr (u, d')"
      unfolding resolve_succeeded_def bindT_Inr by blast
    have "frame (\<lambda>d. (provider_events d, payments d)) (if o_type op = ''CHARGE''
            then book_charge (p_id p) (q_reservation q) (of_num4 (p_amount p)) (upper (strip (p_currency p))) ref
                   customer clearing corr
            else returnT ())"
      by (auto intro: book_charge_frame frameI)
    from resolved_update [OF 1 2 this 3 p] True show ?thesis by (simp add: resolved_state_def)
  next
    case False
    then have out: "outcome = ''FAILED''" using run by (auto split: if_splits)
    have f: "frame (\<lambda>d. (provider_events d, payments d)) (case q_reservation q of
              None \<Rightarrow> returnT ()
            | Some res \<Rightarrow> if o_type op = ''CHARGE'' then budget_release res else returnT ())"
      by (auto intro: budget_release_events frameI split: option.split)
    from run out have "resolve_failed op p q ref d = Inr (u, d')" by simp
    then obtain v d1 w d2 where 1: "close_operation (o_id op) ''FAILED'' ref d = Inr (v, d1)"
      and 2: "(case q_reservation q of
              None \<Rightarrow> returnT ()
            | Some res \<Rightarrow> if o_type op = ''CHARGE'' then budget_release res else returnT ()) d1 = Inr (w, d2)"
      and 3: "update_status (p_id p) ST_FAILED ref d2 = Inr (u, d')"
      unfolding resolve_failed_def bindT_Inr by blast
    from resolved_update [OF 1 2 f 3 p] out show ?thesis by (simp add: resolved_state_def)
  qed
qed

lemma resolve_cases:
  assumes "resolve ev oid outcome ref customer clearing corr d = Inr (r, d')"
  obtains (duplicate) e where "row_by pe_id ev (provider_events d) = Some e" "pe_signature_valid e"
      "pe_status e = ''PROCESSED''" "r = ''DUPLICATE''" "d' = d"
    | (ignored) e op p q where "row_by pe_id ev (provider_events d) = Some e" "pe_signature_valid e"
      "pe_status e \<noteq> ''PROCESSED''" "joined_operation oid d = Some (op, p, q)" "p_status p \<notin> resolvable"
      "r = ''IGNORED''" "mark_processed ev d = Inr ((), d')"
    | (resolved) e op p q d1 where "row_by pe_id ev (provider_events d) = Some e" "pe_signature_valid e"
      "pe_status e \<noteq> ''PROCESSED''" "joined_operation oid d = Some (op, p, q)" "p_status p \<in> resolvable"
      "(if outcome = ''SUCCEEDED'' then resolve_succeeded op p q ref customer clearing corr
          else if outcome = ''FAILED'' then resolve_failed op p q ref
          else raiseT (ValueError ''unsupported provider outcome'')) d = Inr ((), d1)"
      "r = ''RESOLVED''" "mark_processed ev d1 = Inr ((), d')"
proof (cases "row_by pe_id ev (provider_events d)")
  case None
  with assms show thesis by (simp add: resolve_def)
next
  case (Some e)
  show thesis
  proof (cases "pe_signature_valid e \<and> pe_status e \<noteq> ''PROCESSED''")
    case False
    with Some assms duplicate [OF Some] show thesis by (auto simp: resolve_def split: if_splits)
  next
    case True
    obtain op p q where j: "joined_operation oid d = Some (op, p, q)"
      using assms Some True by (cases "joined_operation oid d") (auto simp: resolve_def)
    show thesis
    proof (cases "p_status p \<in> resolvable")
      case True
      have "bindT (if outcome = ''SUCCEEDED'' then resolve_succeeded op p q ref customer clearing corr
          else if outcome = ''FAILED'' then resolve_failed op p q ref
          else raiseT (ValueError ''unsupported provider outcome'')) (\<lambda>_. bindT (mark_processed ev) (\<lambda>_. returnT ''RESOLVED'')) d
          = Inr (r, d')"
        using assms Some \<open>pe_signature_valid e \<and> pe_status e \<noteq> ''PROCESSED''\<close> j True
        unfolding resolve_def by simp
      then show thesis
        using resolved [OF Some _ _ j True] \<open>pe_signature_valid e \<and> pe_status e \<noteq> ''PROCESSED''\<close>
        unfolding bindT_Inr by auto
    next
      case False
      then show thesis
        using assms Some ignored [OF Some _ _ j False] \<open>pe_signature_valid e \<and> pe_status e \<noteq> ''PROCESSED''\<close> j
        by (auto simp: resolve_def err_simps)
    qed
  qed
qed

lemma marked_event:
  assumes "mark_processed ev d = Inr (u, d')" "row_by pe_id ev (provider_events d) = Some e"
  shows "\<exists>e'. row_by pe_id ev (provider_events d') = Some e' \<and> pe_status e' = ''PROCESSED'' \<and>
    pe_signature_valid e' = pe_signature_valid e \<and> d'\<lparr>provider_events := []\<rparr> = d\<lparr>provider_events := []\<rparr>"
  using assms by (auto simp: mark_processed_def row_by_upd_by)

text \<open>The event after a resolution is marked, so that it is a duplicate whatever it is resolved with.\<close>

lemma resolve_marks:
  assumes "resolve ev oid outcome ref customer clearing corr d = Inr (r, d')"
  shows "\<exists>e'. row_by pe_id ev (provider_events d') = Some e' \<and> pe_status e' = ''PROCESSED'' \<and> pe_signature_valid e'"
  using assms
proof (cases rule: resolve_cases)
  case (duplicate e)
  then show ?thesis by simp
next
  case (ignored e op p q)
  from marked_event [OF ignored(7,1)] ignored(2) show ?thesis by auto
next
  case (resolved e op p q d1)
  have "row_by p_id (p_id p) (payments d) = Some p"
    using joined_operation_Some [OF resolved(4)] row_by_Some_key by (metis (full_types))
  then have "provider_events d1 = provider_events d" using resolved_payment [OF resolved(6)] by blast
  then have "row_by pe_id ev (provider_events d1) = Some e" using resolved(1) by simp
  from marked_event [OF resolved(8) this] resolved(2) show ?thesis by auto
qed

text \<open>C13: an event is resolved only when its signature was verified, and at most once: whatever
  it is resolved with later, the answer is DUPLICATE and nothing changes. A first resolution either finds
  the payment no longer open, marks the event and touches nothing else, or moves exactly the payment of the
  operation from an open state to the state of the outcome.\<close>

theorem resolve_once:
  assumes "resolve ev oid outcome ref customer clearing corr d = Inr (r, d')"
  shows "(\<exists>e. row_by pe_id ev (provider_events d) = Some e \<and> pe_signature_valid e \<and>
      (r = ''DUPLICATE'' \<and> pe_status e = ''PROCESSED'' \<and> d' = d \<or>
       r = ''IGNORED'' \<and> pe_status e \<noteq> ''PROCESSED'' \<and> d'\<lparr>provider_events := []\<rparr> = d\<lparr>provider_events := []\<rparr> \<or>
       r = ''RESOLVED'' \<and> pe_status e \<noteq> ''PROCESSED'' \<and> outcome \<in> {''SUCCEEDED'', ''FAILED''} \<and>
         (\<exists>op p q p'. joined_operation oid d = Some (op, p, q) \<and> p_status p \<in> resolvable \<and>
            row_by p_id (p_id p) (payments d') = Some p' \<and> p_status p' = resolved_state outcome))) \<and>
    resolve ev oid' outcome' ref' customer' clearing' corr' (d'\<lparr>clock := now\<rparr>) = Inr (''DUPLICATE'', d'\<lparr>clock := now\<rparr>)"
proof -
  have again: "resolve ev oid' outcome' ref' customer' clearing' corr' (d'\<lparr>clock := now\<rparr>) =
      Inr (''DUPLICATE'', d'\<lparr>clock := now\<rparr>)"
    using resolve_marks [OF assms] by (auto simp: resolve_def)
  from assms show ?thesis
  proof (cases rule: resolve_cases)
    case (duplicate e)
    with again show ?thesis by blast
  next
    case (ignored e op p q)
    with again marked_event [OF ignored(7,1)] show ?thesis by blast
  next
    case (resolved e op p q d1)
    have "row_by p_id (p_id p) (payments d) = Some p"
      using joined_operation_Some [OF resolved(4)] row_by_Some_key by (metis (full_types))
    from resolved_payment [OF resolved(6) this] obtain p' where
      p': "outcome \<in> {''SUCCEEDED'', ''FAILED''}" "row_by p_id (p_id p) (payments d1) = Some p'"
        "p_status p' = resolved_state outcome" by blast
    have "payments d' = payments d1" using resolved(8) by (auto simp: mark_processed_def)
    with again resolved p' show ?thesis by auto
  qed
qed

section \<open>An unknown charge, confirmed by the provider\<close>

text \<open>A charge with an unknown outcome whose reference was recorded, and the provider's event.\<close>

definition unknown_db :: db where
  "unknown_db = ready_db\<lparr>next_id := 20, payments := [sample_payment\<lparr>p_status := ST_UNKNOWN_EXTERNAL_OUTCOME\<rparr>],
     operations := [\<lparr>o_id = 12, o_payment = 5, o_type = ''CHARGE'', o_key = charge_name 5, o_reference = Some ''r'',
       o_status = ''UNKNOWN'', o_created = 0, o_completed = None\<rparr>],
     provider_events := [\<lparr>pe_id = 13, pe_provider = ''mock'', pe_event = ''e'', pe_type = ''payment.succeeded'',
       pe_signature_valid = True, pe_payload = JObj [], pe_digest = [], pe_status = ''RECEIVED'', pe_processed = None,
       pe_operation = None\<rparr>]\<rparr>"

lemma unknown_resolved:
  "\<exists>d'. resolve 13 12 ''SUCCEEDED'' (Some ''r'') 8 9 None unknown_db = Inr (''RESOLVED'', d') \<and>
     posted_total ''CAPTURE'' 5 (transactions d') = 250000"
  by (simp add: resolve_def joined_operation_def resolvable_def resolve_succeeded_def close_operation_def book_charge_def
      resolver_transaction_def create_transaction_def budget_consume_def move_budget_def references_def post_pair_runs
      post_transaction_def set_transaction_def update_status_def mark_processed_def posted_total_def posted_rows_def
      unknown_db_def ready_db_def held_db_def sample_defs text_eval char3_def positive_num4_def to_num4_def
      ten_thousandths_def check_num4_def num4_max_def)

theorem resolve_once_witness:
  "\<exists>d'. resolve 13 12 ''SUCCEEDED'' (Some ''r'') 8 9 None unknown_db = Inr (''RESOLVED'', d') \<and>
     resolve 13 12 ''FAILED'' None 8 9 None (d'\<lparr>clock := 60\<rparr>) = Inr (''DUPLICATE'', d'\<lparr>clock := 60\<rparr>)"
  using unknown_resolved resolve_once [of 13 12 "''SUCCEEDED''" "Some ''r''" 8 9 None unknown_db] by blast

end
