(* ===== verification/LifecycleApi.thy ===== *)
theory LifecycleApi
  imports Capture
begin

text \<open>
  \<open>lifecycle_api.py\<close>: the HTTP endpoints for capture, void and refund. A request is authenticated
  against the payment's agent and account on the connection, then the operation runs in one unit of work
  with a fresh mock provider; a \<open>ValueError\<close> becomes a 409. Requests are validated by the framework
  before the handler runs.
\<close>

section \<open>Requests\<close>

record lifecycle_amount =
  la_value :: string
  la_currency :: string

text \<open>The pattern \<open>^\d+(\.\d{1,4})?$\<close>.\<close>

definition amount_text :: "string \<Rightarrow> bool" where
  "amount_text s =
     (let whole = takeWhile is_digit s; rest = dropWhile is_digit s
      in whole \<noteq> [] \<and>
         (rest = [] \<or> (hd rest = CHR ''.'' \<and> tl rest \<noteq> [] \<and> length (tl rest) \<le> 4 \<and> list_all is_digit (tl rest))))"

definition valid_lifecycle_amount :: "lifecycle_amount \<Rightarrow> bool" where
  "valid_lifecycle_amount b \<longleftrightarrow> amount_text (la_value b) \<and> length (la_currency b) = 3"

text \<open>\<open>Decimal(text)\<close> of a validated amount.\<close>

definition finite_decimal :: "string \<Rightarrow> exn + decimal" where
  "finite_decimal s =
     bindE (parse_decimal s) (\<lambda>v. case v of Finite a \<Rightarrow> Inr a | _ \<Rightarrow> Inl InvalidOperation)"

abbreviation http_error :: "nat \<Rightarrow> string \<Rightarrow> exn + 'a" where
  "http_error status detail \<equiv> Inl (HTTPException status detail)"

section \<open>Authentication\<close>

definition payment_request_of :: "nat \<Rightarrow> db \<Rightarrow> request_row option" where
  "payment_request_of pid d =
     (case row_by p_id pid (payments d) of None \<Rightarrow> None | Some p \<Rightarrow> row_by q_id (p_request p) (requests d))"

definition authenticate_payment ::
    "(string \<Rightarrow> (string \<times> json) list option) \<Rightarrow> environ \<Rightarrow> nat \<Rightarrow> string option \<Rightarrow> db \<Rightarrow> exn + unit" where
  "authenticate_payment decode env pid auth d =
     (case auth of
        None \<Rightarrow> http_error 401 ''Bearer authentication is required''
      | Some h \<Rightarrow>
          if \<not> is_bearer h then http_error 401 ''Bearer authentication is required''
          else case resolve_bearer decode env (Some (bearer_token h)) of
            Inl e \<Rightarrow> if is_PermissionError e then http_error 401 (exn_message e) else Inl e
          | Inr p \<Rightarrow>
              (case payment_request_of pid d of
                 None \<Rightarrow> http_error 404 ''payment not found''
               | Some q \<Rightarrow>
                   (case require_agent p (str_uuid (q_agent q)) (str_uuid (q_account q)) of
                      Inl e \<Rightarrow> if is_PermissionError e then http_error 403 (exn_message e) else Inl e
                    | Inr _ \<Rightarrow> Inr ())))"

definition lifecycle_accounts :: "nat \<Rightarrow> db \<Rightarrow> exn + nat \<times> nat" where
  "lifecycle_accounts pid d =
     (case row_by p_id pid (payments d) of
        None \<Rightarrow> http_error 409 ''ledger accounts are not configured''
      | Some p \<Rightarrow>
          (case payment_accounts (p_currency p) pid d of
             None \<Rightarrow> http_error 409 ''ledger accounts are not configured''
           | Some accs \<Rightarrow> Inr accs))"

section \<open>The endpoints\<close>

definition dispatch ::
    "'p payment_provider \<Rightarrow> 'p \<Rightarrow> string \<Rightarrow> nat \<Rightarrow> decimal \<Rightarrow> string \<Rightarrow> nat \<Rightarrow> nat \<Rightarrow> string option \<Rightarrow> payment_state tx" where
  "dispatch V prov op pid amt cur customer clearing corr d =
     fst (if op = ''capture'' then capture V pid amt cur customer clearing corr prov d
          else if op = ''void'' then void V pid amt cur prov d
          else refund V pid amt cur customer clearing corr prov d)"

text \<open>The body of the unit of work; the handler that turns a \<open>ValueError\<close> into a 409 raises, so the
  work is rolled back all the same.\<close>

definition lifecycle_work ::
    "(string \<Rightarrow> string) \<Rightarrow> string \<Rightarrow> nat \<Rightarrow> lifecycle_amount \<Rightarrow> string option \<Rightarrow> payment_state tx" where
  "lifecycle_work sha op pid body corr =
     bindT (queryT (lifecycle_accounts pid)) (\<lambda>r.
     bindT (liftT r) (\<lambda>(customer, clearing).
     tryT (bindT (liftT (finite_decimal (la_value body))) (\<lambda>amt.
           dispatch (MockProvider sha) (new_mock O_SUCCEEDED) op pid amt (upper (la_currency body)) customer clearing corr))
       (\<lambda>e. raiseT (if is_ValueError e then HTTPException 409 (exn_message e) else e))))"

definition lifecycle_response :: "nat \<Rightarrow> string \<Rightarrow> payment_state \<Rightarrow> json" where
  "lifecycle_response pid op st =
     JObj [(''payment_id'', JStr (str_uuid pid)), (''operation'', JStr (upper op)), (''status'', JStr (state_text st))]"

definition lifecycle_run ::
    "(string \<Rightarrow> string) \<Rightarrow> (string \<Rightarrow> (string \<times> json) list option) \<Rightarrow> environ \<Rightarrow> nat \<Rightarrow> lifecycle_amount \<Rightarrow> string
      \<Rightarrow> string option \<Rightarrow> string option \<Rightarrow> db \<Rightarrow> (exn + json) \<times> db" where
  "lifecycle_run sha decode env pid body op auth corr d =
     (if \<not> valid_lifecycle_amount body then (http_error 422 ''request validation failed'', d)
      else case authenticate_payment decode env pid auth d of
        Inl e \<Rightarrow> (Inl e, d)
      | Inr _ \<Rightarrow>
          (let (r, d') = transact (lifecycle_work sha op pid body corr) d
           in case r of Inl e \<Rightarrow> (Inl e, d') | Inr st \<Rightarrow> (Inr (lifecycle_response pid op st), d')))"

section \<open>Who may move money\<close>

lemma authenticated:
  "authenticate_payment decode env pid auth d = Inr () \<longleftrightarrow>
     (\<exists>h q. auth = Some h \<and> is_bearer h \<and> payment_request_of pid d = Some q \<and>
        may_act decode env (bearer_token h) (str_uuid (q_agent q)) (str_uuid (q_account q)))"
proof (cases auth)
  case None
  then show ?thesis by (simp add: authenticate_payment_def)
next
  case (Some h)
  show ?thesis
  proof (cases "resolve_bearer decode env (Some (bearer_token h))")
    case (Inl e)
    with Some show ?thesis by (simp add: authenticate_payment_def may_act_def)
  next
    case (Inr p)
    show ?thesis
    proof (cases "payment_request_of pid d")
      case None
      with Some Inr show ?thesis by (simp add: authenticate_payment_def)
    next
      case (Some q)
      with \<open>auth = Some h\<close> Inr show ?thesis
        by (cases "require_agent p (str_uuid (q_agent q)) (str_uuid (q_account q))")
          (simp_all add: authenticate_payment_def may_act_def)
    qed
  qed
qed

text \<open>C15: the endpoints change the database only for a caller whose bearer token may act
  for exactly the agent and account of the payment's request, with a validated body; a response that is an
  error has changed nothing.\<close>

theorem lifecycle_authorized:
  assumes "lifecycle_run sha decode env pid body op auth corr d = (r, d')"
  shows "(d' \<noteq> d \<longrightarrow> is_ok r) \<and>
    (is_ok r \<or> d' \<noteq> d \<longrightarrow> valid_lifecycle_amount body \<and>
       (\<exists>h p q. auth = Some h \<and> is_bearer h \<and> row_by p_id pid (payments d) = Some p \<and>
          row_by q_id (p_request p) (requests d) = Some q \<and>
          may_act decode env (bearer_token h) (str_uuid (q_agent q)) (str_uuid (q_account q))))"
proof (cases "valid_lifecycle_amount body \<and> authenticate_payment decode env pid auth d = Inr ()")
  case True
  then obtain h q where h: "auth = Some h" "is_bearer h" "payment_request_of pid d = Some q"
    "may_act decode env (bearer_token h) (str_uuid (q_agent q)) (str_uuid (q_account q))"
    using authenticated by blast
  then obtain p where "row_by p_id pid (payments d) = Some p" "row_by q_id (p_request p) (requests d) = Some q"
    by (auto simp: payment_request_of_def split: option.splits)
  moreover have "d' \<noteq> d \<longrightarrow> is_ok r"
    using assms True
    by (auto simp: lifecycle_run_def transact_def is_ok_iff split: sum.splits prod.splits)
  ultimately show ?thesis using True h by blast
next
  case False
  then have "d' = d" "\<not> is_ok r"
    using assms by (auto simp: lifecycle_run_def split: if_splits sum.splits)
  then show ?thesis by simp
qed

lemma dispatch_cases:
  assumes "dispatch V prov op pid amt cur customer clearing corr d = Inr (r, d')"
  obtains p' where "capture V pid amt cur customer clearing corr prov d = (Inr (r, d'), p')"
    | p' where "void V pid amt cur prov d = (Inr (r, d'), p')"
    | p' where "refund V pid amt cur customer clearing corr prov d = (Inr (r, d'), p')"
proof -
  have "\<exists>p'. capture V pid amt cur customer clearing corr prov d = (Inr (r, d'), p') \<or>
      void V pid amt cur prov d = (Inr (r, d'), p') \<or>
      refund V pid amt cur customer clearing corr prov d = (Inr (r, d'), p')"
    using assms by (auto simp: dispatch_def split: if_splits) (metis prod.collapse)+
  with that show thesis by blast
qed

lemma dispatch_keeps:
  assumes "\<And>pid amt cur. keeps I (capture_begin pid amt cur)" "\<And>pid a b c q out. keeps I (capture_end pid a b c q out)"
    "\<And>pid amt cur. keeps I (void_begin pid amt cur)" "\<And>pid q out. keeps I (void_end pid q out)"
    "\<And>pid amt cur. keeps I (refund_begin pid amt cur)" "\<And>pid k a b c q out. keeps I (refund_end pid k a b c q out)"
  shows "keeps I (dispatch V prov op pid amt cur customer clearing corr)"
proof (rule keepsI)
  fix d r d'
  assume I: "I d" and run: "dispatch V prov op pid amt cur customer clearing corr d = Inr (r, d')"
  from dispatch_cases [OF run] show "I d'"
  proof cases
    case 1
    from around_call_keeps [OF assms(1,2) this [unfolded capture_def] I] show ?thesis .
  next
    case 2
    from around_call_keeps [OF assms(3,4) this [unfolded void_def] I] show ?thesis .
  next
    case 3
    from around_call_keeps [OF assms(5,6) this [unfolded refund_def] I] show ?thesis .
  qed
qed

lemma keeps_transactions_dispatch [keeps_intros]:
  "keeps transactions_ok (dispatch V prov op pid amt cur customer clearing corr)"
proof (rule keepsI)
  fix d r d'
  assume ok: "transactions_ok d" and run: "dispatch V prov op pid amt cur customer clearing corr d = Inr (r, d')"
  from dispatch_cases [OF run] show "transactions_ok d'"
  proof cases
    case 1
    from around_call_keeps [OF keeps_transactions_capture(1,2) this [unfolded capture_def] ok] show ?thesis .
  next
    case 2
    from around_call_keeps [OF keeps_transactions_capture(3,4) this [unfolded void_def] ok] show ?thesis .
  next
    case 3
    from refund_bounds [OF ok this] show ?thesis by blast
  qed
qed

lemma keeps_lifecycle_work [keeps_intros]:
  "keeps transactions_ok (lifecycle_work sha op pid body corr)"
  "keeps budgets_ok (lifecycle_work sha op pid body corr)"
  "keeps ledger_ok (lifecycle_work sha op pid body corr)"
  unfolding lifecycle_work_def
  by (intro keeps_intros dispatch_keeps)+

section \<open>A request\<close>

definition dev_env :: environ where
  "dev_env = [''AGENT_PAY_AUTH_MODE'' \<mapsto> ''development'', ''AGENT_PAY_DEV_TOKEN'' \<mapsto> ''t'',
     ''AGENT_PAY_DEV_AGENT_ID'' \<mapsto> str_uuid 2, ''AGENT_PAY_DEV_ACCOUNT_ID'' \<mapsto> str_uuid 1]"

definition dev_body :: lifecycle_amount where
  "dev_body = \<lparr>la_value = ''25.0000'', la_currency = ''usd''\<rparr>"

lemma str_uuid_nonempty [simp]: "str_uuid n \<noteq> []"
  by (simp add: str_uuid_def Let_def)

lemma digits_25: "digit_char 0 = CHR ''0''" "digit_char 2 = CHR ''2''" "digit_char 5 = CHR ''5''"
  by (simp_all add: digit_char_def char_of_def bit_iff_odd)

lemma dev_body_value: "finite_decimal ''25.0000'' = Inr (of_num4 250000)"
proof -
  have "str_dec (of_num4 250000) = ''25.0000''"
    by (simp add: str_dec_def Let_def str_nat_def nat_digits.simps digits_25 str_signed_def)
  then show ?thesis using parse_str_dec [of "of_num4 250000"] by (simp add: finite_decimal_def)
qed

lemma dev_body_valid: "valid_lifecycle_amount dev_body"
  by (simp add: valid_lifecycle_amount_def dev_body_def amount_text_def is_digit_def)

lemma dev_authenticated: "authenticate_payment (\<lambda>_. None) dev_env 5 (Some ''Bearer t'') authorized_db = Inr ()"
  by (simp add: authenticate_payment_def is_bearer_def resolve_bearer_def bearer_token_def dev_env_def auth_mode_def
      getenv_or_def require_agent_def payment_request_of_def authorized_db_def sample_defs text_eval)

theorem lifecycle_authorized_witness:
  "\<exists>j d'. lifecycle_run id (\<lambda>_. None) dev_env 5 dev_body ''capture'' (Some ''Bearer t'') None authorized_db = (Inr j, d') \<and>
     may_act (\<lambda>_. None) dev_env ''t'' (str_uuid 2) (str_uuid 1)"
proof -
  obtain d' p' where "capture (MockProvider id) 5 (of_num4 250000) ''USD'' 8 9 None (new_mock O_SUCCEEDED) authorized_db =
     (Inr (ST_SUCCEEDED, d'), p')"
    using authorized_capture by blast
  moreover have "lifecycle_accounts 5 authorized_db = Inr (8, 9)"
    by (simp add: lifecycle_accounts_def payment_accounts_def wallet_accounts_def clearing_account_def
        authorized_db_def sample_defs bp_eq_def)
  ultimately have run: "lifecycle_run id (\<lambda>_. None) dev_env 5 dev_body ''capture'' (Some ''Bearer t'') None authorized_db =
      (Inr (lifecycle_response 5 ''capture'' ST_SUCCEEDED), d')"
    using dev_body_valid dev_authenticated dev_body_value
    by (simp add: lifecycle_run_def lifecycle_work_def transact_def tryT_def dispatch_def dev_body_def text_eval)
  show ?thesis
    using run lifecycle_authorized [OF run]
    by (simp add: authorized_db_def sample_defs bearer_token_def text_eval)
qed

end
