(* ===== verification/Webhooks.thy ===== *)
theory Webhooks
  imports Resolver LifecycleApi
begin

text \<open>
  \<open>webhooks.py\<close>, the endpoint for provider events: the signature is verified before the body is
  parsed, the replay window is enforced when one is configured, and then one unit of work stores the event,
  finds the operation by its provider reference and resolves it. The resolver opens a unit of work of its
  own on the same connection; \<open>nested_tail\<close> shows that the whole is one transaction. HMAC, SHA-256,
  \<open>json.loads\<close> and \<open>datetime.fromisoformat\<close> are parameters.
\<close>

section \<open>Configuration\<close>

definition is_alnum :: "char \<Rightarrow> bool" where
  "is_alnum c \<longleftrightarrow> is_digit c \<or> (let n = (of_char c :: nat) in 65 \<le> n \<and> n \<le> 90 \<or> 97 \<le> n \<and> n \<le> 122)"

definition secret_name :: "string \<Rightarrow> string" where
  "secret_name name =
     ''AGENT_PAY_PROVIDER_WEBHOOK_SECRET_'' @ map (\<lambda>c. if is_alnum c then c else CHR ''_'') (upper name)"

definition secret_for :: "environ \<Rightarrow> string \<Rightarrow> string" where
  "secret_for env name =
     (case env (secret_name name) of
        Some s \<Rightarrow> if s \<noteq> [] then s else getenv_or env ''AGENT_PAY_PROVIDER_WEBHOOK_SECRET'' []
      | None \<Rightarrow> getenv_or env ''AGENT_PAY_PROVIDER_WEBHOOK_SECRET'' [])"

text \<open>\<open>int(text)\<close>: digits with single underscores between them.\<close>

fun grouped_digits :: "string \<Rightarrow> bool" where
  "grouped_digits [] = False"
| "grouped_digits [c] = is_digit c"
| "grouped_digits (c # u # cs) =
     (is_digit c \<and> (if u = CHR ''_'' then grouped_digits cs else grouped_digits (u # cs)))"

definition py_int :: "string \<Rightarrow> int option" where
  "py_int s =
     (case parse_sign (strip s) of (neg, ds) \<Rightarrow>
        if grouped_digits ds
        then let n = int (nat_of_digits (filter (\<lambda>c. c \<noteq> CHR ''_'') ds)) in Some (if neg then - n else n)
        else None)"

definition enforce_replay_window ::
    "(string \<Rightarrow> datetime option) \<Rightarrow> environ \<Rightarrow> datetime \<Rightarrow> (string \<times> json) list \<Rightarrow> exn + unit" where
  "enforce_replay_window isoformat env now ms =
     (case py_int (getenv_or env ''AGENT_PAY_WEBHOOK_REPLAY_WINDOW_SECONDS'' ''0'') of
        None \<Rightarrow> http_error 500 ''invalid webhook replay-window configuration''
      | Some window \<Rightarrow>
          if window \<le> 0 then Inr ()
          else
            (case (if jtruth (jget ms ''occurred_at'') then jget ms ''occurred_at'' else jget ms ''timestamp'') of
               JStr t \<Rightarrow>
                 (case isoformat (concat (map (\<lambda>c. if c = CHR ''Z'' then ''+00:00'' else [c]) t)) of
                    None \<Rightarrow> http_error 400 ''invalid provider timestamp''
                  | Some parsed \<Rightarrow>
                      if window * 1000000 < \<bar>instant now - instant (default_utc parsed)\<bar>
                      then http_error 400 ''provider event is outside replay window''
                      else Inr ())
             | _ \<Rightarrow> http_error 400 ''provider timestamp is required''))"

section \<open>Before the database\<close>

text \<open>\<open>json.loads\<close> on bytes: a value, a \<open>JSONDecodeError\<close>, or text that cannot be decoded.\<close>

datatype parsed_body = Parsed json | Invalid_JSON | Invalid_Text

definition signed_body ::
    "(string \<Rightarrow> string \<Rightarrow> string) \<Rightarrow> (string \<Rightarrow> parsed_body) \<Rightarrow> environ \<Rightarrow> string \<Rightarrow> string \<Rightarrow> string option \<Rightarrow> exn + json" where
  "signed_body hmac loads env name body signature =
     (let secret = secret_for env name
      in case signature of
           None \<Rightarrow> http_error 401 ''invalid provider signature''
         | Some sig \<Rightarrow>
             if secret = [] \<or> sig = [] then http_error 401 ''invalid provider signature''
             else
               bindE (verify_hmac_signature hmac body sig secret) (\<lambda>ok.
               if \<not> ok then http_error 401 ''invalid provider signature''
               else case loads body of
                 Invalid_JSON \<Rightarrow> http_error 400 ''invalid JSON payload''
               | Invalid_Text \<Rightarrow> Inl (ValueError ''invalid text'')
               | Parsed v \<Rightarrow> Inr v))"

record webhook_event =
  wh_members :: "(string \<times> json) list"
  wh_event :: string
  wh_type :: string
  wh_reference :: json

definition webhook_input ::
    "(string \<Rightarrow> string \<Rightarrow> string) \<Rightarrow> (string \<Rightarrow> parsed_body) \<Rightarrow> (string \<Rightarrow> datetime option) \<Rightarrow> environ \<Rightarrow> datetime
      \<Rightarrow> string \<Rightarrow> string \<Rightarrow> string option \<Rightarrow> exn + webhook_event" where
  "webhook_input hmac loads isoformat env now name body signature =
     bindE (signed_body hmac loads env name body signature) (\<lambda>payload.
     case payload of
       JObj ms \<Rightarrow>
         bindE (enforce_replay_window isoformat env now ms) (\<lambda>_.
         case (jget ms ''event_id'', jget ms ''event_type'') of
           (JStr e, JStr ty) \<Rightarrow>
             Inr \<lparr>wh_members = ms, wh_event = e, wh_type = ty, wh_reference = jget ms ''provider_reference''\<rparr>
         | _ \<Rightarrow> http_error 400 ''event_id and event_type are required'')
     | _ \<Rightarrow> http_error 400 ''provider payload must be an object'')"

section \<open>The transaction\<close>

definition event_outcome :: "string \<Rightarrow> string option" where
  "event_outcome ty =
     (if ty = ''payment.succeeded'' then Some ''SUCCEEDED''
      else if ty = ''payment.failed'' then Some ''FAILED'' else None)"

text \<open>The latest operation with a provider reference; of operations created at the same instant, the one
  inserted last.\<close>

definition latest_by_reference :: "string \<Rightarrow> db \<Rightarrow> operation_row option" where
  "latest_by_reference ref d =
     (let ops = sort_key o_created (filter (\<lambda>op. o_reference op = Some ref) (operations d))
      in if ops = [] then None else Some (last ops))"

definition link_event :: "nat \<Rightarrow> nat \<Rightarrow> unit tx" where
  "link_event ev oid =
     modifyT (\<lambda>d. d\<lparr>provider_events := upd_by pe_id ev (\<lambda>e. e\<lparr>pe_operation := Some oid\<rparr>) (provider_events d)\<rparr>)"

definition webhook_response :: "string \<Rightarrow> string \<Rightarrow> json" where
  "webhook_response st e = JObj [(''status'', JStr st), (''event_id'', JStr e)]"

definition resolved_response :: "string \<Rightarrow> string \<Rightarrow> nat \<Rightarrow> json" where
  "resolved_response st e pid =
     JObj [(''status'', JStr st), (''event_id'', JStr e), (''payment_id'', JStr (str_uuid pid))]"

record resolution =
  rs_event :: nat
  rs_operation :: nat
  rs_payment :: nat
  rs_outcome :: string
  rs_reference :: string
  rs_customer :: nat
  rs_clearing :: nat

text \<open>The accounts the charge of an event is booked on, found as in \<open>lifecycle_api.py\<close>.\<close>

definition webhook_accounts :: "nat \<Rightarrow> db \<Rightarrow> exn + nat \<times> nat" where
  "webhook_accounts pid d =
     (case row_by p_id pid (payments d) of
        None \<Rightarrow> http_error 409 ''ledger accounts are not configured''
      | Some p \<Rightarrow>
          (case payment_accounts (p_currency p) pid d of
             None \<Rightarrow> http_error 409 ''ledger accounts are not configured''
           | Some accs \<Rightarrow> Inr accs))"

lemma webhook_accounts_eq [simp]: "webhook_accounts = lifecycle_accounts"
  by (simp add: fun_eq_iff webhook_accounts_def lifecycle_accounts_def)

text \<open>The statements before the resolver: an answer, or what is to be resolved.\<close>

definition webhook_find :: "webhook_event \<Rightarrow> nat \<Rightarrow> (json + resolution) tx" where
  "webhook_find w ev =
     (case event_outcome (wh_type w) of
        None \<Rightarrow> returnT (Inl (webhook_response ''ACCEPTED'' (wh_event w)))
      | Some outcome \<Rightarrow>
          (case wh_reference w of
             JStr ref \<Rightarrow>
               if ref = [] then raiseT (HTTPException 400 ''provider_reference is required for financial events'')
               else
                 bindT (queryT (latest_by_reference ref)) (\<lambda>found.
                 case found of
                   None \<Rightarrow> raiseT (HTTPException 404 ''provider operation not found'')
                 | Some op \<Rightarrow>
                     bindT (link_event ev (o_id op)) (\<lambda>_.
                     bindT (queryT (webhook_accounts (o_payment op))) (\<lambda>r.
                     bindT (liftT r) (\<lambda>(customer, clearing).
                     returnT (Inr \<lparr>rs_event = ev, rs_operation = o_id op, rs_payment = o_payment op,
                       rs_outcome = outcome, rs_reference = ref, rs_customer = customer,
                       rs_clearing = clearing\<rparr>)))))
           | _ \<Rightarrow> raiseT (HTTPException 400 ''provider_reference is required for financial events'')))"

definition webhook_store :: "(string \<Rightarrow> string) \<Rightarrow> string \<Rightarrow> webhook_event \<Rightarrow> (json + resolution) tx" where
  "webhook_store sha name w =
     bindT (record_event sha name (wh_event w) (wh_type w) (JObj (wh_members w)) True) (\<lambda>stored.
     case stored of
       None \<Rightarrow> returnT (Inl (webhook_response ''DUPLICATE'' (wh_event w)))
     | Some ev \<Rightarrow> webhook_find w ev)"

definition resolve_for :: "string option \<Rightarrow> resolution \<Rightarrow> string tx" where
  "resolve_for corr s =
     resolve (rs_event s) (rs_operation s) (rs_outcome s) (Some (rs_reference s)) (rs_customer s) (rs_clearing s) corr"

text \<open>On the connection: the outer unit of work, with the resolver's own inside.\<close>

definition on_success :: "('s, 'a) on_conn \<Rightarrow> ('a \<Rightarrow> ('s, 'b) on_conn) \<Rightarrow> ('s, 'b) on_conn" where
  "on_success f g c = (case f c of (Inl e, c1) \<Rightarrow> (Inl e, c1) | (Inr x, c1) \<Rightarrow> g x c1)"

definition webhook_body :: "(string \<Rightarrow> string) \<Rightarrow> string \<Rightarrow> webhook_event \<Rightarrow> string option \<Rightarrow> (db, json) on_conn" where
  "webhook_body sha name w corr =
     on_success (exec (webhook_store sha name w)) (\<lambda>z c.
     case z of
       Inl answer \<Rightarrow> (Inr answer, c)
     | Inr s \<Rightarrow>
         on_success (unit_of_work (exec (resolve_for corr s)))
           (\<lambda>st c. (Inr (resolved_response st (wh_event w) (rs_payment s)), c)) c)"

definition provider_webhook ::
    "(string \<Rightarrow> string \<Rightarrow> string) \<Rightarrow> (string \<Rightarrow> string) \<Rightarrow> (string \<Rightarrow> parsed_body) \<Rightarrow> (string \<Rightarrow> datetime option) \<Rightarrow> environ
      \<Rightarrow> datetime \<Rightarrow> string \<Rightarrow> string \<Rightarrow> string option \<Rightarrow> string option \<Rightarrow> db \<Rightarrow> (exn + json) \<times> db" where
  "provider_webhook hmac sha loads isoformat env now name body signature corr d =
     (case webhook_input hmac loads isoformat env now name body signature of
        Inl e \<Rightarrow> (Inl e, d)
      | Inr w \<Rightarrow> connection (unit_of_work (webhook_body sha name w corr)) d)"

section \<open>One transaction\<close>

text \<open>The statements of the outer unit of work followed by those of the inner one.\<close>

definition webhook_work :: "(string \<Rightarrow> string) \<Rightarrow> string \<Rightarrow> webhook_event \<Rightarrow> string option \<Rightarrow> json tx" where
  "webhook_work sha name w corr =
     bindT (webhook_store sha name w) (\<lambda>z.
     case z of
       Inl answer \<Rightarrow> returnT answer
     | Inr s \<Rightarrow> bindT (resolve_for corr s) (\<lambda>st. returnT (resolved_response st (wh_event w) (rs_payment s))))"

lemma nested_tail: "connection (unit_of_work (webhook_body sha name w corr)) d = transact (webhook_work sha name w corr) d"
proof (cases "webhook_store sha name w d")
  case (Inl e)
  then show ?thesis
    by (simp add: connection_def unit_of_work_def webhook_body_def on_success_def exec_def webhook_work_def
        transact_def begin_work_def rollback_def)
next
  case (Inr zd)
  obtain z d1 where zd: "zd = (z, d1)" by (cases zd)
  show ?thesis
  proof (cases z)
    case (Inl answer)
    with Inr zd show ?thesis
      by (simp add: connection_def unit_of_work_def webhook_body_def on_success_def exec_def webhook_work_def
          transact_def begin_work_def commit_def)
  next
    case (Inr s)
    with \<open>webhook_store sha name w d = Inr zd\<close> zd show ?thesis
      by (cases "resolve_for corr s d1")
        (auto simp: connection_def unit_of_work_def webhook_body_def on_success_def exec_def webhook_work_def
          transact_def begin_work_def commit_def rollback_def)
  qed
qed

section \<open>The books\<close>

lemma keeps_record_event:
  "(\<And>d v. P (d\<lparr>next_id := v\<rparr>) = P d) \<Longrightarrow> (\<And>d v. P (d\<lparr>provider_events := v\<rparr>) = P d) \<Longrightarrow>
     keeps P (record_event sha name e ty payload ok)"
  unfolding record_event_def Let_def by (intro keeps_intros keeps_modify keeps_draw_tables; simp)

lemma keeps_link_event: "(\<And>d v. P (d\<lparr>provider_events := v\<rparr>) = P d) \<Longrightarrow> keeps P (link_event ev oid)"
  unfolding link_event_def by (rule keeps_modify) simp

lemma keeps_json [keeps_intros]:
  "(\<And>s. keeps I (f s)) \<Longrightarrow> keeps I g \<Longrightarrow> keeps I (case v of JStr s \<Rightarrow> f s | _ \<Rightarrow> g)"
  by (cases v) simp_all

lemma keeps_record_books [keeps_intros]:
  "keeps transactions_ok (record_event sha name e ty payload ok)"
  "keeps budgets_ok (record_event sha name e ty payload ok)"
  "keeps ledger_ok (record_event sha name e ty payload ok)"
  unfolding record_event_def Let_def by (intro keeps_intros keeps_modify; simp)+

lemma keeps_webhook_work [keeps_intros]:
  "keeps transactions_ok (webhook_work sha name w corr)"
  "keeps budgets_ok (webhook_work sha name w corr)"
  "keeps ledger_ok (webhook_work sha name w corr)"
  unfolding webhook_work_def webhook_store_def webhook_find_def resolve_for_def
  by (intro keeps_intros keeps_link_event; simp)+

section \<open>Only signed events\<close>

definition signed_by :: "(string \<Rightarrow> string \<Rightarrow> string) \<Rightarrow> environ \<Rightarrow> string \<Rightarrow> string \<Rightarrow> string option \<Rightarrow> bool" where
  "signed_by hmac env name body signature \<longleftrightarrow>
     (\<exists>s. signature = Some s \<and> secret_for env name \<noteq> [] \<and> hmac (secret_for env name) body = removeprefix ''sha256='' s)"

lemma signed_body_signed: "signed_body hmac loads env name body signature = Inr v \<Longrightarrow> signed_by hmac env name body signature"
  by (auto simp: signed_body_def signed_by_def Let_def verify_hmac_signature_def err_simps split: option.splits if_splits)

lemma webhook_input_signed:
  "webhook_input hmac loads isoformat env now name body signature = Inr w \<Longrightarrow> signed_by hmac env name body signature"
  using signed_body_signed by (auto simp: webhook_input_def err_simps)

lemma webhook_run:
  assumes "provider_webhook hmac sha loads isoformat env now name body signature corr d = (Inr j, d')"
  obtains w where "webhook_input hmac loads isoformat env now name body signature = Inr w"
    "webhook_work sha name w corr d = Inr (j, d')"
  using assms by (cases "webhook_input hmac loads isoformat env now name body signature")
    (auto simp: provider_webhook_def nested_tail transact_Inr)

section \<open>Once per provider and event id\<close>

definition stored :: "string \<Rightarrow> string \<Rightarrow> db \<Rightarrow> bool" where
  "stored name e d \<longleftrightarrow> known (\<lambda>x. (pe_provider x, pe_event x)) (name, e) (provider_events d)"

lemma record_event_stored: "record_event sha name e ty payload ok d = Inr (r, d') \<Longrightarrow> stored name e d'"
  by (auto simp: record_event_def Let_def stored_def split: if_splits)

lemma keeps_stored_link [keeps_intros]: "keeps (stored name e) (link_event ev oid)"
  unfolding link_event_def by (rule keeps_modify) (simp add: stored_def keys_upd_by)

lemma keeps_stored_mark [keeps_intros]: "keeps (stored name e) (mark_processed ev)"
  unfolding mark_processed_def by (rule keeps_modify) (simp add: stored_def keys_upd_by)

lemma keeps_stored_frame: "frame (\<lambda>d. (provider_events d, payments d)) f \<Longrightarrow> keeps (stored name e) f"
proof (rule keepsI)
  fix d x d'
  assume fr: "frame (\<lambda>d. (provider_events d, payments d)) f" and s: "stored name e d" and run: "f d = Inr (x, d')"
  from frameD [OF fr run] s show "stored name e d'" by (simp add: stored_def)
qed

lemma keeps_stored_status: "keeps (stored name e) (update_status pid st ref)"
  unfolding update_status_def by (rule keeps_modify) (simp add: stored_def)

lemma keeps_stored_resolve [keeps_intros]:
  "keeps (stored name e) (resolve ev oid outcome ref customer clearing corr)"
  unfolding resolve_def resolve_succeeded_def resolve_failed_def
  by (intro keeps_intros keeps_close_operation keeps_stored_frame [OF book_charge_frame]
      keeps_stored_frame [OF budget_release_events] keeps_stored_status; simp add: stored_def)

lemma keeps_stored_find [keeps_intros]: "keeps (stored name e) (webhook_find w ev)"
  unfolding webhook_find_def by (intro keeps_intros)

lemma webhook_work_stored:
  assumes "webhook_work sha name w corr d = Inr (j, d')"
  shows "stored name (wh_event w) d'"
proof -
  define rest where "rest r = (case r of None \<Rightarrow> returnT (Inl (webhook_response ''DUPLICATE'' (wh_event w)))
     | Some ev \<Rightarrow> webhook_find w ev)" for r
  define last where "last z = (case z of Inl answer \<Rightarrow> returnT answer
     | Inr s \<Rightarrow> bindT (resolve_for corr s) (\<lambda>st. returnT (resolved_response st (wh_event w) (rs_payment s))))" for z
  have "keeps (stored name (wh_event w)) (rest r)" "keeps (stored name (wh_event w)) (last z)" for r z
    unfolding rest_def last_def resolve_for_def by (intro keeps_intros)+
  moreover obtain z d1 r d0 where "record_event sha name (wh_event w) (wh_type w) (JObj (wh_members w)) True d = Inr (r, d0)"
    "rest r d0 = Inr (z, d1)" "last z d1 = Inr (j, d')"
    using assms unfolding webhook_work_def webhook_store_def rest_def last_def bindT_Inr by blast
  ultimately show ?thesis using record_event_stored by (meson keepsD)
qed

lemma stored_duplicate:
  "stored name (wh_event w) d \<Longrightarrow> webhook_work sha name w corr d = Inr (webhook_response ''DUPLICATE'' (wh_event w), d)"
  by (simp add: webhook_work_def webhook_store_def record_event_def stored_def Let_def)


section \<open>An event of the provider\<close>

definition hook_env :: environ where
  "hook_env = [''AGENT_PAY_PROVIDER_WEBHOOK_SECRET_MOCK'' \<mapsto> ''k'']"

definition hook_members :: "(string \<times> json) list" where
  "hook_members = [(''event_id'', JStr ''e2''), (''event_type'', JStr ''payment.succeeded''), (''provider_reference'', JStr ''r'')]"

definition hook_now :: datetime where
  "hook_now = \<lparr>dt_ordinal = 738000, dt_time = Time 0 0 0 0, dt_utcoffset = Some 0\<rparr>"

definition hook_loads :: "string \<Rightarrow> parsed_body" where
  "hook_loads body = (if body = ''b'' then Parsed (JObj hook_members) else Invalid_JSON)"

lemma is_alnum_upper: "is_alnum CHR ''M''" "is_alnum CHR ''O''" "is_alnum CHR ''C''" "is_alnum CHR ''K''"
  by (simp_all add: is_alnum_def)

lemma hook_input:
  "webhook_input (\<lambda>k b. k @ b) hook_loads (\<lambda>_. None) hook_env hook_now ''mock'' ''b'' (Some ''sha256=kb'') =
     Inr \<lparr>wh_members = hook_members, wh_event = ''e2'', wh_type = ''payment.succeeded'', wh_reference = JStr ''r''\<rparr>"
  by (simp add: webhook_input_def signed_body_def secret_for_def secret_name_def is_alnum_upper text_eval hook_env_def
      verify_hmac_signature_def removeprefix_def is_ascii_def hook_loads_def enforce_replay_window_def getenv_or_def
      py_int_def hook_members_def is_digit_def nat_of_digits_def digit_of_def digits_value_def jget_def)

lemma hook_accepted:
  "\<exists>j d'. provider_webhook (\<lambda>k b. k @ b) id hook_loads (\<lambda>_. None) hook_env hook_now ''mock'' ''b'' (Some ''sha256=kb'') None
     unknown_db = (Inr j, d') \<and> posted_total ''CAPTURE'' 5 (transactions d') = 250000"
  by (simp add: provider_webhook_def nested_tail transact_def webhook_work_def webhook_store_def webhook_find_def
      hook_input record_event_def Let_def event_outcome_def latest_by_reference_def link_event_def
      lifecycle_accounts_def payment_accounts_def wallet_accounts_def clearing_account_def bp_eq_def resolve_for_def
      resolve_def joined_operation_def resolvable_def resolve_succeeded_def close_operation_def book_charge_def
      resolver_transaction_def create_transaction_def budget_consume_def move_budget_def references_def post_pair_runs
      post_transaction_def set_transaction_def update_status_def mark_processed_def posted_total_def posted_rows_def
      unknown_db_def ready_db_def held_db_def sample_defs text_eval char3_def positive_num4_def to_num4_def
      ten_thousandths_def check_num4_def num4_max_def)


section \<open>An unknown outcome that no event can resolve\<close>

lemma claim_references:
  assumes "claim_payment pid d = Inr (x, d')" "op \<in> set (operations d')" "o_reference op = Some r"
  shows "op \<in> set (operations d)"
  using assms
  by (auto simp: claim_payment_def create_provider_operation_def new_operation_def references_def update_status_def
      err_simps split: option.splits if_splits)

lemma unknown_references:
  assumes "finalize_unknown pid res ref corr d = Inr (x, d')" "op \<in> set (operations d')"
  shows "\<exists>op' \<in> set (operations d). o_reference op = o_reference op'"
proof -
  obtain op' where "op' \<in> set (operations d)" "op = (if is_charge_of pid op' then op'\<lparr>o_status := ''UNKNOWN''\<rparr> else op')"
    using assms by (auto simp: finalize_unknown_def update_charges_def update_status_def enqueue_def)
  then show ?thesis by (auto intro: bexI [where x = op'])
qed

lemma process_unknown_references:
  assumes "process_one V pid customer clearing corr (d, prov) = (Inr ST_UNKNOWN_EXTERNAL_OUTCOME, d', prov')"
    and no: "\<forall>op \<in> set (operations d). o_reference op \<noteq> Some r"
  shows "\<forall>op \<in> set (operations d'). o_reference op \<noteq> Some r"
proof -
  obtain rid amt cur res d1 out ref where 1: "claim_payment pid d = Inr ((rid, amt, cur, res), d1)"
    and 2: "finalize pid rid res amt cur customer clearing out ref corr d1 = Inr (ST_UNKNOWN_EXTERNAL_OUTCOME, d')"
    using process_one_cases [OF assms(1)] by metis
  note cf = claim_can_finalize [OF 1]
  obtain p where p: "row_by p_id pid (payments d1) = Some p" "p_status p = ST_PROCESSING"
    using cf by (auto simp: can_finalize_def)
  have "ST_UNKNOWN_EXTERNAL_OUTCOME = outcome_state out" using finalize_settles [OF cf 2] by blast
  then have "out = O_UNKNOWN" by (cases out) (simp_all add: outcome_state_def)
  with finalize_runs [OF 2 p] have "finalize_unknown pid res ref corr d1 = Inr (ST_UNKNOWN_EXTERNAL_OUTCOME, d')" by simp
  from unknown_references [OF this] claim_references [OF 1] no show ?thesis by metis
qed

text \<open>C32: when the worker ends with an unknown outcome, the provider's reference is stored
  with the payment but not with the operation; unless an earlier operation carries the reference, the
  provider's confirmation of that charge is answered 404, its event is not kept, and the payment stays
  unknown.\<close>

theorem unknown_unresolvable:
  assumes "process_one V pid customer clearing corr (d, prov) = (Inr ST_UNKNOWN_EXTERNAL_OUTCOME, d', prov')"
    and "\<forall>op \<in> set (operations d). o_reference op \<noteq> Some r" "r \<noteq> []"
    and "webhook_input hmac loads isoformat env now name body signature = Inr w"
    and "wh_reference w = JStr r" "event_outcome (wh_type w) = Some out" "\<not> stored name (wh_event w) d'"
  shows "provider_webhook hmac sha loads isoformat env now name body signature corr' d' =
    (Inl (HTTPException 404 ''provider operation not found''), d')"
proof -
  have "filter (\<lambda>op. o_reference op = Some r) (operations d') = []"
    using process_unknown_references [OF assms(1,2)] by simp
  then have "latest_by_reference r (d'\<lparr>next_id := n, provider_events := v\<rparr>) = None" for n v
    by (simp add: latest_by_reference_def)
  then have "webhook_work sha name w corr' d' = Inl (HTTPException 404 ''provider operation not found'')"
    using assms(3,5-7)
    by (simp add: webhook_work_def webhook_store_def webhook_find_def record_event_def Let_def stored_def)
  with assms(4) show ?thesis by (simp add: provider_webhook_def nested_tail transact_def)
qed

lemma unknown_processed:
  "\<exists>d' p'. process_one (MockProvider id) 5 8 9 None (ready_db, new_mock O_UNKNOWN) =
     (Inr ST_UNKNOWN_EXTERNAL_OUTCOME, d', p') \<and> provider_events d' = []"
  by (simp add: process_one_def transact_def claim_payment_def create_provider_operation_def new_operation_def
     provider_step_def latest_charge_def is_charge_of_def durable_outcome_def execute_external_def MockProvider_def
     keyed_provider_def keyed_call_def mock_run_def new_mock_def
     finalize_def select_payment_def finalize_unknown_def update_charges_def
     references_def update_status_def enqueue_def ready_db_def held_db_def sample_defs text_eval
     deq_def)

theorem unknown_unresolvable_witness:
  "\<exists>d' p'. process_one (MockProvider id) 5 8 9 None (ready_db, new_mock O_UNKNOWN) =
     (Inr ST_UNKNOWN_EXTERNAL_OUTCOME, d', p') \<and>
   provider_webhook (\<lambda>k b. k @ b) id hook_loads (\<lambda>_. None) hook_env hook_now ''mock'' ''b'' (Some ''sha256=kb'') None d' =
     (Inl (HTTPException 404 ''provider operation not found''), d')"
proof -
  obtain d' p' where run: "process_one (MockProvider id) 5 8 9 None (ready_db, new_mock O_UNKNOWN) =
     (Inr ST_UNKNOWN_EXTERNAL_OUTCOME, d', p')" and ev: "provider_events d' = []"
    using unknown_processed by blast
  have "\<forall>op \<in> set (operations ready_db). o_reference op \<noteq> Some ''r''"
    by (simp add: ready_db_def held_db_def sample_defs)
  from unknown_unresolvable [OF run this _ hook_input] ev run show ?thesis
    by (simp add: stored_def event_outcome_def)
qed

end
