(* ===== verification/PolicyRules.thy ===== *)
theory PolicyRules
  imports Policy Webhooks "HOL-Library.Sublist"
begin

text \<open>
  The other half of \<open>policy.py\<close>: building a policy from the JSON rules of a policy version. The rules
  are whatever was stored, so every access can fail the way Python does on the value it finds. Limits may be
  infinite or not a number; \<open>evaluate_rules\<close> evaluates with such limits, and \<open>evaluate_rules_finite\<close>
  shows that it is the evaluation of the theory Policy when they are finite. Reading a time of day
  (\<open>time.fromisoformat\<close>, without an offset) is a parameter.
\<close>

section \<open>Python on JSON values\<close>

text \<open>\<open>key in v\<close>, \<open>v[key]\<close>, \<open>v.get(key, default)\<close> and iterating over \<open>v\<close>.\<close>

fun has_key :: "json \<Rightarrow> string \<Rightarrow> exn + bool" where
  "has_key (JObj ms) k = Inr (map_of ms k \<noteq> None)"
| "has_key (JArr vs) k = Inr (JStr k \<in> set vs)"
| "has_key (JStr s) k = Inr (sublist k s)"
| "has_key v k = Inl (TypeError ''argument is not iterable'')"

fun index_key :: "json \<Rightarrow> string \<Rightarrow> exn + json" where
  "index_key (JObj ms) k = jindex ms k"
| "index_key v k = Inl (TypeError ''indices must be integers'')"

fun get_key_or :: "json \<Rightarrow> string \<Rightarrow> json \<Rightarrow> exn + json" where
  "get_key_or (JObj ms) k v0 = Inr (jget_or ms k v0)"
| "get_key_or v k v0 = Inl (AttributeError ''get'')"

fun iterate :: "json \<Rightarrow> exn + json list" where
  "iterate (JArr vs) = Inr vs"
| "iterate (JObj ms) = Inr (map (\<lambda>m. JStr (fst m)) ms)"
| "iterate (JStr s) = Inr (map (\<lambda>c. JStr [c]) s)"
| "iterate v = Inl (TypeError ''object is not iterable'')"

text \<open>\<open>int(v)\<close>; a float is cut off at the point.\<close>

fun py_int_of :: "json \<Rightarrow> exn + int" where
  "py_int_of (JInt i) = Inr i"
| "py_int_of (JBool b) = Inr (if b then 1 else 0)"
| "py_int_of (JFloat r) =
     bindE (parse_decimal r) (\<lambda>v.
     case v of
       Finite a \<Rightarrow> Inr (dtrunc a)
     | NaN \<Rightarrow> Inl (ValueError ''cannot convert float NaN to integer'')
     | Infinite _ \<Rightarrow> Inl (RuntimeError ''cannot convert float infinity to integer''))"
| "py_int_of (JStr s) =
     (case py_int s of Some i \<Rightarrow> Inr i | None \<Rightarrow> Inl (ValueError ''invalid literal for int() with base 10''))"
| "py_int_of v = Inl (TypeError ''int() argument must be a string or a number'')"

fun all_ok :: "('a \<Rightarrow> exn + 'b) \<Rightarrow> 'a list \<Rightarrow> exn + 'b list" where
  "all_ok f [] = Inr []"
| "all_ok f (x # xs) = bindE (f x) (\<lambda>y. bindE (all_ok f xs) (\<lambda>ys. Inr (y # ys)))"

section \<open>Parsing the sections\<close>

definition parse_weekdays :: "json \<Rightarrow> exn + int set" where
  "parse_weekdays v =
     (case v of
        JArr vs \<Rightarrow>
          bindE (all_ok py_int_of vs) (\<lambda>days.
          if list_ex (\<lambda>i. i < 0 \<or> 6 < i) days then Inl (ValueError ''weekday must be between 0 and 6'')
          else Inr (set days))
      | _ \<Rightarrow> Inl (ValueError ''weekdays must be a list''))"

definition parse_time :: "(string \<Rightarrow> pytime option) \<Rightarrow> json \<Rightarrow> exn + pytime" where
  "parse_time timeformat v =
     (case v of
        JStr s \<Rightarrow> (case timeformat s of Some t \<Rightarrow> Inr t | None \<Rightarrow> Inl (ValueError ''Invalid isoformat string''))
      | _ \<Rightarrow> Inl (ValueError ''time must be HH:MM''))"

text \<open>\<open>parse(section.get(key)) if key in section else None\<close>.\<close>

definition optional_key :: "(json \<Rightarrow> exn + 'a) \<Rightarrow> json \<Rightarrow> string \<Rightarrow> exn + 'a option" where
  "optional_key f v k =
     bindE (has_key v k) (\<lambda>present.
     if present then bindE (get_key_or v k JNull) (\<lambda>x. bindE (f x) (\<lambda>y. Inr (Some y))) else Inr None)"

text \<open>The handler of the schedule: TypeError and ValueError become one ValueError.\<close>

definition schedule_error :: "exn + 'a \<Rightarrow> exn + 'a" where
  "schedule_error r =
     (case r of
        Inl (TypeError m) \<Rightarrow> Inl (ValueError ''invalid policy schedule'')
      | Inl e \<Rightarrow> if is_ValueError e then Inl (ValueError ''invalid policy schedule'') else Inl e
      | Inr x \<Rightarrow> Inr x)"

definition decimal_of :: "json \<Rightarrow> exn + pydec" where
  "decimal_of v = parse_decimal (py_str v)"

definition decimal_or_none :: "json \<Rightarrow> exn + pydec option" where
  "decimal_or_none v = (if v = JNull then Inr None else bindE (decimal_of v) (\<lambda>x. Inr (Some x)))"

text \<open>\<open>frozenset(f(str(x)) for x in v)\<close>; an allow list is read by index or by \<open>get\<close>.\<close>

definition text_set :: "(string \<Rightarrow> string) \<Rightarrow> json \<Rightarrow> exn + string set" where
  "text_set f v = bindE (iterate v) (\<lambda>xs. Inr (set (map (\<lambda>x. f (py_str x)) xs)))"

definition allow_set :: "(json \<Rightarrow> string \<Rightarrow> exn + json) \<Rightarrow> (string \<Rightarrow> string) \<Rightarrow> json \<Rightarrow> string \<Rightarrow> exn + string set option" where
  "allow_set read f v k =
     bindE (has_key v k) (\<lambda>present.
     if present then bindE (read v k) (\<lambda>x. bindE (text_set f x) (\<lambda>s. Inr (Some s))) else Inr None)"

definition deny_set :: "(string \<Rightarrow> string) \<Rightarrow> json \<Rightarrow> string \<Rightarrow> exn + string set" where
  "deny_set f v k = bindE (get_key_or v k (JArr [])) (text_set f)"

section \<open>\<open>from_rules\<close>\<close>

record rule_limits =
  rl_transaction :: pydec
  rl_notify :: "pydec option"
  rl_approval :: "pydec option"

text \<open>The limits are kept beside the policy, whose own limit fields hold finite stand-ins.\<close>

definition finite_or_zero :: "pydec \<Rightarrow> decimal" where
  "finite_or_zero v = (case v of Finite a \<Rightarrow> a | _ \<Rightarrow> dzero)"

definition from_rules :: "(string \<Rightarrow> pytime option) \<Rightarrow> json \<Rightarrow> exn + rule_limits \<times> SpendingPolicy" where
  "from_rules timeformat rules =
     bindE (get_key_or rules ''limits'' (JObj [])) (\<lambda>limits.
     bindE (get_key_or rules ''merchant'' (JObj [])) (\<lambda>mer.
     bindE (get_key_or rules ''categories'' (JObj [])) (\<lambda>cats.
     bindE (get_key_or rules ''currency'' (JObj [])) (\<lambda>cur.
     bindE (get_key_or rules ''region'' (JObj [])) (\<lambda>reg.
     bindE (get_key_or rules ''instrument'' (JObj [])) (\<lambda>ins.
     bindE (get_key_or rules ''schedule'' (JObj [])) (\<lambda>schedule.
     bindE (schedule_error
             (bindE (optional_key parse_weekdays schedule ''allow_weekdays'') (\<lambda>days.
              bindE (optional_key (parse_time timeformat) schedule ''start_time'') (\<lambda>start.
              bindE (optional_key (parse_time timeformat) schedule ''end_time'') (\<lambda>stop.
              Inr (days, start, stop)))))) (\<lambda>(days, start, stop).
     bindE (get_key_or limits ''per_transaction'' (JStr ''0'')) (\<lambda>v.
     bindE (decimal_of v) (\<lambda>limit.
     bindE (get_key_or limits ''notify_above'' JNull) (\<lambda>v.
     bindE (decimal_or_none v) (\<lambda>notify.
     bindE (get_key_or limits ''approval_above'' JNull) (\<lambda>v.
     bindE (decimal_or_none v) (\<lambda>approval.
     bindE (allow_set index_key (\<lambda>s. lower (strip s)) cats ''allow'') (\<lambda>a_cats.
     bindE (deny_set (\<lambda>s. lower (strip s)) cats ''deny'') (\<lambda>d_cats.
     bindE (allow_set index_key (\<lambda>s. lower (strip s)) mer ''allow_domains'') (\<lambda>a_doms.
     bindE (deny_set (\<lambda>s. lower (strip s)) mer ''deny_domains'') (\<lambda>d_doms.
     bindE (allow_set (\<lambda>v k. get_key_or v k (JArr [])) upper cur ''allow'') (\<lambda>a_curs.
     bindE (deny_set upper cur ''deny'') (\<lambda>d_curs.
     bindE (allow_set index_key upper reg ''allow'') (\<lambda>a_regs.
     bindE (deny_set upper reg ''deny'') (\<lambda>d_regs.
     bindE (allow_set index_key lower ins ''allow'') (\<lambda>a_ins.
     bindE (deny_set lower ins ''deny'') (\<lambda>d_ins.
     Inr (\<lparr>rl_transaction = limit, rl_notify = notify, rl_approval = approval\<rparr>,
          \<lparr>per_transaction_limit = finite_or_zero limit, notify_above = map_option finite_or_zero notify,
           approval_above = map_option finite_or_zero approval, allowed_categories = a_cats, denied_categories = d_cats,
           allowed_domains = a_doms, denied_domains = d_doms, allowed_currencies = a_curs, denied_currencies = d_curs,
           allowed_regions = a_regs, denied_regions = d_regs, allowed_instrument_classes = a_ins,
           denied_instrument_classes = d_ins, allowed_weekdays = days, start_time = start, end_time = stop\<rparr>)))))))))))))))))))))))))"

section \<open>Evaluation with any limits\<close>

definition pd_text :: "pydec \<Rightarrow> string" where
  "pd_text v = (case v of Finite a \<Rightarrow> str_dec a | Infinite neg \<Rightarrow> (if neg then ''-Infinity'' else ''Infinity'') | NaN \<Rightarrow> ''NaN'')"

definition pd_above :: "pydec option \<Rightarrow> decimal \<Rightarrow> exn + bool" where
  "pd_above t v = (case t of None \<Rightarrow> Inr False | Some x \<Rightarrow> pd_less x (Finite v))"

definition evaluate_rules ::
    "rule_limits \<times> SpendingPolicy \<Rightarrow> payment_intent \<Rightarrow> string option \<Rightarrow> string option \<Rightarrow> exn + PolicyDecision" where
  "evaluate_rules lp i category version =
     (let (l, p) = lp; amt = money_value (amount i);
          result = (\<lambda>dec why rules. \<lparr>decision = dec, policy_version = version, reasons = why, evaluated_rules = rules\<rparr>);
          rules = [''amount <= '' @ pd_text (rl_transaction l), currency_rule p]
      in bindE (pd_le (rl_transaction l) (Finite dzero)) (\<lambda>unset.
         if unset then Inr (result DENY [''POLICY_LIMIT_NOT_CONFIGURED''] [''per_transaction_limit > 0''])
         else bindE (pd_less (rl_transaction l) (Finite amt)) (\<lambda>exceeds.
         let why = reason_if exceeds ''AMOUNT_EXCEEDS_TRANSACTION_LIMIT'' @ other_reasons p i category
         in if why \<noteq> [] then Inr (result DENY why rules)
            else bindE (pd_above (rl_approval l) amt) (\<lambda>ask.
              if ask then Inr (result REQUIRE_APPROVAL [''AMOUNT_REQUIRES_APPROVAL''] rules)
              else bindE (pd_above (rl_notify l) amt) (\<lambda>notify.
                Inr (if notify then result ALLOW_NOTIFY [''AMOUNT_REQUIRES_NOTIFICATION''] rules
                     else result ALLOW_AUTO [''POLICY_ALLOWED''] rules))))))"

text \<open>\<open>evidence()\<close>.\<close>

definition decision_evidence :: "PolicyDecision \<Rightarrow> json" where
  "decision_evidence r =
     JObj [(''decision'', JStr (decision_value (decision r))), (''policy_version'', jopt (policy_version r)),
           (''reasons'', JArr (map JStr (reasons r))), (''evaluated_rules'', JArr (map JStr (evaluated_rules r)))]"

lemma other_reasons_denial:
  "dless (per_transaction_limit p) (money_value (amount i)) = exceeds \<Longrightarrow>
     denial_reasons p i category = reason_if exceeds ''AMOUNT_EXCEEDS_TRANSACTION_LIMIT'' @ other_reasons p i category"
  using denial_reasons_amount by simp

definition finite_limits :: "rule_limits \<Rightarrow> bool" where
  "finite_limits l \<longleftrightarrow> (\<exists>a. rl_transaction l = Finite a) \<and> (\<forall>x. rl_notify l = Some x \<longrightarrow> (\<exists>a. x = Finite a)) \<and>
     (\<forall>x. rl_approval l = Some x \<longrightarrow> (\<exists>a. x = Finite a))"

lemma pd_above_finite:
  assumes "\<forall>x. t = Some x \<longrightarrow> (\<exists>a. x = Finite a)"
  shows "pd_above t v = Inr (above (map_option finite_or_zero t) v)"
  using assms by (cases t) (auto simp: pd_above_def above_def finite_or_zero_def)

lemma rules_finite:
  assumes "finite_limits l" "per_transaction_limit p = finite_or_zero (rl_transaction l)"
    "notify_above p = map_option finite_or_zero (rl_notify l)"
    "approval_above p = map_option finite_or_zero (rl_approval l)"
  shows "evaluate_rules (l, p) i category version = Inr (evaluate_with_trace p i category version)"
proof -
  obtain a where a: "rl_transaction l = Finite a" using assms(1) by (auto simp: finite_limits_def)
  have "pd_above (rl_notify l) v = Inr (above (notify_above p) v)"
    "pd_above (rl_approval l) v = Inr (above (approval_above p) v)" for v
    using assms(1,3,4) by (simp_all add: finite_limits_def pd_above_finite)
  then show ?thesis
    using a assms(2)
    by (auto simp: evaluate_rules_def evaluate_with_trace_def Let_def pd_text_def finite_or_zero_def
        denial_reasons_amount)
qed

section \<open>Policies from rules\<close>

lemma from_rules_limits:
  assumes "from_rules timeformat rules = Inr (l, p)"
  shows "per_transaction_limit p = finite_or_zero (rl_transaction l) \<and>
    notify_above p = map_option finite_or_zero (rl_notify l) \<and>
    approval_above p = map_option finite_or_zero (rl_approval l)"
  using assms by (auto simp: from_rules_def err_simps)


definition sample_rules :: json where
  "sample_rules = JObj [(''limits'', JObj [(''per_transaction'', JStr ''100''), (''approval_above'', JInt 50)])]"

lemma parse_ints: "parse_decimal ''100'' = Inr (Finite (Dec 100 0))" "parse_decimal ''50'' = Inr (Finite (Dec 50 0))"
proof -
  have "str_dec (Dec 100 0) = ''100''" "str_dec (Dec 50 0) = ''50''"
    by (simp_all add: str_dec_def Let_def str_nat_def nat_digits.simps digit_char_def char_of_def bit_iff_odd str_signed_def)
  then show "parse_decimal ''100'' = Inr (Finite (Dec 100 0))" "parse_decimal ''50'' = Inr (Finite (Dec 50 0))"
    using parse_str_dec [of "Dec 100 0"] parse_str_dec [of "Dec 50 0"] by simp_all
qed

lemma sample_from_rules:
  "from_rules (\<lambda>_. None) sample_rules =
     Inr (\<lparr>rl_transaction = Finite (Dec 100 0), rl_notify = None, rl_approval = Some (Finite (Dec 50 0))\<rparr>,
          \<lparr>per_transaction_limit = Dec 100 0, notify_above = None, approval_above = Some (Dec 50 0),
           allowed_categories = None, denied_categories = {}, allowed_domains = None, denied_domains = {},
           allowed_currencies = None, denied_currencies = {}, allowed_regions = None, denied_regions = {},
           allowed_instrument_classes = None, denied_instrument_classes = {}, allowed_weekdays = None,
           start_time = None, end_time = None\<rparr>)"
proof -
  have i: "str_int 50 = ''50''"
    by (simp add: str_int_def str_nat_def nat_digits.simps digit_char_def char_of_def bit_iff_odd)
  show ?thesis
    by (simp add: from_rules_def sample_rules_def jget_or_def optional_key_def schedule_error_def decimal_of_def
        decimal_or_none_def i parse_ints allow_set_def deny_set_def text_set_def finite_or_zero_def)
qed


end
