(* ===== verification/Approval.thy ===== *)
theory Approval
  imports Domain Json
begin

text \<open>
  \<open>approval.py\<close>: the immutable binding of an approval to a payment request and the guard of its
  state machine. SHA-256 is a parameter; what the model shows is that the text it is applied to
  determines the bound fields.
\<close>

record approval_binding =
  bd_request :: string
  bd_account :: string
  bd_agent :: string
  bd_amount :: decimal
  bd_currency :: string
  bd_merchant :: "string option"
  bd_policy_version :: "string option"
  bd_evidence :: "string option"

definition binding_payload :: "approval_binding \<Rightarrow> json" where
  "binding_payload b = JObj
     [(''payment_request_id'', JStr (bd_request b)),
      (''account_id'', JStr (bd_account b)),
      (''agent_id'', JStr (bd_agent b)),
      (''amount'', JStr (str_dec (bd_amount b))),
      (''currency'', JStr (upper (bd_currency b))),
      (''merchant_reference'', jopt (bd_merchant b)),
      (''policy_version_id'', jopt (bd_policy_version b)),
      (''authorization_evidence_id'', jopt (bd_evidence b))]"

definition binding_digest :: "(string \<Rightarrow> string) \<Rightarrow> approval_binding \<Rightarrow> string" where
  "binding_digest sha b = sha (canonical (binding_payload b))"

definition ensure_pending :: "datetime \<Rightarrow> string \<Rightarrow> datetime option \<Rightarrow> exn + unit" where
  "ensure_pending now status expires_at =
     (if status \<noteq> ''PENDING'' then Inl (ApprovalError ''approval is no longer pending'')
      else case expires_at of
        None \<Rightarrow> Inr ()
      | Some e \<Rightarrow>
          (if instant (default_utc e) \<le> instant now then Inl (ApprovalError ''approval has expired'')
           else Inr ()))"

section \<open>What the digest binds\<close>

text \<open>Two bindings that mean the same: only the case of the currency may differ.\<close>

definition same_binding :: "approval_binding \<Rightarrow> approval_binding \<Rightarrow> bool" where
  "same_binding b c \<longleftrightarrow>
     bd_request b = bd_request c \<and> bd_account b = bd_account c \<and> bd_agent b = bd_agent c \<and>
     bd_amount b = bd_amount c \<and> upper (bd_currency b) = upper (bd_currency c) \<and>
     bd_merchant b = bd_merchant c \<and> bd_policy_version b = bd_policy_version c \<and>
     bd_evidence b = bd_evidence c"

lemma sort_members_jopt [simp]: "sort_members (jopt s) = jopt s"
  by (simp add: jopt_def split: option.split)

lemma sort_binding_payload:
  "sort_members (binding_payload b) = JObj
     [(''account_id'', JStr (bd_account b)),
      (''agent_id'', JStr (bd_agent b)),
      (''amount'', JStr (str_dec (bd_amount b))),
      (''authorization_evidence_id'', jopt (bd_evidence b)),
      (''currency'', JStr (upper (bd_currency b))),
      (''merchant_reference'', jopt (bd_merchant b)),
      (''payment_request_id'', JStr (bd_request b)),
      (''policy_version_id'', jopt (bd_policy_version b))]"
  by (simp add: binding_payload_def sort_key_def less_char_def less_eq_char_def)

text \<open>C38: the text an approval's digest is computed from determines the payment
  request, account, agent, amount, currency (up to case), merchant, policy version and authorization
  evidence: two bindings have the same canonical text exactly when they agree on all of them, so an
  approval cannot be moved to another intent without finding a collision of the hash.\<close>

theorem binding_text_binds:
  "canonical (binding_payload b) = canonical (binding_payload c) \<longleftrightarrow> same_binding b c"
  by (auto simp: canonical_def sort_binding_payload same_binding_def)

end
