(* ===== verification/Control.thy ===== *)
theory Control
  imports PolicyRules Approval
begin

text \<open>
  \<open>control.py\<close>: the statements on policies, budgets and approvals that the API is made of. What they
  find in the database depends on the server profile: without the columns of an approval's digest, or on a
  server that does not lock the nullable side of an outer join, the statements fail. Times of day in policy
  rules are read by a parameter, and SHA-256 is one.
\<close>

section \<open>Policies\<close>

text \<open>The newest active version: of one policy, or of the account's most recently updated policy.\<close>

definition active_versions :: "nat \<Rightarrow> nat option \<Rightarrow> db \<Rightarrow> (policy_row \<times> policy_version_row) list" where
  "active_versions acct policy d =
     concat (map (\<lambda>p. map (Pair p) (filter (\<lambda>v. pv_policy v = pol_id p \<and> pv_status v = ''ACTIVE'') (policy_versions d)))
       (filter (\<lambda>p. pol_account p = acct \<and> pol_active p \<and> (policy = None \<or> policy = Some (pol_id p))) (policies d)))"

definition version_rank :: "nat option \<Rightarrow> policy_row \<times> policy_version_row \<Rightarrow> int \<times> int" where
  "version_rank policy r = (if policy = None then - pol_updated (fst r) else 0, - pv_version (snd r))"

definition active_policy :: "nat \<Rightarrow> nat option \<Rightarrow> db \<Rightarrow> (policy_row \<times> policy_version_row) option" where
  "active_policy acct policy d =
     (case sort_key (version_rank policy) (active_versions acct policy d) of [] \<Rightarrow> None | r # _ \<Rightarrow> Some r)"

text \<open>The intent the API evaluates has neither a time nor a region nor an instrument.\<close>

definition api_intent :: "nat \<Rightarrow> nat \<Rightarrow> money \<Rightarrow> string \<Rightarrow> payment_intent" where
  "api_intent pid agent m domain =
     \<lparr>payment_id = str_uuid pid, agent_id = str_uuid agent, amount = m, merchant_domain = domain, idempotency_key = [],
      merchant_category = None, region = None, instrument_class = None, requested_at = None\<rparr>"

definition no_policy :: json where
  "no_policy = JObj [(''decision'', JStr ''DENY''), (''reasons'', JArr [JStr ''NO_ACTIVE_POLICY'']), (''evaluated_rules'', JArr [])]"

definition evaluate_policy ::
    "(string \<Rightarrow> pytime option) \<Rightarrow> nat \<Rightarrow> nat option \<Rightarrow> nat \<Rightarrow> nat \<Rightarrow> nat \<Rightarrow> decimal \<Rightarrow> string \<Rightarrow> string \<Rightarrow> string option
      \<Rightarrow> (Decision \<times> nat option \<times> json) tx" where
  "evaluate_policy timeformat acct policy rid agent pid amt cur domain category =
     bindT (queryT (active_policy acct policy)) (\<lambda>row.
     case row of
       None \<Rightarrow> returnT (DENY, None, no_policy)
     | Some (p, v) \<Rightarrow>
         bindT (liftT (mk_money amt cur)) (\<lambda>m.
         bindT (liftT (from_rules timeformat (pv_rules v))) (\<lambda>rules.
         bindT (liftT (evaluate_rules rules (api_intent pid agent m domain) category
                  (Some (str_uuid (pv_id v) @ '':v'' @ str_int (pv_version v))))) (\<lambda>r.
         bindT (modifyT (\<lambda>d. d\<lparr>requests := upd_by q_id rid (\<lambda>q. q\<lparr>q_policy_version := Some (pv_id v)\<rparr>) (requests d)\<rparr>)) (\<lambda>_.
         returnT (decision r, Some (pv_id v), decision_evidence r))))))"

section \<open>Budgets\<close>

definition compatible_budget :: "nat \<Rightarrow> string \<Rightarrow> nat option \<Rightarrow> budget_row \<Rightarrow> bool" where
  "compatible_budget acct cur policy b \<longleftrightarrow>
     b_account b = acct \<and> bp_eq (b_currency b) cur \<and> b_status b = ''ACTIVE'' \<and>
     (b_policy b = None \<or> (policy \<noteq> None \<and> b_policy b = policy))"

definition select_budget :: "nat \<Rightarrow> nat option \<Rightarrow> string \<Rightarrow> nat option \<Rightarrow> db \<Rightarrow> nat option" where
  "select_budget acct budget cur policy d =
     (case budget of
        Some bid \<Rightarrow>
          (case filter (\<lambda>b. b_id b = bid \<and> compatible_budget acct cur policy b) (budgets d) of
             [] \<Rightarrow> None
           | b # _ \<Rightarrow> Some (b_id b))
      | None \<Rightarrow>
          (case filter (compatible_budget acct cur policy) (budgets d) of
             [b] \<Rightarrow> Some (b_id b)
           | _ \<Rightarrow> None))"

definition bind_budget :: "nat \<Rightarrow> nat \<Rightarrow> unit tx" where
  "bind_budget rid bid =
     modifyT (\<lambda>d. d\<lparr>requests := upd_by q_id rid (\<lambda>q. q\<lparr>q_budget := Some bid\<rparr>) (requests d)\<rparr>)"

section \<open>Approvals\<close>

definition undefined_column :: "'a tx" where
  "undefined_column = raiseT (DbError ''UndefinedColumn'')"

text \<open>The binding of a request as it is stored now.\<close>

definition request_binding :: "db \<Rightarrow> request_row \<Rightarrow> approval_binding" where
  "request_binding d q =
     \<lparr>bd_request = str_uuid (q_id q), bd_account = str_uuid (q_account q), bd_agent = str_uuid (q_agent q),
      bd_amount = of_num4 (q_amount q), bd_currency = strip (q_currency q),
      bd_merchant = Option.bind (Option.bind (q_merchant q) (\<lambda>m. row_by m_id m (merchants d))) m_domain,
      bd_policy_version = map_option str_uuid (q_policy_version q),
      bd_evidence = map_option str_uuid (q_evidence q)\<rparr>"

definition create_approval :: "(string \<Rightarrow> string) \<Rightarrow> nat \<Rightarrow> string option \<Rightarrow> int \<Rightarrow> nat tx" where
  "create_approval sha rid reason minutes =
     bindT (queryT (\<lambda>d. map_option (request_binding d) (row_by q_id rid (requests d)))) (\<lambda>row.
     case row of
       None \<Rightarrow> raiseT (LookupError ''payment request not found'')
     | Some b \<Rightarrow>
         bindT (queryT (\<lambda>d. has_approval_digest (profile d))) (\<lambda>columns.
         if \<not> columns then undefined_column
         else
           bindT draw_id (\<lambda>i.
           bindT (modifyT (\<lambda>d. d\<lparr>approvals := approvals d @
             [\<lparr>ap_id = i, ap_request = rid, ap_status = AP_PENDING, ap_expires = Some (clock d + minutes * 60000000),
               ap_approved = None, ap_approved_by = None, ap_reason = reason, ap_digest = Some (binding_digest sha b),
               ap_decided = None\<rparr>]\<rparr>)) (\<lambda>_.
           returnT i))))"

definition get_approval :: "nat \<Rightarrow> approval_row option tx" where
  "get_approval i =
     bindT (queryT (\<lambda>d. has_approval_digest (profile d))) (\<lambda>columns.
     if \<not> columns then undefined_column else queryT (\<lambda>d. row_by ap_id i (approvals d)))"

definition decide_row ::
    "approval_state \<Rightarrow> string option \<Rightarrow> string option \<Rightarrow> int \<Rightarrow> approval_row \<Rightarrow> approval_row" where
  "decide_row st actor reason now a =
     a\<lparr>ap_status := st, ap_decided := Some now,
       ap_approved := (if st = AP_APPROVED then Some now else ap_approved a),
       ap_approved_by := (if st = AP_APPROVED then actor else ap_approved_by a),
       ap_reason := coalesce reason (ap_reason a)\<rparr>"

definition set_approval :: "nat \<Rightarrow> approval_state \<Rightarrow> string option \<Rightarrow> string option \<Rightarrow> unit tx" where
  "set_approval i st actor reason =
     bindT (queryT (\<lambda>d. has_approval_digest (profile d))) (\<lambda>columns.
     if \<not> columns then undefined_column
     else modifyT (\<lambda>d. d\<lparr>approvals := upd_by ap_id i (decide_row st actor reason (clock d)) (approvals d)\<rparr>))"

text \<open>The request with its payment, locked: the server has to lock through the outer join with the
  merchants.\<close>

definition payment_request :: "nat \<Rightarrow> (request_row \<times> payment_row) option tx" where
  "payment_request rid =
     bindT (queryT (\<lambda>d. locks_outer_join (profile d))) (\<lambda>locks.
     if \<not> locks then raiseT (DbError ''FeatureNotSupported'')
     else queryT (\<lambda>d.
       case row_by q_id rid (requests d) of
         None \<Rightarrow> None
       | Some q \<Rightarrow> map_option (Pair q) (row_by p_request rid (payments d))))"

definition approval_binding_digest :: "(string \<Rightarrow> string) \<Rightarrow> nat \<Rightarrow> string tx" where
  "approval_binding_digest sha rid =
     bindT (payment_request rid) (\<lambda>row.
     case row of
       None \<Rightarrow> raiseT (LookupError ''payment request not found'')
     | Some (q, p) \<Rightarrow> queryT (\<lambda>d. binding_digest sha (request_binding d q)))"

section \<open>Rules the API cannot satisfy\<close>

definition needs_more :: "SpendingPolicy \<Rightarrow> bool" where
  "needs_more p \<longleftrightarrow> allowed_weekdays p \<noteq> None \<or> start_time p \<noteq> None \<or> end_time p \<noteq> None \<or>
     allowed_regions p \<noteq> None \<or> allowed_instrument_classes p \<noteq> None"

lemma api_reasons: "needs_more p \<Longrightarrow> other_reasons p (api_intent pid agent m domain) category \<noteq> []"
  by (auto simp: needs_more_def other_reasons_def denial_reasons_def api_intent_def weekday_reasons_def window_reasons_def
      opt_not_allowed_def n_region_def n_instrument_def norm_text_def)

lemma api_evaluation:
  assumes "evaluate_rules (l, p) (api_intent pid agent m domain) category ver = Inr r" "needs_more p"
  shows "decision r = DENY"
proof -
  obtain u where u: "pd_le (rl_transaction l) (Finite dzero) = Inr u"
    using assms(1) by (cases "pd_le (rl_transaction l) (Finite dzero)") (simp_all add: evaluate_rules_def Let_def)
  show ?thesis
  proof (cases u)
    case True
    with u assms(1) show ?thesis by (auto simp: evaluate_rules_def Let_def)
  next
    case False
    obtain e where "pd_less (rl_transaction l) (Finite (money_value (amount (api_intent pid agent m domain)))) = Inr e"
      using u False assms(1)
      by (cases "pd_less (rl_transaction l) (Finite (money_value (amount (api_intent pid agent m domain))))")
        (simp_all add: evaluate_rules_def Let_def)
    with u False assms(1) api_reasons [OF assms(2), of pid agent m domain category] show ?thesis
      by (auto simp: evaluate_rules_def Let_def)
  qed
qed

text \<open>C36: the API evaluates a policy without a time, a region or an instrument, so that a policy
  with a weekday or time window, or with an allow list of regions or instruments, denies every payment.\<close>

theorem schedule_denies:
  assumes "active_policy acct policy d = Some (p, v)" "from_rules timeformat (pv_rules v) = Inr (l, sp)" "needs_more sp"
    and "evaluate_policy timeformat acct policy rid agent pid amt cur domain category d = Inr ((dec, ver, evid), d')"
  shows "dec = DENY \<and> ver = Some (pv_id v)"
proof -
  obtain m r where "evaluate_rules (l, sp) (api_intent pid agent m domain) category
      (Some (str_uuid (pv_id v) @ '':v'' @ str_int (pv_version v))) = Inr r" "dec = decision r" "ver = Some (pv_id v)"
    using assms(1,2,4) by (auto simp: evaluate_policy_def err_simps)
  with api_evaluation [OF _ assms(3)] show ?thesis by blast
qed

definition monday_rules :: json where
  "monday_rules = JObj [(''limits'', JObj [(''per_transaction'', JStr ''100'')]), (''schedule'', JObj [(''allow_weekdays'', JArr [JInt 0])])]"

definition monday_db :: db where
  "monday_db = sample_db\<lparr>policies := [\<lparr>pol_id = 6, pol_account = 1, pol_active = True, pol_updated = 0\<rparr>],
     policy_versions := [\<lparr>pv_id = 7, pv_policy = 6, pv_version = 1, pv_rules = monday_rules, pv_status = ''ACTIVE''\<rparr>]\<rparr>"

theorem schedule_denies_witness:
  "\<exists>evid d'. evaluate_policy (\<lambda>_. None) 1 None 4 2 5 (of_num4 250000) ''USD'' [] None monday_db = Inr ((DENY, Some 7, evid), d')"
proof -
  let ?v = "\<lparr>pv_id = 7, pv_policy = 6, pv_version = 1, pv_rules = monday_rules, pv_status = ''ACTIVE''\<rparr>"
  have a: "active_policy 1 None monday_db = Some (\<lparr>pol_id = 6, pol_account = 1, pol_active = True, pol_updated = 0\<rparr>, ?v)"
    by (simp add: active_policy_def active_versions_def monday_db_def)
  have "\<exists>l sp. from_rules (\<lambda>_. None) (pv_rules ?v) = Inr (l, sp) \<and> needs_more sp \<and> rl_transaction l = Finite (Dec 100 0) \<and>
    rl_approval l = None \<and> rl_notify l = None"
    by (simp add: monday_rules_def from_rules_def jget_or_def optional_key_def parse_weekdays_def schedule_error_def decimal_of_def
        decimal_or_none_def parse_ints allow_set_def deny_set_def text_set_def finite_or_zero_def needs_more_def)
  then obtain l sp where f: "from_rules (\<lambda>_. None) (pv_rules ?v) = Inr (l, sp)" "needs_more sp"
    "rl_transaction l = Finite (Dec 100 0)" "rl_approval l = None" "rl_notify l = None" by blast
  have "\<exists>dec ver evid d'. evaluate_policy (\<lambda>_. None) 1 None 4 2 5 (of_num4 250000) ''USD'' [] None monday_db =
      Inr ((dec, ver, evid), d')"
    using a f by (simp add: evaluate_policy_def mk_money_def evaluate_rules_def Let_def dec_simps dval_def of_num4_def
        pd_above_def api_intent_def)
  then obtain dec ver evid d' where run: "evaluate_policy (\<lambda>_. None) 1 None 4 2 5 (of_num4 250000) ''USD'' [] None monday_db =
      Inr ((dec, ver, evid), d')" by blast
  show ?thesis using run schedule_denies [OF a f(1,2) run] by simp
qed

end
