(* ===== verification/Api.thy ===== *)
theory Api
  imports Control
begin

text \<open>
  \<open>api.py\<close>: creating a payment and deciding an approval. A payment is created in one unit of work:
  replay by idempotency key, signed evidence, request and payment rows, the policy, the budget, and then an
  approval or the start of the payment. A denial is committed before the error is answered. The JWT and
  hash libraries and the clock of the process are parameters (\<open>externals\<close>); the framework validates a
  request body before the handler runs.
\<close>

section \<open>Requests\<close>

record api_merchant =
  am_name :: string
  am_domain :: "string option"
  am_category :: "string option"

record payment_item =
  pi_name :: string
  pi_quantity :: int
  pi_price :: string

record api_evidence =
  ae_id :: string
  ae_issuer :: string
  ae_type :: string
  ae_delegation :: "string option"
  ae_scope :: "string list"
  ae_max_amount :: "string option"
  ae_currency :: "string option"
  ae_expires :: "string option"
  ae_digest :: "string option"
  ae_version :: "string option"
  ae_assertion :: "string option"

record create_body =
  cb_agent :: nat
  cb_account :: nat
  cb_policy :: "nat option"
  cb_budget :: "nat option"
  cb_merchant :: "api_merchant option"
  cb_amount :: string
  cb_currency :: string
  cb_purpose :: string
  cb_items :: "payment_item list"
  cb_evidence :: "api_evidence option"

definition valid_body :: "create_body \<Rightarrow> bool" where
  "valid_body b \<longleftrightarrow> amount_text (cb_amount b) \<and> length (cb_currency b) = 3 \<and>
     1 \<le> length (cb_purpose b) \<and> length (cb_purpose b) \<le> 500 \<and>
     list_all (\<lambda>i. 0 < pi_quantity i \<and> amount_text (pi_price i)) (cb_items b)"

text \<open>\<open>model_dump(mode="json")\<close>.\<close>

definition item_json :: "payment_item \<Rightarrow> json" where
  "item_json i = JObj [(''name'', JStr (pi_name i)), (''quantity'', JInt (pi_quantity i)), (''unit_price'', JStr (pi_price i))]"

definition evidence_members :: "api_evidence \<Rightarrow> (string \<times> json) list" where
  "evidence_members e =
     [(''evidence_id'', JStr (ae_id e)), (''issuer'', JStr (ae_issuer e)), (''evidence_type'', JStr (ae_type e)),
      (''delegation_id'', jopt (ae_delegation e)), (''scope'', JArr (map JStr (ae_scope e))),
      (''max_amount'', jopt (ae_max_amount e)), (''currency'', jopt (ae_currency e)), (''expires_at'', jopt (ae_expires e)),
      (''digest'', jopt (ae_digest e)), (''version'', jopt (ae_version e)), (''signed_assertion'', jopt (ae_assertion e))]"

definition merchant_json :: "api_merchant \<Rightarrow> json" where
  "merchant_json m = JObj [(''name'', JStr (am_name m)), (''domain'', jopt (am_domain m)), (''category'', jopt (am_category m))]"

definition json_of_option :: "('a \<Rightarrow> json) \<Rightarrow> 'a option \<Rightarrow> json" where
  "json_of_option f x = (case x of None \<Rightarrow> JNull | Some y \<Rightarrow> f y)"

definition body_json :: "create_body \<Rightarrow> json" where
  "body_json b = JObj
     [(''agent_id'', JStr (str_uuid (cb_agent b))), (''account_id'', JStr (str_uuid (cb_account b))),
      (''policy_id'', jopt (map_option str_uuid (cb_policy b))), (''budget_id'', jopt (map_option str_uuid (cb_budget b))),
      (''merchant'', json_of_option merchant_json (cb_merchant b)),
      (''amount'', JObj [(''value'', JStr (cb_amount b)), (''currency'', JStr (cb_currency b))]),
      (''purpose'', JStr (cb_purpose b)), (''items'', JArr (map item_json (cb_items b))),
      (''authorization_evidence'', json_of_option (\<lambda>e. JObj (evidence_members e)) (cb_evidence b))]"

definition request_fingerprint :: "(string \<Rightarrow> string) \<Rightarrow> create_body \<Rightarrow> string" where
  "request_fingerprint sha b = sha (canonical (body_json b))"

section \<open>What is outside the program\<close>

record externals =
  ex_sha :: "string \<Rightarrow> string"
  ex_oidc :: "string \<Rightarrow> (string \<times> json) list option"
  ex_atf :: "string \<Rightarrow> (string \<times> json) list option"
  ex_float_time :: "string \<Rightarrow> exn + datetime"
  ex_time :: "string \<Rightarrow> pytime option"
  ex_env :: environ
  ex_now :: datetime

definition atf_config_of :: "environ \<Rightarrow> atf_config" where
  "atf_config_of env = \<lparr>atf_jwks_url = env ''AGENT_PAY_ATF_JWKS_URL'', atf_issuer = env ''AGENT_PAY_ATF_ISSUER'',
     atf_audience = env ''AGENT_PAY_ATF_AUDIENCE''\<rparr>"

definition authenticate_agent :: "externals \<Rightarrow> string option \<Rightarrow> create_body \<Rightarrow> exn + unit" where
  "authenticate_agent x auth b =
     (case auth of
        None \<Rightarrow> http_error 401 ''Bearer authentication is required''
      | Some h \<Rightarrow>
          if \<not> is_bearer h then http_error 401 ''Bearer authentication is required''
          else case bindE (resolve_bearer (ex_oidc x) (ex_env x) (Some (bearer_token h)))
                      (\<lambda>p. require_agent p (str_uuid (cb_agent b)) (str_uuid (cb_account b))) of
            Inl e \<Rightarrow> if is_PermissionError e then http_error 403 (exn_message e) else Inl e
          | Inr _ \<Rightarrow> Inr ())"

section \<open>Evidence\<close>

text \<open>An empty text given by the client is not compared.\<close>

definition mismatch :: "string option \<Rightarrow> string \<Rightarrow> bool" where
  "mismatch given verified \<longleftrightarrow> given \<noteq> None \<and> given \<noteq> Some [] \<and> given \<noteq> Some verified"

definition check_evidence ::
    "externals \<Rightarrow> create_body \<Rightarrow> api_evidence \<Rightarrow> string \<Rightarrow> decimal \<Rightarrow> string \<Rightarrow> exn + authorization_context" where
  "check_evidence x b e assertion amt cur =
     bindE (verify_signed_assertion (ex_sha x) (ex_float_time x) (ex_atf x) (atf_config_of (ex_env x)) assertion
              (str_uuid (cb_agent b)) (str_uuid (cb_account b)) amt cur) (\<lambda>c.
     bindE (validate_context (ex_now x) c (str_uuid (cb_agent b)) (str_uuid (cb_account b)) amt cur ''PAYMENT'') (\<lambda>_.
     if mismatch (Some (ae_id e)) (evidence_id c) then
       auth_error ''authorization evidence id does not match signed evidence''
     else if ae_version e \<noteq> None \<and> ae_version e \<noteq> Some [] \<and> ae_version e \<noteq> ctx_version c then
       auth_error ''authorization evidence version does not match signed evidence''
     else if mismatch (Some (ae_issuer e)) (issuer c) then
       auth_error ''authorization evidence issuer does not match signed evidence''
     else Inr c))"

definition evidence_error :: "exn + 'a \<Rightarrow> exn + 'a" where
  "evidence_error r =
     (case r of
        Inl e \<Rightarrow> if is_AuthorizationError e \<or> is_ValueError e then http_error 403 (exn_message e) else Inl e
      | Inr v \<Rightarrow> Inr v)"

definition verified_payload :: "api_evidence \<Rightarrow> authorization_context \<Rightarrow> json" where
  "verified_payload e c =
     JObj (evidence_members e @
       [(''verified_evidence_id'', JStr (evidence_id c)), (''verified_issuer'', JStr (issuer c)),
        (''verified_version'', jopt (ctx_version c)), (''verified_digest'', jopt (ctx_digest c))])"

definition insert_evidence :: "nat \<Rightarrow> nat \<Rightarrow> api_evidence \<Rightarrow> authorization_context \<Rightarrow> nat tx" where
  "insert_evidence acct agent e c =
     bindT (queryT (\<lambda>d. acct \<in> set (accounts d) \<and> agent \<in> set (agents d))) (\<lambda>refs_ok.
     bindT (references refs_ok ''authorization_evidence'') (\<lambda>_.
     bindT draw_id (\<lambda>i.
     bindT (modifyT (\<lambda>d. d\<lparr>evidences := evidences d @
       [\<lparr>ev_id = i, ev_account = acct, ev_agent = agent, ev_issuer = Some (issuer c), ev_type = ae_type e,
         ev_subject = evidence_id c, ev_expires = map_option instant (valid_until c), ev_payload = verified_payload e c,
         ev_status = ''VERIFIED'', ev_request = None\<rparr>]\<rparr>)) (\<lambda>_.
     returnT i))))"

definition store_evidence :: "externals \<Rightarrow> create_body \<Rightarrow> decimal \<Rightarrow> string \<Rightarrow> (nat \<times> authorization_context) tx" where
  "store_evidence x b amt cur =
     (case cb_evidence b of
        None \<Rightarrow> raiseT (HTTPException 403 ''verifiable ATF authorization evidence is required'')
      | Some e \<Rightarrow>
          (case ae_assertion e of
             None \<Rightarrow> raiseT (HTTPException 403 ''cryptographically signed ATF authorization evidence is required'')
           | Some s \<Rightarrow>
               if s = [] then raiseT (HTTPException 403 ''cryptographically signed ATF authorization evidence is required'')
               else
                 bindT (liftT (evidence_error (check_evidence x b e s amt cur))) (\<lambda>c.
                 bindT (insert_evidence (cb_account b) (cb_agent b) e c) (\<lambda>i.
                 returnT (i, c)))))"

text \<open>The request is bound to its evidence; the column of the context's hash has to be there.\<close>

definition bind_evidence :: "nat \<Rightarrow> nat \<Rightarrow> string option \<Rightarrow> unit tx" where
  "bind_evidence rid ev hash =
     bindT (queryT (\<lambda>d. has_context_hash (profile d))) (\<lambda>column.
     if \<not> column then undefined_column
     else
       bindT (modifyT (\<lambda>d. d\<lparr>requests := upd_by q_id rid (\<lambda>q. q\<lparr>q_evidence := Some ev, q_context_hash := hash\<rparr>) (requests d)\<rparr>)) (\<lambda>_.
       modifyT (\<lambda>d. d\<lparr>evidences := upd_by ev_id ev (\<lambda>e. e\<lparr>ev_request := Some rid\<rparr>) (evidences d)\<rparr>)))"

section \<open>Creating a payment\<close>

definition payment_response :: "nat \<Rightarrow> payment_state \<Rightarrow> json" where
  "payment_response pid st = JObj [(''payment_id'', JStr (str_uuid pid)), (''status'', JStr (state_text st))]"

definition replay_answer :: "string \<Rightarrow> request_row \<Rightarrow> json tx" where
  "replay_answer fprint q =
     (if q_fingerprint q \<noteq> None \<and> q_fingerprint q \<noteq> Some [] \<and> q_fingerprint q \<noteq> Some fprint then
        raiseT (HTTPException 409 ''idempotency key was already used with a different payment request'')
      else
        bindT (queryT (\<lambda>d. row_by p_request (q_id q) (payments d))) (\<lambda>row.
        case row of
          Some p \<Rightarrow> returnT (payment_response (p_id p) (p_status p))
        | None \<Rightarrow> raiseT (HTTPException 409 ''idempotency key already belongs to an incomplete request'')))"

text \<open>\<open>conn.transaction()\<close> around the insert: a uniqueness conflict leaves the transaction usable.\<close>

definition insert_request :: "create_body \<Rightarrow> string \<Rightarrow> string \<Rightarrow> nat option \<Rightarrow> decimal \<Rightarrow> string \<Rightarrow> (json + nat) tx" where
  "insert_request b key fprint merch amt cur =
     tryT (bindT (create_request (cb_account b) (cb_agent b) amt cur (cb_purpose b) (JArr (map item_json (cb_items b)))
              key (Some fprint) merch) (\<lambda>i. returnT (Inr i)))
       (\<lambda>e. case e of
          UniqueViolation _ \<Rightarrow>
            bindT (find_by_idempotency (cb_account b) key) (\<lambda>found.
            case found of
              None \<Rightarrow> raiseT (HTTPException 409 ''idempotency key conflict could not be resolved'')
            | Some q \<Rightarrow> bindT (replay_answer fprint q) (\<lambda>j. returnT (Inl j)))
        | _ \<Rightarrow> raiseT e)"

text \<open>\<open>str(version_id)\<close>.\<close>

definition version_text :: "nat option \<Rightarrow> string" where
  "version_text v = (case v of None \<Rightarrow> ''None'' | Some i \<Rightarrow> str_uuid i)"

definition refuse ::
    "nat \<Rightarrow> (string \<times> json) list \<Rightarrow> string option \<Rightarrow> nat \<Rightarrow> string \<Rightarrow> (json + nat \<times> string) tx" where
  "refuse pid payload corr status message =
     bindT (update_status pid ST_FAILED None) (\<lambda>_.
     bindT (enqueue ''PaymentFailed'' ''payment'' pid (JObj payload) corr) (\<lambda>_.
     returnT (Inr (status, message))))"

definition ask_approval ::
    "(string \<Rightarrow> string) \<Rightarrow> nat \<Rightarrow> nat \<Rightarrow> nat \<Rightarrow> nat option \<Rightarrow> json \<Rightarrow> string option \<Rightarrow> (json + nat \<times> string) tx" where
  "ask_approval sha rid pid bid ver evid corr =
     bindT (create_approval sha rid (Some ''policy requires approval'') 15) (\<lambda>ap.
     bindT (update_status pid ST_APPROVAL_REQUIRED None) (\<lambda>_.
     bindT (enqueue ''ApprovalRequested'' ''payment'' pid
              (JObj [(''approval_id'', JStr (str_uuid ap)), (''policy_version_id'', JStr (version_text ver)),
                     (''budget_id'', JStr (str_uuid bid)), (''policy_decision'', evid)]) corr) (\<lambda>_.
     returnT (Inl (JObj [(''payment_id'', JStr (str_uuid pid)), (''status'', JStr ''APPROVAL_REQUIRED''),
                         (''approval_id'', JStr (str_uuid ap)), (''correlation_id'', jopt corr)])))))"

definition start_payment ::
    "nat \<Rightarrow> nat \<Rightarrow> nat \<Rightarrow> string \<Rightarrow> decimal \<Rightarrow> string \<Rightarrow> Decision \<Rightarrow> json \<Rightarrow> string option \<Rightarrow> (json + nat \<times> string) tx" where
  "start_payment rid pid bid amt_text amt cur dec evid corr =
     bindT (prepare pid rid bid amt cur corr) (\<lambda>_.
     bindT (if dec = ALLOW_NOTIFY
            then bindT (enqueue ''NotificationRequested'' ''payment'' pid
                   (JObj [(''type'', JStr ''PAYMENT_EXECUTION''), (''amount'', JStr amt_text), (''currency'', JStr cur)]) corr)
                   (\<lambda>_. returnT ())
            else returnT ()) (\<lambda>_.
     returnT (Inl (JObj [(''payment_id'', JStr (str_uuid pid)), (''status'', JStr ''PROCESSING''),
                         (''decision'', JStr (decision_value dec)), (''policy_evidence'', evid),
                         (''correlation_id'', jopt corr)]))))"

text \<open>From the decision of the policy on.\<close>

definition policy_of_version :: "nat option \<Rightarrow> db \<Rightarrow> nat option" where
  "policy_of_version ver d =
     Option.bind ver (\<lambda>i. map_option pv_policy (row_by pv_id i (policy_versions d)))"

definition control_payment ::
    "externals \<Rightarrow> create_body \<Rightarrow> nat \<Rightarrow> nat \<Rightarrow> decimal \<Rightarrow> string \<Rightarrow> string option \<Rightarrow> Decision \<times> nat option \<times> json
      \<Rightarrow> (json + nat \<times> string) tx" where
  "control_payment x b rid pid amt cur corr result =
     (case result of (dec, ver, evid) \<Rightarrow>
       bindT (queryT (policy_of_version ver)) (\<lambda>policy.
       if dec = DENY then
         refuse pid [(''reason'', JStr ''POLICY_DENIED''), (''policy_version_id'', JStr (version_text ver)),
                     (''policy_decision'', evid)] corr 403 ''payment denied by policy''
       else
         bindT (queryT (select_budget (cb_account b) (cb_budget b) cur policy)) (\<lambda>found.
         case found of
           None \<Rightarrow>
             refuse pid [(''reason'', JStr ''BUDGET_UNAVAILABLE''), (''policy_version_id'', JStr (version_text ver))] corr
               409 ''exactly one active compatible budget is required''
         | Some bid \<Rightarrow>
             bindT (bind_budget rid bid) (\<lambda>_.
             if dec = REQUIRE_APPROVAL then ask_approval (ex_sha x) rid pid bid ver evid corr
             else start_payment rid pid bid (cb_amount b) amt cur dec evid corr))))"

text \<open>A LookupError of the policy's evaluation is answered 403 after the commit.\<close>

definition is_LookupError :: "exn \<Rightarrow> bool" where
  "is_LookupError e = (case e of LookupError _ \<Rightarrow> True | KeyError _ \<Rightarrow> True | _ \<Rightarrow> False)"

definition decide_payment ::
    "externals \<Rightarrow> create_body \<Rightarrow> nat \<Rightarrow> nat \<Rightarrow> decimal \<Rightarrow> string \<Rightarrow> string option \<Rightarrow> (json + nat \<times> string) tx" where
  "decide_payment x b rid pid amt cur corr =
     bindT (tryT (bindT (evaluate_policy (ex_time x) (cb_account b) (cb_policy b) rid (cb_agent b) pid amt cur
                    (case Option.bind (cb_merchant b) am_domain of None \<Rightarrow> [] | Some s \<Rightarrow> s)
                    (Option.bind (cb_merchant b) am_category)) (\<lambda>r. returnT (Inr r)))
             (\<lambda>e. if is_LookupError e then returnT (Inl (403, exn_message e)) else raiseT e)) (\<lambda>r.
     case r of
       Inl refused \<Rightarrow> returnT (Inr refused)
     | Inr result \<Rightarrow> control_payment x b rid pid amt cur corr result)"

definition new_payment ::
    "externals \<Rightarrow> create_body \<Rightarrow> string \<Rightarrow> string \<Rightarrow> string option \<Rightarrow> (json + nat \<times> string) tx" where
  "new_payment x b key fprint corr =
     bindT (case cb_merchant b of None \<Rightarrow> returnT None | Some m \<Rightarrow> merchant (am_name m) (am_domain m)) (\<lambda>merch.
     bindT (liftT (finite_decimal (cb_amount b))) (\<lambda>amt.
     let cur = upper (cb_currency b) in
     bindT (store_evidence x b amt cur) (\<lambda>(ev, c).
     bindT (insert_request b key fprint merch amt cur) (\<lambda>z.
     case z of
       Inl j \<Rightarrow> returnT (Inl j)
     | Inr rid \<Rightarrow>
         bindT (bind_evidence rid ev (ctx_digest c)) (\<lambda>_.
         bindT (insert_payment rid amt cur ST_POLICY_CHECK) (\<lambda>pid.
         decide_payment x b rid pid amt cur corr))))))"

definition create_work :: "externals \<Rightarrow> create_body \<Rightarrow> string \<Rightarrow> string option \<Rightarrow> (json + nat \<times> string) tx" where
  "create_work x b key corr =
     (let fprint = request_fingerprint (ex_sha x) b in
      bindT (find_by_idempotency (cb_account b) key) (\<lambda>found.
      case found of
        Some q \<Rightarrow> bindT (replay_answer fprint q) (\<lambda>j. returnT (Inl j))
      | None \<Rightarrow> new_payment x b key fprint corr))"

definition check_key :: "string option \<Rightarrow> exn + string" where
  "check_key key =
     (case key of
        None \<Rightarrow> http_error 400 ''Idempotency-Key is required''
      | Some k \<Rightarrow>
          if strip k = [] then http_error 400 ''Idempotency-Key is required''
          else if 255 < length k then http_error 400 ''Idempotency-Key is too long''
          else Inr k)"

text \<open>The checks before the connection is opened.\<close>

definition admit :: "externals \<Rightarrow> create_body \<Rightarrow> string option \<Rightarrow> string option \<Rightarrow> exn + string" where
  "admit x b key auth =
     (if \<not> valid_body b then http_error 422 ''request validation failed''
      else
        bindE (check_key key) (\<lambda>k.
        bindE (authenticate_agent x auth b) (\<lambda>_.
        if cb_evidence b = None then http_error 403 ''verifiable ATF authorization evidence is required''
        else Inr k)))"

definition create_payment_endpoint ::
    "externals \<Rightarrow> create_body \<Rightarrow> string option \<Rightarrow> string option \<Rightarrow> string option \<Rightarrow> db \<Rightarrow> (exn + json) \<times> db" where
  "create_payment_endpoint x b key corr auth d =
     (case admit x b key auth of
        Inl e \<Rightarrow> (Inl e, d)
      | Inr k \<Rightarrow>
          (let (r, d') = transact (create_work x b k corr) d
           in case r of
                Inl e \<Rightarrow> (Inl e, d')
              | Inr (Inl j) \<Rightarrow> (Inr j, d')
              | Inr (Inr (status, message)) \<Rightarrow> (http_error status message, d')))"

end
