(* ===== verification/Approvals.thy ===== *)
theory Approvals
  imports Api
begin

text \<open>
  The approval endpoints of \<open>api.py\<close> and the reading of a payment. Approving starts the payment in the
  same unit of work as the decision; denying fails it. \<open>now\<close> is the clock of the process, as an
  instant.
\<close>

section \<open>Who decides\<close>

definition approval_actor :: "environ \<Rightarrow> string option \<Rightarrow> exn + string" where
  "approval_actor env auth =
     (let token = (case auth of None \<Rightarrow> None | Some h \<Rightarrow> if is_bearer h then Some (bearer_token h) else None)
      in case resolve_approval_bearer env token of
           Inl e \<Rightarrow> if is_PermissionError e then http_error 401 (exn_message e) else Inl e
         | Inr actor \<Rightarrow> Inr actor)"

definition decision_response :: "nat \<Rightarrow> nat \<Rightarrow> string \<Rightarrow> string option \<Rightarrow> json" where
  "decision_response pid i st corr =
     JObj [(''payment_id'', JStr (str_uuid pid)), (''approval_id'', JStr (str_uuid i)), (''status'', JStr st),
           (''correlation_id'', jopt corr)]"

section \<open>Approving\<close>

definition conflict :: "string \<Rightarrow> 'a tx" where
  "conflict m = raiseT (HTTPException 409 m)"

text \<open>The expiry is stored before the error is raised, and rolled back with it.\<close>

definition refuse_expired :: "int \<Rightarrow> nat \<Rightarrow> string \<Rightarrow> approval_row \<Rightarrow> unit tx" where
  "refuse_expired now i actor ap =
     (case ap_expires ap of
        None \<Rightarrow> returnT ()
      | Some expiry \<Rightarrow>
          if expiry \<le> now then
            bindT (set_approval i AP_EXPIRED (Some actor) (Some ''approval expired'')) (\<lambda>_.
            conflict ''approval has expired'')
          else returnT ())"

definition pending_approval :: "nat \<Rightarrow> approval_row tx" where
  "pending_approval i =
     bindT (get_approval i) (\<lambda>found.
     case found of
       None \<Rightarrow> raiseT (HTTPException 404 ''approval not found'')
     | Some ap \<Rightarrow> if ap_status ap \<noteq> AP_PENDING then conflict ''approval is no longer pending'' else returnT ap)"

definition approve_work ::
    "(string \<Rightarrow> string) \<Rightarrow> int \<Rightarrow> nat \<Rightarrow> string \<Rightarrow> string option \<Rightarrow> string option \<Rightarrow> json tx" where
  "approve_work sha now i actor reason corr =
     bindT (pending_approval i) (\<lambda>ap.
     bindT (refuse_expired now i actor ap) (\<lambda>_.
     bindT (payment_request (ap_request ap)) (\<lambda>row.
     case row of
       None \<Rightarrow> raiseT (HTTPException 404 ''payment request not found'')
     | Some (q, p) \<Rightarrow>
         if p_status p \<noteq> ST_APPROVAL_REQUIRED then conflict ''payment is not awaiting approval''
         else (case q_budget q of
           None \<Rightarrow> conflict ''payment has no bound budget''
         | Some bid \<Rightarrow>
             bindT (approval_binding_digest sha (ap_request ap)) (\<lambda>digest.
             if ap_digest ap \<noteq> Some digest then conflict ''approval binding no longer matches payment intent''
             else
               bindT (set_approval i AP_APPROVED (Some actor) reason) (\<lambda>_.
               bindT (prepare (p_id p) (q_id q) bid (of_num4 (q_amount q)) (upper (strip (q_currency q))) corr) (\<lambda>_.
               bindT (enqueue ''PaymentApproved'' ''payment'' (p_id p)
                        (JObj [(''approval_id'', JStr (str_uuid i)), (''approved_by'', JStr actor)]) corr) (\<lambda>_.
               returnT (decision_response (p_id p) i ''PROCESSING'' corr))))))))) "

text \<open>The body of a decision, when there is one, has a reason of at most 500 characters.\<close>

definition valid_reason :: "string option \<Rightarrow> bool" where
  "valid_reason reason \<longleftrightarrow> (case reason of None \<Rightarrow> True | Some s \<Rightarrow> length s \<le> 500)"

definition approve_payment ::
    "(string \<Rightarrow> string) \<Rightarrow> environ \<Rightarrow> int \<Rightarrow> nat \<Rightarrow> string option \<Rightarrow> string option \<Rightarrow> string option \<Rightarrow> db
      \<Rightarrow> (exn + json) \<times> db" where
  "approve_payment sha env now i reason auth corr d =
     (if \<not> valid_reason reason then (http_error 422 ''request validation failed'', d)
      else case approval_actor env auth of
        Inl e \<Rightarrow> (Inl e, d)
      | Inr actor \<Rightarrow> transact (approve_work sha now i actor reason corr) d)"

section \<open>Denying\<close>

text \<open>A missing request is read as \<open>None\<close>, whose fields cannot be read.\<close>

definition deny_work :: "nat \<Rightarrow> string \<Rightarrow> string option \<Rightarrow> string option \<Rightarrow> json tx" where
  "deny_work i actor reason corr =
     bindT (pending_approval i) (\<lambda>ap.
     bindT (payment_request (ap_request ap)) (\<lambda>row.
     bindT (set_approval i AP_DENIED (Some actor) reason) (\<lambda>_.
     case row of
       None \<Rightarrow> raiseT (TypeError ''object is not subscriptable'')
     | Some (q, p) \<Rightarrow>
         bindT (update_status (p_id p) ST_FAILED None) (\<lambda>_.
         bindT (enqueue ''PaymentFailed'' ''payment'' (p_id p)
                  (JObj [(''reason'', JStr ''USER_DENIED''), (''approval_id'', JStr (str_uuid i))]) corr) (\<lambda>_.
         returnT (decision_response (p_id p) i ''FAILED'' corr))))))"

definition deny_payment ::
    "environ \<Rightarrow> nat \<Rightarrow> string option \<Rightarrow> string option \<Rightarrow> string option \<Rightarrow> db \<Rightarrow> (exn + json) \<times> db" where
  "deny_payment env i reason auth corr d =
     (if \<not> valid_reason reason then (http_error 422 ''request validation failed'', d)
      else case approval_actor env auth of
        Inl e \<Rightarrow> (Inl e, d)
      | Inr actor \<Rightarrow> transact (deny_work i actor reason corr) d)"

section \<open>Reading a payment\<close>

text \<open>No caller is asked for.\<close>

definition get_payment :: "nat \<Rightarrow> db \<Rightarrow> exn + json" where
  "get_payment pid d =
     (case row_by p_id pid (payments d) of
        None \<Rightarrow> http_error 404 ''payment not found''
      | Some p \<Rightarrow> Inr (JObj
          [(''payment_id'', JStr (str_uuid (p_id p))), (''payment_request_id'', JStr (str_uuid (p_request p))),
           (''amount'', JStr (str_dec (of_num4 (p_amount p)))), (''currency'', JStr (strip (p_currency p))),
           (''status'', JStr (state_text (p_status p))), (''provider_reference'', jopt (p_reference p))]))"

text \<open>\<open>application/problem+json\<close>: the body of an error response.\<close>

definition problem_title :: "nat \<Rightarrow> string" where
  "problem_title status =
     (if status = 400 then ''Bad Request'' else if status = 401 then ''Unauthorized'' else if status = 403 then ''Forbidden''
      else if status = 404 then ''Not Found'' else if status = 409 then ''Conflict'' else ''HTTP Error'')"

definition problem_details :: "nat \<Rightarrow> string \<Rightarrow> string \<Rightarrow> json" where
  "problem_details status detail path =
     JObj [(''type'', JStr (''https://agent-pay.dev/problems/http-'' @ str_nat status)),
           (''title'', JStr (problem_title status)), (''status'', JInt (int status)), (''detail'', JStr detail),
           (''instance'', JStr path)]"

definition validation_problem :: "string \<Rightarrow> json \<Rightarrow> json" where
  "validation_problem path errors =
     JObj [(''type'', JStr ''https://agent-pay.dev/problems/validation-error''), (''title'', JStr ''Validation Error''),
           (''status'', JInt 422), (''detail'', JStr ''request validation failed''), (''instance'', JStr path),
           (''errors'', errors)]"

section \<open>The books\<close>

lemma keeps_control [keeps_intros]:
  "keeps transactions_ok (evaluate_policy timeformat acct policy rid agent pid amt cur domain category)"
  "keeps budgets_ok (evaluate_policy timeformat acct policy rid agent pid amt cur domain category)"
  "keeps ledger_ok (evaluate_policy timeformat acct policy rid agent pid amt cur domain category)"
  "keeps transactions_ok (bind_budget rid bid)" "keeps budgets_ok (bind_budget rid bid)" "keeps ledger_ok (bind_budget rid bid)"
  "keeps transactions_ok (create_approval sha rid reason minutes)"
  "keeps budgets_ok (create_approval sha rid reason minutes)"
  "keeps ledger_ok (create_approval sha rid reason minutes)"
  "keeps transactions_ok (set_approval i st actor reason)" "keeps budgets_ok (set_approval i st actor reason)"
  "keeps ledger_ok (set_approval i st actor reason)"
  "keeps transactions_ok (payment_request rid)" "keeps budgets_ok (payment_request rid)" "keeps ledger_ok (payment_request rid)"
  unfolding evaluate_policy_def bind_budget_def create_approval_def set_approval_def payment_request_def undefined_column_def
  by (intro keeps_intros keeps_modify; simp)+

lemma keeps_api_inserts [keeps_intros]:
  "keeps transactions_ok (merchant nm dmn)" "keeps budgets_ok (merchant nm dmn)" "keeps ledger_ok (merchant nm dmn)"
  "keeps transactions_ok (store_evidence x b amt cur)" "keeps budgets_ok (store_evidence x b amt cur)"
  "keeps ledger_ok (store_evidence x b amt cur)"
  "keeps transactions_ok (create_request acct agent amt cur purpose items key fp merch)"
  "keeps budgets_ok (create_request acct agent amt cur purpose items key fp merch)"
  "keeps ledger_ok (create_request acct agent amt cur purpose items key fp merch)"
  "keeps transactions_ok (insert_payment rid amt cur st)" "keeps budgets_ok (insert_payment rid amt cur st)"
  "keeps ledger_ok (insert_payment rid amt cur st)"
  "keeps transactions_ok (bind_evidence rid ev hash)" "keeps budgets_ok (bind_evidence rid ev hash)"
  "keeps ledger_ok (bind_evidence rid ev hash)"
  unfolding merchant_def store_evidence_def insert_evidence_def create_request_def insert_payment_def bind_evidence_def
    references_def undefined_column_def
  by (intro keeps_intros keeps_modify; simp)+

text \<open>A handler for uniqueness conflicts.\<close>

lemma keeps_unique [keeps_intros]:
  "(\<And>m. keeps I (f m)) \<Longrightarrow> (\<And>e. keeps I (g e)) \<Longrightarrow> keeps I (case e of UniqueViolation m \<Rightarrow> f m | _ \<Rightarrow> g e)"
  by (cases e) simp_all

lemma keeps_insert_request:
  assumes "\<And>acct agent amt cur purpose items key fp merch. keeps I (create_request acct agent amt cur purpose items key fp merch)"
  shows "keeps I (insert_request b key fprint merch amt cur)"
  unfolding insert_request_def replay_answer_def find_by_idempotency_def
  by (intro keeps_intros assms)

lemma keeps_api_control [keeps_intros]:
  "keeps transactions_ok (decide_payment x b rid pid amt cur corr)"
  "keeps budgets_ok (decide_payment x b rid pid amt cur corr)"
  "keeps ledger_ok (decide_payment x b rid pid amt cur corr)"
  unfolding decide_payment_def control_payment_def refuse_def ask_approval_def start_payment_def
  by (intro keeps_intros)+

lemma keeps_api [keeps_intros]:
  "keeps transactions_ok (create_work x b key corr)" "keeps budgets_ok (create_work x b key corr)"
  "keeps ledger_ok (create_work x b key corr)"
  "keeps transactions_ok (new_payment x b key fp corr)" "keeps budgets_ok (new_payment x b key fp corr)"
  "keeps ledger_ok (new_payment x b key fp corr)"
  "keeps transactions_ok (approve_work sha now i actor reason corr)"
  "keeps budgets_ok (approve_work sha now i actor reason corr)"
  "keeps ledger_ok (approve_work sha now i actor reason corr)"
  "keeps transactions_ok (deny_work i actor reason corr)" "keeps budgets_ok (deny_work i actor reason corr)"
  "keeps ledger_ok (deny_work i actor reason corr)"
  unfolding create_work_def new_payment_def replay_answer_def approve_work_def deny_work_def pending_approval_def
    get_approval_def refuse_expired_def conflict_def approval_binding_digest_def undefined_column_def find_by_idempotency_def
  by (intro keeps_intros keeps_insert_request)+

section \<open>An approval binds and is used once\<close>

lemma prepare_approvals: "frame (\<lambda>d. (approvals d, profile d)) (prepare pid rid bid amt cur corr)"
  unfolding prepare_def update_status_def enqueue_def budget_reserve_def insert_reservation_def request_currency_def
    references_def
  by (rule frame_rule, intro keeps_intros keeps_modify keeps_draw_tables; simp)

lemma prepare_processing:
  assumes "prepare pid rid bid amt cur corr d = Inr (res, d')"
  shows "map_option p_status (row_by p_id pid (payments d')) = Some ST_PROCESSING"
proof -
  obtain p q d1 where bp: "bound_payment pid rid d = Some (p, q)" and rs: "budget_reserve bid rid amt d = Inr (Some res, d1)"
    and rest: "bindT (modifyT (\<lambda>d. d\<lparr>requests := upd_by q_id rid (\<lambda>q. q\<lparr>q_reservation := Some res\<rparr>) (requests d)\<rparr>)) (\<lambda>_.
      bindT (update_status pid ST_PROCESSING None) (\<lambda>_.
      bindT (enqueue ''PaymentStarted'' ''payment'' pid (reservation_payload res) corr) (\<lambda>_. returnT res))) d1
      = Inr (res, d')"
    using prepare_cases [OF assms] by blast
  have "frame payments (budget_reserve bid rid amt)"
    unfolding budget_reserve_def insert_reservation_def request_currency_def references_def
    by (rule frame_rule, intro keeps_intros keeps_modify keeps_draw_tables; simp)
  from frameD [OF this rs] have pay: "payments d1 = payments d" .
  have "row_by p_id pid (payments d) = Some p" using bp by (simp add: bound_payment_Some)
  with pay rest show ?thesis
    by (auto simp: update_status_def enqueue_def row_by_upd_by set_status_def)
qed

lemma approve_work_steps:
  assumes "approve_work sha now i actor reason corr d = Inr (j, d')"
  obtains ap q p bid d1 res d2 n where
    "has_approval_digest (profile d)" "row_by ap_id i (approvals d) = Some ap" "ap_status ap = AP_PENDING"
    "\<forall>e. ap_expires ap = Some e \<longrightarrow> now < e"
    "row_by q_id (ap_request ap) (requests d) = Some q" "row_by p_request (ap_request ap) (payments d) = Some p"
    "p_status p = ST_APPROVAL_REQUIRED" "q_budget q = Some bid" "ap_digest ap = Some (binding_digest sha (request_binding d q))"
    "d1 = d\<lparr>approvals := upd_by ap_id i (decide_row AP_APPROVED (Some actor) reason (clock d)) (approvals d)\<rparr>"
    "prepare (p_id p) (q_id q) bid (of_num4 (q_amount q)) (upper (strip (q_currency q))) corr d1 = Inr (res, d2)"
    "enqueue ''PaymentApproved'' ''payment'' (p_id p)
       (JObj [(''approval_id'', JStr (str_uuid i)), (''approved_by'', JStr actor)]) corr d2 = Inr (n, d')"
proof -
  have dig: "has_approval_digest (profile d)"
    using assms by (auto simp: approve_work_def pending_approval_def get_approval_def undefined_column_def split: if_splits)
  obtain ap where ap: "row_by ap_id i (approvals d) = Some ap" "ap_status ap = AP_PENDING"
    using assms dig by (cases "row_by ap_id i (approvals d)")
      (auto simp: approve_work_def pending_approval_def get_approval_def conflict_def split: if_splits)
  have ex: "\<forall>e. ap_expires ap = Some e \<longrightarrow> now < e"
    using assms dig ap by (auto simp: approve_work_def pending_approval_def get_approval_def conflict_def
        refuse_expired_def set_approval_def split: if_splits)
  have lk: "locks_outer_join (profile d)"
    using assms dig ap ex by (cases "ap_expires ap") (auto simp: approve_work_def pending_approval_def get_approval_def conflict_def
        refuse_expired_def payment_request_def split: if_splits)
  obtain q p where qp: "row_by q_id (ap_request ap) (requests d) = Some q" "row_by p_request (ap_request ap) (payments d) = Some p"
    using assms dig ap ex lk
    by (cases "ap_expires ap"; cases "row_by q_id (ap_request ap) (requests d)"; cases "row_by p_request (ap_request ap) (payments d)")
      (auto simp: approve_work_def pending_approval_def get_approval_def conflict_def refuse_expired_def payment_request_def)
  have st: "p_status p = ST_APPROVAL_REQUIRED"
    using assms dig ap ex lk qp by (cases "ap_expires ap") (auto simp: approve_work_def pending_approval_def get_approval_def conflict_def
        refuse_expired_def payment_request_def split: if_splits)
  obtain bid where bid: "q_budget q = Some bid"
    using assms dig ap ex lk qp st by (cases "ap_expires ap"; cases "q_budget q") (auto simp: approve_work_def pending_approval_def get_approval_def conflict_def
        refuse_expired_def payment_request_def)
  have dg: "ap_digest ap = Some (binding_digest sha (request_binding d q))"
    using assms dig ap ex lk qp st bid by (cases "ap_expires ap") (auto simp: approve_work_def pending_approval_def get_approval_def conflict_def
        refuse_expired_def payment_request_def approval_binding_digest_def split: if_splits)
  let ?d1 = "d\<lparr>approvals := upd_by ap_id i (decide_row AP_APPROVED (Some actor) reason (clock d)) (approvals d)\<rparr>"
  obtain res d2 n where "prepare (p_id p) (q_id q) bid (of_num4 (q_amount q)) (upper (strip (q_currency q))) corr ?d1 = Inr (res, d2)"
    "enqueue ''PaymentApproved'' ''payment'' (p_id p)
       (JObj [(''approval_id'', JStr (str_uuid i)), (''approved_by'', JStr actor)]) corr d2 = Inr (n, d')"
    using assms dig ap ex lk qp st bid dg by (cases "ap_expires ap") (auto simp: approve_work_def pending_approval_def get_approval_def
        refuse_expired_def payment_request_def approval_binding_digest_def set_approval_def err_simps split: if_splits)
  with that dig ap ex qp st bid dg show thesis by blast
qed

text \<open>An approval that is not pending can be neither approved nor denied.\<close>

definition not_pending :: "nat \<Rightarrow> db \<Rightarrow> bool" where
  "not_pending i d \<longleftrightarrow> (\<exists>ap. row_by ap_id i (approvals d) = Some ap \<and> ap_status ap \<noteq> AP_PENDING)"

lemma decided_stays:
  assumes "not_pending i d"
  shows "(\<exists>e. approve_payment sha env now i reason auth corr d = (Inl e, d)) \<and>
    (\<exists>e. deny_payment env i reason auth corr d = (Inl e, d))"
  using assms by (auto simp: not_pending_def approve_payment_def deny_payment_def approve_work_def deny_work_def
      pending_approval_def get_approval_def undefined_column_def conflict_def transact_def split: sum.splits)


definition asked_db :: db where
  "asked_db = sample_db\<lparr>next_id := 20, profile := assumed, requests := [sample_request\<lparr>q_budget := Some 3\<rparr>],
     payments := [sample_payment\<lparr>p_status := ST_APPROVAL_REQUIRED\<rparr>],
     approvals := [\<lparr>ap_id = 11, ap_request = 4, ap_status = AP_PENDING, ap_expires = Some 60, ap_approved = None,
       ap_approved_by = None, ap_reason = None, ap_digest = Some ''f'', ap_decided = None\<rparr>]\<rparr>"

lemma sample_budget_room:
  "budget_available sample_budget = of_num4 1000000" "num4_plus 0 (of_num4 250000) = Inr 250000"
  "positive_num4 (of_num4 250000) = Inr 250000" "dless (of_num4 1000000) (of_num4 250000) = False"
  "deq (of_num4 250000) (of_num4 250000)"
proof -
  have ok: "budgets_ok sample_db" by (simp add: sample_defs budgets_ok_def budget_ok_def total_def num4_max_def)
  show "budget_available sample_budget = of_num4 1000000"
    using budget_available_eq [OF ok, of 3 sample_budget] by (simp add: sample_defs)
  show "num4_plus 0 (of_num4 250000) = Inr 250000" "positive_num4 (of_num4 250000) = Inr 250000"
    "dless (of_num4 1000000) (of_num4 250000) = False" "deq (of_num4 250000) (of_num4 250000)"
    by (simp_all add: num4_plus_def at_exp_def positive_num4_def to_num4_def ten_thousandths_def check_num4_def
        num4_max_def dec_simps dval_def of_num4_def)
qed

lemmas sample_budget_facts = sample_budget_room(1) [unfolded sample_budget_def One_nat_def] sample_budget_room(2-)

lemma asked_approved:
  "\<exists>j d'. approve_payment (\<lambda>_. ''f'') dev_env 0 11 None (Some ''Bearer local-approval-token'') None asked_db = (Inr j, d')"
  by (simp add: approve_payment_def valid_reason_def approval_actor_def is_bearer_def bearer_token_def resolve_approval_bearer_def auth_mode_def
      getenv_or_def dev_env_def text_eval transact_def approve_work_def pending_approval_def get_approval_def
      refuse_expired_def payment_request_def approval_binding_digest_def binding_digest_def set_approval_def prepare_def
      bound_payment_def evidence_status_def terminal_states_def budget_reserve_def request_currency_def insert_reservation_def
      references_def update_status_def enqueue_def sample_budget_facts asked_db_def assumed_def sample_defs)


end
