(* ===== verification/Creation.thy ===== *)
theory Creation
  imports Approvals
begin

text \<open>
  What \<open>POST /v1/payments\<close> of \<open>api.py\<close> guarantees: a payment is only created for an authenticated
  caller with signed evidence for exactly that payment, once per idempotency key; and what is left of the
  API on the database as it is deployed.
\<close>

section \<open>The deployed database\<close>

text \<open>The statements before the evidence is bound leave requests and profile alone, apart from the new row.\<close>

lemma early_frames:
  "frame (\<lambda>d. (profile d, requests d)) (merchant nm dmn)"
  "frame (\<lambda>d. (profile d, requests d)) (store_evidence x b amt cur)"
  unfolding merchant_def store_evidence_def insert_evidence_def references_def
  by (rule frame_rule, intro keeps_intros keeps_modify keeps_draw_tables; simp)+

lemma create_request_profile: "frame profile (create_request acct agent amt cur purpose items key fp merch)"
  unfolding create_request_def references_def
  by (rule frame_rule, intro keeps_intros keeps_modify keeps_draw_tables; simp)+

lemma insert_request_new:
  assumes "insert_request b key fprint merch amt cur d = Inr (z, d')"
    "row_by (\<lambda>q. (q_account q, q_key q)) (cb_account b, key) (requests d) = None"
  shows "\<exists>rid. z = Inr rid \<and> create_request (cb_account b) (cb_agent b) amt cur (cb_purpose b)
    (JArr (map item_json (cb_items b))) key (Some fprint) merch d = Inr (rid, d')"
proof (cases "create_request (cb_account b) (cb_agent b) amt cur (cb_purpose b)
    (JArr (map item_json (cb_items b))) key (Some fprint) merch d")
  case (Inl e)
  with assms show ?thesis by (cases e) (simp_all add: insert_request_def tryT_def find_by_idempotency_def)
next
  case (Inr r)
  with assms show ?thesis by (cases r) (simp add: insert_request_def tryT_def)
qed

lemma new_payment_steps:
  assumes "new_payment x b key fprint corr d = Inr (z, d')"
    "row_by (\<lambda>q. (q_account q, q_key q)) (cb_account b, key) (requests d) = None"
  obtains amt ev c rid pid merch d1 d2 d3 d4 d5 where
    "finite_decimal (cb_amount b) = Inr amt"
    "(case cb_merchant b of None \<Rightarrow> returnT None | Some m \<Rightarrow> merchant (am_name m) (am_domain m)) d = Inr (merch, d1)"
    "store_evidence x b amt (upper (cb_currency b)) d1 = Inr ((ev, c), d2)"
    "create_request (cb_account b) (cb_agent b) amt (upper (cb_currency b)) (cb_purpose b)
       (JArr (map item_json (cb_items b))) key (Some fprint) merch d2 = Inr (rid, d3)"
    "bind_evidence rid ev (ctx_digest c) d3 = Inr ((), d4)"
    "insert_payment rid amt (upper (cb_currency b)) ST_POLICY_CHECK d4 = Inr (pid, d5)"
    "decide_payment x b rid pid amt (upper (cb_currency b)) corr d5 = Inr (z, d')"
    "profile d3 = profile d"
proof -
  obtain merch d1 amt ev c d2 y d3 where 1: "(case cb_merchant b of None \<Rightarrow> returnT None | Some m \<Rightarrow> merchant (am_name m) (am_domain m)) d
      = Inr (merch, d1)" "finite_decimal (cb_amount b) = Inr amt"
    "store_evidence x b amt (upper (cb_currency b)) d1 = Inr ((ev, c), d2)"
    "insert_request b key fprint merch amt (upper (cb_currency b)) d2 = Inr (y, d3)"
    and rest: "(case y of
       Inl j \<Rightarrow> returnT (Inl j)
     | Inr rid \<Rightarrow>
         bindT (bind_evidence rid ev (ctx_digest c)) (\<lambda>_.
         bindT (insert_payment rid amt (upper (cb_currency b)) ST_POLICY_CHECK) (\<lambda>pid.
         decide_payment x b rid pid amt (upper (cb_currency b)) corr))) d3 = Inr (z, d')"
    using assms(1) by (auto simp: new_payment_def Let_def err_simps)
  have "frame (\<lambda>d. (profile d, requests d)) (case cb_merchant b of None \<Rightarrow> returnT None | Some m \<Rightarrow> merchant (am_name m) (am_domain m))"
    by (auto intro: early_frames frameI split: option.split)
  from frameD [OF this 1(1)] frameD [OF early_frames(2) 1(3)]
  have r: "profile d2 = profile d" "requests d2 = requests d" by simp_all
  obtain rid where rid: "y = Inr rid" "create_request (cb_account b) (cb_agent b) amt (upper (cb_currency b)) (cb_purpose b)
       (JArr (map item_json (cb_items b))) key (Some fprint) merch d2 = Inr (rid, d3)"
    using insert_request_new [OF 1(4)] assms(2) r(2) by auto
  obtain d4 pid d5 where "bind_evidence rid ev (ctx_digest c) d3 = Inr ((), d4)"
    "insert_payment rid amt (upper (cb_currency b)) ST_POLICY_CHECK d4 = Inr (pid, d5)"
    "decide_payment x b rid pid amt (upper (cb_currency b)) corr d5 = Inr (z, d')"
    using rest rid(1) by (auto simp: err_simps)
  with that [OF 1(2,1,3) rid(2)] frameD [OF create_request_profile rid(2)] r(1) show thesis by simp
qed

lemma replay_answer_same: "replay_answer fprint q d = Inr (j, d') \<Longrightarrow> d' = d"
  by (auto simp: replay_answer_def split: if_splits option.splits)

lemma create_work_cases:
  assumes "create_work x b key corr d = Inr (z, d')"
  obtains (replayed) q j where "row_by (\<lambda>q. (q_account q, q_key q)) (cb_account b, key) (requests d) = Some q" "z = Inl j"
      "replay_answer (request_fingerprint (ex_sha x) b) q d = Inr (j, d)" "d' = d"
    | (created) "row_by (\<lambda>q. (q_account q, q_key q)) (cb_account b, key) (requests d) = None"
      "new_payment x b key (request_fingerprint (ex_sha x) b) corr d = Inr (z, d')"
proof (cases "row_by (\<lambda>q. (q_account q, q_key q)) (cb_account b, key) (requests d)")
  case None
  with assms created show thesis by (simp add: create_work_def find_by_idempotency_def Let_def)
next
  case (Some q)
  obtain j where "replay_answer (request_fingerprint (ex_sha x) b) q d = Inr (j, d')" "z = Inl j"
    using assms Some by (auto simp: create_work_def find_by_idempotency_def Let_def err_simps)
  with replayed [OF Some] replay_answer_same show thesis by metis
qed

lemma endpoint_cases:
  assumes "create_payment_endpoint x b key corr auth d = (r, d')" "d' \<noteq> d"
  obtains k z where "admit x b key auth = Inr k" "create_work x b k corr d = Inr (z, d')"
    "r = (case z of Inl j \<Rightarrow> Inr j | Inr (status, message) \<Rightarrow> http_error status message)"
  using assms
  by (cases "admit x b key auth")
    (auto simp: create_payment_endpoint_def transact_def split: sum.splits prod.splits)

text \<open>C31: on a database that was set up with the migrations the deployment applies, the API
  changes nothing: a new payment fails on a column that does not exist, and approvals can be neither
  approved nor denied.\<close>

theorem deployed_rejects:
  assumes "profile d = deployed"
  shows "snd (create_payment_endpoint x b key corr auth d) = d \<and>
    (\<exists>e. approve_payment sha env now i reason auth' corr' d = (Inl e, d)) \<and>
    (\<exists>e. deny_payment env i reason auth' corr' d = (Inl e, d))"
proof -
  have "snd (create_payment_endpoint x b key corr auth d) = d"
  proof (rule ccontr)
    assume ne: "snd (create_payment_endpoint x b key corr auth d) \<noteq> d"
    obtain r d' where "create_payment_endpoint x b key corr auth d = (r, d')" by fastforce
    with ne obtain k z where run: "create_work x b k corr d = Inr (z, d')" and "d' \<noteq> d"
      by (metis endpoint_cases snd_conv)
    from run show False
    proof (cases rule: create_work_cases)
      case replayed
      with \<open>d' \<noteq> d\<close> show ?thesis by simp
    next
      case created
      from new_payment_steps [OF created(2,1)] obtain rid ev hash d3 d4 where
        "bind_evidence rid ev hash d3 = Inr ((), d4)" "profile d3 = profile d" by metis
      with assms show ?thesis by (simp add: bind_evidence_def undefined_column_def deployed_def)
    qed
  qed
  moreover have "\<exists>e. approve_payment sha env now i reason auth' corr' d = (Inl e, d)"
    using assms by (auto simp: approve_payment_def approve_work_def pending_approval_def get_approval_def
      undefined_column_def deployed_def transact_def split: sum.splits)
  moreover have "\<exists>e. deny_payment env i reason auth' corr' d = (Inl e, d)"
    using assms by (auto simp: deny_payment_def deny_work_def pending_approval_def get_approval_def
      undefined_column_def deployed_def transact_def split: sum.splits)
  ultimately show ?thesis by blast
qed

section \<open>A created payment\<close>

definition requested :: "nat \<Rightarrow> string \<Rightarrow> string \<Rightarrow> num4 \<Rightarrow> nat \<Rightarrow> db \<Rightarrow> bool" where
  "requested acct k fp n rid d \<longleftrightarrow>
     (\<exists>q. row_by (\<lambda>q. (q_account q, q_key q)) (acct, k) (requests d) = Some q \<and> q_fingerprint q = Some fp \<and>
        q_amount q = n \<and> q_id q = rid)"

definition paying :: "nat \<Rightarrow> num4 \<Rightarrow> db \<Rightarrow> bool" where
  "paying rid n d \<longleftrightarrow> (\<exists>p. row_by p_request rid (payments d) = Some p \<and> p_amount p = n)"

lemma row_by_upd_other:
  "(\<And>r. key' (f r) = key' r) \<Longrightarrow>
     row_by key' k' (upd_by key k f rows) = map_option (\<lambda>r. if key r = k then f r else r) (row_by key' k' rows)"
  by (induction rows) auto

lemma requested_frame [simp]:
  "requested acct k fp n rid (d\<lparr>next_id := v1\<rparr>) = requested acct k fp n rid d"
  "requested acct k fp n rid (d\<lparr>budgets := v2\<rparr>) = requested acct k fp n rid d"
  "requested acct k fp n rid (d\<lparr>reservations := v3\<rparr>) = requested acct k fp n rid d"
  "requested acct k fp n rid (d\<lparr>evidences := v4\<rparr>) = requested acct k fp n rid d"
  "requested acct k fp n rid (d\<lparr>approvals := v5\<rparr>) = requested acct k fp n rid d"
  "requested acct k fp n rid (d\<lparr>payments := v6\<rparr>) = requested acct k fp n rid d"
  "requested acct k fp n rid (d\<lparr>outbox := v7\<rparr>) = requested acct k fp n rid d"
  "requested acct k fp n rid (d\<lparr>clock := v8\<rparr>) = requested acct k fp n rid d"
  by (simp_all add: requested_def)

lemma paying_frame [simp]:
  "paying rid n (d\<lparr>next_id := v1\<rparr>) = paying rid n d"
  "paying rid n (d\<lparr>budgets := v2\<rparr>) = paying rid n d"
  "paying rid n (d\<lparr>reservations := v3\<rparr>) = paying rid n d"
  "paying rid n (d\<lparr>requests := v4\<rparr>) = paying rid n d"
  "paying rid n (d\<lparr>approvals := v5\<rparr>) = paying rid n d"
  "paying rid n (d\<lparr>outbox := v7\<rparr>) = paying rid n d"
  "paying rid n (d\<lparr>clock := v8\<rparr>) = paying rid n d"
  by (simp_all add: paying_def)

lemma keeps_draw_created [keeps_intros]: "keeps (requested acct k fp n rid) draw_id" "keeps (paying rid n) draw_id"
  by (rule keeps_draw_tables, simp)+

text \<open>Changes of a request or payment row that leave what identifies it and its amount.\<close>

lemma requested_upd:
  assumes "requested acct k fp n rid d" "\<And>q. q_account (f q) = q_account q" "\<And>q. q_key (f q) = q_key q"
    "\<And>q. q_id (f q) = q_id q" "\<And>q. q_fingerprint (f q) = q_fingerprint q" "\<And>q. q_amount (f q) = q_amount q"
  shows "requested acct k fp n rid (d\<lparr>requests := upd_by q_id i f (requests d)\<rparr>)"
proof -
  obtain q where "row_by (\<lambda>q. (q_account q, q_key q)) (acct, k) (requests d) = Some q" "q_fingerprint q = Some fp"
    "q_amount q = n" "q_id q = rid"
    using assms(1) by (auto simp: requested_def)
  then show ?thesis
    using assms(2-) unfolding requested_def
    by (intro exI [where x = "if q_id q = i then f q else q"]) (simp add: row_by_upd_other)
qed

lemma paying_upd:
  assumes "paying rid n d" "\<And>p. p_request (f p) = p_request p" "\<And>p. p_amount (f p) = p_amount p"
  shows "paying rid n (d\<lparr>payments := upd_by p_id i f (payments d)\<rparr>)"
proof -
  obtain p where "row_by p_request rid (payments d) = Some p" "p_amount p = n" using assms(1) by (auto simp: paying_def)
  then show ?thesis
    using assms(2-) unfolding paying_def
    by (intro exI [where x = "if p_id p = i then f p else p"]) (simp add: row_by_upd_other)
qed

lemma keeps_created_parts [keeps_intros]:
  "keeps (requested acct k fp n rid) (update_status pid st ref)" "keeps (paying rid n) (update_status pid st ref)"
  "keeps (requested acct k fp n rid) (enqueue ty aggty agg payload corr)" "keeps (paying rid n) (enqueue ty aggty agg payload corr)"
  "keeps (requested acct k fp n rid) (budget_reserve bid r amt)" "keeps (paying rid n) (budget_reserve bid r amt)"
  "keeps (requested acct k fp n rid) (create_approval sha r reason minutes)"
  "keeps (paying rid n) (create_approval sha r reason minutes)"
  "keeps (requested acct k fp n rid) (bind_budget r bid)" "keeps (paying rid n) (bind_budget r bid)"
  unfolding update_status_def enqueue_def budget_reserve_def insert_reservation_def request_currency_def create_approval_def
    references_def undefined_column_def bind_budget_def
  by (intro keeps_intros keeps_modify requested_upd paying_upd; simp add: set_status_def)+

lemma keeps_created_steps [keeps_intros]:
  "keeps (requested acct k fp n rid) (prepare pid r bid amt cur corr)" "keeps (paying rid n) (prepare pid r bid amt cur corr)"
  "keeps (requested acct k fp n rid) (evaluate_policy tf acct' policy r agent pid amt cur domain category)"
  "keeps (paying rid n) (evaluate_policy tf acct' policy r agent pid amt cur domain category)"
  unfolding prepare_def evaluate_policy_def
  by (intro keeps_intros keeps_modify requested_upd paying_upd; simp)+

lemma keeps_created_decide [keeps_intros]:
  "keeps (requested acct k fp n rid) (decide_payment x b r pid amt cur corr)"
  "keeps (paying rid n) (decide_payment x b r pid amt cur corr)"
  unfolding decide_payment_def control_payment_def refuse_def ask_approval_def start_payment_def
  by (intro keeps_intros)+

lemma create_request_requested:
  assumes "create_request acct agent amt cur purpose items k (Some fp) merch d = Inr (rid, d')"
  shows "requested acct k fp (ten_thousandths amt) rid d'"
proof -
  have "row_by (\<lambda>q. (q_account q, q_key q)) (acct, k) (requests d) = None"
    using assms by (auto simp: create_request_def err_simps split: if_splits)
  with assms show ?thesis
    by (auto simp: create_request_def references_def requested_def row_by_append err_simps split: if_splits)
qed

lemma insert_payment_paying:
  assumes "insert_payment rid amt cur st d = Inr (pid, d')"
  shows "paying rid (ten_thousandths amt) d'"
proof -
  have "row_by p_request rid (payments d) = None"
    using assms by (auto simp: insert_payment_def row_by_None err_simps split: if_splits)
  with assms show ?thesis
    by (auto simp: insert_payment_def references_def paying_def row_by_append err_simps split: if_splits)
qed

lemma keeps_requested_bind [keeps_intros]: "keeps (requested acct k fp n rid) (bind_evidence r ev hash)"
  unfolding bind_evidence_def undefined_column_def
  by (intro keeps_intros keeps_modify requested_upd; simp)

lemma keeps_requested_insert [keeps_intros]: "keeps (requested acct k fp n rid) (insert_payment r amt cur st)"
  unfolding insert_payment_def references_def by (intro keeps_intros keeps_modify; simp)

lemma store_evidence_checked:
  assumes "store_evidence x b amt cur d = Inr ((ev, c), d')"
  shows "\<exists>e s. cb_evidence b = Some e \<and> ae_assertion e = Some s \<and> check_evidence x b e s amt cur = Inr c"
proof -
  obtain e s where e: "cb_evidence b = Some e" "ae_assertion e = Some s"
    using assms by (cases "cb_evidence b"; cases "ae_assertion (the (cb_evidence b))") (auto simp: store_evidence_def)
  with assms show ?thesis
    by (cases "check_evidence x b e s amt cur") (auto simp: store_evidence_def evidence_error_def err_simps split: if_splits)
qed

lemma new_payment_recorded:
  assumes "new_payment x b k fp corr d = Inr (z, d')"
    "row_by (\<lambda>q. (q_account q, q_key q)) (cb_account b, k) (requests d) = None"
  shows "\<exists>amt e s c rid. finite_decimal (cb_amount b) = Inr amt \<and> cb_evidence b = Some e \<and> ae_assertion e = Some s \<and>
    check_evidence x b e s amt (upper (cb_currency b)) = Inr c \<and>
    requested (cb_account b) k fp (ten_thousandths amt) rid d' \<and> paying rid (ten_thousandths amt) d'"
proof -
  obtain amt ev c rid pid merch d1 d2 d3 d4 d5 where 1: "finite_decimal (cb_amount b) = Inr amt"
    and 2: "store_evidence x b amt (upper (cb_currency b)) d1 = Inr ((ev, c), d2)"
    and 3: "create_request (cb_account b) (cb_agent b) amt (upper (cb_currency b)) (cb_purpose b)
       (JArr (map item_json (cb_items b))) k (Some fp) merch d2 = Inr (rid, d3)"
    and 4: "bind_evidence rid ev (ctx_digest c) d3 = Inr ((), d4)"
    and 5: "insert_payment rid amt (upper (cb_currency b)) ST_POLICY_CHECK d4 = Inr (pid, d5)"
    and 6: "decide_payment x b rid pid amt (upper (cb_currency b)) corr d5 = Inr (z, d')"
    by (rule new_payment_steps [OF assms])
  note r3 = create_request_requested [OF 3]
  note r4 = keepsD [OF keeps_requested_bind r3 4]
  note r5 = keepsD [OF keeps_requested_insert r4 5]
  note r6 = keepsD [OF keeps_created_decide(1) r5 6]
  note p6 = keepsD [OF keeps_created_decide(2) insert_payment_paying [OF 5] 6]
  show ?thesis using 1 store_evidence_checked [OF 2] r6 p6 by blast
qed

lemma recorded_replay:
  assumes "requested acct k fp n rid d" "paying rid n d" "cb_account b = acct" "request_fingerprint (ex_sha x) b = fp"
  shows "\<exists>q p. row_by (\<lambda>q. (q_account q, q_key q)) (acct, k) (requests d) = Some q \<and> q_amount q = n \<and>
    row_by p_request (q_id q) (payments d) = Some p \<and> p_amount p = n \<and>
    create_work x b k corr d = Inr (Inl (payment_response (p_id p) (p_status p)), d)"
  using assms by (auto simp: requested_def paying_def create_work_def find_by_idempotency_def replay_answer_def Let_def)

text \<open>C1: the API creates something only for a valid request with an idempotency key, from a caller whose
  bearer token may act for the request's agent and account, and with a signed assertion that was verified for
  exactly this agent, account, amount and currency. What is created is one request and one payment over that
  amount under the key, and the same request again is answered with that payment and changes nothing.\<close>

theorem create_once:
  assumes "create_payment_endpoint x b key corr auth d = (r, d')" "d' \<noteq> d"
  shows "\<exists>k h amt e s c q p. key = Some k \<and> valid_body b \<and> auth = Some h \<and> is_bearer h \<and>
    may_act (ex_oidc x) (ex_env x) (bearer_token h) (str_uuid (cb_agent b)) (str_uuid (cb_account b)) \<and>
    finite_decimal (cb_amount b) = Inr amt \<and> cb_evidence b = Some e \<and> ae_assertion e = Some s \<and>
    check_evidence x b e s amt (upper (cb_currency b)) = Inr c \<and>
    row_by (\<lambda>q. (q_account q, q_key q)) (cb_account b, k) (requests d) = None \<and>
    row_by (\<lambda>q. (q_account q, q_key q)) (cb_account b, k) (requests d') = Some q \<and> q_amount q = ten_thousandths amt \<and>
    row_by p_request (q_id q) (payments d') = Some p \<and> p_amount p = ten_thousandths amt \<and>
    create_payment_endpoint x b key corr' auth (d'\<lparr>clock := now\<rparr>) =
      (Inr (payment_response (p_id p) (p_status p)), d'\<lparr>clock := now\<rparr>)"
proof -
  obtain k z where a: "admit x b key auth = Inr k" and run: "create_work x b k corr d = Inr (z, d')"
    using endpoint_cases [OF assms] by metis
  have adm: "key = Some k" "valid_body b" "authenticate_agent x auth b = Inr ()"
    using a by (auto simp: admit_def check_key_def err_simps split: if_splits option.splits)
  obtain h where h: "auth = Some h" "is_bearer h"
    "may_act (ex_oidc x) (ex_env x) (bearer_token h) (str_uuid (cb_agent b)) (str_uuid (cb_account b))"
    using adm(3) by (auto simp: authenticate_agent_def may_act_def split: option.splits if_splits sum.splits)
  from run show ?thesis
  proof (cases rule: create_work_cases)
    case (replayed q j)
    with assms(2) show ?thesis by simp
  next
    case created
    obtain amt e s c rid where n: "finite_decimal (cb_amount b) = Inr amt" "cb_evidence b = Some e" "ae_assertion e = Some s"
      "check_evidence x b e s amt (upper (cb_currency b)) = Inr c"
      and rec: "requested (cb_account b) k (request_fingerprint (ex_sha x) b) (ten_thousandths amt) rid d'"
        "paying rid (ten_thousandths amt) d'"
      using new_payment_recorded [OF created(2,1)] by metis
    obtain q p where q: "row_by (\<lambda>q. (q_account q, q_key q)) (cb_account b, k) (requests (d'\<lparr>clock := now\<rparr>)) = Some q"
      "q_amount q = ten_thousandths amt" "row_by p_request (q_id q) (payments (d'\<lparr>clock := now\<rparr>)) = Some p"
      "p_amount p = ten_thousandths amt"
      "create_work x b k corr' (d'\<lparr>clock := now\<rparr>) = Inr (Inl (payment_response (p_id p) (p_status p)), d'\<lparr>clock := now\<rparr>)"
      using recorded_replay [of "cb_account b" k "request_fingerprint (ex_sha x) b" "ten_thousandths amt" rid "d'\<lparr>clock := now\<rparr>" b x corr'] rec
      by auto
    have "create_payment_endpoint x b key corr' auth (d'\<lparr>clock := now\<rparr>) =
      (Inr (payment_response (p_id p) (p_status p)), d'\<lparr>clock := now\<rparr>)"
      using a q(5) by (simp add: create_payment_endpoint_def transact_def)
    with adm h n q created(1) show ?thesis by auto
  qed
qed

section \<open>A lost race\<close>

text \<open>Two requests with one key may both find nothing; the one that comes second to the INSERT finds the
  other's row. What it has written until then are a merchant and its evidence.\<close>

lemma merchant_effect:
  assumes "merchant nm dmn d = Inr (merch, d')"
  shows "\<exists>n ms. d' = d\<lparr>next_id := n, merchants := merchants d @ ms\<rparr> \<and> length ms \<le> 1"
proof (cases "d' = d")
  case True
  then have "d' = d\<lparr>next_id := next_id d, merchants := merchants d @ []\<rparr>" by (cases d) simp
  then show ?thesis by (metis le0 list.size(3))
next
  case False
  with assms show ?thesis
    by (force simp: merchant_def split: option.splits if_splits)
qed

lemma store_evidence_effect:
  assumes "store_evidence x b amt cur d = Inr ((ev, c), d')"
  shows "\<exists>e. d' = d\<lparr>next_id := next_id d + 1, evidences := evidences d @ [e]\<rparr> \<and> ev_id e = ev \<and>
    ev_account e = cb_account b \<and> ev_status e = ''VERIFIED'' \<and> ev_request e = None"
  using assms
  by (auto simp: store_evidence_def insert_evidence_def references_def err_simps split: option.splits if_splits)

lemma insert_request_lost:
  assumes "insert_request b key fprint merch amt cur d = Inr (y, d')"
    "row_by (\<lambda>q. (q_account q, q_key q)) (cb_account b, key) (requests d) = Some q"
  shows "\<exists>j. y = Inl j \<and> d' = d \<and> replay_answer fprint q d = Inr (j, d)"
proof -
  let ?c = "create_request (cb_account b) (cb_agent b) amt cur (cb_purpose b)
      (JArr (map item_json (cb_items b))) key (Some fprint) merch d"
  have "?c \<noteq> Inr r" for r
    using assms(2) by (cases r) (auto simp: create_request_def err_simps split: if_splits)
  then obtain e where e: "?c = Inl e" by (metis sum.exhaust)
  have "\<exists>j. y = Inl j \<and> replay_answer fprint q d = Inr (j, d')"
    using assms e by (cases e) (auto simp: insert_request_def tryT_def find_by_idempotency_def err_simps)
  then show ?thesis using replay_answer_same by metis
qed

text \<open>C2: a request that found its key free, and lost the race for it to another connection
  before its own INSERT, is answered like a replay, with the payment of the winner: no second request,
  payment, approval, reservation or event comes to be. But unlike a replay it does not leave the database
  alone: what it wrote before the INSERT is committed, a verified evidence that belongs to no request and
  possibly a merchant.\<close>

theorem race_lost:
  assumes winner: "row_by (\<lambda>q. (q_account q, q_key q)) (cb_account b, k) (requests d) = Some q"
    and run: "transact (new_payment x b k (request_fingerprint (ex_sha x) b) corr) d = (Inr z, d')"
  shows "\<exists>p e ms n. row_by p_request (q_id q) (payments d) = Some p \<and>
    z = Inl (payment_response (p_id p) (p_status p)) \<and> create_work x b k corr d = Inr (z, d) \<and>
    d' = d\<lparr>next_id := n, merchants := merchants d @ ms, evidences := evidences d @ [e]\<rparr> \<and> length ms \<le> 1 \<and>
    ev_account e = cb_account b \<and> ev_status e = ''VERIFIED'' \<and> ev_request e = None"
proof -
  let ?fp = "request_fingerprint (ex_sha x) b"
  have "new_payment x b k ?fp corr d = Inr (z, d')"
    using run by (auto simp: transact_def split: sum.splits prod.splits)
  then obtain merch d1 amt ev c d2 y d3 where
    1: "(case cb_merchant b of None \<Rightarrow> returnT None | Some m \<Rightarrow> merchant (am_name m) (am_domain m)) d = Inr (merch, d1)"
    and 2: "store_evidence x b amt (upper (cb_currency b)) d1 = Inr ((ev, c), d2)"
    and 3: "insert_request b k ?fp merch amt (upper (cb_currency b)) d2 = Inr (y, d3)"
    and rest: "(case y of
       Inl j \<Rightarrow> returnT (Inl j)
     | Inr rid \<Rightarrow>
         bindT (bind_evidence rid ev (ctx_digest c)) (\<lambda>_.
         bindT (insert_payment rid amt (upper (cb_currency b)) ST_POLICY_CHECK) (\<lambda>pid.
         decide_payment x b rid pid amt (upper (cb_currency b)) corr))) d3 = Inr (z, d')"
    by (auto simp: new_payment_def Let_def err_simps)
  have "\<exists>n ms. d1 = d\<lparr>next_id := n, merchants := merchants d @ ms\<rparr> \<and> length ms \<le> 1"
  proof (cases "cb_merchant b")
    case None
    with 1 have "d1 = d\<lparr>next_id := next_id d, merchants := merchants d @ []\<rparr>" by (cases d) simp
    then show ?thesis by (metis le0 list.size(3))
  next
    case (Some m)
    with 1 show ?thesis using merchant_effect by simp
  qed
  then obtain n ms where d1: "d1 = d\<lparr>next_id := n, merchants := merchants d @ ms\<rparr>" "length ms \<le> 1" by blast
  obtain e where d2: "d2 = d1\<lparr>next_id := next_id d1 + 1, evidences := evidences d1 @ [e]\<rparr>"
    and e: "ev_account e = cb_account b" "ev_status e = ''VERIFIED''" "ev_request e = None"
    using store_evidence_effect [OF 2] by blast
  have "row_by (\<lambda>q. (q_account q, q_key q)) (cb_account b, k) (requests d2) = Some q" using winner d1 d2 by simp
  from insert_request_lost [OF 3 this] rest obtain j where
    j: "z = Inl j" "d' = d2" "replay_answer ?fp q d2 = Inr (j, d2)" by auto
  then obtain p where p: "row_by p_request (q_id q) (payments d) = Some p" "j = payment_response (p_id p) (p_status p)"
    "replay_answer ?fp q d = Inr (j, d)"
    using d1 d2 by (auto simp: replay_answer_def split: if_splits option.splits)
  moreover have "create_work x b k corr d = Inr (z, d)"
    using winner p(3) j(1) by (simp add: create_work_def find_by_idempotency_def Let_def)
  moreover have "d' = d\<lparr>next_id := n + 1, merchants := merchants d @ ms, evidences := evidences d @ [e]\<rparr>"
    using d1 d2 j(2) by simp
  ultimately show ?thesis using d1(2) e j(1) by blast
qed

section \<open>A request\<close>

definition demo_claims :: "(string \<times> json) list" where
  "demo_claims =
     [(''protocol_version'', JStr ''atf/v1''), (''decision'', JStr ''ALLOW''), (''action'', JStr ''PAYMENT''),
      (''revocation_status'', JStr ''VALID''), (''subject_agent'', JStr (str_uuid 2)),
      (''account_id'', JStr (str_uuid 1)), (''max_amount'', JStr ''100''), (''currency'', JStr ''usd''),
      (''exp'', JInt 1800000000), (''evidence_id'', JStr ''ev_1''), (''iss'', JStr ''atf''),
      (''version'', JStr ''1'')]"

definition demo_ext :: externals where
  "demo_ext = \<lparr>ex_sha = (\<lambda>_. ''f''), ex_oidc = (\<lambda>_. None), ex_atf = (\<lambda>_. Some demo_claims),
     ex_float_time = (\<lambda>r. Inl (ValueError r)), ex_time = (\<lambda>_. None),
     ex_env = dev_env(''AGENT_PAY_ATF_JWKS_URL'' \<mapsto> ''u'', ''AGENT_PAY_ATF_ISSUER'' \<mapsto> ''atf'', ''AGENT_PAY_ATF_AUDIENCE'' \<mapsto> ''pay''),
     ex_now = hook_now\<rparr>"

definition demo_evidence :: api_evidence where
  "demo_evidence = \<lparr>ae_id = ''ev_1'', ae_issuer = ''atf'', ae_type = ''ATF'', ae_delegation = None, ae_scope = [''PAYMENT''],
     ae_max_amount = None, ae_currency = None, ae_expires = None, ae_digest = None, ae_version = None,
     ae_assertion = Some ''jwt''\<rparr>"

definition demo_body :: create_body where
  "demo_body = \<lparr>cb_agent = 2, cb_account = 1, cb_policy = None, cb_budget = None, cb_merchant = None,
     cb_amount = ''25.0000'', cb_currency = ''usd'', cb_purpose = ''books'', cb_items = [], cb_evidence = Some demo_evidence\<rparr>"

definition demo_db :: db where
  "demo_db = sample_db\<lparr>profile := assumed, requests := [], payments := [], evidences := [],
     policies := [\<lparr>pol_id = 6, pol_account = 1, pol_active = True, pol_updated = 0\<rparr>],
     policy_versions := [\<lparr>pv_id = 7, pv_policy = 6, pv_version = 1, pv_rules = sample_rules, pv_status = ''ACTIVE''\<rparr>]\<rparr>"

lemma demo_admitted: "admit demo_ext demo_body (Some ''k2'') (Some ''Bearer t'') = Inr ''k2''"
  by (simp add: admit_def demo_body_def valid_body_def amount_text_def is_digit_def check_key_def text_eval
      authenticate_agent_def is_bearer_def bearer_token_def resolve_bearer_def demo_ext_def dev_env_def auth_mode_def
      getenv_or_def require_agent_def)

lemma demo_verified:
  "\<exists>c. check_evidence demo_ext demo_body demo_evidence ''jwt'' (of_num4 250000) ''USD'' = Inr c \<and> ctx_digest c = Some ''f''"
  by (simp add: check_evidence_def demo_ext_def demo_body_def demo_evidence_def verify_signed_assertion_def demo_claims_def
      atf_config_of_def dev_env_def configured_def atf_checks_def atf_amounts_def atf_max_amount_def jget_def jget_or_def
      jindex_def parse_ints dec_simps dval_def of_num4_def from_seconds_def Let_def text_eval validate_context_def
      mismatch_def hook_now_def default_utc_def instant_def time_micros_def)

lemma demo_decision:
  "evaluate_rules (\<lparr>rl_transaction = Finite (Dec 100 0), rl_notify = None, rl_approval = Some (Finite (Dec 50 0))\<rparr>,
          \<lparr>per_transaction_limit = Dec 100 0, notify_above = None, approval_above = Some (Dec 50 0),
           allowed_categories = None, denied_categories = {}, allowed_domains = None, denied_domains = {},
           allowed_currencies = None, denied_currencies = {}, allowed_regions = None, denied_regions = {},
           allowed_instrument_classes = None, denied_instrument_classes = {}, allowed_weekdays = None,
           start_time = None, end_time = None\<rparr>)
     (api_intent pid agent \<lparr>money_value = of_num4 250000, money_currency = ''USD''\<rparr> []) None ver =
     Inr \<lparr>decision = ALLOW_AUTO, policy_version = ver, reasons = [''POLICY_ALLOWED''],
          evaluated_rules = [''amount <= '' @ str_dec (Dec 100 0), ''currency in ANY'']\<rparr>"
  by (simp add: evaluate_rules_def Let_def api_intent_def other_reasons_def denial_reasons_def opt_denied_def
      opt_not_allowed_def weekday_reasons_def window_reasons_def reason_if_def pd_above_def dec_simps dval_def of_num4_def
      n_category_def n_region_def n_instrument_def norm_text_def or_else_def pd_text_def currency_rule_def)

lemma demo_created:
  "\<exists>j d'. create_work demo_ext demo_body ''k2'' None demo_db = Inr (Inl j, d') \<and> length (payments d') = 1"
proof -
  obtain c where c: "check_evidence demo_ext demo_body demo_evidence ''jwt'' (of_num4 250000) ''USD'' = Inr c" "ctx_digest c = Some ''f''"
    using demo_verified by blast
  have b: "cb_evidence demo_body = Some demo_evidence" "ae_assertion demo_evidence = Some ''jwt''" "cb_merchant demo_body = None"
    "cb_amount demo_body = ''25.0000''" "cb_currency demo_body = ''usd''" "cb_account demo_body = 1" "cb_agent demo_body = 2"
    "cb_policy demo_body = None" "cb_budget demo_body = None" "ex_time demo_ext = (\<lambda>_. None)"
    by (simp_all add: demo_body_def demo_evidence_def demo_ext_def)
  have n: "mk_money (of_num4 250000) ''USD'' = Inr \<lparr>money_value = of_num4 250000, money_currency = ''USD''\<rparr>"
    by (simp add: mk_money_def dec_simps dval_def of_num4_def)
  show ?thesis
    by (simp add: create_work_def find_by_idempotency_def Let_def new_payment_def b c n sample_budget_facts dev_body_value text_eval
        store_evidence_def evidence_error_def insert_evidence_def insert_request_def tryT_def create_request_def references_def
        char3_def bind_evidence_def insert_payment_def decide_payment_def evaluate_policy_def
        active_policy_def active_versions_def sample_from_rules demo_decision control_payment_def
        policy_of_version_def select_budget_def compatible_budget_def bp_eq_def bind_budget_def start_payment_def prepare_def
        bound_payment_def evidence_status_def terminal_states_def budget_reserve_def request_currency_def insert_reservation_def
        update_status_def enqueue_def demo_db_def assumed_def sample_defs)
qed

theorem create_once_witness:
  "\<exists>j d'. \<exists>p :: payment_row. create_payment_endpoint demo_ext demo_body (Some ''k2'') None (Some ''Bearer t'') demo_db = (Inr j, d') \<and>
     p_amount p = 250000 \<and>
     create_payment_endpoint demo_ext demo_body (Some ''k2'') None (Some ''Bearer t'') (d'\<lparr>clock := 60\<rparr>) =
       (Inr (payment_response (p_id p) (p_status p)), d'\<lparr>clock := 60\<rparr>)"
proof -
  obtain j d' where w: "create_work demo_ext demo_body ''k2'' None demo_db = Inr (Inl j, d')" and l: "length (payments d') = 1"
    using demo_created by blast
  have run: "create_payment_endpoint demo_ext demo_body (Some ''k2'') None (Some ''Bearer t'') demo_db = (Inr j, d')"
    by (simp add: create_payment_endpoint_def demo_admitted transact_def w)
  have ne: "d' \<noteq> demo_db" using l by (auto simp: demo_db_def)
  have a: "finite_decimal (cb_amount demo_body) = Inr amt \<Longrightarrow> ten_thousandths amt = 250000" for amt
    using dev_body_value by (auto simp: demo_body_def)
  obtain amt and p :: payment_row where "finite_decimal (cb_amount demo_body) = Inr amt" "p_amount p = ten_thousandths amt"
    "create_payment_endpoint demo_ext demo_body (Some ''k2'') None (Some ''Bearer t'') (d'\<lparr>clock := 60\<rparr>) =
       (Inr (payment_response (p_id p) (p_status p)), d'\<lparr>clock := 60\<rparr>)"
    using create_once [OF run ne, of None 60] by (elim exE conjE) (rule that)
  with run a show ?thesis by auto
qed

theorem deployed_rejects_witness:
  "profile sample_db = deployed \<and>
   snd (create_payment_endpoint demo_ext demo_body (Some ''k2'') None (Some ''Bearer t'') sample_db) = sample_db \<and>
   (\<exists>e. approve_payment id dev_env 0 30 None (Some ''Bearer local-approval-token'') None sample_db = (Inl e, sample_db))"
proof -
  have "profile sample_db = deployed" by (simp add: sample_defs)
  with deployed_rejects [OF this] show ?thesis by blast
qed

text \<open>The winner's payment is there when the loser arrives at its INSERT.\<close>

definition won_db :: db where
  "won_db = demo_db\<lparr>requests := [sample_request\<lparr>q_key := ''k2'', q_fingerprint := None\<rparr>], payments := [sample_payment]\<rparr>"

lemma won_run:
  "\<exists>z d'. transact (new_payment demo_ext demo_body ''k2'' (request_fingerprint (ex_sha demo_ext) demo_body) None) won_db = (Inr z, d')"
proof -
  obtain c where c: "check_evidence demo_ext demo_body demo_evidence ''jwt'' (of_num4 250000) ''USD'' = Inr c"
    using demo_verified by blast
  have b: "cb_evidence demo_body = Some demo_evidence" "ae_assertion demo_evidence = Some ''jwt''" "cb_merchant demo_body = None"
    "cb_amount demo_body = ''25.0000''" "cb_currency demo_body = ''usd''" "cb_account demo_body = 1" "cb_agent demo_body = 2"
    by (simp_all add: demo_body_def demo_evidence_def)
  show ?thesis
    by (simp add: transact_def Let_def new_payment_def b c sample_budget_facts dev_body_value text_eval
        store_evidence_def evidence_error_def insert_evidence_def insert_request_def tryT_def create_request_def references_def
        char3_def find_by_idempotency_def replay_answer_def won_db_def demo_db_def assumed_def sample_defs)
qed

theorem race_lost_witness:
  "\<exists>z d' e. transact (new_payment demo_ext demo_body ''k2'' (request_fingerprint (ex_sha demo_ext) demo_body) None) won_db =
       (Inr z, d') \<and> create_work demo_ext demo_body ''k2'' None won_db = Inr (z, won_db) \<and>
     payments d' = payments won_db \<and> evidences d' = [e] \<and> ev_status e = ''VERIFIED'' \<and> ev_request e = None"
proof -
  obtain z d' where run: "transact (new_payment demo_ext demo_body ''k2'' (request_fingerprint (ex_sha demo_ext) demo_body) None) won_db =
      (Inr z, d')"
    using won_run by blast
  have "\<exists>q. row_by (\<lambda>q. (q_account q, q_key q)) (cb_account demo_body, ''k2'') (requests won_db) = Some q"
    by (simp add: won_db_def demo_db_def demo_body_def sample_defs)
  then obtain q where "row_by (\<lambda>q. (q_account q, q_key q)) (cb_account demo_body, ''k2'') (requests won_db) = Some q" by blast
  from race_lost [OF this run] obtain e ms n where
    "d' = won_db\<lparr>next_id := n, merchants := merchants won_db @ ms, evidences := evidences won_db @ [e]\<rparr>"
    "create_work demo_ext demo_body ''k2'' None won_db = Inr (z, won_db)" "ev_status e = ''VERIFIED''" "ev_request e = None"
    by blast
  moreover have "evidences won_db = []" by (simp add: won_db_def demo_db_def)
  ultimately show ?thesis using run by auto
qed

end
