(* ===== verification/Settlement.thy ===== *)
theory Settlement
  imports Webhooks
begin

text \<open>
  \<open>settlement.py\<close>, \<open>reconciliation.py\<close> and the settlement endpoint of \<open>webhooks.py\<close>: a provider's
  settlement report is stored once per provider and settlement reference and compared with the operation it
  names. Reading a timestamp is the server's work and a parameter.
\<close>

section \<open>Comparing\<close>

definition compare_amounts :: "decimal \<Rightarrow> decimal \<Rightarrow> string \<Rightarrow> string \<Rightarrow> string \<times> string option" where
  "compare_amounts expected observed expected_cur observed_cur =
     (let currency_match = (upper (strip expected_cur) = upper (strip observed_cur));
          amount_match = deq expected observed
      in if currency_match \<and> amount_match then (''MATCHED'', None)
         else if \<not> currency_match then (''DISCREPANCY'', Some ''CURRENCY_MISMATCH'')
         else (''DISCREPANCY'', Some ''AMOUNT_MISMATCH''))"

section \<open>Ingestion\<close>

record report =
  rp_provider :: string
  rp_settlement :: string
  rp_reference :: string
  rp_amount :: string
  rp_currency :: string
  rp_reported :: json
  rp_settled :: json

text \<open>The checks before the transaction. A NaN cannot be compared; an infinity passes and is refused by the
  NUMERIC column.\<close>

definition check_report :: "report \<Rightarrow> exn + report \<times> pydec" where
  "check_report p =
     bindE (parse_decimal (rp_amount p)) (\<lambda>amt.
     let q = p\<lparr>rp_provider := strip (rp_provider p), rp_settlement := strip (rp_settlement p),
               rp_reference := strip (rp_reference p), rp_currency := upper (strip (rp_currency p))\<rparr>
     in if rp_provider q = [] \<or> rp_settlement q = [] \<or> rp_reference q = []
        then Inl (ValueError ''provider and settlement references are required'')
        else bindE (pd_le amt (Finite dzero)) (\<lambda>nonpos.
          if nonpos then Inl (ValueError ''observed settlement amount must be positive'')
          else if length (rp_currency q) \<noteq> 3
          then Inl (ValueError ''observed settlement currency must be ISO-4217 alpha-3'')
          else Inr (q, amt)))"

definition stored_amount :: "pydec \<Rightarrow> exn + decimal \<times> num4" where
  "stored_amount v =
     (case v of
        Finite a \<Rightarrow> bindE (to_num4 a) (\<lambda>n. Inr (a, n))
      | _ \<Rightarrow> Inl (DbError ''NumericValueOutOfRange''))"

definition insert_settlement ::
    "(json \<Rightarrow> exn + int option) \<Rightarrow> report \<Rightarrow> num4 \<Rightarrow> nat option tx" where
  "insert_settlement pgtime p n =
     bindT (liftT (char3 (rp_currency p))) (\<lambda>cur.
     bindT (liftT (pgtime (rp_reported p))) (\<lambda>reported.
     bindT (liftT (pgtime (rp_settled p))) (\<lambda>settled_at.
     bindT (queryT (\<lambda>d. known (\<lambda>s. (se_provider s, se_reference s)) (rp_provider p, rp_settlement p) (settlements d))) (\<lambda>dup.
     if dup then returnT None
     else
       bindT draw_id (\<lambda>i.
       bindT (modifyT (\<lambda>d. d\<lparr>settlements := settlements d @
         [\<lparr>se_id = i, se_provider = rp_provider p, se_reference = rp_settlement p, se_currency = cur, se_amount = n,
           se_status = ''REPORTED'', se_reported = reported, se_settled = settled_at\<rparr>]\<rparr>)) (\<lambda>_.
       returnT (Some i)))))))"

definition record_reconciliation ::
    "nat \<Rightarrow> nat option \<Rightarrow> string \<Rightarrow> num4 option \<Rightarrow> num4 \<Rightarrow> string option \<Rightarrow> string \<Rightarrow> string option \<Rightarrow> unit tx" where
  "record_reconciliation i oid st expected observed expected_cur observed_cur code =
     bindT (queryT (\<lambda>d. known rc_settlement (Some i) (reconciliations d))) (\<lambda>dup.
     bindT (guardT (\<not> dup) (UniqueViolation ''ux_reconciliation_settlement'')) (\<lambda>_.
     modifyT (\<lambda>d. d\<lparr>reconciliations := reconciliations d @
       [\<lparr>rc_settlement = Some i, rc_operation = oid, rc_status = st, rc_expected = expected, rc_observed = observed,
         rc_expected_currency = expected_cur, rc_observed_currency = observed_cur, rc_code = code\<rparr>]\<rparr>)))"

definition set_settlement :: "nat \<Rightarrow> string \<Rightarrow> unit tx" where
  "set_settlement i st =
     modifyT (\<lambda>d. d\<lparr>settlements := upd_by se_id i (\<lambda>s. s\<lparr>se_status := st\<rparr>) (settlements d)\<rparr>)"

text \<open>The operation with its payment; the join drops an operation whose payment does not exist.\<close>

definition paid_operation :: "string \<Rightarrow> db \<Rightarrow> (operation_row \<times> payment_row) option" where
  "paid_operation ref d =
     (let ops = sort_key o_created (filter (\<lambda>op. o_reference op = Some ref \<and> known p_id (o_payment op) (payments d)) (operations d))
      in if ops = [] then None else map_option (Pair (last ops)) (row_by p_id (o_payment (last ops)) (payments d)))"

definition conclusion :: "operation_row \<Rightarrow> payment_row \<Rightarrow> decimal \<Rightarrow> string \<Rightarrow> string \<times> string option" where
  "conclusion op p observed cur =
     (if o_status op \<noteq> ''SUCCEEDED'' then (''DISCREPANCY'', Some ''STATUS_MISMATCH'')
      else compare_amounts (of_num4 (p_amount p)) observed (p_currency p) cur)"

definition ingest_work :: "(json \<Rightarrow> exn + int option) \<Rightarrow> report \<Rightarrow> pydec \<Rightarrow> string tx" where
  "ingest_work pgtime p v =
     bindT (liftT (stored_amount v)) (\<lambda>(a, n).
     bindT (insert_settlement pgtime p n) (\<lambda>inserted.
     case inserted of
       None \<Rightarrow> returnT ''DUPLICATE''
     | Some i \<Rightarrow>
         bindT (queryT (paid_operation (rp_reference p))) (\<lambda>found.
         case found of
           None \<Rightarrow>
             bindT (record_reconciliation i None ''DISCREPANCY'' None n None (rp_currency p)
                      (Some ''UNKNOWN_PROVIDER_REFERENCE'')) (\<lambda>_.
             bindT (set_settlement i ''DISCREPANCY'') (\<lambda>_.
             returnT ''DISCREPANCY''))
         | Some (op, q) \<Rightarrow>
             (case conclusion op q a (rp_currency p) of
                (st, code) \<Rightarrow>
                  bindT (record_reconciliation i (Some (o_id op)) st (Some (p_amount q)) n (Some (p_currency q))
                           (rp_currency p) code) (\<lambda>_.
                  bindT (set_settlement i (if st = ''MATCHED'' then ''RECONCILED'' else ''DISCREPANCY'')) (\<lambda>_.
                  returnT st))))))"

definition ingest :: "(json \<Rightarrow> exn + int option) \<Rightarrow> report \<Rightarrow> db \<Rightarrow> (exn + string) \<times> db" where
  "ingest pgtime p d =
     (case check_report p of
        Inl e \<Rightarrow> (Inl e, d)
      | Inr (q, v) \<Rightarrow> transact (ingest_work pgtime q v) d)"

section \<open>The endpoint\<close>

text \<open>All four texts are required and not empty; the members of a value that is not an object cannot be
  read.\<close>

fun nonempty_text :: "json \<Rightarrow> bool" where
  "nonempty_text (JStr s) = (s \<noteq> [])"
| "nonempty_text v = False"

definition settlement_input :: "string \<Rightarrow> json \<Rightarrow> exn + report" where
  "settlement_input name payload =
     (case payload of
        JObj ms \<Rightarrow>
          (if \<forall>k \<in> {''settlement_reference'', ''provider_reference'', ''amount'', ''currency''}. nonempty_text (jget ms k)
           then Inr \<lparr>rp_provider = name, rp_settlement = py_str (jget ms ''settlement_reference''),
                     rp_reference = py_str (jget ms ''provider_reference''), rp_amount = py_str (jget ms ''amount''),
                     rp_currency = py_str (jget ms ''currency''), rp_reported = jget ms ''reported_at'',
                     rp_settled = jget ms ''settled_at''\<rparr>
           else http_error 400 ''settlement_reference, provider_reference, amount and currency are required'')
      | _ \<Rightarrow> Inl (AttributeError ''get''))"

definition provider_settlement ::
    "(string \<Rightarrow> string \<Rightarrow> string) \<Rightarrow> (string \<Rightarrow> parsed_body) \<Rightarrow> (json \<Rightarrow> exn + int option) \<Rightarrow> environ
      \<Rightarrow> string \<Rightarrow> string \<Rightarrow> string option \<Rightarrow> db \<Rightarrow> (exn + json) \<times> db" where
  "provider_settlement hmac loads pgtime env name body signature d =
     (case bindE (signed_body hmac loads env name body signature) (settlement_input name) of
        Inl e \<Rightarrow> (Inl e, d)
      | Inr p \<Rightarrow>
          (let (r, d') = ingest pgtime p d
           in case r of
                Inl e \<Rightarrow> (Inl e, d')
              | Inr st \<Rightarrow> (Inr (JObj [(''status'', JStr st), (''settlement_reference'', JStr (rp_settlement p))]), d')))"

section \<open>Reconciliation observes\<close>

abbreviation settlement_key :: "settlement_row \<Rightarrow> string \<times> string" where
  "settlement_key s \<equiv> (se_provider s, se_reference s)"

lemma compare_matched:
  "fst (compare_amounts expected observed cur cur') = ''MATCHED'' \<longleftrightarrow>
     dval expected = dval observed \<and> upper (strip cur) = upper (strip cur')"
  by (auto simp: compare_amounts_def Let_def deq_dval)

lemma conclusion_matched:
  "fst (conclusion op q a cur) = ''MATCHED'' \<longleftrightarrow>
     o_status op = ''SUCCEEDED'' \<and> dval (of_num4 (p_amount q)) = dval a \<and> upper (strip (p_currency q)) = upper (strip cur)"
  by (simp add: conclusion_def compare_matched)

lemma check_report_idem: "check_report p = Inr (q, v) \<Longrightarrow> rp_settlement q = strip (rp_settlement p) \<and>
    rp_provider q = strip (rp_provider p) \<and> rp_currency q = upper (strip (rp_currency p)) \<and>
    rp_reference q = strip (rp_reference p) \<and> parse_decimal (rp_amount p) = Inr v"
  by (auto simp: check_report_def Let_def err_simps split: if_splits)

lemma upd_by_append: "upd_by key k f (xs @ ys) = upd_by key k f xs @ upd_by key k f ys"
  by (simp add: upd_by_def)

text \<open>The three ways a report is ingested.\<close>

lemma ingest_cases:
  assumes "ingest_work pgtime q v d = Inr (st, d')"
  obtains (duplicate) "known settlement_key (rp_provider q, rp_settlement q) (settlements d)" "st = ''DUPLICATE''" "d' = d"
    | (recorded) a s rc where "v = Finite a" "\<not> known settlement_key (rp_provider q, rp_settlement q) (settlements d)"
      "settlement_key s = (rp_provider q, rp_settlement q)"
      "se_status s = (if st = ''MATCHED'' then ''RECONCILED'' else ''DISCREPANCY'')"
      "settlements d' = upd_by se_id (next_id d) (\<lambda>x. x\<lparr>se_status := se_status s\<rparr>) (settlements d) @ [s]"
      "reconciliations d' = reconciliations d @ [rc]" "rc_status rc = st"
      "d'\<lparr>next_id := 0, settlements := [], reconciliations := []\<rparr> = d\<lparr>next_id := 0, settlements := [], reconciliations := []\<rparr>"
      "st = (case paid_operation (rp_reference q) d of None \<Rightarrow> ''DISCREPANCY''
             | Some (op, pay) \<Rightarrow> fst (conclusion op pay a (rp_currency q)))"
proof -
  obtain a n where a: "v = Finite a" "stored_amount v = Inr (a, n)"
    using assms by (cases v; cases "stored_amount v") (auto simp: ingest_work_def stored_amount_def err_simps)
  obtain cur rep set_at where i: "char3 (rp_currency q) = Inr cur" "pgtime (rp_reported q) = Inr rep"
    "pgtime (rp_settled q) = Inr set_at"
    using assms a by (auto simp: ingest_work_def insert_settlement_def err_simps)
  show thesis
  proof (cases "known settlement_key (rp_provider q, rp_settlement q) (settlements d)")
    case True
    with assms a i duplicate show thesis by (simp add: ingest_work_def insert_settlement_def)
  next
    case False
    let ?row = "\<lparr>se_id = next_id d, se_provider = rp_provider q, se_reference = rp_settlement q, se_currency = cur,
      se_amount = n, se_status = ''REPORTED'', se_reported = rep, se_settled = set_at\<rparr>"
    have same: "paid_operation r (d\<lparr>next_id := m, settlements := ss\<rparr>) = paid_operation r d" for r m ss
      by (simp add: paid_operation_def Let_def)
    show thesis
    proof (cases "paid_operation (rp_reference q) d")
      case None
      with False assms a i same show thesis
        by (intro recorded [of a "?row\<lparr>se_status := ''DISCREPANCY''\<rparr>"])
          (auto simp: ingest_work_def insert_settlement_def record_reconciliation_def set_settlement_def upd_by_append err_simps
            split: if_splits)
    next
      case (Some r)
      obtain op pay where r: "r = (op, pay)" by (cases r)
      obtain st' code where c: "conclusion op pay a (rp_currency q) = (st', code)" by fastforce
      from Some r c False assms a i same show thesis
        by (intro recorded [of a "?row\<lparr>se_status := (if st = ''MATCHED'' then ''RECONCILED'' else ''DISCREPANCY'')\<rparr>"
              "\<lparr>rc_settlement = Some (next_id d), rc_operation = Some (o_id op), rc_status = st', rc_expected = Some (p_amount pay),
                 rc_observed = n, rc_expected_currency = Some (p_currency pay), rc_observed_currency = rp_currency q,
                 rc_code = code\<rparr>"])
          (auto simp: ingest_work_def insert_settlement_def record_reconciliation_def set_settlement_def upd_by_append err_simps
            split: if_splits)
    qed
  qed
qed

lemma ingest_again:
  assumes "ingest_work pgtime q v d = Inr (st, d')" "known settlement_key (rp_provider q, rp_settlement q) (settlements e)"
  shows "ingest_work pgtime q v e = Inr (''DUPLICATE'', e)"
proof -
  obtain a n where a: "v = Finite a" "stored_amount v = Inr (a, n)"
    using assms(1) by (cases v; cases "stored_amount v") (auto simp: ingest_work_def stored_amount_def err_simps)
  obtain cur rep set_at where "char3 (rp_currency q) = Inr cur" "pgtime (rp_reported q) = Inr rep"
    "pgtime (rp_settled q) = Inr set_at"
    using assms(1) a by (auto simp: ingest_work_def insert_settlement_def err_simps)
  with assms(2) a show ?thesis by (simp add: ingest_work_def insert_settlement_def)
qed

text \<open>What a report is judged against: the latest operation with its reference.\<close>

definition report_matches :: "report \<Rightarrow> db \<Rightarrow> bool" where
  "report_matches p d \<longleftrightarrow>
     (\<exists>op q a. paid_operation (strip (rp_reference p)) d = Some (op, q) \<and> o_status op = ''SUCCEEDED'' \<and>
        parse_decimal (rp_amount p) = Inr (Finite a) \<and> dval a = dval (of_num4 (p_amount q)) \<and>
        upper (strip (p_currency q)) = upper (strip (rp_currency p)))"

lemma recorded_matches:
  assumes "check_report p = Inr (q, Finite a)"
    and "st = (case paid_operation (rp_reference q) d of None \<Rightarrow> ''DISCREPANCY''
             | Some (op, pay) \<Rightarrow> fst (conclusion op pay a (rp_currency q)))"
  shows "(st = ''MATCHED'') = report_matches p d"
proof -
  note q = check_report_idem [OF assms(1)]
  show ?thesis
  proof (cases "paid_operation (rp_reference q) d")
    case None
    with assms(2) q show ?thesis by (simp add: report_matches_def)
  next
    case (Some r)
    obtain op pay where "r = (op, pay)" by (cases r)
    with Some assms(2) q show ?thesis by (auto simp: report_matches_def conclusion_matched strip_upper)
  qed
qed

lemma conclusion_not_duplicate: "fst (conclusion op pay a cur) \<noteq> ''DUPLICATE''"
  by (simp add: conclusion_def compare_amounts_def Let_def)

text \<open>C23: ingesting a settlement report touches nothing but the settlements and the
  reconciliation records. A new report is MATCHED exactly when the latest operation with its provider
  reference has succeeded and its amount, as a number, and its currency are the payment's; the stored
  settlement is then RECONCILED, otherwise a DISCREPANCY. The same settlement reported again is a DUPLICATE
  and changes nothing.\<close>

theorem settlement_observes:
  assumes "ingest pgtime p d = (Inr st, d')"
  shows "d'\<lparr>next_id := 0, settlements := [], reconciliations := []\<rparr> = d\<lparr>next_id := 0, settlements := [], reconciliations := []\<rparr> \<and>
    (if known settlement_key (strip (rp_provider p), strip (rp_settlement p)) (settlements d)
     then st = ''DUPLICATE'' \<and> d' = d
     else (st = ''MATCHED'') = report_matches p d \<and>
       (\<exists>s rc. row_by settlement_key (strip (rp_provider p), strip (rp_settlement p)) (settlements d') = Some s \<and>
          se_status s = (if st = ''MATCHED'' then ''RECONCILED'' else ''DISCREPANCY'') \<and>
          reconciliations d' = reconciliations d @ [rc] \<and> rc_status rc = st)) \<and>
    ingest pgtime p (d'\<lparr>clock := now\<rparr>) = (Inr ''DUPLICATE'', d'\<lparr>clock := now\<rparr>)"
proof -
  obtain q v where c: "check_report p = Inr (q, v)" and run: "ingest_work pgtime q v d = Inr (st, d')"
    using assms by (cases "check_report p") (auto simp: ingest_def transact_Inr)
  note q = check_report_idem [OF c]
  have again: "ingest pgtime p e = (Inr ''DUPLICATE'', e)"
    if "known settlement_key (rp_provider q, rp_settlement q) (settlements e)" for e
    using ingest_again [OF run that] c by (simp add: ingest_def transact_def)
  show ?thesis
    using run
  proof (cases rule: ingest_cases)
    case duplicate
    with q again [of "d'\<lparr>clock := now\<rparr>"] show ?thesis by simp
  next
    case (recorded a s rc)
    let ?ss = "upd_by se_id (next_id d) (\<lambda>x. x\<lparr>se_status := se_status s\<rparr>) (settlements d)"
    have "keys_of settlement_key ?ss = keys_of settlement_key (settlements d)" by (rule keys_upd_by) simp
    with recorded(2) have "row_by settlement_key (rp_provider q, rp_settlement q) ?ss = None" by (simp add: row_by_None)
    with recorded(3,5) have s: "row_by settlement_key (rp_provider q, rp_settlement q) (settlements d') = Some s"
      by (simp add: row_by_append)
    then have "known settlement_key (rp_provider q, rp_settlement q) (settlements (d'\<lparr>clock := now\<rparr>))"
      by (auto dest: row_by_Some_keys)
    from again [OF this] s recorded recorded_matches [OF c [unfolded recorded(1)] recorded(9)] q show ?thesis by simp
  qed
qed

section \<open>A report\<close>

definition sample_report :: report where
  "sample_report = \<lparr>rp_provider = ''mock'', rp_settlement = ''s1'', rp_reference = ''r'', rp_amount = ''25.0000'',
     rp_currency = ''usd'', rp_reported = JNull, rp_settled = JNull\<rparr>"

definition charged_db :: db where
  "charged_db = unknown_db\<lparr>payments := [sample_payment\<lparr>p_status := ST_SUCCEEDED\<rparr>],
     operations := [\<lparr>o_id = 12, o_payment = 5, o_type = ''CHARGE'', o_key = charge_name 5, o_reference = Some ''r'',
       o_status = ''SUCCEEDED'', o_created = 0, o_completed = None\<rparr>]\<rparr>"

lemma sample_amount: "parse_decimal ''25.0000'' = Inr (Finite (of_num4 250000))"
proof -
  obtain v where v: "parse_decimal ''25.0000'' = Inr v" using dev_body_value by (auto simp: finite_decimal_def err_simps)
  with dev_body_value show ?thesis by (cases v) (simp_all add: finite_decimal_def)
qed

lemma report_ingested: "\<exists>d'. ingest (\<lambda>_. Inr None) sample_report charged_db = (Inr ''MATCHED'', d')"
  by (simp add: ingest_def check_report_def sample_report_def sample_amount text_eval dzero_num4 transact_def
      ingest_work_def stored_amount_def to_num4_def ten_thousandths_def check_num4_def num4_max_def
      insert_settlement_def record_reconciliation_def set_settlement_def char3_def paid_operation_def conclusion_def
      compare_amounts_def deq_def Let_def charged_db_def unknown_db_def ready_db_def held_db_def sample_defs)

theorem settlement_observes_witness:
  "\<exists>d'. ingest (\<lambda>_. Inr None) sample_report charged_db = (Inr ''MATCHED'', d') \<and>
     report_matches sample_report charged_db \<and> transactions d' = transactions charged_db \<and>
     ingest (\<lambda>_. Inr None) sample_report (d'\<lparr>clock := 60\<rparr>) = (Inr ''DUPLICATE'', d'\<lparr>clock := 60\<rparr>)"
proof -
  obtain d' where run: "ingest (\<lambda>_. Inr None) sample_report charged_db = (Inr ''MATCHED'', d')"
    using report_ingested by blast
  have new: "\<not> known settlement_key (strip (rp_provider sample_report), strip (rp_settlement sample_report)) (settlements charged_db)"
    by (simp add: charged_db_def unknown_db_def ready_db_def held_db_def sample_defs)
  note o = settlement_observes [OF run, of 60]
  have "transactions d' = transactions charged_db"
    using arg_cong [where f = transactions, OF conjunct1 [OF o]] by simp
  with run o new show ?thesis by simp
qed

end
