(* ===== verification/AuditLog.thy ===== *)
theory AuditLog
  imports Outbox
begin

text \<open>
  \<open>audit.py\<close>: the append-only audit log and the notifications, each written at most once per event
  of the outbox. Both inserts name a column that only a partial unique index covers (migration 010);
  whether the server lets ON CONFLICT infer such an index is part of the database's profile. SHA-256 is
  the parameter \<open>sha\<close>.
\<close>

section \<open>The inserts\<close>

definition audit_digest :: "(string \<Rightarrow> string) \<Rightarrow> json \<Rightarrow> string" where
  "audit_digest sha payload = sha (canonical payload)"

definition infer_index :: "unit tx" where
  "infer_index =
     bindT (queryT (\<lambda>d. infers_partial_index (profile d))) (\<lambda>ok.
     guardT ok (DbError ''InvalidColumnReference''))"

definition record_audit ::
    "(string \<Rightarrow> string) \<Rightarrow> nat \<Rightarrow> nat option \<Rightarrow> string \<Rightarrow> string \<Rightarrow> string \<Rightarrow> string \<Rightarrow> nat \<Rightarrow> string
      \<Rightarrow> string option \<Rightarrow> json \<Rightarrow> nat tx" where
  "record_audit sha eid acct actor_type actor act rtype rid result corr metadata =
     bindT infer_index (\<lambda>_.
     bindT (queryT (\<lambda>d. row_by au_event eid (audit_log d))) (\<lambda>found.
     case found of
       Some old \<Rightarrow> returnT (au_id old)
     | None \<Rightarrow>
         bindT (queryT (\<lambda>d. acct = None \<or> the acct \<in> set (accounts d))) (\<lambda>known_account.
         bindT (references known_account ''audit_events_account_id_fkey'') (\<lambda>_.
         bindT draw_id (\<lambda>i.
         bindT (modifyT (\<lambda>d. d\<lparr>audit_log := audit_log d @
           [\<lparr>au_id = i, au_event = eid, au_account = acct, au_actor_type = actor_type, au_actor = actor,
             au_action = act, au_resource_type = rtype, au_resource = rid, au_result = result,
             au_correlation = corr, au_metadata = metadata, au_digest = audit_digest sha metadata\<rparr>]\<rparr>)) (\<lambda>_.
         returnT i))))))"

definition enqueue_notification :: "nat \<Rightarrow> nat \<Rightarrow> string \<Rightarrow> string \<Rightarrow> json \<Rightarrow> nat tx" where
  "enqueue_notification eid acct ty title payload =
     bindT infer_index (\<lambda>_.
     bindT (queryT (\<lambda>d. row_by no_event eid (notifications d))) (\<lambda>found.
     case found of
       Some old \<Rightarrow> returnT (no_id old)
     | None \<Rightarrow>
         bindT (queryT (\<lambda>d. acct \<in> set (accounts d))) (\<lambda>known_account.
         bindT (references known_account ''notifications_account_id_fkey'') (\<lambda>_.
         bindT draw_id (\<lambda>i.
         bindT (modifyT (\<lambda>d. d\<lparr>notifications := notifications d @
           [\<lparr>no_id = i, no_account = acct, no_type = ty, no_title = title, no_payload = payload,
             no_event = eid\<rparr>]\<rparr>)) (\<lambda>_.
         returnT i))))))"

section \<open>At most one record per event\<close>

lemma record_audit_effect:
  assumes "record_audit sha eid acct aty actor act rty rid res corr metadata d = Inr (i, d')"
  shows "infers_partial_index (profile d) \<and>
    (case row_by au_event eid (audit_log d) of
       Some old \<Rightarrow> i = au_id old \<and> d' = d
     | None \<Rightarrow> i = next_id d \<and> d' = d\<lparr>next_id := next_id d + 1, audit_log := audit_log d @
         [\<lparr>au_id = i, au_event = eid, au_account = acct, au_actor_type = aty, au_actor = actor,
           au_action = act, au_resource_type = rty, au_resource = rid, au_result = res,
           au_correlation = corr, au_metadata = metadata, au_digest = audit_digest sha metadata\<rparr>]\<rparr>)"
  using assms by (auto simp: record_audit_def infer_index_def references_def split: option.splits if_splits)

lemma enqueue_notification_effect:
  assumes "enqueue_notification eid acct ty title payload d = Inr (i, d')"
  shows "infers_partial_index (profile d) \<and>
    (case row_by no_event eid (notifications d) of
       Some old \<Rightarrow> i = no_id old \<and> d' = d
     | None \<Rightarrow> i = next_id d \<and> d' = d\<lparr>next_id := next_id d + 1, notifications := notifications d @
         [\<lparr>no_id = i, no_account = acct, no_type = ty, no_title = title, no_payload = payload, no_event = eid\<rparr>]\<rparr>)"
  using assms by (auto simp: enqueue_notification_def infer_index_def references_def split: option.splits if_splits)

text \<open>Recording an event again returns the id of its record and changes nothing.\<close>

lemma record_audit_again:
  assumes "record_audit sha eid acct aty actor act rty rid res corr metadata d = Inr (i, d')"
  shows "record_audit sha eid acct' aty' actor' act' rty' rid' res' corr' metadata' d' = Inr (i, d')"
proof (cases "row_by au_event eid (audit_log d)")
  case None
  with record_audit_effect [OF assms] show ?thesis
    by (auto simp: record_audit_def infer_index_def row_by_append)
next
  case (Some old)
  with record_audit_effect [OF assms] show ?thesis
    by (simp add: record_audit_def infer_index_def)
qed

lemma no_partial_index:
  assumes "\<not> infers_partial_index (profile d)"
  shows "record_audit sha eid acct aty actor act rty rid res corr metadata d = Inl (DbError ''InvalidColumnReference'')"
    "enqueue_notification eid acct' ty title payload d = Inl (DbError ''InvalidColumnReference'')"
  using assms by (simp_all add: record_audit_def enqueue_notification_def infer_index_def)

end
