(* ===== verification/OutboxWorker.thy ===== *)
theory OutboxWorker
  imports AuditLog Authorization
begin

text \<open>
  \<open>outbox_worker.py\<close>: the consumer of the outbox. One transaction claims a batch; then every event is
  handled in a transaction of its own, and an event whose transaction raised goes back to pending in a
  third. \<open>str(exc)\<close> is the parameter \<open>exc_text\<close>, for the message of a database error is the
  server's. The audit trail: published auditable events and audit records correspond one to one.
\<close>

section \<open>One event\<close>

definition AUDITABLE_EVENTS :: "string list" where
  "AUDITABLE_EVENTS =
     [''PaymentRequested'', ''PaymentStarted'', ''PaymentSucceeded'', ''PaymentFailed'',
      ''PaymentOutcomeUnknown'', ''ApprovalRequested'', ''PaymentApproved'',
      ''PaymentDenied'', ''PaymentRefunded'', ''PaymentRefundRequested'',
      ''PaymentAuthenticationRequired'', ''PaymentAuthenticationCompleted'',
      ''BudgetReservationCreated'', ''BudgetReservationReleased'', ''BudgetConsumed'']"

definition account_for :: "string \<Rightarrow> nat \<Rightarrow> nat option tx" where
  "account_for aggty agg =
     (if aggty = ''payment''
      then queryT (\<lambda>d. Option.bind (row_by p_id agg (payments d)) (\<lambda>p.
             map_option q_account (row_by q_id (p_request p) (requests d))))
      else returnT None)"

text \<open>\<open>payload or {}\<close>, and the type of a value that has no \<open>get\<close>.\<close>

definition payload_or_empty :: "json \<Rightarrow> json" where
  "payload_or_empty v = (if jtruth v then v else JObj [])"

fun type_name :: "json \<Rightarrow> string" where
  "type_name JNull = ''NoneType''"
| "type_name (JBool b) = ''bool''"
| "type_name (JInt i) = ''int''"
| "type_name (JFloat r) = ''float''"
| "type_name (JStr s) = ''str''"
| "type_name (JArr vs) = ''list''"
| "type_name (JObj ms) = ''dict''"

definition notification_type :: "json \<Rightarrow> exn + string" where
  "notification_type payload =
     (case payload_or_empty payload of
        JObj ms \<Rightarrow> Inr (py_str (jget_or ms ''type'' (JStr ''PAYMENT'')))
      | v \<Rightarrow> Inl (AttributeError (CHR 39 # type_name v @ CHR 39 # '' object has no attribute '' @
               CHR 39 # ''get'' @ [CHR 39])))"

definition audit_event :: "(string \<Rightarrow> string) \<Rightarrow> nat option \<Rightarrow> outbox_row \<Rightarrow> unit tx" where
  "audit_event sha acct x =
     (if x_type x \<in> set AUDITABLE_EVENTS
      then bindT (record_audit sha (x_id x) acct ''SYSTEM'' ''agent-pay-outbox'' (x_type x) (x_aggregate_type x)
             (x_aggregate x) ''RECORDED'' (x_correlation x) (payload_or_empty (x_payload x))) (\<lambda>_. returnT ())
      else returnT ())"

definition notify_event :: "nat option \<Rightarrow> outbox_row \<Rightarrow> unit tx" where
  "notify_event acct x =
     (if x_type x = ''NotificationRequested''
      then (case acct of
              None \<Rightarrow> raiseT (ValueError ''notification event has no account'')
            | Some a \<Rightarrow>
                bindT (liftT (notification_type (x_payload x))) (\<lambda>ty.
                bindT (enqueue_notification (x_id x) a ty ''Agent-Pay payment notification''
                         (payload_or_empty (x_payload x))) (\<lambda>_. returnT ())))
      else returnT ())"

definition handle_event :: "(string \<Rightarrow> string) \<Rightarrow> outbox_row \<Rightarrow> unit tx" where
  "handle_event sha x =
     bindT (account_for (x_aggregate_type x) (x_aggregate x)) (\<lambda>acct.
     bindT (audit_event sha acct x) (\<lambda>_.
     bindT (notify_event acct x) (\<lambda>_.
     mark_published (x_id x))))"

section \<open>A run\<close>

definition backoff :: "nat \<Rightarrow> int" where
  "backoff attempts = min 300 (2 ^ min attempts 8)"

fun process_events ::
    "(exn \<Rightarrow> string) \<Rightarrow> (string \<Rightarrow> string) \<Rightarrow> outbox_row list \<Rightarrow> nat \<Rightarrow> db \<Rightarrow> (exn + nat) \<times> db" where
  "process_events exc_text sha [] n d = (Inr n, d)"
| "process_events exc_text sha (x # xs) n d =
     (case transact (handle_event sha x) d of
        (Inr _, d1) \<Rightarrow> process_events exc_text sha xs (n + 1) d1
      | (Inl e, d1) \<Rightarrow>
          (case transact (mark_failed (x_id x) (backoff (x_attempts x)) (Some (take 1000 (exc_text e)))) d1 of
             (Inl e', d2) \<Rightarrow> (Inl e', d2)
           | (Inr _, d2) \<Rightarrow> process_events exc_text sha xs n d2))"

definition process_once :: "(exn \<Rightarrow> string) \<Rightarrow> (string \<Rightarrow> string) \<Rightarrow> nat \<Rightarrow> db \<Rightarrow> (exn + nat) \<times> db" where
  "process_once exc_text sha n_rows d =
     (case transact (claim_batch n_rows) d of
        (Inl e, d1) \<Rightarrow> (Inl e, d1)
      | (Inr claimed, d1) \<Rightarrow> process_events exc_text sha claimed 0 d1)"

section \<open>The effect on one event\<close>

definition published_row :: "int \<Rightarrow> outbox_row \<Rightarrow> outbox_row" where
  "published_row now x = x\<lparr>x_status := ''PUBLISHED'', x_published := Some now, x_processing := None\<rparr>"

definition failed_row :: "int \<Rightarrow> string \<Rightarrow> outbox_row \<Rightarrow> outbox_row" where
  "failed_row now m x =
     x\<lparr>x_status := ''PENDING'', x_available := now + backoff (x_attempts x) * 1000000,
       x_error := Some m, x_processing := None\<rparr>"

definition auditable :: "outbox_row \<Rightarrow> bool" where
  "auditable x \<longleftrightarrow> x_type x \<in> set AUDITABLE_EVENTS"

text \<open>The record of an event.\<close>

definition audit_of :: "(string \<Rightarrow> string) \<Rightarrow> outbox_row \<Rightarrow> audit_row \<Rightarrow> bool" where
  "audit_of sha x a \<longleftrightarrow>
     au_event a = x_id x \<and> au_action a = x_type x \<and> au_resource_type a = x_aggregate_type x \<and>
     au_resource a = x_aggregate x \<and> au_correlation a = x_correlation x \<and>
     au_metadata a = payload_or_empty (x_payload x) \<and> au_digest a = audit_digest sha (payload_or_empty (x_payload x))"

lemma backoff_bounds: "1 \<le> backoff n" "backoff n \<le> 256"
proof -
  have "(2::int) ^ min n 8 \<le> 2 ^ 8" by (rule power_increasing) simp_all
  then show "backoff n \<le> 256" by (simp add: backoff_def)
  show "1 \<le> backoff n" by (simp add: backoff_def)
qed

lemma account_for_query: "account_for ty agg d = Inr (r, d') \<Longrightarrow> d' = d"
  by (auto simp: account_for_def split: if_splits)

lemma audit_event_effect:
  assumes "audit_event sha acct x d = Inr (u, d')"
  shows "outbox d' = outbox d \<and> clock d' = clock d \<and> profile d' = profile d \<and> next_id d \<le> next_id d' \<and>
    (auditable x \<longrightarrow> infers_partial_index (profile d)) \<and>
    (if auditable x \<and> row_by au_event (x_id x) (audit_log d) = None
     then \<exists>a. audit_log d' = audit_log d @ [a] \<and> audit_of sha x a
     else audit_log d' = audit_log d)"
proof (cases "auditable x")
  case False
  with assms show ?thesis by (simp add: audit_event_def auditable_def)
next
  case True
  with assms obtain i where "record_audit sha (x_id x) acct ''SYSTEM'' ''agent-pay-outbox'' (x_type x)
      (x_aggregate_type x) (x_aggregate x) ''RECORDED'' (x_correlation x) (payload_or_empty (x_payload x)) d = Inr (i, d')"
    by (auto simp: audit_event_def auditable_def err_simps)
  from record_audit_effect [OF this] True show ?thesis
    by (cases "row_by au_event (x_id x) (audit_log d)") (auto simp: audit_of_def)
qed

lemma notify_event_effect:
  assumes "notify_event acct x d = Inr (u, d')"
  shows "outbox d' = outbox d \<and> clock d' = clock d \<and> profile d' = profile d \<and> next_id d \<le> next_id d' \<and>
    audit_log d' = audit_log d \<and> (x_type x = ''NotificationRequested'' \<longrightarrow> infers_partial_index (profile d))"
proof (cases "x_type x = ''NotificationRequested''")
  case False
  with assms show ?thesis by (simp add: notify_event_def)
next
  case True
  with assms obtain a ty i where "enqueue_notification (x_id x) a ty ''Agent-Pay payment notification''
      (payload_or_empty (x_payload x)) d = Inr (i, d')"
    by (auto simp: notify_event_def err_simps split: option.splits)
  from enqueue_notification_effect [OF this] True show ?thesis
    by (cases "row_by no_event (x_id x) (notifications d)") auto
qed

lemma handle_event_effect:
  assumes "handle_event sha x d = Inr (u, d')" "x_status x = ''PROCESSING''"
    "outbox_ids_ok d" "x \<in> set (outbox d)"
  shows "outbox d' = upd_by x_id (x_id x) (published_row (clock d)) (outbox d) \<and> clock d' = clock d \<and>
    profile d' = profile d \<and> next_id d \<le> next_id d' \<and>
    (auditable x \<or> x_type x = ''NotificationRequested'' \<longrightarrow> infers_partial_index (profile d)) \<and>
    (if auditable x \<and> row_by au_event (x_id x) (audit_log d) = None
     then \<exists>a. audit_log d' = audit_log d @ [a] \<and> audit_of sha x a
     else audit_log d' = audit_log d)"
proof -
  from assms(1) obtain acct v w d1 d2 where a: "audit_event sha acct x d = Inr (v, d1)"
    and n: "notify_event acct x d1 = Inr (w, d2)" and m: "mark_published (x_id x) d2 = Inr (u, d')"
    by (auto simp: handle_event_def err_simps dest!: account_for_query)
  note ae = audit_event_effect [OF a] and ne = notify_event_effect [OF n]
  have c: "clock d2 = clock d" "outbox d2 = outbox d" using ae ne by auto
  have "y = x" if "y \<in> set (outbox d)" "x_id y = x_id x" for y
    using that assms(3,4) by (metis outbox_ids_ok_def option.inject row_by_distinct)
  then have "upd_by x_id (x_id x) (\<lambda>y. if x_status y = ''PROCESSING'' then published_row (clock d) y else y) (outbox d) =
      upd_by x_id (x_id x) (published_row (clock d)) (outbox d)"
    using assms(2) by (auto simp: upd_by_def)
  moreover have "d' = d2\<lparr>outbox := upd_by x_id (x_id x)
      (\<lambda>y. if x_status y = ''PROCESSING'' then published_row (clock d) y else y) (outbox d)\<rparr>"
    using m unfolding mark_published_def update_processing_def published_row_def by (simp add: c cong: if_cong)
  ultimately show ?thesis using ae ne by auto
qed

section \<open>The audit trail\<close>

text \<open>Published auditable events and audit records correspond one to one.\<close>

definition audited_events :: "db \<Rightarrow> outbox_row set" where
  "audited_events d = {x \<in> set (outbox d). x_status x = ''PUBLISHED'' \<and> auditable x}"

definition audit_ok :: "(string \<Rightarrow> string) \<Rightarrow> db \<Rightarrow> bool" where
  "audit_ok sha d \<longleftrightarrow>
     outbox_ids_ok d \<and> distinct (map au_event (audit_log d)) \<and>
     (\<forall>a \<in> set (audit_log d). \<exists>x \<in> audited_events d. audit_of sha x a) \<and>
     (\<forall>x \<in> audited_events d. \<exists>a \<in> set (audit_log d). audit_of sha x a)"

lemma published_row_simps [simp]:
  "x_id (published_row now x) = x_id x" "x_status (published_row now x) = ''PUBLISHED''"
  "auditable (published_row now x) = auditable x" "audit_of sha (published_row now x) a = audit_of sha x a"
  by (simp_all add: published_row_def auditable_def audit_of_def)

lemma failed_row_simps [simp]:
  "x_id (failed_row now m x) = x_id x" "x_status (failed_row now m x) = ''PENDING''"
  by (simp_all add: failed_row_def)

lemma audit_ok_publish:
  assumes ok: "audit_ok sha d" and x: "x \<in> set (outbox d)" "x_status x = ''PROCESSING''"
    and run: "handle_event sha x d = Inr (u, d')"
  shows "audit_ok sha d'"
proof -
  have ids: "outbox_ids_ok d" using ok by (simp add: audit_ok_def)
  note e = handle_event_effect [OF run x(2) ids x(1)]
  have unique: "y = x" if "y \<in> set (outbox d)" "x_id y = x_id x" for y
    using that ids x(1) by (metis outbox_ids_ok_def option.inject row_by_distinct)
  have fresh: "row_by au_event (x_id x) (audit_log d) = None"
  proof (rule ccontr)
    assume "row_by au_event (x_id x) (audit_log d) \<noteq> None"
    then obtain a where "a \<in> set (audit_log d)" "au_event a = x_id x"
      by (auto dest: row_by_Some_in row_by_Some_key)
    then obtain y where "y \<in> set (outbox d)" "x_status y = ''PUBLISHED''" "x_id y = x_id x"
      using ok by (auto simp: audit_ok_def audit_of_def audited_events_def)
    with unique x(2) show False by force
  qed
  have box: "outbox d' = map (\<lambda>y. if y = x then published_row (clock d) x else y) (outbox d)"
    using e unique by (auto simp: upd_by_def)
  have ids': "outbox_ids_ok d'"
    using ids e by (auto simp: outbox_ids_ok_def table_simps dest!: in_upd_by split: if_splits)
  have trail: "audited_events d' = audited_events d \<union> (if auditable x then {published_row (clock d) x} else {})"
    using x by (auto simp: audited_events_def box)
  show ?thesis
  proof (cases "auditable x")
    case True
    with e fresh obtain a where a: "audit_log d' = audit_log d @ [a]" "audit_of sha x a" by auto
    have "au_event a \<notin> au_event ` set (audit_log d)"
      using fresh a(2) by (auto simp: audit_of_def table_simps)
    then show ?thesis
      using ok ids' a True unfolding audit_ok_def trail by auto
  next
    case False
    with e ok ids' trail show ?thesis by (simp add: audit_ok_def)
  qed
qed

section \<open>The effect of a run\<close>

definition handled :: "int \<Rightarrow> outbox_row \<Rightarrow> outbox_row \<Rightarrow> bool" where
  "handled now x y \<longleftrightarrow> y = published_row now x \<or> (\<exists>m. y = failed_row now m x)"

lemma handled_id: "handled now x y \<Longrightarrow> x_id y = x_id x"
  by (auto simp: handled_def)

lemma outbox_ids_put:
  assumes "outbox_ids_ok d" "x_id y = k"
  shows "outbox_ids_ok (d\<lparr>outbox := upd_by x_id k (\<lambda>_. y) (outbox d)\<rparr>)"
proof -
  let ?box = "upd_by x_id k (\<lambda>_. y) (outbox d)"
  have m: "map x_id ?box = map x_id (outbox d)" using assms(2) by (simp add: upd_by_def)
  have "\<forall>z \<in> set ?box. x_id z \<in> x_id ` set (outbox d)"
    using m by (metis list.set_map imageI)
  with m assms(1) show ?thesis by (auto simp: outbox_ids_ok_def)
qed

lemma same_row:
  assumes "outbox_ids_ok d" "x \<in> set (outbox d)" "y \<in> set (outbox d)" "x_id y = x_id x"
  shows "y = x"
  using assms by (metis outbox_ids_ok_def option.inject row_by_distinct)

lemma upd_this_row:
  assumes "outbox_ids_ok d" "x \<in> set (outbox d)"
  shows "upd_by x_id (x_id x) f (outbox d) = upd_by x_id (x_id x) (\<lambda>_. f x) (outbox d)"
  unfolding upd_by_def by (rule map_cong) (use same_row [OF assms] in auto)

lemma fail_event:
  assumes "outbox_ids_ok d" "x \<in> set (outbox d)" "x_status x = ''PROCESSING''"
  shows "mark_failed (x_id x) (backoff (x_attempts x)) (Some m) d =
    Inr ((), d\<lparr>outbox := upd_by x_id (x_id x) (\<lambda>_. failed_row (clock d) m x) (outbox d)\<rparr>)"
proof -
  have "0 \<le> backoff (x_attempts x)" using backoff_bounds(1) [of "x_attempts x"] by linarith
  moreover have "upd_by x_id (x_id x) (\<lambda>z. if x_status z = ''PROCESSING'' then z\<lparr>x_status := ''PENDING'',
      x_available := clock d + backoff (x_attempts x) * 1000000, x_error := Some m, x_processing := None\<rparr> else z) (outbox d) =
      upd_by x_id (x_id x) (\<lambda>_. failed_row (clock d) m x) (outbox d)"
    by (subst upd_this_row [OF assms(1,2)]) (simp add: failed_row_def assms(3))
  ultimately show ?thesis by (simp add: mark_failed_def update_processing_def)
qed

lemma audit_ok_fail:
  assumes "audit_ok sha d" "x \<in> set (outbox d)" "x_status x = ''PROCESSING''"
  shows "audit_ok sha (d\<lparr>outbox := upd_by x_id (x_id x) (\<lambda>_. failed_row (clock d) m x) (outbox d)\<rparr>)"
    (is "audit_ok sha ?d")
proof -
  have ids: "outbox_ids_ok d" using assms(1) by (simp add: audit_ok_def)
  have "audited_events ?d = audited_events d"
    using same_row [OF ids assms(2)] assms(2,3) by (auto simp: audited_events_def upd_by_def) force
  moreover have "outbox_ids_ok ?d" by (rule outbox_ids_put [OF ids]) simp
  ultimately show ?thesis using assms(1) by (simp add: audit_ok_def)
qed

lemma process_one_event:
  assumes ok: "audit_ok sha d" and x: "x \<in> set (outbox d)" "x_status x = ''PROCESSING''"
  obtains y d1 where
    "\<And>xs n. process_events exc_text sha (x # xs) n d =
       process_events exc_text sha xs (n + (if x_status y = ''PUBLISHED'' then 1 else 0)) d1"
    "audit_ok sha d1" "clock d1 = clock d" "profile d1 = profile d" "handled (clock d) x y"
    "outbox d1 = upd_by x_id (x_id x) (\<lambda>_. y) (outbox d)"
    "\<not> infers_partial_index (profile d) \<Longrightarrow> audit_log d1 = audit_log d \<and>
       (auditable x \<or> x_type x = ''NotificationRequested'' \<longrightarrow> x_status y = ''PENDING'')"
proof -
  have ids: "outbox_ids_ok d" using ok by (simp add: audit_ok_def)
  show ?thesis
  proof (cases "handle_event sha x d")
    case (Inr r)
    then obtain u d1 where run: "handle_event sha x d = Inr (u, d1)" by (cases r) auto
    note e = handle_event_effect [OF run x(2) ids x(1)]
    have box: "outbox d1 = upd_by x_id (x_id x) (\<lambda>_. published_row (clock d) x) (outbox d)"
      using e upd_this_row [OF ids x(1), of "published_row (clock d)"] by simp
    have step: "process_events exc_text sha (x # zs) k d = process_events exc_text sha zs (k + 1) d1" for zs k
      using run by (simp add: transact_def)
    have no: "audit_log d1 = audit_log d \<and> \<not> auditable x \<and> x_type x \<noteq> ''NotificationRequested''"
      if "\<not> infers_partial_index (profile d)"
      using e that by (auto split: if_splits)
    have same: "clock d1 = clock d" "profile d1 = profile d" using e by auto
    have h: "handled (clock d) x (published_row (clock d) x)" by (simp add: handled_def)
    have k: "process_events exc_text sha (x # zs) k d =
        process_events exc_text sha zs (k + (if x_status (published_row (clock d) x) = ''PUBLISHED'' then 1 else 0)) d1" for zs k
      using step by simp
    show ?thesis using that [OF k audit_ok_publish [OF ok x run] same h box] no by auto
  next
    case (Inl e)
    let ?m = "take 1000 (exc_text e)"
    show ?thesis
      by (rule that [of "failed_row (clock d) ?m x"
            "d\<lparr>outbox := upd_by x_id (x_id x) (\<lambda>_. failed_row (clock d) ?m x) (outbox d)\<rparr>"])
        (use Inl fail_event [OF ids x] audit_ok_fail [OF ok x] in \<open>auto simp: transact_def handled_def\<close>)
  qed
qed

definition event_row :: "nat \<Rightarrow> db \<Rightarrow> outbox_row option" where
  "event_row i d = row_by x_id i (outbox d)"

definition is_published :: "db \<Rightarrow> nat \<Rightarrow> bool" where
  "is_published d i \<longleftrightarrow> (\<exists>y. event_row i d = Some y \<and> x_status y = ''PUBLISHED'')"

lemma process_events_effect:
  assumes "audit_ok sha d" "distinct (map x_id xs)"
    "\<forall>x \<in> set xs. x \<in> set (outbox d) \<and> x_status x = ''PROCESSING''"
  shows "\<exists>d'. process_events exc_text sha xs n d = (Inr (n + length (filter (\<lambda>x. is_published d' (x_id x)) xs)), d') \<and>
    audit_ok sha d' \<and> (\<forall>k. k \<notin> x_id ` set xs \<longrightarrow> event_row k d' = event_row k d) \<and>
    (\<forall>x \<in> set xs. \<exists>y. event_row (x_id x) d' = Some y \<and> handled (clock d) x y \<and>
       (\<not> infers_partial_index (profile d) \<longrightarrow> auditable x \<or> x_type x = ''NotificationRequested'' \<longrightarrow>
          x_status y = ''PENDING'')) \<and>
    (\<not> infers_partial_index (profile d) \<longrightarrow> audit_log d' = audit_log d)"
  using assms
proof (induction xs arbitrary: n d)
  case Nil
  then show ?case by simp
next
  case (Cons x xs)
  then have x: "x \<in> set (outbox d)" "x_status x = ''PROCESSING''" by auto
  obtain y d1 where run: "\<And>zs n. process_events exc_text sha (x # zs) n d =
       process_events exc_text sha zs (n + (if x_status y = ''PUBLISHED'' then 1 else 0)) d1"
    and ok: "audit_ok sha d1" and same: "clock d1 = clock d" "profile d1 = profile d" and y: "handled (clock d) x y"
    and box: "outbox d1 = upd_by x_id (x_id x) (\<lambda>_. y) (outbox d)"
    and no: "\<not> infers_partial_index (profile d) \<Longrightarrow> audit_log d1 = audit_log d \<and>
       (auditable x \<or> x_type x = ''NotificationRequested'' \<longrightarrow> x_status y = ''PENDING'')"
    using process_one_event [OF Cons.prems(1) x, where exc_text = exc_text] by blast
  have rows: "event_row k d1 = (if k = x_id x then Some y else event_row k d)" for k
    using x(1) handled_id [OF y] by (auto simp: event_row_def box row_by_put)
  have rest: "\<forall>z \<in> set xs. z \<in> set (outbox d1) \<and> x_status z = ''PROCESSING''"
    using Cons.prems(2,3) by (auto simp: box upd_by_def image_iff)
  let ?n = "n + (if x_status y = ''PUBLISHED'' then 1 else 0)"
  obtain d' where d': "process_events exc_text sha xs ?n d1 =
      (Inr (?n + length (filter (\<lambda>x. is_published d' (x_id x)) xs)), d')"
    "audit_ok sha d'" "\<forall>k. k \<notin> x_id ` set xs \<longrightarrow> event_row k d' = event_row k d1"
    "\<forall>x \<in> set xs. \<exists>y. event_row (x_id x) d' = Some y \<and> handled (clock d) x y \<and>
       (\<not> infers_partial_index (profile d) \<longrightarrow> auditable x \<or> x_type x = ''NotificationRequested'' \<longrightarrow>
          x_status y = ''PENDING'')"
    "\<not> infers_partial_index (profile d) \<longrightarrow> audit_log d' = audit_log d1"
    using Cons.IH [OF ok _ rest, of ?n] Cons.prems(2) unfolding same by auto
  have y_now: "event_row (x_id x) d' = Some y" using d'(3) rows Cons.prems(2) by auto
  then have "is_published d' (x_id x) \<longleftrightarrow> x_status y = ''PUBLISHED''" by (simp add: is_published_def)
  then show ?case
    using run [of xs n] d' y_now y no rows by (intro exI [of _ d']) auto
qed

section \<open>A whole run\<close>

definition claimed_db :: "nat \<Rightarrow> db \<Rightarrow> db" where
  "claimed_db n d =
     d\<lparr>outbox := map (\<lambda>x. if x_id x \<in> set (batch_ids n d) then claim_row (clock d) x else x) (outbox d)\<rparr>"

lemma claim_batch_eq:
  "claim_batch n d = Inr (filter (\<lambda>x. x_id x \<in> set (batch_ids n d)) (outbox (claimed_db n d)), claimed_db n d)"
  by (simp add: claim_batch_def claimed_db_def)

lemma claim_row_simps [simp]:
  "x_id (claim_row now x) = x_id x" "x_status (claim_row now x) = ''PROCESSING''"
  "x_type (claim_row now x) = x_type x" "auditable (claim_row now x) = auditable x"
  by (simp_all add: claim_row_def auditable_def)

lemma event_row_claimed:
  "event_row i (claimed_db n d) =
     map_option (\<lambda>x. if i \<in> set (batch_ids n d) then claim_row (clock d) x else x) (event_row i d)"
proof -
  have "row_by x_id i (map (\<lambda>x. if x_id x \<in> S then claim_row now x else x) xs) =
      map_option (\<lambda>x. if i \<in> S then claim_row now x else x) (row_by x_id i xs)" for S now xs
    by (induction xs) auto
  then show ?thesis by (simp add: event_row_def claimed_db_def)
qed

lemma audit_ok_claimed:
  assumes "audit_ok sha d"
  shows "audit_ok sha (claimed_db n d)"
proof -
  have ids: "outbox_ids_ok d" using assms by (simp add: audit_ok_def)
  have "x_status x \<noteq> ''PUBLISHED''" if "x \<in> set (outbox d)" "x_id x \<in> set (batch_ids n d)" for x
    using batch_due [OF ids that] by (simp add: due_def)
  then have "audited_events (claimed_db n d) = audited_events d"
    by (auto simp: audited_events_def claimed_db_def)
  moreover have "outbox_ids_ok (claimed_db n d)"
    using ids by (auto simp: outbox_ids_ok_def claimed_db_def comp_def if_distrib cong: if_cong)
  ultimately show ?thesis using assms by (simp add: audit_ok_def claimed_db_def)
qed

lemma batch_subset: "set (batch_ids n d) \<subseteq> keys_of x_id (outbox d)"
  by (auto simp: batch_ids_def dest!: in_set_takeD)

lemma keys_claimed: "keys_of x_id (outbox (claimed_db n d)) = keys_of x_id (outbox d)"
proof -
  have "map x_id (outbox (claimed_db n d)) = map x_id (outbox d)" by (simp add: claimed_db_def)
  then show ?thesis by (metis list.set_map)
qed

lemma batch_rows:
  assumes "i \<in> set (batch_ids n d)"
  shows "\<exists>x. event_row i d = Some x"
  using assms batch_subset [of n d] row_by_None [of x_id i "outbox d"] by (auto simp: event_row_def)

lemma distinct_batch:
  assumes "outbox_ids_ok d"
  shows "distinct (batch_ids n d)"
proof -
  have "distinct (map x_id (sort_key x_created (filter (due (clock d)) (outbox d))))"
    using assms by (auto simp: outbox_ids_ok_def distinct_map inj_on_def)
  then show ?thesis by (simp add: batch_ids_def flip: take_map)
qed

lemma process_once_effect:
  assumes ok: "audit_ok sha d"
  shows "\<exists>d'. process_once exc_text sha n d = (Inr (length (filter (is_published d') (batch_ids n d))), d') \<and>
    audit_ok sha d' \<and> (\<forall>k. k \<notin> set (batch_ids n d) \<longrightarrow> event_row k d' = event_row k d) \<and>
    (\<forall>i \<in> set (batch_ids n d). \<exists>x y. event_row i d = Some x \<and> event_row i d' = Some y \<and>
       handled (clock d) (claim_row (clock d) x) y \<and>
       (\<not> infers_partial_index (profile d) \<longrightarrow> auditable x \<or> x_type x = ''NotificationRequested'' \<longrightarrow>
          x_status y = ''PENDING'')) \<and>
    (\<not> infers_partial_index (profile d) \<longrightarrow> audit_log d' = audit_log d)"
proof -
  let ?ids = "batch_ids n d"
  let ?rows = "filter (\<lambda>x. x_id x \<in> set ?ids) (outbox (claimed_db n d))"
  have ids: "outbox_ids_ok d" using ok by (simp add: audit_ok_def)
  have okc: "audit_ok sha (claimed_db n d)" by (rule audit_ok_claimed [OF ok])
  then have "outbox_ids_ok (claimed_db n d)" by (simp add: audit_ok_def)
  then have dist: "distinct (map x_id ?rows)" by (simp add: outbox_ids_ok_def distinct_map_filter)
  have proc: "\<forall>x \<in> set ?rows. x \<in> set (outbox (claimed_db n d)) \<and> x_status x = ''PROCESSING''"
    by (auto simp: claimed_db_def)
  have set_rows: "x_id ` set ?rows = set ?ids"
  proof -
    have "x_id ` set ?rows = set ?ids \<inter> keys_of x_id (outbox (claimed_db n d))" by auto
    then show ?thesis using batch_subset [of n d] by (auto simp: keys_claimed)
  qed
  have same: "clock (claimed_db n d) = clock d" "profile (claimed_db n d) = profile d"
    "audit_log (claimed_db n d) = audit_log d" by (simp_all add: claimed_db_def)
  obtain d' where run: "process_events exc_text sha ?rows 0 (claimed_db n d) =
      (Inr (length (filter (\<lambda>x. is_published d' (x_id x)) ?rows)), d')"
    and ok': "audit_ok sha d'"
    and other: "\<forall>k. k \<notin> set ?ids \<longrightarrow> event_row k d' = event_row k (claimed_db n d)"
    and each: "\<forall>x \<in> set ?rows. \<exists>y. event_row (x_id x) d' = Some y \<and> handled (clock d) x y \<and>
       (\<not> infers_partial_index (profile d) \<longrightarrow> auditable x \<or> x_type x = ''NotificationRequested'' \<longrightarrow>
          x_status y = ''PENDING'')"
    and no: "\<not> infers_partial_index (profile d) \<longrightarrow> audit_log d' = audit_log d"
    using process_events_effect [OF okc dist proc, of exc_text 0] unfolding set_rows same by auto
  have "length (filter (\<lambda>x. is_published d' (x_id x)) ?rows) = length (filter (is_published d') (map x_id ?rows))"
    by (simp add: filter_map comp_def)
  also have "\<dots> = length (filter (is_published d') ?ids)"
    using dist distinct_batch [OF ids] set_rows by (simp only: distinct_length_filter list.set_map)
  finally have count: "length (filter (\<lambda>x. is_published d' (x_id x)) ?rows) = length (filter (is_published d') ?ids)" .
  have "\<exists>x y. event_row i d = Some x \<and> event_row i d' = Some y \<and> handled (clock d) (claim_row (clock d) x) y \<and>
      (\<not> infers_partial_index (profile d) \<longrightarrow> auditable x \<or> x_type x = ''NotificationRequested'' \<longrightarrow> x_status y = ''PENDING'')"
    if i: "i \<in> set ?ids" for i
  proof -
    obtain x where x: "event_row i d = Some x" using batch_rows [OF i] by blast
    then have "x \<in> set (outbox d)" "x_id x = i" by (auto simp: event_row_def dest: row_by_Some_in row_by_Some_key)
    with i have "claim_row (clock d) x \<in> set ?rows" by (auto simp: claimed_db_def)
    with each \<open>x_id x = i\<close> x show ?thesis by fastforce
  qed
  with run count ok' other no show ?thesis
    by (intro exI [of _ d']) (auto simp: process_once_def transact_def claim_batch_eq event_row_claimed option.map_ident)
qed

lemma audit_count:
  assumes "audit_ok sha d" "x \<in> set (outbox d)" "auditable x"
  shows "length (filter (\<lambda>a. au_event a = x_id x) (audit_log d)) = (if x_status x = ''PUBLISHED'' then 1 else 0)"
proof -
  have ids: "outbox_ids_ok d" and dist: "distinct (map au_event (audit_log d))"
    using assms(1) by (simp_all add: audit_ok_def)
  have "(\<exists>a \<in> set (audit_log d). au_event a = x_id x) \<longleftrightarrow> x_status x = ''PUBLISHED''"
  proof
    assume "\<exists>a \<in> set (audit_log d). au_event a = x_id x"
    then obtain a y where "a \<in> set (audit_log d)" "au_event a = x_id x" "y \<in> audited_events d" "audit_of sha y a"
      using assms(1) unfolding audit_ok_def by blast
    then have "y \<in> set (outbox d)" "x_id y = x_id x" "x_status y = ''PUBLISHED''"
      by (auto simp: audited_events_def audit_of_def)
    then show "x_status x = ''PUBLISHED''" using same_row [OF ids assms(2)] by metis
  next
    assume "x_status x = ''PUBLISHED''"
    with assms have "x \<in> audited_events d" by (simp add: audited_events_def)
    with assms(1) obtain a where "a \<in> set (audit_log d)" "audit_of sha x a" unfolding audit_ok_def by blast
    then show "\<exists>a \<in> set (audit_log d). au_event a = x_id x" by (auto simp: audit_of_def)
  qed
  moreover have "length (filter (\<lambda>e. e = k) es) = (if k \<in> set es then 1 else 0)" if "distinct es" for es and k :: nat
    using that by (induction es) auto
  from this [OF dist, of "x_id x"]
  have "length (filter (\<lambda>a. au_event a = x_id x) (audit_log d)) = (if x_id x \<in> keys_of au_event (audit_log d) then 1 else 0)"
    by (simp add: filter_map comp_def)
  ultimately show ?thesis by (auto simp: image_iff)
qed

definition retried :: "int \<Rightarrow> outbox_row \<Rightarrow> outbox_row \<Rightarrow> bool" where
  "retried now x y \<longleftrightarrow>
     x_status y = ''PENDING'' \<and> x_attempts y = x_attempts x + 1 \<and> x_error y \<noteq> None \<and>
     now < x_available y \<and> x_available y \<le> now + 256000000"

lemma handled_retried:
  assumes "handled now (claim_row now x) y"
  shows "y = published_row now (claim_row now x) \<or> retried now x y"
proof -
  have "1 \<le> backoff (Suc (x_attempts x))" "backoff (Suc (x_attempts x)) \<le> 256" by (rule backoff_bounds)+
  with assms show ?thesis by (auto simp: handled_def retried_def failed_row_def claim_row_def)
qed

text \<open>C16: a run of the outbox worker always ends and returns the number of events it published.
  Every event of its batch is published or back in pending with a recorded error, one more attempt and a
  delay of at most 256 seconds; no other event changes; and afterwards, as before, every auditable event
  of the outbox has exactly one audit record when it is published, with its digest, and none otherwise.\<close>

theorem audit_trail:
  assumes "audit_ok sha d"
  shows "\<exists>d'. process_once exc_text sha n d = (Inr (length (filter (is_published d') (batch_ids n d))), d') \<and>
    (\<forall>k. k \<notin> set (batch_ids n d) \<longrightarrow> event_row k d' = event_row k d) \<and>
    (\<forall>i \<in> set (batch_ids n d). \<exists>x y. event_row i d = Some x \<and> event_row i d' = Some y \<and>
       (y = published_row (clock d) (claim_row (clock d) x) \<or> retried (clock d) x y)) \<and>
    audit_ok sha d' \<and>
    (\<forall>x \<in> set (outbox d'). auditable x \<longrightarrow>
       length (filter (\<lambda>a. au_event a = x_id x) (audit_log d')) = (if x_status x = ''PUBLISHED'' then 1 else 0))"
proof -
  obtain d' where d': "process_once exc_text sha n d = (Inr (length (filter (is_published d') (batch_ids n d))), d')"
    "audit_ok sha d'" "\<forall>k. k \<notin> set (batch_ids n d) \<longrightarrow> event_row k d' = event_row k d"
    "\<forall>i \<in> set (batch_ids n d). \<exists>x y. event_row i d = Some x \<and> event_row i d' = Some y \<and>
       handled (clock d) (claim_row (clock d) x) y"
    using process_once_effect [OF assms, of exc_text n] by blast
  have "\<exists>x y. event_row i d = Some x \<and> event_row i d' = Some y \<and>
      (y = published_row (clock d) (claim_row (clock d) x) \<or> retried (clock d) x y)" if "i \<in> set (batch_ids n d)" for i
    using d'(4) that handled_retried by blast
  with d'(1-3) audit_count [OF d'(2)] show ?thesis by blast
qed

definition audited_db :: db where
  "audited_db = event_db\<lparr>profile := assumed\<rparr>"

theorem audit_trail_witness:
  "\<exists>d'. process_once exn_message id 50 audited_db = (Inr 1, d') \<and> audit_ok id d' \<and>
     length (filter (\<lambda>a. au_event a = 10) (audit_log d')) = 1 \<and> is_published d' 10"
proof -
  have ok: "audit_ok id audited_db"
    by (simp add: audit_ok_def audited_db_def event_db_def outbox_ids_ok_def sample_event_def audited_events_def
        sample_db_def)
  have ids: "batch_ids 50 audited_db = [10]"
    by (simp add: batch_ids_def audited_db_def event_db_def sample_event_def sample_db_def due_def)
  have run: "fst (process_once exn_message id 50 audited_db) = Inr 1" by code_simp
  have row: "set (outbox (snd (process_once exn_message id 50 audited_db))) =
      {published_row 0 (claim_row 0 sample_event)}" by code_simp
  have "auditable sample_event" by code_simp
  have ten: "x_id sample_event = 10" by (simp add: sample_event_def)
  from audit_trail [OF ok, of exn_message 50] ids run row \<open>auditable sample_event\<close>
  show ?thesis by (auto simp: ten split: if_splits)
qed

text \<open>C33: on the deployed server nothing is ever audited or notified: whatever is
  claimed, the audit log stays as it is and every auditable event and every notification request goes
  back to pending, with one more attempt.\<close>

theorem deployed_unaudited:
  assumes "audit_ok sha d" "profile d = deployed" "process_once exc_text sha n d = (r, d')"
  shows "audit_log d' = audit_log d \<and>
    (\<forall>i \<in> set (batch_ids n d). \<exists>x. event_row i d = Some x \<and>
       (auditable x \<or> x_type x = ''NotificationRequested'' \<longrightarrow>
          (\<exists>y. event_row i d' = Some y \<and> retried (clock d) x y)))"
proof -
  have np: "\<not> infers_partial_index (profile d)" by (simp add: assms(2) deployed_def)
  have d': "audit_log d' = audit_log d"
    "\<forall>i \<in> set (batch_ids n d). \<exists>x y. event_row i d = Some x \<and> event_row i d' = Some y \<and>
       handled (clock d) (claim_row (clock d) x) y \<and>
       (auditable x \<or> x_type x = ''NotificationRequested'' \<longrightarrow> x_status y = ''PENDING'')"
    using process_once_effect [OF assms(1), of exc_text n] np assms(3) by auto
  have "\<exists>x. event_row i d = Some x \<and> (auditable x \<or> x_type x = ''NotificationRequested'' \<longrightarrow>
      (\<exists>y. event_row i d' = Some y \<and> retried (clock d) x y))" if i: "i \<in> set (batch_ids n d)" for i
  proof -
    obtain x y where x: "event_row i d = Some x" and y: "event_row i d' = Some y"
      and h: "handled (clock d) (claim_row (clock d) x) y"
      and st: "auditable x \<or> x_type x = ''NotificationRequested'' \<longrightarrow> x_status y = ''PENDING''"
      using bspec [OF d'(2) i] by (elim exE conjE)
    from handled_retried [OF h] st have "auditable x \<or> x_type x = ''NotificationRequested'' \<longrightarrow> retried (clock d) x y"
      by (elim disjE) simp_all
    with x y show ?thesis by blast
  qed
  with d'(1) show ?thesis by blast
qed

theorem deployed_unaudited_witness:
  "\<exists>d' y. process_once exn_message id 50 event_db = (Inr 0, d') \<and> audit_log d' = [] \<and>
     event_row 10 d' = Some y \<and> retried 0 sample_event y"
proof -
  have ok: "audit_ok id event_db" "profile event_db = deployed"
    by (simp_all add: audit_ok_def event_db_def outbox_ids_ok_def sample_event_def audited_events_def sample_db_def)
  have ids: "batch_ids 50 event_db = [10]" "clock event_db = 0" "event_row 10 event_db = Some sample_event"
    "audit_log event_db = []"
    by (simp_all add: batch_ids_def event_db_def sample_event_def sample_db_def due_def event_row_def)
  have aud: "auditable sample_event" by code_simp
  have run: "fst (process_once exn_message id 50 event_db) = Inr 0" by code_simp
  then obtain d' where d': "process_once exn_message id 50 event_db = (Inr 0, d')"
    by (metis prod.collapse)
  note u = deployed_unaudited [OF ok d', unfolded ids]
  from u have log: "audit_log d' = []" by simp
  from u have "\<exists>y. event_row 10 d' = Some y \<and> retried 0 sample_event y" by (simp add: ids aud)
  with log d' show ?thesis by blast
qed

end
