(* ===== verification/Invariants.thy ===== *)
theory Invariants
  imports Creation Settlement OutboxWorker "HOL-Library.Sublist"
begin

text \<open>
  Invariants that only the outbox and the journals can break. The locale \<open>event_invariant\<close> names
  what such a property needs from the state (it does not depend on the other tables) and from three
  operations (drawing an id, enqueueing an event, posting a journal), and concludes that every transaction
  of the program keeps it. It is interpreted for the audit trail and for the history of the ledger and of
  the audit log.
\<close>

section \<open>The interface\<close>

locale event_invariant =
  fixes P :: "db \<Rightarrow> bool"
  assumes tables:
      "P (d\<lparr>merchants := v_merchants\<rparr>) = P d"
      "P (d\<lparr>budgets := v_budgets\<rparr>) = P d"
      "P (d\<lparr>reservations := v_reservations\<rparr>) = P d"
      "P (d\<lparr>evidences := v_evidences\<rparr>) = P d"
      "P (d\<lparr>requests := v_requests\<rparr>) = P d"
      "P (d\<lparr>approvals := v_approvals\<rparr>) = P d"
      "P (d\<lparr>payments := v_payments\<rparr>) = P d"
      "P (d\<lparr>operations := v_operations\<rparr>) = P d"
      "P (d\<lparr>transactions := v_transactions\<rparr>) = P d"
      "P (d\<lparr>provider_events := v_provider_events\<rparr>) = P d"
      "P (d\<lparr>settlements := v_settlements\<rparr>) = P d"
      "P (d\<lparr>reconciliations := v_reconciliations\<rparr>) = P d"
    and draw: "keeps P draw_id"
    and event: "\<And>ty aggty agg payload corr. keeps P (enqueue ty aggty agg payload corr)"
    and journal: "\<And>cur rtype ref key corr ps. keeps P (post_journal cur rtype ref key corr ps)"
begin

lemmas given = tables draw event journal

declare tables [simp] and draw [keeps_intros] and event [keeps_intros] and journal [keeps_intros]

lemma statements [keeps_intros]:
  "keeps P (update_status pid st ref)" "keeps P (update_charges pid f)"
  "keeps P (budget_reserve bid req amt)" "keeps P (budget_consume res)" "keeps P (budget_release res)"
  "keeps P (create_provider_operation pid oty okey)" "keeps P (upsert_capture pid amt cur)"
  "keeps P (create_transaction pid tty amt cur tkey orig ext tst)"
  "keeps P (post_transaction i)" "keeps P (fail_transaction i)"
  "keeps P (mark_processed ev)" "keeps P (close_operation oid ost oref)" "keeps P (link_event ev oid)"
  "keeps P (record_event sha name e ety epayload ok)"
  unfolding update_status_def update_charges_def budget_reserve_def insert_reservation_def
    request_currency_def budget_consume_def budget_release_def move_budget_def create_provider_operation_def
    new_operation_def references_def upsert_capture_def create_transaction_def post_transaction_def
    fail_transaction_def set_transaction_def mark_processed_def close_operation_def link_event_def
    record_event_def Let_def
  by (intro keeps_intros keeps_modify; simp)+

lemma worker [keeps_intros]:
  "keeps P (prepare pid rid bid amt cur corr)" "keeps P (claim_payment pid)"
  "keeps P (finalize pid rid res amt cur customer clearing out ref corr)"
  unfolding prepare_def claim_payment_def finalize_def select_payment_def finalize_unknown_def finalize_failed_def
    finalize_succeeded_def
  by (intro keeps_intros keeps_modify; simp)+

lemma lifecycle [keeps_intros]: "keeps P (lifecycle_work sha op pid body corr)"
proof -
  have parts: "keeps P (capture_begin pid amt cur)" "keeps P (capture_end pid customer clearing corr q out)"
    "keeps P (void_begin pid amt cur)" "keeps P (void_end pid q out)"
    "keeps P (refund_begin pid amt cur)" "keeps P (refund_end pid key customer clearing corr r out)"
    for pid amt cur customer clearing corr q out r key
    unfolding capture_begin_def capture_end_def void_begin_def void_end_def refund_begin_def refund_end_def
      select_payment_def
    by (intro keeps_intros; simp)+
  show ?thesis
    unfolding lifecycle_work_def by (intro keeps_intros dispatch_keeps parts)
qed

lemma webhook [keeps_intros]: "keeps P (webhook_work sha name w corr)"
  unfolding webhook_work_def webhook_store_def webhook_find_def resolve_for_def resolve_def resolve_succeeded_def
    resolve_failed_def book_charge_def resolver_transaction_def
  by (intro keeps_intros; simp)

lemma control [keeps_intros]:
  "keeps P (evaluate_policy timeformat acct policy rid agent pid amt cur domain category)"
  "keeps P (bind_budget rid bid)" "keeps P (create_approval sha rid reason minutes)"
  "keeps P (set_approval i st actor reason)" "keeps P (payment_request rid)"
  unfolding evaluate_policy_def bind_budget_def create_approval_def set_approval_def payment_request_def
    undefined_column_def
  by (intro keeps_intros keeps_modify; simp)+

lemma inserts [keeps_intros]:
  "keeps P (merchant nm dmn)" "keeps P (store_evidence x b amt cur)"
  "keeps P (create_request acct agent amt cur purpose items key fp merch)"
  "keeps P (insert_payment rid amt cur st)" "keeps P (bind_evidence rid ev hash)"
  unfolding merchant_def store_evidence_def insert_evidence_def create_request_def insert_payment_def
    bind_evidence_def references_def undefined_column_def
  by (intro keeps_intros keeps_modify; simp)+

lemma decide [keeps_intros]: "keeps P (decide_payment x b rid pid amt cur corr)"
  unfolding decide_payment_def control_payment_def refuse_def ask_approval_def start_payment_def
  by (intro keeps_intros)

lemma api [keeps_intros]:
  "keeps P (create_work x b key corr)" "keeps P (new_payment x b key fp corr)"
  "keeps P (approve_work sha now i actor reason corr)"
  "keeps P (deny_work i actor reason corr)"
  unfolding create_work_def new_payment_def replay_answer_def approve_work_def deny_work_def pending_approval_def
    get_approval_def refuse_expired_def conflict_def approval_binding_digest_def undefined_column_def
    find_by_idempotency_def
  by (intro keeps_intros keeps_insert_request)+

lemma settlement [keeps_intros]: "keeps P (ingest_work pgtime q v)"
  unfolding ingest_work_def insert_settlement_def record_reconciliation_def set_settlement_def
  by (intro keeps_intros keeps_modify; simp)

end

section \<open>The audit trail\<close>

lemma audit_ok_frame [simp]:
  "audit_ok sha (d\<lparr>merchants := v_merchants\<rparr>) = audit_ok sha d"
  "audit_ok sha (d\<lparr>budgets := v_budgets\<rparr>) = audit_ok sha d"
  "audit_ok sha (d\<lparr>reservations := v_reservations\<rparr>) = audit_ok sha d"
  "audit_ok sha (d\<lparr>evidences := v_evidences\<rparr>) = audit_ok sha d"
  "audit_ok sha (d\<lparr>requests := v_requests\<rparr>) = audit_ok sha d"
  "audit_ok sha (d\<lparr>approvals := v_approvals\<rparr>) = audit_ok sha d"
  "audit_ok sha (d\<lparr>payments := v_payments\<rparr>) = audit_ok sha d"
  "audit_ok sha (d\<lparr>operations := v_operations\<rparr>) = audit_ok sha d"
  "audit_ok sha (d\<lparr>transactions := v_transactions\<rparr>) = audit_ok sha d"
  "audit_ok sha (d\<lparr>journals := v_journals\<rparr>) = audit_ok sha d"
  "audit_ok sha (d\<lparr>postings := v_postings\<rparr>) = audit_ok sha d"
  "audit_ok sha (d\<lparr>provider_events := v_provider_events\<rparr>) = audit_ok sha d"
  "audit_ok sha (d\<lparr>settlements := v_settlements\<rparr>) = audit_ok sha d"
  "audit_ok sha (d\<lparr>reconciliations := v_reconciliations\<rparr>) = audit_ok sha d"
  "audit_ok sha (d\<lparr>clock := v_clock\<rparr>) = audit_ok sha d"
  by (simp_all add: audit_ok_def audited_events_def)

lemma keeps_draw_audit: "keeps (audit_ok sha) draw_id"
  by (rule keepsI) (auto simp: audit_ok_def outbox_ids_ok_def audited_events_def less_Suc_eq)

lemma keeps_enqueue_audit: "keeps (audit_ok sha) (enqueue ty aggty agg payload corr)"
proof (rule keepsI)
  fix d i d'
  assume ok: "audit_ok sha d" and run: "enqueue ty aggty agg payload corr d = Inr (i, d')"
  then obtain x where x: "outbox d' = outbox d @ [x]" "x_status x = ''PENDING''" "x_id x = next_id d"
    and d': "audit_log d' = audit_log d" "next_id d' = next_id d + 1"
    by (auto simp: enqueue_def)
  have "audited_events d' = audited_events d" using x by (auto simp: audited_events_def)
  moreover have "outbox_ids_ok d'"
    using ok x d' by (auto simp: audit_ok_def outbox_ids_ok_def less_Suc_eq)
  ultimately show "audit_ok sha d'" using ok d' by (simp add: audit_ok_def)
qed

interpretation trail: event_invariant "audit_ok sha" for sha
proof
  show "keeps (audit_ok sha) (post_journal cur rtype ref key corr ps)" for cur rtype ref key corr ps
    by (rule keeps_post_journal [OF keeps_draw_audit]) simp_all
qed (simp_all add: keeps_draw_audit keeps_enqueue_audit)

section \<open>History\<close>

text \<open>The journals, their lines and the audit records that are there stay there, in order.\<close>

definition recorded :: "journal_row list \<Rightarrow> posting_row list \<Rightarrow> audit_row list \<Rightarrow> db \<Rightarrow> bool" where
  "recorded js ps as d \<longleftrightarrow> prefix js (journals d) \<and> prefix ps (postings d) \<and> prefix as (audit_log d)"

interpretation history: event_invariant "recorded js ps as" for js ps as
proof
  show "keeps (recorded js ps as) (post_journal cur rtype ref key corr lines)" for cur rtype ref key corr lines
    by (rule keeps_post_journal_appends [OF keeps_draw_tables]) (auto simp: recorded_def)
qed (auto simp: recorded_def enqueue_def intro!: keeps_intros keeps_modify keeps_draw_tables)

end
