(* ===== verification/System.thy ===== *)
theory System
  imports Invariants
begin

text \<open>
  The composition: the processes of the deployment as one step relation on the database. A step is one
  request of the API (\<open>late\<close>: one that looked its key up before another transaction committed, and
  creates the payment after it), one transaction of the payment worker (its provider calls happen between its two
  transactions), one message of a provider, one transaction of the outbox worker (its batch, or what it
  does with one claimed event), or the passing of time, in any order and with any arguments. The theorem collects what every reachable state satisfies.
\<close>

section \<open>Steps\<close>

inductive system_step :: "(string \<Rightarrow> string) \<Rightarrow> db \<Rightarrow> db \<Rightarrow> bool" for sha where
  create: "create_payment_endpoint x b key corr auth d = (r, d') \<Longrightarrow> system_step sha d d'"
| late: "admit x b key auth = Inr k \<Longrightarrow>
    transact (new_payment x b k (request_fingerprint (ex_sha x) b) corr) d = (z, d') \<Longrightarrow> system_step sha d d'"
| approve: "approve_payment hash env now i reason auth corr d = (r, d') \<Longrightarrow> system_step sha d d'"
| deny: "deny_payment env i reason auth corr d = (r, d') \<Longrightarrow> system_step sha d d'"
| claim: "transact (claim_payment pid) d = (z, d') \<Longrightarrow> system_step sha d d'"
| finish: "transact (finalize pid rid res amt cur customer clearing out ref corr) d = (st, d') \<Longrightarrow> system_step sha d d'"
| lifecycle: "lifecycle_run hash decode env pid body op auth corr d = (r, d') \<Longrightarrow> system_step sha d d'"
| webhook: "provider_webhook hmac hash loads isoformat env moment name msg signature corr d = (r, d') \<Longrightarrow> system_step sha d d'"
| settle: "provider_settlement hmac loads pgtime env name msg signature d = (r, d') \<Longrightarrow> system_step sha d d'"
| batch: "transact (claim_batch n) d = (rows, d') \<Longrightarrow> system_step sha d d'"
| publish: "x \<in> set (outbox d) \<Longrightarrow> x_status x = ''PROCESSING'' \<Longrightarrow> transact (handle_event sha x) d = (u, d') \<Longrightarrow>
    system_step sha d d'"
| retry: "x \<in> set (outbox d) \<Longrightarrow> x_status x = ''PROCESSING'' \<Longrightarrow>
    transact (mark_failed (x_id x) (backoff (x_attempts x)) (Some m)) d = (u, d') \<Longrightarrow> system_step sha d d'"
| time: "clock d \<le> t \<Longrightarrow> system_step sha d (d\<lparr>clock := t\<rparr>)"

text \<open>The worker's run on one payment is a path of two steps, whatever the provider does.\<close>

lemma process_one_steps:
  assumes "process_one V pid customer clearing corr (d, prov) = (r, d', prov')"
  shows "(system_step sha)\<^sup>*\<^sup>* d d'"
proof -
  obtain r1 d1 where t: "transact (claim_payment pid) d = (r1, d1)" by fastforce
  have 1: "system_step sha d d1" by (rule system_step.claim [OF t])
  show ?thesis
  proof (cases r1)
    case (Inl e)
    with assms t 1 show ?thesis by (auto simp: process_one_def)
  next
    case (Inr z)
    obtain rid amt cur res where z: "z = (rid, amt, cur, res)" by (cases z)
    obtain r2 prov1 where s: "provider_step V prov pid amt cur d1 = (r2, prov1)" by fastforce
    show ?thesis
    proof (cases r2)
      case (Inl e)
      with assms t 1 Inr z s show ?thesis by (auto simp: process_one_def)
    next
      case (Inr w)
      obtain out ref where w: "w = (out, ref)" by (cases w)
      obtain r3 d2 where f: "transact (finalize pid rid res amt cur customer clearing out ref corr) d1 = (r3, d2)"
        by fastforce
      have "system_step sha d1 d2" by (rule system_step.finish [OF f])
      moreover have "d2 = d'" using assms t \<open>r1 = Inr z\<close> z s Inr w f by (simp add: process_one_def)
      ultimately show ?thesis using 1 by (meson converse_rtranclp_into_rtranclp r_into_rtranclp)
    qed
  qed
qed

lemma run_payments_steps:
  "run_payments hash pids n (d, prov) = (r, d', prov') \<Longrightarrow> (system_step sha)\<^sup>*\<^sup>* d d'"
proof (induction pids arbitrary: n d prov)
  case Nil
  then show ?case by simp
next
  case (Cons pid pids)
  show ?case
  proof (cases "\<exists>cur customer clearing. payment_currency pid d = Inr cur \<and> payment_accounts cur pid d = Some (customer, clearing)")
    case False
    with Cons.prems show ?thesis by (auto split: sum.splits option.splits)
  next
    case True
    then obtain cur customer clearing where acc: "payment_currency pid d = Inr cur"
      "payment_accounts cur pid d = Some (customer, clearing)" by blast
    obtain r1 d1 prov1 where one: "process_one (MockProvider hash) pid customer clearing None (d, prov) = (r1, d1, prov1)"
      by (cases "process_one (MockProvider hash) pid customer clearing None (d, prov)")
    note steps = process_one_steps [OF one]
    show ?thesis
    proof (cases r1)
      case (Inl e)
      with Cons.prems acc one steps show ?thesis by simp
    next
      case (Inr st)
      with Cons.prems acc one have "run_payments hash pids (n + 1) (d1, prov1) = (r, d', prov')" by simp
      from rtranclp_trans [OF steps Cons.IH [OF this]] show ?thesis .
    qed
  qed
qed

text \<open>So is a run of the worker process.\<close>

lemma run_once_steps:
  assumes "run_once hash env n d = (r, d')"
  shows "(system_step sha)\<^sup>*\<^sup>* d d'"
proof -
  have c: "connection (unit_of_work (exec (pending_for_execution n))) d = transact (pending_for_execution n) d"
    by (rule connection_unit_of_work)
  obtain rows where t: "transact (pending_for_execution n) d = (Inr rows, d)"
    by (simp add: transact_def pending_for_execution_def)
  show ?thesis
  proof (cases "outcome_of_text (getenv_or env ''AGENT_PAY_MOCK_OUTCOME'' ''SUCCEEDED'')")
    case (Inl e)
    with assms c t show ?thesis by (simp add: run_once_def)
  next
    case (Inr out)
    obtain r1 d1 prov1 where run: "run_payments hash (map fst rows) 0 (d, new_mock out) = (r1, d1, prov1)"
      by (cases "run_payments hash (map fst rows) 0 (d, new_mock out)")
    with assms c t Inr have "d1 = d'" by (simp add: run_once_def)
    with run_payments_steps [OF run] show ?thesis by simp
  qed
qed

text \<open>A run of the outbox worker is a path: its batch, then a step for every event, and a second one for
  an event whose transaction raised.\<close>

lemma process_events_steps:
  assumes "audit_ok sha d" "distinct (map x_id xs)"
    "\<forall>x \<in> set xs. x \<in> set (outbox d) \<and> x_status x = ''PROCESSING''"
    and "process_events exc_text sha xs n d = (r, d')"
  shows "(system_step sha)\<^sup>*\<^sup>* d d'"
  using assms
proof (induction xs arbitrary: n d)
  case Nil
  then show ?case by simp
next
  case (Cons x xs)
  then have x: "x \<in> set (outbox d)" "x_status x = ''PROCESSING''" by auto
  have ids: "outbox_ids_ok d" using Cons.prems(1) by (simp add: audit_ok_def)
  have later: "(system_step sha)\<^sup>*\<^sup>* d1 d'"
    if "audit_ok sha d1" "outbox d1 = upd_by x_id (x_id x) g (outbox d)" "process_events exc_text sha xs k d1 = (r, d')" for d1 g k
  proof (rule Cons.IH [OF that(1) _ _ that(3)])
    show "distinct (map x_id xs)" using Cons.prems(2) by simp
    have "z \<in> set (outbox d1)" if "z \<in> set (outbox d)" "x_id z \<noteq> x_id x" for z
      using that by (auto simp: \<open>outbox d1 = _\<close> upd_by_def intro!: rev_image_eqI)
    then show "\<forall>z \<in> set xs. z \<in> set (outbox d1) \<and> x_status z = ''PROCESSING''"
      using Cons.prems(2,3) by (auto simp: image_iff)
  qed
  show ?case
  proof (cases "handle_event sha x d")
    case (Inr z)
    then obtain u d1 where run: "handle_event sha x d = Inr (u, d1)" by (cases z) auto
    have "system_step sha d d1" by (rule system_step.publish [OF x]) (simp add: transact_def run)
    moreover have "(system_step sha)\<^sup>*\<^sup>* d1 d'"
      by (rule later [OF audit_ok_publish [OF Cons.prems(1) x run]])
        (use handle_event_effect [OF run x(2) ids x(1)] Cons.prems(4) run in \<open>auto simp: transact_def\<close>)
    ultimately show ?thesis by (rule converse_rtranclp_into_rtranclp)
  next
    case (Inl e)
    let ?m = "take 1000 (exc_text e)"
    let ?d = "d\<lparr>outbox := upd_by x_id (x_id x) (\<lambda>_. failed_row (clock d) ?m x) (outbox d)\<rparr>"
    note failed = fail_event [OF ids x, of ?m]
    have "system_step sha d ?d" by (rule system_step.retry [where m = ?m, OF x]) (simp add: transact_def failed)
    moreover have "(system_step sha)\<^sup>*\<^sup>* ?d d'"
      by (rule later [OF audit_ok_fail [OF Cons.prems(1) x]]) (use Inl failed Cons.prems(4) in \<open>auto simp: transact_def\<close>)
    ultimately show ?thesis by (rule converse_rtranclp_into_rtranclp)
  qed
qed

lemma process_once_steps:
  assumes ok: "audit_ok sha d" and run: "process_once exc_text sha n d = (r, d')"
  shows "(system_step sha)\<^sup>*\<^sup>* d d'"
proof -
  let ?rows = "filter (\<lambda>x. x_id x \<in> set (batch_ids n d)) (outbox (claimed_db n d))"
  have "system_step sha d (claimed_db n d)"
    by (rule system_step.batch [where n = n and rows = "Inr ?rows"]) (simp add: transact_def claim_batch_eq)
  moreover have "(system_step sha)\<^sup>*\<^sup>* (claimed_db n d) d'"
  proof (rule process_events_steps [OF audit_ok_claimed [OF ok]])
    show "distinct (map x_id ?rows)"
      using audit_ok_claimed [OF ok, of n] by (simp add: audit_ok_def outbox_ids_ok_def distinct_map_filter)
    show "\<forall>x \<in> set ?rows. x \<in> set (outbox (claimed_db n d)) \<and> x_status x = ''PROCESSING''"
      by (auto simp: claimed_db_def)
    show "process_events exc_text sha ?rows 0 (claimed_db n d) = (r, d')"
      using run by (simp add: process_once_def transact_def claim_batch_eq)
  qed
  ultimately show ?thesis by (rule converse_rtranclp_into_rtranclp)
qed

section \<open>What every step keeps\<close>

lemma process_events_keeps:
  assumes "\<And>x. keeps I (handle_event sha x)" "\<And>i s m. keeps I (mark_failed i s m)"
    and "I d" "process_events exc_text sha xs n d = (r, d')"
  shows "I d'"
  using assms(3,4)
proof (induction xs arbitrary: n d)
  case Nil
  then show ?case by simp
next
  case (Cons x xs)
  obtain r1 d1 where h: "transact (handle_event sha x) d = (r1, d1)" by fastforce
  have 1: "I d1" by (rule transact_snd [OF assms(1) Cons.prems(1) h])
  show ?case
  proof (cases r1)
    case (Inl e)
    obtain r2 d2 where f: "transact (mark_failed (x_id x) (backoff (x_attempts x)) (Some (take 1000 (exc_text e)))) d1 = (r2, d2)"
      by fastforce
    have "I d2" by (rule transact_snd [OF assms(2) 1 f])
    with Cons.IH [OF this] Cons.prems(2) h Inl f show ?thesis by (cases r2) simp_all
  next
    case (Inr u)
    with Cons.IH [OF 1] Cons.prems(2) h show ?thesis by simp
  qed
qed

lemma process_once_keeps:
  assumes "\<And>n. keeps I (claim_batch n)" "\<And>x. keeps I (handle_event sha x)" "\<And>i s m. keeps I (mark_failed i s m)"
    and "I d" "process_once exc_text sha n d = (r, d')"
  shows "I d'"
proof -
  obtain r1 d1 where c: "transact (claim_batch n) d = (r1, d1)" by fastforce
  have 1: "I d1" by (rule transact_snd [OF assms(1,4) c])
  show ?thesis
  proof (cases r1)
    case (Inl e)
    with assms(5) c 1 show ?thesis by (simp add: process_once_def)
  next
    case (Inr rows)
    with assms(5) c have "process_events exc_text sha rows 0 d1 = (r, d')" by (simp add: process_once_def)
    from process_events_keeps [OF assms(2,3) 1 this] show ?thesis .
  qed
qed

lemma system_step_preserves:
  assumes "system_step sha d d'" "I d"
    and "\<And>x b k corr. keeps I (create_work x b k corr)"
    and "\<And>x b k fp corr. keeps I (new_payment x b k fp corr)"
    and "\<And>hash now i actor reason corr. keeps I (approve_work hash now i actor reason corr)"
    and "\<And>i actor reason corr. keeps I (deny_work i actor reason corr)"
    and "\<And>pid. keeps I (claim_payment pid)"
    and "\<And>pid rid res amt cur customer clearing out ref corr. keeps I (finalize pid rid res amt cur customer clearing out ref corr)"
    and "\<And>hash op pid body corr. keeps I (lifecycle_work hash op pid body corr)"
    and "\<And>hash name w corr. keeps I (webhook_work hash name w corr)"
    and "\<And>pgtime q v. keeps I (ingest_work pgtime q v)"
    and "\<And>n. keeps I (claim_batch n)"
    and "\<And>x u d'. x \<in> set (outbox d) \<Longrightarrow> x_status x = ''PROCESSING'' \<Longrightarrow> handle_event sha x d = Inr (u, d') \<Longrightarrow> I d'"
    and "\<And>x m u d'. x \<in> set (outbox d) \<Longrightarrow> x_status x = ''PROCESSING'' \<Longrightarrow>
      mark_failed (x_id x) (backoff (x_attempts x)) (Some m) d = Inr (u, d') \<Longrightarrow> I d'"
    and "\<And>t. I (d\<lparr>clock := t\<rparr>)"
  shows "I d'"
  using assms(1)
proof cases
  case (create x b key corr auth r)
  then show ?thesis
    using assms(2) transact_keeps [OF assms(3) assms(2)]
    by (auto simp: create_payment_endpoint_def split: sum.splits prod.splits) (metis snd_conv)+
next
  case (late x b key auth k corr z)
  from transact_snd [OF assms(4,2) late(2)] show ?thesis .
next
  case (approve hash env now i reason auth corr r)
  then show ?thesis
    using assms(2) transact_keeps [OF assms(5) assms(2)]
    by (auto simp: approve_payment_def split: if_splits sum.splits) (metis snd_conv)+
next
  case (deny env i reason auth corr r)
  then show ?thesis
    using assms(2) transact_keeps [OF assms(6) assms(2)]
    by (auto simp: deny_payment_def split: if_splits sum.splits) (metis snd_conv)+
next
  case (claim pid z)
  from transact_snd [OF assms(7,2) this] show ?thesis .
next
  case (finish pid rid res amt cur customer clearing out ref corr st)
  from transact_snd [OF assms(8,2) this] show ?thesis .
next
  case (lifecycle hash decode env pid body op auth corr r)
  then show ?thesis
    using assms(2) transact_keeps [OF assms(9) assms(2)]
    by (auto simp: lifecycle_run_def split: if_splits sum.splits prod.splits) (metis snd_conv)+
next
  case (webhook hmac hash loads isoformat env moment name msg signature corr r)
  then show ?thesis
    using assms(2) transact_keeps [OF assms(10) assms(2)]
    by (auto simp: provider_webhook_def nested_tail split: sum.splits) (metis snd_conv)+
next
  case (settle hmac loads pgtime env name msg signature r)
  then show ?thesis
    using assms(2) transact_keeps [OF assms(11) assms(2)]
    by (auto simp: provider_settlement_def ingest_def split: sum.splits prod.splits) (metis snd_conv)+
next
  case (batch n rows)
  from transact_snd [OF assms(12,2) this] show ?thesis .
next
  case (publish x u)
  with assms(2) assms(13) [OF publish(1,2)] show ?thesis by (auto simp: transact_def split: sum.splits)
next
  case (retry x m u)
  with assms(2) assms(14) [OF retry(1,2)] show ?thesis by (auto simp: transact_def split: sum.splits)
next
  case (time t)
  then show ?thesis using assms(15) by simp
qed

lemma system_step_keeps:
  assumes "system_step sha d d'" "I d"
    and "\<And>x b k corr. keeps I (create_work x b k corr)"
    and "\<And>x b k fp corr. keeps I (new_payment x b k fp corr)"
    and "\<And>hash now i actor reason corr. keeps I (approve_work hash now i actor reason corr)"
    and "\<And>i actor reason corr. keeps I (deny_work i actor reason corr)"
    and "\<And>pid. keeps I (claim_payment pid)"
    and "\<And>pid rid res amt cur customer clearing out ref corr. keeps I (finalize pid rid res amt cur customer clearing out ref corr)"
    and "\<And>hash op pid body corr. keeps I (lifecycle_work hash op pid body corr)"
    and "\<And>hash name w corr. keeps I (webhook_work hash name w corr)"
    and "\<And>pgtime q v. keeps I (ingest_work pgtime q v)"
    and "\<And>n. keeps I (claim_batch n)"
    and "\<And>x. keeps I (handle_event sha x)" "\<And>i s m. keeps I (mark_failed i s m)"
    and "\<And>t. I (d\<lparr>clock := t\<rparr>)"
  shows "I d'"
  by (rule system_step_preserves [where I = I, OF assms(1-12)])
    (use assms(2,15) keepsD [OF assms(13)] keepsD [OF assms(14)] in blast)+

section \<open>Reachable states\<close>

lemma keeps_outbox_worker [keeps_intros]:
  "keeps budgets_ok (claim_batch n)" "keeps budgets_ok (handle_event sha x)" "keeps budgets_ok (mark_failed i s m)"
  "keeps ledger_ok (claim_batch n)" "keeps ledger_ok (handle_event sha x)" "keeps ledger_ok (mark_failed i s m)"
  "keeps transactions_ok (claim_batch n)" "keeps transactions_ok (handle_event sha x)" "keeps transactions_ok (mark_failed i s m)"
  "keeps (recorded js ps as) (claim_batch n)" "keeps (recorded js ps as) (handle_event sha x)"
  "keeps (recorded js ps as) (mark_failed i s m)"
  unfolding claim_batch_def handle_event_def account_for_def audit_event_def notify_event_def record_audit_def
    enqueue_notification_def infer_index_def references_def mark_published_def mark_failed_def update_processing_def
  by (intro keeps_intros keeps_modify; simp add: recorded_def prefix_def; force)+

lemma keeps_ingest_books [keeps_intros]:
  "keeps budgets_ok (ingest_work pgtime q v)" "keeps ledger_ok (ingest_work pgtime q v)"
  "keeps transactions_ok (ingest_work pgtime q v)"
  unfolding ingest_work_def insert_settlement_def record_reconciliation_def set_settlement_def
  by (intro keeps_intros keeps_modify; simp)+

definition books_ok :: "(string \<Rightarrow> string) \<Rightarrow> db \<Rightarrow> bool" where
  "books_ok sha d \<longleftrightarrow> budgets_ok d \<and> ledger_ok d \<and> transactions_ok d \<and> audit_ok sha d"

lemma audit_ok_fails:
  assumes ok: "audit_ok sha d" and x: "x \<in> set (outbox d)" "x_status x = ''PROCESSING''"
    and run: "mark_failed (x_id x) (backoff (x_attempts x)) (Some m) d = Inr (u, d')"
  shows "audit_ok sha d'"
proof -
  have "outbox_ids_ok d" using ok by (simp add: audit_ok_def)
  from fail_event [OF this x, of m] run audit_ok_fail [OF ok x, of m] show ?thesis by simp
qed

lemma audit_batch: "keeps (audit_ok sha) (claim_batch n)"
  by (rule keepsI) (simp add: claim_batch_eq audit_ok_claimed)

lemma step_books:
  assumes "system_step sha d d'"
  shows "budgets_ok d \<Longrightarrow> budgets_ok d'" "ledger_ok d \<Longrightarrow> ledger_ok d'" "transactions_ok d \<Longrightarrow> transactions_ok d'"
    "audit_ok sha d \<Longrightarrow> audit_ok sha d'" "recorded js ps as d \<Longrightarrow> recorded js ps as d'"
proof -
  show "budgets_ok d'" if i: "budgets_ok d"
    by (rule system_step_keeps [where I = "budgets_ok", OF assms i])
      (use i in \<open>(intro keeps_intros | simp)+\<close>)
  show "ledger_ok d'" if i: "ledger_ok d"
    by (rule system_step_keeps [where I = "ledger_ok", OF assms i])
      (use i in \<open>(intro keeps_intros | simp)+\<close>)
  show "transactions_ok d'" if i: "transactions_ok d"
    by (rule system_step_keeps [where I = "transactions_ok", OF assms i])
      (use i in \<open>(intro keeps_intros | simp)+\<close>)
  show "recorded js ps as d'" if i: "recorded js ps as d"
    by (rule system_step_keeps [where I = "recorded js ps as", OF assms i])
      (use i in \<open>(intro keeps_intros | simp add: recorded_def
       )+\<close>)
  show "audit_ok sha d'" if i: "audit_ok sha d"
    by (rule system_step_preserves [where I = "audit_ok sha", OF assms i])
      (use i in \<open>intro keeps_intros audit_batch | simp add: audit_ok_publish [OF i] audit_ok_fails [OF i]\<close>)+
qed

text \<open>C7: start from sound books and let the processes of the deployment run in any order,
  with any arguments, any provider answers and any failures: in every reachable state each budget's
  reserved and consumed totals are those of its reservations and stay within its limit, every journal
  balances, no payment has more posted refunds than captures, and the audit records are exactly those of
  the published auditable events; and no journal, ledger line or audit record that was there is ever
  changed or removed.\<close>

theorem reachable_books:
  assumes "(system_step sha)\<^sup>*\<^sup>* d d'" "books_ok sha d"
  shows "books_ok sha d' \<and> prefix (journals d) (journals d') \<and> prefix (postings d) (postings d') \<and>
    prefix (audit_log d) (audit_log d')"
proof -
  have "books_ok sha d' \<and> recorded (journals d) (postings d) (audit_log d) d'"
    using assms(1)
  proof (induction rule: rtranclp_induct)
    case base
    show ?case using assms(2) by (simp add: recorded_def)
  next
    case (step d1 d2)
    then show ?case using step_books [OF step.hyps(2)] by (auto simp: books_ok_def)
  qed
  then show ?thesis by (simp add: recorded_def)
qed

theorem reachable_books_witness:
  "\<exists>d'. (system_step id)\<^sup>*\<^sup>* ready_db d' \<and> books_ok id ready_db \<and> books_ok id d' \<and> journals ready_db = [] \<and> journals d' \<noteq> []"
proof -
  obtain d' p' where one: "process_one (MockProvider id) 5 8 9 None (ready_db, new_mock O_SUCCEEDED) = (Inr ST_SUCCEEDED, d', p')"
    using ready_processed by blast
  have steps: "(system_step id)\<^sup>*\<^sup>* ready_db d'" by (rule process_one_steps [OF one])
  have "audit_ok id ready_db" "transactions_ok ready_db" and none: "journals ready_db = []"
    by (simp_all add: audit_ok_def outbox_ids_ok_def audited_events_def transactions_ok_def posted_total_def posted_rows_def
        ready_db_def held_db_def sample_defs)
  then have ok: "books_ok id ready_db" using ready_db_ok by (simp add: books_ok_def)
  obtain rid amt cur res out where s: "settled 5 rid amt cur res 8 9 out d'" and out: "ST_SUCCEEDED = outcome_state out"
    using process_one_settles [OF one] by blast
  have "out = O_SUCCEEDED" using out by (cases out) (simp_all add: outcome_state_def)
  with s have "journals d' \<noteq> []" by (auto simp: settled_def)
  with none show ?thesis using reachable_books [OF steps ok] steps ok by blast
qed

end
