(* ===== verification/Schema.thy ===== *)
theory Schema
  imports Repositories
begin

text \<open>
  What \<open>database-schema.sql\<close> and the applied migrations declare: types of columns, CHECK, NOT NULL,
  UNIQUE and foreign keys, and the trigger that lets a payment request name only verified evidence. The
  statements of the program raise the exceptions of the constraints they can hit; the constraints here are
  those the server would check on every statement. The locale \<open>row_table\<close> has the three ways a table
  changes (another table changed, a row was inserted, rows were updated) and is interpreted for every table.
\<close>

section \<open>Constraints of a table\<close>

text \<open>A unique column that may be NULL: the values that are there differ.\<close>

definition distinct_some :: "'a option list \<Rightarrow> bool" where
  "distinct_some xs \<longleftrightarrow> distinct (filter (\<lambda>x. x \<noteq> None) xs)"

lemma distinct_some_simps [simp]:
  "distinct_some []"
  "distinct_some (x # xs) \<longleftrightarrow> (x = None \<or> x \<notin> set xs) \<and> distinct_some xs"
  "distinct_some (xs @ [x]) \<longleftrightarrow> (x = None \<or> x \<notin> set xs) \<and> distinct_some xs"
  by (auto simp: distinct_some_def)

definition id_below :: "nat \<Rightarrow> nat option \<Rightarrow> bool" where
  "id_below n k \<longleftrightarrow> (case k of None \<Rightarrow> True | Some i \<Rightarrow> i < n)"

lemma id_below_simps [simp]: "id_below n None" "id_below n (Some i) \<longleftrightarrow> i < n"
  by (simp_all add: id_below_def)

text \<open>A primary key of drawn ids, one more unique key, and what each row has to satisfy.\<close>

definition table_ok :: "('r \<Rightarrow> nat option) \<Rightarrow> ('r \<Rightarrow> 'u option) \<Rightarrow> (db \<Rightarrow> 'r \<Rightarrow> bool) \<Rightarrow> 'r list \<Rightarrow> db \<Rightarrow> bool" where
  "table_ok key uniq typed rows d \<longleftrightarrow>
     distinct_some (map key rows) \<and> distinct_some (map uniq rows) \<and>
     (\<forall>r \<in> set rows. id_below (next_id d) (key r) \<and> typed d r)"

definition null_or :: "'a set \<Rightarrow> 'a option \<Rightarrow> bool" where
  "null_or A x \<longleftrightarrow> (case x of None \<Rightarrow> True | Some y \<Rightarrow> y \<in> A)"

lemma null_or_simps [simp]: "null_or A None" "null_or A (Some y) \<longleftrightarrow> y \<in> A"
  by (simp_all add: null_or_def)

lemma null_or_mono: "A \<subseteq> B \<Longrightarrow> null_or A x \<Longrightarrow> null_or B x"
  by (cases x) auto

text \<open>Column types.\<close>

definition numeric :: "num4 \<Rightarrow> bool" where
  "numeric n \<longleftrightarrow> \<bar>n\<bar> < num4_max"

definition positive_numeric :: "num4 \<Rightarrow> bool" where
  "positive_numeric n \<longleftrightarrow> 0 < n \<and> numeric n"

definition currency_column :: "string \<Rightarrow> bool" where
  "currency_column s \<longleftrightarrow> length s = 3"

lemma positive_numeric_iff [simp]: "positive_numeric n \<longleftrightarrow> 0 < n \<and> n < num4_max"
  by (auto simp: positive_numeric_def numeric_def)

lemma char3_column: "char3 s = Inr c \<Longrightarrow> currency_column c"
  by (auto simp: char3_def currency_column_def split: if_splits)

section \<open>What stays\<close>

text \<open>No row is ever deleted, and what was agreed in a request and its payment is not changed.\<close>

definition verified_ids :: "db \<Rightarrow> nat set" where
  "verified_ids d = ev_id ` {e \<in> set (evidences d). ev_status e = ''VERIFIED''}"

definition request_terms :: "db \<Rightarrow> (nat \<times> num4 \<times> string) set" where
  "request_terms d = (\<lambda>q. (q_id q, q_amount q, q_currency q)) ` set (requests d)"

definition payment_terms :: "db \<Rightarrow> (nat \<times> nat \<times> num4 \<times> string) set" where
  "payment_terms d = (\<lambda>p. (p_id p, p_request p, p_amount p, p_currency p)) ` set (payments d)"

definition grows :: "db \<Rightarrow> db \<Rightarrow> bool" where
  "grows d d' \<longleftrightarrow> next_id d \<le> next_id d' \<and>
     set (accounts d) \<subseteq> set (accounts d') \<and> set (agents d) \<subseteq> set (agents d') \<and>
     keys_of m_id (merchants d) \<subseteq> keys_of m_id (merchants d') \<and>
     keys_of pol_id (policies d) \<subseteq> keys_of pol_id (policies d') \<and>
     keys_of pv_id (policy_versions d) \<subseteq> keys_of pv_id (policy_versions d') \<and>
     keys_of b_id (budgets d) \<subseteq> keys_of b_id (budgets d') \<and>
     keys_of r_id (reservations d) \<subseteq> keys_of r_id (reservations d') \<and>
     verified_ids d \<subseteq> verified_ids d' \<and>
     request_terms d \<subseteq> request_terms d' \<and> payment_terms d \<subseteq> payment_terms d' \<and>
     keys_of o_id (operations d) \<subseteq> keys_of o_id (operations d') \<and>
     keys_of t_id (transactions d) \<subseteq> keys_of t_id (transactions d') \<and>
     keys_of j_id (journals d) \<subseteq> keys_of j_id (journals d') \<and>
     keys_of w_id (wallets d) \<subseteq> keys_of w_id (wallets d') \<and>
     keys_of la_id (ledger_accounts d) \<subseteq> keys_of la_id (ledger_accounts d') \<and>
     keys_of pe_id (provider_events d) \<subseteq> keys_of pe_id (provider_events d') \<and>
     keys_of se_id (settlements d) \<subseteq> keys_of se_id (settlements d')"

lemma grows_refl [simp]: "grows d d"
  by (simp add: grows_def)

lemma grows_trans: "grows d1 d2 \<Longrightarrow> grows d2 d3 \<Longrightarrow> grows d1 d3"
  unfolding grows_def by (intro conjI; elim conjE; (erule (1) subset_trans | erule (1) le_trans))

lemma verified_member: "i \<in> verified_ids d \<longleftrightarrow> (\<exists>e \<in> set (evidences d). ev_id e = i \<and> ev_status e = ''VERIFIED'')"
  by (auto simp: verified_ids_def)

lemma request_known: "(i, a, c) \<in> request_terms d \<Longrightarrow> i \<in> keys_of q_id (requests d)"
  by (auto simp: request_terms_def)

lemma known_request: "i \<in> keys_of q_id (requests d) \<longleftrightarrow> i \<in> fst ` request_terms d"
  by (force simp: request_terms_def)

lemma known_payment: "i \<in> keys_of p_id (payments d) \<longleftrightarrow> i \<in> fst ` payment_terms d"
  by (force simp: payment_terms_def)

section \<open>The rows\<close>

definition policy_typed :: "db \<Rightarrow> policy_row \<Rightarrow> bool" where
  "policy_typed d p \<longleftrightarrow> pol_account p \<in> set (accounts d)"

definition policy_version_typed :: "db \<Rightarrow> policy_version_row \<Rightarrow> bool" where
  "policy_version_typed d v \<longleftrightarrow> pv_policy v \<in> keys_of pol_id (policies d)"

definition budget_typed :: "db \<Rightarrow> budget_row \<Rightarrow> bool" where
  "budget_typed d b \<longleftrightarrow>
     b_account b \<in> set (accounts d) \<and> null_or (keys_of pol_id (policies d)) (b_policy b) \<and>
     currency_column (b_currency b) \<and> numeric (b_limit b) \<and> numeric (b_consumed b) \<and> numeric (b_reserved b) \<and>
     0 \<le> b_limit b \<and> 0 \<le> b_consumed b \<and> 0 \<le> b_reserved b"

text \<open>The last conjunct is no constraint of the schema: the amount reserved is the request's.\<close>

definition reservation_typed :: "db \<Rightarrow> reservation_row \<Rightarrow> bool" where
  "reservation_typed d r \<longleftrightarrow>
     r_budget r \<in> keys_of b_id (budgets d) \<and> positive_numeric (r_amount r) \<and> currency_column (r_currency r) \<and>
     (\<exists>cur. (r_request r, r_amount r, cur) \<in> request_terms d)"

definition evidence_typed :: "db \<Rightarrow> evidence_row \<Rightarrow> bool" where
  "evidence_typed d e \<longleftrightarrow>
     ev_account e \<in> set (accounts d) \<and> ev_agent e \<in> set (agents d) \<and>
     null_or (fst ` request_terms d) (ev_request e) \<and> ev_status e \<in> {''UNVERIFIED'', ''VERIFIED'', ''REJECTED''}"

definition request_typed :: "db \<Rightarrow> request_row \<Rightarrow> bool" where
  "request_typed d q \<longleftrightarrow>
     q_account q \<in> set (accounts d) \<and> q_agent q \<in> set (agents d) \<and>
     null_or (keys_of m_id (merchants d)) (q_merchant q) \<and> positive_numeric (q_amount q) \<and>
     currency_column (q_currency q) \<and> null_or (keys_of pv_id (policy_versions d)) (q_policy_version q) \<and>
     null_or (keys_of b_id (budgets d)) (q_budget q) \<and> null_or (keys_of r_id (reservations d)) (q_reservation q) \<and>
     null_or (verified_ids d) (q_evidence q)"

definition approval_typed :: "db \<Rightarrow> approval_row \<Rightarrow> bool" where
  "approval_typed d a \<longleftrightarrow> ap_request a \<in> fst ` request_terms d"

text \<open>A payment has the amount and the currency of its request; that is not declared either.\<close>

definition payment_typed :: "db \<Rightarrow> payment_row \<Rightarrow> bool" where
  "payment_typed d p \<longleftrightarrow>
     (p_request p, p_amount p, p_currency p) \<in> request_terms d \<and> positive_numeric (p_amount p) \<and>
     currency_column (p_currency p) \<and> null_or (keys_of o_id (operations d)) (p_operation p)"

definition operation_typed :: "db \<Rightarrow> operation_row \<Rightarrow> bool" where
  "operation_typed d op \<longleftrightarrow> o_payment op \<in> fst ` payment_terms d"

text \<open>Apart from refunds, a transaction has the amount of its payment.\<close>

definition transaction_typed :: "db \<Rightarrow> transaction_row \<Rightarrow> bool" where
  "transaction_typed d t \<longleftrightarrow>
     t_payment t \<in> fst ` payment_terms d \<and> positive_numeric (t_amount t) \<and> currency_column (t_currency t) \<and>
     null_or (keys_of t_id (transactions d)) (t_original t) \<and>
     (t_type t = ''REFUND'' \<or> (\<exists>rid cur. (t_payment t, rid, t_amount t, cur) \<in> payment_terms d))"

definition journal_typed :: "db \<Rightarrow> journal_row \<Rightarrow> bool" where
  "journal_typed d j \<longleftrightarrow> currency_column (j_currency j)"

definition posting_typed :: "db \<Rightarrow> posting_row \<Rightarrow> bool" where
  "posting_typed d l \<longleftrightarrow>
     l_journal l \<in> keys_of j_id (journals d) \<and> l_account l \<in> keys_of la_id (ledger_accounts d) \<and>
     l_side l \<in> {''DEBIT'', ''CREDIT''} \<and> positive_numeric (l_amount l) \<and> currency_column (l_currency l)"

definition wallet_typed :: "db \<Rightarrow> wallet_row \<Rightarrow> bool" where
  "wallet_typed d w \<longleftrightarrow> w_account w \<in> set (accounts d) \<and> currency_column (w_currency w)"

definition ledger_account_typed :: "db \<Rightarrow> ledger_account_row \<Rightarrow> bool" where
  "ledger_account_typed d a \<longleftrightarrow> null_or (keys_of w_id (wallets d)) (la_wallet a)"

definition provider_account_typed :: "db \<Rightarrow> provider_account_row \<Rightarrow> bool" where
  "provider_account_typed d a \<longleftrightarrow>
     ppa_ledger a \<in> keys_of la_id (ledger_accounts d) \<and> currency_column (ppa_currency a)"

definition provider_event_typed :: "db \<Rightarrow> provider_event_row \<Rightarrow> bool" where
  "provider_event_typed d e \<longleftrightarrow> null_or (keys_of o_id (operations d)) (pe_operation e)"

definition settlement_typed :: "db \<Rightarrow> settlement_row \<Rightarrow> bool" where
  "settlement_typed d s \<longleftrightarrow> numeric (se_amount s) \<and> currency_column (se_currency s)"

definition reconciliation_typed :: "db \<Rightarrow> reconciliation_row \<Rightarrow> bool" where
  "reconciliation_typed d r \<longleftrightarrow>
     null_or (keys_of se_id (settlements d)) (rc_settlement r) \<and> null_or (keys_of o_id (operations d)) (rc_operation r)"

text \<open>The program asks for notifications about payments it knows, with an object.\<close>

definition is_object :: "json \<Rightarrow> bool" where
  "is_object v = (case v of JObj _ \<Rightarrow> True | _ \<Rightarrow> False)"

definition deliverable :: "db \<Rightarrow> outbox_row \<Rightarrow> bool" where
  "deliverable d x \<longleftrightarrow> x_type x \<noteq> ''NotificationRequested'' \<or>
     x_aggregate_type x = ''payment'' \<and> x_aggregate x \<in> fst ` payment_terms d \<and> is_object (x_payload x)"

definition outbox_typed :: "db \<Rightarrow> outbox_row \<Rightarrow> bool" where
  "outbox_typed d x \<longleftrightarrow>
     x_status x \<in> {''PENDING'', ''PROCESSING'', ''PUBLISHED'', ''DEAD_LETTER''} \<and> deliverable d x"

definition audit_typed :: "db \<Rightarrow> audit_row \<Rightarrow> bool" where
  "audit_typed d a \<longleftrightarrow> null_or (set (accounts d)) (au_account a)"

definition notification_typed :: "db \<Rightarrow> notification_row \<Rightarrow> bool" where
  "notification_typed d n \<longleftrightarrow> no_account n \<in> set (accounts d)"

section \<open>The tables\<close>

definition no_key :: "'r \<Rightarrow> nat option" where
  "no_key r = None"

lemma no_key_eq [simp]: "no_key r = None"
  by (simp add: no_key_def)

abbreviation merchants_typed :: "db \<Rightarrow> bool" where
  "merchants_typed d \<equiv> table_ok (\<lambda>m. Some (m_id m)) no_key (\<lambda>_ _. True) (merchants d) d"
abbreviation policies_typed :: "db \<Rightarrow> bool" where
  "policies_typed d \<equiv> table_ok (\<lambda>p. Some (pol_id p)) no_key policy_typed (policies d) d"
abbreviation policy_versions_typed :: "db \<Rightarrow> bool" where
  "policy_versions_typed d \<equiv>
     table_ok (\<lambda>v. Some (pv_id v)) (\<lambda>v. Some (pv_policy v, pv_version v)) policy_version_typed (policy_versions d) d"
abbreviation budgets_typed :: "db \<Rightarrow> bool" where
  "budgets_typed d \<equiv> table_ok (\<lambda>b. Some (b_id b)) no_key budget_typed (budgets d) d"
abbreviation reservations_typed :: "db \<Rightarrow> bool" where
  "reservations_typed d \<equiv>
     table_ok (\<lambda>r. Some (r_id r)) (\<lambda>r. Some (r_budget r, r_request r)) reservation_typed (reservations d) d"
abbreviation evidences_typed :: "db \<Rightarrow> bool" where
  "evidences_typed d \<equiv> table_ok (\<lambda>e. Some (ev_id e)) no_key evidence_typed (evidences d) d"
abbreviation requests_typed :: "db \<Rightarrow> bool" where
  "requests_typed d \<equiv> table_ok (\<lambda>q. Some (q_id q)) (\<lambda>q. Some (q_account q, q_key q)) request_typed (requests d) d"
abbreviation approvals_typed :: "db \<Rightarrow> bool" where
  "approvals_typed d \<equiv> table_ok (\<lambda>a. Some (ap_id a)) no_key approval_typed (approvals d) d"
abbreviation payments_typed :: "db \<Rightarrow> bool" where
  "payments_typed d \<equiv> table_ok (\<lambda>p. Some (p_id p)) (\<lambda>p. Some (p_request p)) payment_typed (payments d) d"
abbreviation operations_typed :: "db \<Rightarrow> bool" where
  "operations_typed d \<equiv> table_ok (\<lambda>op. Some (o_id op)) (\<lambda>op. Some (o_key op)) operation_typed (operations d) d"
abbreviation transactions_typed :: "db \<Rightarrow> bool" where
  "transactions_typed d \<equiv> table_ok (\<lambda>t. Some (t_id t)) t_key transaction_typed (transactions d) d"
abbreviation journals_typed :: "db \<Rightarrow> bool" where
  "journals_typed d \<equiv> table_ok (\<lambda>j. Some (j_id j)) (\<lambda>j. Some (j_key j)) journal_typed (journals d) d"
abbreviation postings_typed :: "db \<Rightarrow> bool" where
  "postings_typed d \<equiv> table_ok no_key no_key posting_typed (postings d) d"
abbreviation wallets_typed :: "db \<Rightarrow> bool" where
  "wallets_typed d \<equiv> table_ok (\<lambda>w. Some (w_id w)) no_key wallet_typed (wallets d) d"
abbreviation ledger_accounts_typed :: "db \<Rightarrow> bool" where
  "ledger_accounts_typed d \<equiv> table_ok (\<lambda>a. Some (la_id a)) la_wallet ledger_account_typed (ledger_accounts d) d"
abbreviation provider_accounts_typed :: "db \<Rightarrow> bool" where
  "provider_accounts_typed d \<equiv>
     table_ok (\<lambda>a. Some (ppa_ledger a)) (\<lambda>a. Some (ppa_provider a, ppa_currency a)) provider_account_typed (provider_accounts d) d"
abbreviation provider_events_typed :: "db \<Rightarrow> bool" where
  "provider_events_typed d \<equiv>
     table_ok (\<lambda>e. Some (pe_id e)) (\<lambda>e. Some (pe_provider e, pe_event e)) provider_event_typed (provider_events d) d"
abbreviation settlements_typed :: "db \<Rightarrow> bool" where
  "settlements_typed d \<equiv>
     table_ok (\<lambda>s. Some (se_id s)) (\<lambda>s. Some (se_provider s, se_reference s)) settlement_typed (settlements d) d"
abbreviation reconciliations_typed :: "db \<Rightarrow> bool" where
  "reconciliations_typed d \<equiv> table_ok no_key rc_settlement reconciliation_typed (reconciliations d) d"
abbreviation outbox_rows_typed :: "db \<Rightarrow> bool" where
  "outbox_rows_typed d \<equiv> table_ok (\<lambda>x. Some (x_id x)) no_key outbox_typed (outbox d) d"
abbreviation audit_log_typed :: "db \<Rightarrow> bool" where
  "audit_log_typed d \<equiv> table_ok (\<lambda>a. Some (au_id a)) (\<lambda>a. Some (au_event a)) audit_typed (audit_log d) d"
abbreviation notifications_typed :: "db \<Rightarrow> bool" where
  "notifications_typed d \<equiv>
     table_ok (\<lambda>n. Some (no_id n)) (\<lambda>n. Some (no_event n)) notification_typed (notifications d) d"

definition schema_ok :: "db \<Rightarrow> bool" where
  "schema_ok d \<longleftrightarrow>
     merchants_typed d \<and> policies_typed d \<and> policy_versions_typed d \<and> budgets_typed d \<and> reservations_typed d \<and>
     evidences_typed d \<and> requests_typed d \<and> approvals_typed d \<and> payments_typed d \<and> operations_typed d \<and>
     transactions_typed d \<and> journals_typed d \<and> postings_typed d \<and> wallets_typed d \<and> ledger_accounts_typed d \<and>
     provider_accounts_typed d \<and> provider_events_typed d \<and> settlements_typed d \<and> reconciliations_typed d \<and>
     outbox_rows_typed d \<and> audit_log_typed d \<and> notifications_typed d"

text \<open>The equations that evaluate the schema on a concrete database.\<close>

lemmas typed_defs = policy_typed_def policy_version_typed_def budget_typed_def reservation_typed_def
  evidence_typed_def request_typed_def approval_typed_def payment_typed_def operation_typed_def
  transaction_typed_def journal_typed_def posting_typed_def wallet_typed_def
  ledger_account_typed_def provider_account_typed_def provider_event_typed_def settlement_typed_def
  reconciliation_typed_def outbox_typed_def audit_typed_def notification_typed_def

section \<open>The ways a table changes\<close>

text \<open>What rows have to satisfy stays true while the database grows.\<close>

locale row_table =
  fixes key :: "'r \<Rightarrow> nat option" and uniq :: "'r \<Rightarrow> 'u option" and typed :: "db \<Rightarrow> 'r \<Rightarrow> bool"
  assumes mono: "grows d d' \<Longrightarrow> typed d r \<Longrightarrow> typed d' r"
begin

lemma below: "grows d d' \<Longrightarrow> id_below (next_id d) k \<Longrightarrow> id_below (next_id d') k"
  by (cases k) (auto simp: grows_def)

lemma kept: "table_ok key uniq typed rows d \<Longrightarrow> grows d d' \<Longrightarrow> table_ok key uniq typed rows d'"
  using below mono by (auto simp: table_ok_def)

lemma carried:
  "rows' = rows \<or> table_ok key uniq typed rows' d' \<Longrightarrow> table_ok key uniq typed rows d \<Longrightarrow> grows d d' \<Longrightarrow>
    table_ok key uniq typed rows' d'"
  using kept by blast

lemma inserted:
  assumes "table_ok key uniq typed rows d" "grows d d'" "typed d' r"
    and "key r = None \<or> key r = Some (next_id d) \<and> next_id d < next_id d'"
    and "uniq r = None \<or> uniq r \<notin> uniq ` set rows"
  shows "table_ok key uniq typed (rows @ [r]) d'"
proof -
  have "key r = None \<or> key r \<notin> key ` set rows" using assms(1,4) by (force simp: table_ok_def)
  with assms kept [OF assms(1,2)] show ?thesis by (auto simp: table_ok_def)
qed

lemma updated:
  assumes "table_ok key uniq typed rows d" "grows d d'"
    and "\<And>r. r \<in> set rows \<Longrightarrow> key (f r) = key r \<and> uniq (f r) = uniq r \<and> (typed d r \<longrightarrow> typed d' (f r))"
  shows "table_ok key uniq typed (map f rows) d'"
proof -
  have "map key (map f rows) = map key rows" "map uniq (map f rows) = map uniq rows" using assms(3) by simp_all
  with assms below [OF assms(2)] show ?thesis by (auto simp: table_ok_def simp del: map_map)
qed

lemma updated_by:
  assumes "table_ok key uniq typed rows d" "grows d d'"
    and "\<And>r. r \<in> set rows \<Longrightarrow> k r = i \<Longrightarrow> key (f r) = key r \<and> uniq (f r) = uniq r \<and> (typed d r \<longrightarrow> typed d' (f r))"
  shows "table_ok key uniq typed (upd_by k i f rows) d'"
  unfolding upd_by_def by (rule updated [OF assms(1,2)]) (use assms(2,3) mono in auto)

end

lemmas growth = grows_def subset_iff null_or_def

interpretation merchant_table: row_table "\<lambda>m. Some (m_id m)" no_key "\<lambda>_ _. True"
  by unfold_locales simp
interpretation policy_table: row_table "\<lambda>p. Some (pol_id p)" no_key policy_typed
  by unfold_locales (auto simp: policy_typed_def growth split: option.splits)
interpretation version_table: row_table "\<lambda>v. Some (pv_id v)" "\<lambda>v. Some (pv_policy v, pv_version v)" policy_version_typed
  by unfold_locales (auto simp: policy_version_typed_def growth split: option.splits)
interpretation budget_table: row_table "\<lambda>b. Some (b_id b)" no_key budget_typed
  by unfold_locales (auto simp: budget_typed_def growth split: option.splits)
interpretation reservation_table: row_table "\<lambda>r. Some (r_id r)" "\<lambda>r. Some (r_budget r, r_request r)" reservation_typed
proof
  fix d d' r
  assume g: "grows d d'" and r: "reservation_typed d r"
  then have "request_terms d \<subseteq> request_terms d'" "keys_of b_id (budgets d) \<subseteq> keys_of b_id (budgets d')"
    by (simp_all add: grows_def)
  with r show "reservation_typed d' r" unfolding reservation_typed_def by blast
qed
interpretation evidence_table: row_table "\<lambda>e. Some (ev_id e)" no_key evidence_typed
  by unfold_locales (auto simp: evidence_typed_def growth split: option.splits)
interpretation request_table: row_table "\<lambda>q. Some (q_id q)" "\<lambda>q. Some (q_account q, q_key q)" request_typed
  by unfold_locales (auto simp: request_typed_def growth split: option.splits)
interpretation approval_table: row_table "\<lambda>a. Some (ap_id a)" no_key approval_typed
  by unfold_locales (auto simp: approval_typed_def growth split: option.splits)
interpretation payment_table: row_table "\<lambda>p. Some (p_id p)" "\<lambda>p. Some (p_request p)" payment_typed
  by unfold_locales (auto simp: payment_typed_def growth split: option.splits)
interpretation operation_table: row_table "\<lambda>op. Some (o_id op)" "\<lambda>op. Some (o_key op)" operation_typed
  by unfold_locales (auto simp: operation_typed_def growth split: option.splits)
interpretation transaction_table: row_table "\<lambda>t. Some (t_id t)" t_key transaction_typed
proof
  fix d d' t
  assume g: "grows d d'" and t: "transaction_typed d t"
  then have "payment_terms d \<subseteq> payment_terms d'" "keys_of t_id (transactions d) \<subseteq> keys_of t_id (transactions d')"
    by (simp_all add: grows_def)
  with t null_or_mono [OF this(2)] show "transaction_typed d' t" unfolding transaction_typed_def by blast
qed
interpretation journal_table: row_table "\<lambda>j. Some (j_id j)" "\<lambda>j. Some (j_key j)" journal_typed
  by unfold_locales (auto simp: journal_typed_def growth split: option.splits)
interpretation posting_table: row_table no_key no_key posting_typed
  by unfold_locales (auto simp: posting_typed_def growth split: option.splits)
interpretation wallet_table: row_table "\<lambda>w. Some (w_id w)" no_key wallet_typed
  by unfold_locales (auto simp: wallet_typed_def growth split: option.splits)
interpretation ledger_account_table: row_table "\<lambda>a. Some (la_id a)" la_wallet ledger_account_typed
  by unfold_locales (auto simp: ledger_account_typed_def growth split: option.splits)
interpretation provider_account_table: row_table "\<lambda>a. Some (ppa_ledger a)" "\<lambda>a. Some (ppa_provider a, ppa_currency a)" provider_account_typed
  by unfold_locales (auto simp: provider_account_typed_def growth split: option.splits)
interpretation provider_event_table: row_table "\<lambda>e. Some (pe_id e)" "\<lambda>e. Some (pe_provider e, pe_event e)" provider_event_typed
  by unfold_locales (auto simp: provider_event_typed_def growth split: option.splits)
interpretation settlement_table: row_table "\<lambda>s. Some (se_id s)" "\<lambda>s. Some (se_provider s, se_reference s)" settlement_typed
  by unfold_locales (auto simp: settlement_typed_def growth split: option.splits)
interpretation reconciliation_table: row_table no_key rc_settlement reconciliation_typed
  by unfold_locales (auto simp: reconciliation_typed_def growth split: option.splits)
interpretation outbox_table: row_table "\<lambda>x. Some (x_id x)" no_key outbox_typed
  by unfold_locales (auto simp: outbox_typed_def deliverable_def growth split: option.splits)
interpretation audit_table: row_table "\<lambda>a. Some (au_id a)" "\<lambda>a. Some (au_event a)" audit_typed
  by unfold_locales (auto simp: audit_typed_def growth split: option.splits)
interpretation notification_table: row_table "\<lambda>n. Some (no_id n)" "\<lambda>n. Some (no_event n)" notification_typed
  by unfold_locales (auto simp: notification_typed_def growth split: option.splits)

section \<open>From one state to the next\<close>

lemmas table_carried =
  merchant_table.carried policy_table.carried version_table.carried budget_table.carried
  reservation_table.carried evidence_table.carried request_table.carried approval_table.carried
  payment_table.carried operation_table.carried transaction_table.carried journal_table.carried
  posting_table.carried wallet_table.carried ledger_account_table.carried provider_account_table.carried
  provider_event_table.carried settlement_table.carried reconciliation_table.carried outbox_table.carried
  audit_table.carried notification_table.carried

text \<open>The tables that a statement does not name are as they were.\<close>

lemma schema_extend:
  assumes "schema_ok d" "grows d d'"
    and "merchants d' = merchants d \<or> merchants_typed d'" "policies d' = policies d \<or> policies_typed d'"
    and "policy_versions d' = policy_versions d \<or> policy_versions_typed d'" "budgets d' = budgets d \<or> budgets_typed d'"
    and "reservations d' = reservations d \<or> reservations_typed d'" "evidences d' = evidences d \<or> evidences_typed d'"
    and "requests d' = requests d \<or> requests_typed d'" "approvals d' = approvals d \<or> approvals_typed d'"
    and "payments d' = payments d \<or> payments_typed d'" "operations d' = operations d \<or> operations_typed d'"
    and "transactions d' = transactions d \<or> transactions_typed d'" "journals d' = journals d \<or> journals_typed d'"
    and "postings d' = postings d \<or> postings_typed d'" "wallets d' = wallets d \<or> wallets_typed d'"
    and "ledger_accounts d' = ledger_accounts d \<or> ledger_accounts_typed d'"
    and "provider_accounts d' = provider_accounts d \<or> provider_accounts_typed d'"
    and "provider_events d' = provider_events d \<or> provider_events_typed d'"
    and "settlements d' = settlements d \<or> settlements_typed d'"
    and "reconciliations d' = reconciliations d \<or> reconciliations_typed d'" "outbox d' = outbox d \<or> outbox_rows_typed d'"
    and "audit_log d' = audit_log d \<or> audit_log_typed d'" "notifications d' = notifications d \<or> notifications_typed d'"
  shows "schema_ok d'"
  unfolding schema_ok_def
  by (intro conjI; (rule table_carried [OF _ _ assms(2)], (rule assms)+, use assms(1) in \<open>simp only: schema_ok_def\<close>))

section \<open>Statements that respect the schema\<close>

text \<open>\<open>typed_from e\<close>: the schema holds and everything known in \<open>e\<close> is still known.\<close>

definition typed_from :: "db \<Rightarrow> db \<Rightarrow> bool" where
  "typed_from e d \<longleftrightarrow> schema_ok d \<and> grows e d"

lemma typed_from_refl: "schema_ok d \<Longrightarrow> typed_from d d"
  by (simp add: typed_from_def)

lemma typed_from_trans: "typed_from e d \<Longrightarrow> typed_from d d' \<Longrightarrow> typed_from e d'"
  by (auto simp: typed_from_def intro: grows_trans)

lemma same_next_id [simp]: "d\<lparr>next_id := next_id d\<rparr> = d"
  by simp

text \<open>A table with its place in the database, and the facts about its rows that other tables rely on.\<close>

locale stored_table = row_table key uniq typed
  for key :: "'r \<Rightarrow> nat option" and uniq :: "'r \<Rightarrow> 'u option" and typed :: "db \<Rightarrow> 'r \<Rightarrow> bool" +
  fixes get :: "db \<Rightarrow> 'r list" and put :: "'r list \<Rightarrow> db \<Rightarrow> db" and fact :: "'r \<Rightarrow> 'f option"
  assumes stored: "schema_ok d \<Longrightarrow> table_ok key uniq typed (get d) d"
    and put_grows: "Some -` (fact ` set (get d)) \<subseteq> Some -` (fact ` set rs) \<Longrightarrow> next_id d \<le> n \<Longrightarrow>
      grows d (put rs (d\<lparr>next_id := n\<rparr>))"
    and put_typed: "schema_ok d \<Longrightarrow> grows d (put rs (d\<lparr>next_id := n\<rparr>)) \<Longrightarrow>
      table_ok key uniq typed rs (put rs (d\<lparr>next_id := n\<rparr>)) \<Longrightarrow> schema_ok (put rs (d\<lparr>next_id := n\<rparr>))"
    and put_next: "next_id (put rs d) = next_id d"
begin

lemma insert:
  assumes "typed_from e d" "typed d r" "key r = None \<or> key r = Some (next_id d)"
    and "uniq r = None \<or> uniq r \<notin> uniq ` set (get d)"
  shows "typed_from e (put (get d @ [r]) (d\<lparr>next_id := Suc (next_id d)\<rparr>))"
proof -
  let ?d = "put (get d @ [r]) (d\<lparr>next_id := Suc (next_id d)\<rparr>)"
  have ok: "schema_ok d" "grows e d" using assms(1) by (simp_all add: typed_from_def)
  have g: "grows d ?d" by (rule put_grows) auto
  have "table_ok key uniq typed (get d @ [r]) ?d"
    by (rule inserted [OF stored [OF ok(1)] g mono [OF g assms(2)]]) (use assms(3,4) in \<open>auto simp: put_next\<close>)
  with put_typed [OF ok(1) g] grows_trans [OF ok(2) g] show ?thesis by (simp add: typed_from_def)
qed

lemma append:
  assumes "typed_from e d" "typed d r" "key r = None" "uniq r = None \<or> uniq r \<notin> uniq ` set (get d)"
  shows "typed_from e (put (get d @ [r]) d)"
proof -
  let ?d = "put (get d @ [r]) (d\<lparr>next_id := next_id d\<rparr>)"
  have ok: "schema_ok d" "grows e d" using assms(1) by (simp_all add: typed_from_def)
  have g: "grows d ?d" by (rule put_grows) auto
  have "table_ok key uniq typed (get d @ [r]) ?d"
    by (rule inserted [OF stored [OF ok(1)] g mono [OF g assms(2)]]) (use assms(3,4) in auto)
  with put_typed [OF ok(1) g] grows_trans [OF ok(2) g] show ?thesis by (simp add: typed_from_def)
qed

lemma update:
  assumes "typed_from e d"
    and "\<And>r. r \<in> set (get d) \<Longrightarrow> typed d r \<Longrightarrow> key (f r) = key r \<and> uniq (f r) = uniq r \<and> fact (f r) = fact r \<and> typed d (f r)"
  shows "typed_from e (put (map f (get d)) d)"
proof -
  let ?d = "put (map f (get d)) (d\<lparr>next_id := next_id d\<rparr>)"
  have ok: "schema_ok d" "grows e d" using assms(1) by (simp_all add: typed_from_def)
  have t: "typed d r" if "r \<in> set (get d)" for r using stored [OF ok(1)] that by (simp add: table_ok_def)
  have "fact ` set (map f (get d)) = fact ` set (get d)" using assms(2) t by (force simp: image_iff)
  then have g: "grows d ?d" by (intro put_grows) simp_all
  have "table_ok key uniq typed (map f (get d)) ?d"
    by (rule updated [OF stored [OF ok(1)] g]) (use assms(2) mono [OF g] t in auto)
  with put_typed [OF ok(1) g] grows_trans [OF ok(2) g] show ?thesis by (simp add: typed_from_def)
qed

lemma update_by:
  assumes "typed_from e d"
    and "\<And>r. r \<in> set (get d) \<Longrightarrow> typed d r \<Longrightarrow> k r = i \<Longrightarrow>
      key (f r) = key r \<and> uniq (f r) = uniq r \<and> fact (f r) = fact r \<and> typed d (f r)"
  shows "typed_from e (put (upd_by k i f (get d)) d)"
  unfolding upd_by_def by (rule update [OF assms(1)]) (use assms(2) in auto)

end

definition verified_id :: "evidence_row \<Rightarrow> nat option" where
  "verified_id e = (if ev_status e = ''VERIFIED'' then Some (ev_id e) else None)"

lemma vimage_facts:
  "Some -` (\<lambda>x. Some (f x)) ` A = f ` A"
  "Some -` verified_id ` E = ev_id ` {e \<in> E. ev_status e = ''VERIFIED''}"
  by (auto simp: verified_id_def split: if_splits)

lemmas growth_facts = vimage_facts grows_def verified_ids_def request_terms_def payment_terms_def

interpretation merchant_rows: stored_table "\<lambda>m. Some (m_id m)" no_key "\<lambda>_ _. True" merchants "\<lambda>rs. merchants_update (\<lambda>_. rs)" "\<lambda>m. Some (m_id m)"
  by unfold_locales ((simp add: schema_ok_def; fail) | (simp add: growth_facts; fail) | (erule (1) schema_extend; simp))+

interpretation budget_rows: stored_table "\<lambda>b. Some (b_id b)" no_key budget_typed budgets "\<lambda>rs. budgets_update (\<lambda>_. rs)" "\<lambda>b. Some (b_id b)"
  by unfold_locales ((simp add: schema_ok_def; fail) | (simp add: growth_facts; fail) | (erule (1) schema_extend; simp))+

interpretation reservation_rows: stored_table "\<lambda>r. Some (r_id r)" "\<lambda>r. Some (r_budget r, r_request r)" reservation_typed reservations "\<lambda>rs. reservations_update (\<lambda>_. rs)" "\<lambda>r. Some (r_id r)"
  by unfold_locales ((simp add: schema_ok_def; fail) | (simp add: growth_facts; fail) | (erule (1) schema_extend; simp))+

interpretation evidence_rows: stored_table "\<lambda>e. Some (ev_id e)" no_key evidence_typed evidences "\<lambda>rs. evidences_update (\<lambda>_. rs)" verified_id
  by unfold_locales ((simp add: schema_ok_def; fail) | (simp add: growth_facts; fail) | (erule (1) schema_extend; simp))+

interpretation request_rows: stored_table "\<lambda>q. Some (q_id q)" "\<lambda>q. Some (q_account q, q_key q)" request_typed requests "\<lambda>rs. requests_update (\<lambda>_. rs)" "\<lambda>q. Some (q_id q, q_amount q, q_currency q)"
  by unfold_locales ((simp add: schema_ok_def; fail) | (simp add: growth_facts; fail) | (erule (1) schema_extend; simp))+

interpretation approval_rows: stored_table "\<lambda>a. Some (ap_id a)" no_key approval_typed approvals "\<lambda>rs. approvals_update (\<lambda>_. rs)" no_key
  by unfold_locales ((simp add: schema_ok_def; fail) | (simp add: growth_facts; fail) | (erule (1) schema_extend; simp))+

interpretation payment_rows: stored_table "\<lambda>p. Some (p_id p)" "\<lambda>p. Some (p_request p)" payment_typed payments "\<lambda>rs. payments_update (\<lambda>_. rs)" "\<lambda>p. Some (p_id p, p_request p, p_amount p, p_currency p)"
  by unfold_locales ((simp add: schema_ok_def; fail) | (simp add: growth_facts; fail) | (erule (1) schema_extend; simp))+

interpretation operation_rows: stored_table "\<lambda>op. Some (o_id op)" "\<lambda>op. Some (o_key op)" operation_typed operations "\<lambda>rs. operations_update (\<lambda>_. rs)" "\<lambda>op. Some (o_id op)"
  by unfold_locales ((simp add: schema_ok_def; fail) | (simp add: growth_facts; fail) | (erule (1) schema_extend; simp))+

interpretation transaction_rows: stored_table "\<lambda>t. Some (t_id t)" t_key transaction_typed transactions "\<lambda>rs. transactions_update (\<lambda>_. rs)" "\<lambda>t. Some (t_id t)"
  by unfold_locales ((simp add: schema_ok_def; fail) | (simp add: growth_facts; fail) | (erule (1) schema_extend; simp))+

interpretation journal_rows: stored_table "\<lambda>j. Some (j_id j)" "\<lambda>j. Some (j_key j)" journal_typed journals "\<lambda>rs. journals_update (\<lambda>_. rs)" "\<lambda>j. Some (j_id j)"
  by unfold_locales ((simp add: schema_ok_def; fail) | (simp add: growth_facts; fail) | (erule (1) schema_extend; simp))+

interpretation posting_rows: stored_table no_key no_key posting_typed postings "\<lambda>rs. postings_update (\<lambda>_. rs)" no_key
  by unfold_locales ((simp add: schema_ok_def; fail) | (simp add: growth_facts; fail) | (erule (1) schema_extend; simp))+

interpretation provider_event_rows: stored_table "\<lambda>e. Some (pe_id e)" "\<lambda>e. Some (pe_provider e, pe_event e)" provider_event_typed provider_events "\<lambda>rs. provider_events_update (\<lambda>_. rs)" "\<lambda>e. Some (pe_id e)"
  by unfold_locales ((simp add: schema_ok_def; fail) | (simp add: growth_facts; fail) | (erule (1) schema_extend; simp))+

interpretation settlement_rows: stored_table "\<lambda>s. Some (se_id s)" "\<lambda>s. Some (se_provider s, se_reference s)" settlement_typed settlements "\<lambda>rs. settlements_update (\<lambda>_. rs)" "\<lambda>s. Some (se_id s)"
  by unfold_locales ((simp add: schema_ok_def; fail) | (simp add: growth_facts; fail) | (erule (1) schema_extend; simp))+

interpretation reconciliation_rows: stored_table no_key rc_settlement reconciliation_typed reconciliations "\<lambda>rs. reconciliations_update (\<lambda>_. rs)" no_key
  by unfold_locales ((simp add: schema_ok_def; fail) | (simp add: growth_facts; fail) | (erule (1) schema_extend; simp))+

interpretation outbox_rows: stored_table "\<lambda>x. Some (x_id x)" no_key outbox_typed outbox "\<lambda>rs. outbox_update (\<lambda>_. rs)" no_key
  by unfold_locales ((simp add: schema_ok_def; fail) | (simp add: growth_facts; fail) | (erule (1) schema_extend; simp))+

interpretation audit_rows: stored_table "\<lambda>a. Some (au_id a)" "\<lambda>a. Some (au_event a)" audit_typed audit_log "\<lambda>rs. audit_log_update (\<lambda>_. rs)" no_key
  by unfold_locales ((simp add: schema_ok_def; fail) | (simp add: growth_facts; fail) | (erule (1) schema_extend; simp))+

interpretation notification_rows: stored_table "\<lambda>n. Some (no_id n)" "\<lambda>n. Some (no_event n)" notification_typed notifications "\<lambda>rs. notifications_update (\<lambda>_. rs)" no_key
  by unfold_locales ((simp add: schema_ok_def; fail) | (simp add: growth_facts; fail) | (erule (1) schema_extend; simp))+

end
