(* ===== verification/WellTyped.thy ===== *)
theory WellTyped
  imports System Schema
begin

text \<open>
  The program respects the database's schema: every transaction of every process leads from a state
  in which the schema holds to one in which it holds, keeps every row, and never changes what a request
  and its payment say. Where a statement stores a value found before it, the rule \<open>keeps_known\<close>
  carries what is known of the value.
\<close>

section \<open>Values found by an earlier statement\<close>

text \<open>The rest of a sequence starts from the state in which the value was returned.\<close>

lemma keeps_known:
  assumes "\<And>e. keeps (typed_from e) f"
    and "\<And>d x d'. schema_ok d \<Longrightarrow> grows e d \<Longrightarrow> grows e d' \<Longrightarrow> f d = Inr (x, d') \<Longrightarrow> K x d'"
    and "\<And>x d'. K x d' \<Longrightarrow> keeps (typed_from d') (g x)"
  shows "keeps (typed_from e) (bindT f g)"
proof (rule keepsI)
  fix d z d'
  assume d: "typed_from e d" and "bindT f g d = Inr (z, d')"
  then obtain x d1 where 1: "f d = Inr (x, d1)" and 2: "g x d1 = Inr (z, d')" by (auto simp: err_simps)
  have d1: "typed_from e d1" by (rule keepsD [OF assms(1) d 1])
  have "K x d1" by (rule assms(2) [OF _ _ _ 1]) (use d d1 in \<open>simp_all add: typed_from_def\<close>)
  from keepsD [OF assms(3) [OF this] typed_from_refl 2] d1 have "typed_from d1 d'" by (simp add: typed_from_def)
  with d1 show "typed_from e d'" by (rule typed_from_trans)
qed

lemma keeps_known_query:
  "(\<And>d. grows e d \<Longrightarrow> schema_ok d \<Longrightarrow> keeps (typed_from d) (g (q d))) \<Longrightarrow> keeps (typed_from e) (bindT (queryT q) g)"
  by (rule keeps_known [where K = "\<lambda>x d. x = q d \<and> grows e d \<and> schema_ok d"]) (auto simp: err_simps intro: keeps_intros)

lemma keeps_typed_pure: "(\<And>d x d'. f d = Inr (x, d') \<Longrightarrow> d' = d) \<Longrightarrow> keeps (typed_from e) f"
  by (rule keepsI) metis

lemma keeps_if_known: "(c \<Longrightarrow> keeps I f) \<Longrightarrow> (\<not> c \<Longrightarrow> keeps I g) \<Longrightarrow> keeps I (if c then f else g)"
  by simp

lemma keeps_option_known:
  "(m = None \<Longrightarrow> keeps I f) \<Longrightarrow> (\<And>x. m = Some x \<Longrightarrow> keeps I (g x)) \<Longrightarrow> keeps I (case m of None \<Rightarrow> f | Some x \<Rightarrow> g x)"
  by (cases m) simp_all

lemma keeps_prod_known: "(\<And>x y. p = (x, y) \<Longrightarrow> keeps I (f x y)) \<Longrightarrow> keeps I (case p of (x, y) \<Rightarrow> f x y)"
  by (cases p) simp

lemma keeps_lift_known:
  "(\<And>x. m = Inr x \<Longrightarrow> keeps I (g x)) \<Longrightarrow> keeps I (bindT (liftT m) g)"
  by (rule keepsI) (auto simp: err_simps keeps_def)

lemmas known_intros = keeps_known_query keeps_lift_known keeps_if_known keeps_option_known keeps_prod_known

section \<open>Single statements\<close>

lemma typed_fromD: "typed_from e d \<Longrightarrow> schema_ok d" "typed_from e d \<Longrightarrow> grows e d"
  by (simp_all add: typed_from_def)

lemma growsD:
  "grows e d \<Longrightarrow> i \<in> keys_of b_id (budgets e) \<Longrightarrow> i \<in> keys_of b_id (budgets d)"
  "grows e d \<Longrightarrow> i \<in> keys_of r_id (reservations e) \<Longrightarrow> i \<in> keys_of r_id (reservations d)"
  "grows e d \<Longrightarrow> i \<in> keys_of o_id (operations e) \<Longrightarrow> i \<in> keys_of o_id (operations d)"
  "grows e d \<Longrightarrow> i \<in> keys_of j_id (journals e) \<Longrightarrow> i \<in> keys_of j_id (journals d)"
  "grows e d \<Longrightarrow> i \<in> keys_of se_id (settlements e) \<Longrightarrow> i \<in> keys_of se_id (settlements d)"
  "grows e d \<Longrightarrow> i \<in> verified_ids e \<Longrightarrow> i \<in> verified_ids d"
  "grows e d \<Longrightarrow> x \<in> request_terms e \<Longrightarrow> x \<in> request_terms d"
  "grows e d \<Longrightarrow> y \<in> payment_terms e \<Longrightarrow> y \<in> payment_terms d"
  by (auto simp: grows_def)

text \<open>Inserts.\<close>

lemma typed_merchant [keeps_intros]: "keeps (typed_from e) (merchant nm dmn)"
  by (rule keepsI) (auto simp: merchant_def err_simps split: option.splits if_splits
      intro!: merchant_rows.insert)

lemma typed_evidence [keeps_intros]: "keeps (typed_from e) (insert_evidence acct agent ae c)"
  by (rule keepsI) (auto simp: insert_evidence_def references_def err_simps evidence_typed_def split: if_splits
      intro!: evidence_rows.insert)

lemma typed_request [keeps_intros]: "keeps (typed_from e) (create_request acct agent amt cur purpose items key fp merch)"
  by (rule keepsI) (auto simp: create_request_def references_def err_simps request_typed_def table_simps
      split: if_splits option.splits intro!: request_rows.insert char3_column)

lemma typed_payment:
  assumes "\<And>c. 0 < ten_thousandths amt \<Longrightarrow> char3 cur = Inr c \<Longrightarrow> (rid, ten_thousandths amt, c) \<in> request_terms e"
  shows "keeps (typed_from e) (insert_payment rid amt cur st)"
  by (rule keepsI, auto simp: insert_payment_def references_def err_simps payment_typed_def table_simps
      split: if_splits option.splits intro!: payment_rows.insert char3_column,
      metis assms growsD(7) typed_fromD(2))

lemma typed_approval [keeps_intros]: "keeps (typed_from e) (create_approval sha rid reason minutes)"
  by (rule keepsI) (auto simp: create_approval_def undefined_column_def err_simps approval_typed_def
      known_request [symmetric] row_by_Some_keys split: if_splits option.splits intro!: approval_rows.insert)

lemma typed_new_operation:
  assumes "typed_from e d" "row_by o_key key (operations d) = None" "new_operation pid ty key d = Inr (oid, d')"
  shows "typed_from e d' \<and> oid \<in> keys_of o_id (operations d')"
  using assms by (auto simp: new_operation_def references_def operation_typed_def known_payment table_simps split: if_splits
      intro!: operation_rows.insert intro: image_eqI [where x = "(pid, _)"]; force)

lemma typed_enqueue [keeps_intros]:
  "ty \<noteq> ''NotificationRequested'' \<Longrightarrow> keeps (typed_from e) (enqueue ty aggty agg payload corr)"
  by (rule keepsI) (auto simp: enqueue_def outbox_typed_def deliverable_def intro!: outbox_rows.insert)

lemma typed_enqueue_notification:
  assumes "pid \<in> fst ` payment_terms e"
  shows "keeps (typed_from e) (enqueue ty ''payment'' pid (JObj ms) corr)"
proof (rule keepsI)
  fix d i d'
  assume d: "typed_from e d" and run: "enqueue ty ''payment'' pid (JObj ms) corr d = Inr (i, d')"
  have "pid \<in> fst ` payment_terms d" using assms growsD(8) [OF typed_fromD(2) [OF d]] by blast
  with d run show "typed_from e d'"
    by (auto simp: enqueue_def outbox_typed_def deliverable_def is_object_def intro!: outbox_rows.insert; force)
qed

lemma typed_record_event [keeps_intros]: "keeps (typed_from e) (record_event sha name ev ty payload ok)"
  by (rule keepsI) (auto simp: record_event_def Let_def provider_event_typed_def split: if_splits
      intro!: provider_event_rows.insert)

lemma typed_insert_settlement [keeps_intros]: "keeps (typed_from e) (insert_settlement pgtime p n)"
  if "numeric n"
  using that by - (rule keepsI, auto simp: insert_settlement_def err_simps settlement_typed_def split: if_splits
      intro!: settlement_rows.insert char3_column)

lemma typed_reconciliation:
  assumes "i \<in> keys_of se_id (settlements e)" "\<And>o'. oid = Some o' \<Longrightarrow> o' \<in> keys_of o_id (operations e)"
  shows "keeps (typed_from e) (record_reconciliation i oid st expected observed expected_cur observed_cur code)"
  by (rule keepsI, auto simp: record_reconciliation_def reconciliation_typed_def null_or_def split: if_splits option.splits
      intro!: reconciliation_rows.append growsD [OF typed_fromD(2)] assms, force simp: image_iff)

lemma typed_record_audit [keeps_intros]: "keeps (typed_from e) (record_audit sha eid acct aty actor act rty rid res corr metadata)"
  by (rule keepsI) (auto simp: record_audit_def infer_index_def references_def err_simps audit_typed_def null_or_def table_simps
      split: if_splits option.splits intro!: audit_rows.insert)

lemma typed_notification [keeps_intros]: "keeps (typed_from e) (enqueue_notification eid acct ty title payload)"
  by (rule keepsI) (auto simp: enqueue_notification_def infer_index_def references_def err_simps notification_typed_def table_simps
      split: if_splits option.splits intro!: notification_rows.insert)

lemma typed_insert_journal: "key \<notin> keys_of j_key (journals d) \<Longrightarrow> typed_from e d \<Longrightarrow>
    insert_journal cur rtype ref key corr d = Inr (j, d') \<Longrightarrow> typed_from e d' \<and> j \<in> keys_of j_id (journals d')"
  by (auto simp: insert_journal_def err_simps journal_typed_def intro!: journal_rows.insert char3_column)

lemma typed_posting:
  assumes "jid \<in> keys_of j_id (journals e)"
  shows "keeps (typed_from e) (insert_posting jid p)"
  by (rule keepsI) (auto simp: insert_posting_def references_def err_simps posting_typed_def split: if_splits
      intro!: posting_rows.append char3_column growsD [OF typed_fromD(2)] assms)

text \<open>Updates.\<close>

lemma typed_status [keeps_intros]: "keeps (typed_from e) (update_status pid st ref)"
  by (rule keepsI) (auto simp: update_status_def set_status_def payment_typed_def intro!: payment_rows.update_by)

lemma active_policy_version: "active_policy acct policy d = Some (p, v) \<Longrightarrow> v \<in> set (policy_versions d)"
proof -
  assume "active_policy acct policy d = Some (p, v)"
  then have "(p, v) \<in> set (sort_key (version_rank policy) (active_versions acct policy d))"
    by (auto simp: active_policy_def split: list.splits) (metis list.set_intros(1) set_sort)
  then show ?thesis by (auto simp: active_versions_def)
qed

lemma typed_policy_version [keeps_intros]:
  "keeps (typed_from e) (evaluate_policy timeformat acct policy rid agent pid amt cur domain category)"
  by (rule keepsI, auto simp: evaluate_policy_def err_simps request_typed_def split: option.splits
      intro!: request_rows.update_by imageI, metis active_policy_version)

lemma typed_bind_budget:
  assumes "bid \<in> keys_of b_id (budgets e)"
  shows "keeps (typed_from e) (bind_budget rid bid)"
  by (rule keepsI) (auto simp: bind_budget_def request_typed_def
      intro!: request_rows.update_by growsD [OF typed_fromD(2)] assms)

lemma typed_set_approval [keeps_intros]: "keeps (typed_from e) (set_approval i st actor reason)"
  by (rule keepsI) (auto simp: set_approval_def undefined_column_def decide_row_def approval_typed_def split: if_splits
      intro!: approval_rows.update_by)

lemma typed_mark_processed [keeps_intros]: "keeps (typed_from e) (mark_processed ev)"
  by (rule keepsI) (auto simp: mark_processed_def provider_event_typed_def intro!: provider_event_rows.update_by)

lemma typed_link_event:
  assumes "oid \<in> keys_of o_id (operations e)"
  shows "keeps (typed_from e) (link_event ev oid)"
  by (rule keepsI) (auto simp: link_event_def provider_event_typed_def
      intro!: provider_event_rows.update_by growsD [OF typed_fromD(2)] assms)

lemma typed_close_operation [keeps_intros]: "keeps (typed_from e) (close_operation i st ref)"
  by (rule keepsI) (auto simp: close_operation_def operation_typed_def intro!: operation_rows.update_by)

lemma typed_set_settlement [keeps_intros]: "keeps (typed_from e) (set_settlement i st)"
  by (rule keepsI) (auto simp: set_settlement_def settlement_typed_def intro!: settlement_rows.update_by)

lemma typed_set_transaction [keeps_intros]:
  "keeps (typed_from e) (post_transaction i)" "keeps (typed_from e) (fail_transaction i)"
  by (rule keepsI, auto simp: post_transaction_def fail_transaction_def set_transaction_def transaction_typed_def
      intro!: transaction_rows.update_by)+

lemma typed_update_charges [keeps_intros]:
  "keeps (typed_from e) (update_charges pid (complete_operation st ref))"
  "keeps (typed_from e) (update_charges pid (\<lambda>now op. op\<lparr>o_status := st\<rparr>))"
  by (rule keepsI, auto simp: update_charges_def complete_operation_def operation_typed_def intro!: operation_rows.update)+

lemma typed_publish [keeps_intros]:
  "keeps (typed_from e) (claim_batch n)" "keeps (typed_from e) (mark_published i)" "keeps (typed_from e) (mark_failed i s m)"
  by (rule keepsI, auto simp: claim_batch_def mark_published_def mark_failed_def update_processing_def claim_row_def
      outbox_typed_def deliverable_def split: if_splits intro!: outbox_rows.update outbox_rows.update_by)+

lemma typed_move_budget [keeps_intros]: "keeps (typed_from e) (move_budget bid freed spent)"
  by (rule keepsI) (auto simp: move_budget_def err_simps budget_typed_def numeric_def split: if_splits option.splits
      intro!: budget_rows.update_by)

lemma typed_settle [keeps_intros]: "keeps (typed_from e) (budget_consume res)" "keeps (typed_from e) (budget_release res)"
  unfolding budget_consume_def budget_release_def
  by (intro keeps_intros keeps_modify, auto simp: reservation_typed_def intro!: reservation_rows.update_by)+

text \<open>An operation is found or new, and then it is the payment's.\<close>

lemma typed_create_operation [keeps_intros]: "keeps (typed_from e) (create_provider_operation pid ty key)"
proof (rule keepsI)
  fix d oid d'
  assume d: "typed_from e d" and run: "create_provider_operation pid ty key d = Inr (oid, d')"
  obtain d1 where d1: "typed_from e d1" "oid \<in> keys_of o_id (operations d1)"
    and d': "d' = d1\<lparr>payments := upd_by p_id pid (\<lambda>p. p\<lparr>p_operation := Some oid, p_updated := clock d1\<rparr>) (payments d1)\<rparr>"
  proof (cases "row_by o_key key (operations d)")
    case None
    with run obtain d1 where "new_operation pid ty key d = Inr (oid, d1)"
      "d' = d1\<lparr>payments := upd_by p_id pid (\<lambda>p. p\<lparr>p_operation := Some oid, p_updated := clock d1\<rparr>) (payments d1)\<rparr>"
      by (auto simp: create_provider_operation_def err_simps)
    with typed_new_operation [OF d None] that show ?thesis by blast
  next
    case (Some op)
    with run d that [of d] row_by_Some_in [OF Some] show ?thesis
      by (auto simp: create_provider_operation_def err_simps split: if_splits)
  qed
  show "typed_from e d'"
    unfolding d' by (rule payment_rows.update_by [OF d1(1)]) (use d1(2) in \<open>auto simp: payment_typed_def\<close>)
qed

section \<open>Sequences\<close>

text \<open>Holding the amount of a request.\<close>

lemma schema_budget: "schema_ok d \<Longrightarrow> row_by b_id bid (budgets d) = Some b \<Longrightarrow> budget_typed d b"
  by (auto simp: schema_ok_def table_ok_def dest: row_by_Some_in)

lemma typed_reserve:
  assumes "typed_from e d" "budget_reserve bid rid amt d = Inr (Some i, d')" "(rid, ten_thousandths amt, cur) \<in> request_terms d"
  shows "typed_from e d' \<and> i \<in> keys_of r_id (reservations d')"
proof -
  obtain b m where b: "row_by b_id bid (budgets d) = Some b" and pos: "0 < ten_thousandths amt"
    and m: "num4_plus (b_reserved b) amt = Inr m" and i: "i = next_id d"
    and fresh: "(b_id b, rid) \<notin> keys_of (\<lambda>r. (r_budget r, r_request r)) (reservations d)"
    and d': "d' = d\<lparr>next_id := Suc (next_id d),
              reservations := reservations d @
                [\<lparr>r_id = next_id d, r_budget = b_id b, r_request = rid, r_amount = ten_thousandths amt,
                  r_currency = b_currency b, r_status = ''RESERVED'', r_released = None, r_consumed = None\<rparr>],
              budgets := upd_by b_id bid (\<lambda>b. b\<lparr>b_reserved := m, b_updated := clock d\<rparr>) (budgets d)\<rparr>"
    using budget_reserve_cases [OF assms(2)] by auto
  have bt: "budget_typed d b" by (rule schema_budget [OF typed_fromD(1) [OF assms(1)] b])
  have m0: "0 \<le> m" "numeric m"
    using num4_plus_round [OF _ pos m] m pos bt
    by (auto simp: budget_typed_def num4_plus_def Let_def to_num4_def err_simps numeric_def)
  have mx: "ten_thousandths amt < num4_max" using assms(2) b by (auto simp: budget_reserve_def insert_reservation_def request_currency_def err_simps split: if_splits)
  let ?r = "\<lparr>r_id = next_id d, r_budget = b_id b, r_request = rid, r_amount = ten_thousandths amt,
                  r_currency = b_currency b, r_status = ''RESERVED'', r_released = None, r_consumed = None\<rparr>"
  have "typed_from e (d\<lparr>next_id := Suc (next_id d), reservations := reservations d @ [?r]\<rparr>)"
    by (rule reservation_rows.insert [OF assms(1)])
      (use fresh bt row_by_Some_keys [OF b] row_by_Some_key [OF b] pos mx assms(3) in \<open>auto simp: reservation_typed_def budget_typed_def\<close>)
  from budget_rows.update_by [OF this, of b_id bid "\<lambda>b. b\<lparr>b_reserved := m, b_updated := clock d\<rparr>"]
  show ?thesis using d' i m0 by (auto simp: budget_typed_def)
qed

lemma evidence_verified: "evidence_status d q = Some ''VERIFIED'' \<Longrightarrow> \<exists>i. q_evidence q = Some i \<and> i \<in> verified_ids d"
  by (force simp: evidence_status_def verified_ids_def dest: row_by_Some_in row_by_Some_key split: option.splits)

lemma typed_bind_reservation:
  assumes "i \<in> keys_of r_id (reservations e)"
  shows "keeps (typed_from e) (modifyT (\<lambda>d. d\<lparr>requests := upd_by q_id rid (\<lambda>q. q\<lparr>q_reservation := Some i\<rparr>) (requests d)\<rparr>))"
  by (rule keeps_modify) (auto simp: request_typed_def intro!: request_rows.update_by growsD [OF typed_fromD(2)] assms)

lemma typed_prepare [keeps_intros]: "keeps (typed_from e) (prepare pid rid bid amt cur corr)"
proof (rule keepsI)
  fix d res d'
  assume d: "typed_from e d" and run: "prepare pid rid bid amt cur corr d = Inr (res, d')"
  obtain p q d1 where bp: "bound_payment pid rid d = Some (p, q)" and am: "deq (of_num4 (q_amount q)) amt"
    and rs: "budget_reserve bid rid amt d = Inr (Some res, d1)"
    and rest: "bindT (modifyT (\<lambda>d. d\<lparr>requests := upd_by q_id rid (\<lambda>q. q\<lparr>q_reservation := Some res\<rparr>) (requests d)\<rparr>)) (\<lambda>_.
      bindT (update_status pid ST_PROCESSING None) (\<lambda>_.
      bindT (enqueue ''PaymentStarted'' ''payment'' pid (reservation_payload res) corr) (\<lambda>_. returnT res))) d1
      = Inr (res, d')"
    using prepare_cases [OF run] by blast
  have q: "row_by q_id rid (requests d) = Some q" using bp by (simp add: bound_payment_Some)
  have "(rid, ten_thousandths amt, q_currency q) \<in> request_terms d"
    using row_by_Some_in [OF q] row_by_Some_key [OF q] deq_rounds_to [OF am] by (force simp: request_terms_def)
  note d1 = typed_reserve [OF d rs this]
  have "keeps (typed_from d1) (bindT (modifyT (\<lambda>d. d\<lparr>requests := upd_by q_id rid (\<lambda>q. q\<lparr>q_reservation := Some res\<rparr>) (requests d)\<rparr>)) (\<lambda>_.
      bindT (update_status pid ST_PROCESSING None) (\<lambda>_.
      bindT (enqueue ''PaymentStarted'' ''payment'' pid (reservation_payload res) corr) (\<lambda>_. returnT res))))"
    by (intro keeps_intros typed_bind_reservation) (use d1 in simp_all)
  from keepsD [OF this typed_from_refl rest] d1 show "typed_from e d'"
    using typed_fromD(1) typed_from_trans by blast
qed

text \<open>The transaction of a payment: its amount is the payment's.\<close>

lemma payment_term: "row_by p_id pid (payments d) = Some p \<Longrightarrow> (pid, p_request p, p_amount p, p_currency p) \<in> payment_terms d"
  by (force simp: payment_terms_def dest: row_by_Some_in row_by_Some_key)

lemma typed_create_transaction:
  assumes "ty = ''REFUND'' \<or> (\<exists>rid cur'. (pid, rid, ten_thousandths amt, cur') \<in> payment_terms e)"
  shows "keeps (typed_from e) (create_transaction pid ty amt cur key None ext st)"
proof (rule keepsI)
  fix d i d'
  assume d: "typed_from e d" and run: "create_transaction pid ty amt cur key None ext st d = Inr (i, d')"
  have "ty = ''REFUND'' \<or> (\<exists>rid cur'. (pid, rid, ten_thousandths amt, cur') \<in> payment_terms d)"
    using assms growsD(8) [OF typed_fromD(2) [OF d]] by blast
  with d run show "typed_from e d'"
    by (auto simp: create_transaction_def references_def err_simps transaction_typed_def known_payment table_simps
        split: if_splits option.splits intro!: transaction_rows.insert char3_column; force)
qed

lemma typed_upsert_capture:
  assumes "\<exists>rid cur'. (pid, rid, ten_thousandths amt, cur') \<in> payment_terms e"
  shows "keeps (typed_from e) (upsert_capture pid amt cur)"
proof (rule keepsI)
  fix d i d'
  assume d: "typed_from e d" and run: "upsert_capture pid amt cur d = Inr (i, d')"
  obtain rid cur' where pt: "(pid, rid, ten_thousandths amt, cur') \<in> payment_terms d"
    using assms growsD(8) [OF typed_fromD(2) [OF d]] by blast
  show "typed_from e d'"
  proof (cases "row_by t_key (Some (tx_key pid ''capture'')) (transactions d)")
    case None
    with d run pt show ?thesis
      by (auto simp: upsert_capture_def references_def err_simps transaction_typed_def known_payment table_simps
          split: if_splits intro!: transaction_rows.insert char3_column; force)
  next
    case (Some t)
    with d run show ?thesis
      by (auto simp: upsert_capture_def err_simps transaction_typed_def intro!: transaction_rows.update_by)
  qed
qed

lemma typed_insert_postings: "jid \<in> keys_of j_id (journals e) \<Longrightarrow> keeps (typed_from e) (insert_postings jid ps)"
  by (induction ps) (auto intro!: keeps_intros typed_posting)

lemma typed_post_journal [keeps_intros]: "keeps (typed_from e) (post_journal cur rtype ref key corr ps)"
proof (rule keepsI)
  fix d j d'
  assume d: "typed_from e d" and run: "post_journal cur rtype ref key corr ps d = Inr (j, d')"
  show "typed_from e d'"
  proof (cases "row_by j_key key (journals d)")
    case None
    with run obtain d1 where j: "insert_journal cur rtype ref key corr d = Inr (j, d1)" and ps: "insert_postings j ps d1 = Inr ((), d')"
      by (auto simp: post_journal_def Let_def err_simps split: if_splits)
    have 1: "typed_from e d1 \<and> j \<in> keys_of j_id (journals d1)"
      by (rule typed_insert_journal [OF _ d j]) (use None in \<open>simp add: row_by_None\<close>)
    have "keeps (typed_from d1) (insert_postings j ps)" by (rule typed_insert_postings) (use 1 in simp)
    from keepsD [OF this typed_from_refl ps] 1 show ?thesis using typed_fromD(1) typed_from_trans by blast
  next
    case (Some row)
    with run d show ?thesis by (auto simp: post_journal_def Let_def split: if_splits)
  qed
qed

lemma typed_reads [keeps_intros]:
  "keeps (typed_from e) (select_payment pid)" "keeps (typed_from e) (payment_request rid)"
  "keeps (typed_from e) (get_approval i)" "keeps (typed_from e) (find_by_idempotency acct key)"
  "keeps (typed_from e) (account_for aggty agg)" "keeps (typed_from e) undefined_column"
  unfolding select_payment_def payment_request_def get_approval_def find_by_idempotency_def account_for_def undefined_column_def
  by (intro keeps_intros)+

text \<open>The worker.\<close>

lemma typed_claim [keeps_intros]: "keeps (typed_from e) (claim_payment pid)"
  unfolding claim_payment_def by (intro keeps_intros)

lemma paid_term:
  assumes "row_by p_id pid (payments d) = Some p" "deq (of_num4 (p_amount p)) amt"
  shows "\<exists>rid cur. (pid, rid, ten_thousandths amt, cur) \<in> payment_terms d"
  using payment_term [OF assms(1)] by (auto simp: deq_rounds_to [OF assms(2)])

lemma deq_sym: "deq a b \<Longrightarrow> deq b a"
  by (simp add: deq_def Let_def min.commute)

lemma typed_finalize [keeps_intros]:
  "keeps (typed_from e) (finalize pid rid res amt cur customer clearing out ref corr)"
  unfolding finalize_def select_payment_def finalize_unknown_def finalize_failed_def finalize_succeeded_def
  by (rule keeps_known_query, intro keeps_option_known keeps_if_known keeps_intros typed_upsert_capture)
    (auto intro: paid_term)

text \<open>The lifecycle.\<close>

lemma typed_around_call:
  assumes "\<And>e. keeps (typed_from e) before"
    and "\<And>d q d1. schema_ok d \<Longrightarrow> typed_from d d1 \<Longrightarrow> before d = Inr (Inr q, d1) \<Longrightarrow> K q d1"
    and "\<And>q out d1. K q d1 \<Longrightarrow> keeps (typed_from d1) (after q out)"
    and "around_call before call after prov d = (Inr (r, d'), prov')" "typed_from e d"
  shows "typed_from e d'"
proof -
  obtain z d1 where b: "before d = Inr (z, d1)"
    using assms(4) by (cases "before d") (auto simp: around_call_def)
  have d: "typed_from d d" by (rule typed_from_refl [OF typed_fromD(1) [OF assms(5)]])
  have 1: "typed_from d d1" by (rule keepsD [OF assms(1) d b])
  show ?thesis
  proof (cases z)
    case (Inl r')
    with assms(4) b 1 typed_from_trans [OF assms(5)] show ?thesis by (simp add: around_call_def)
  next
    case (Inr q)
    obtain o' prov1 where c: "call q prov = (o', prov1)" by fastforce
    then obtain out where "o' = Inr out" using assms(4) b Inr by (cases o') (auto simp: around_call_def)
    with assms(4) b Inr c have a: "after q out d1 = Inr (r, d')" by (simp add: around_call_def)
    have "K q d1" by (rule assms(2) [OF typed_fromD(1) [OF assms(5)] 1]) (use b Inr in simp)
    from keepsD [OF assms(3) [OF this] typed_from_refl [OF typed_fromD(1) [OF 1]] a] show ?thesis
      using typed_from_trans [OF assms(5)] typed_from_trans [OF 1] by blast
  qed
qed

definition amount_of_payment :: "nat \<Rightarrow> decimal \<times> string \<times> int \<Rightarrow> db \<Rightarrow> bool" where
  "amount_of_payment pid q d \<longleftrightarrow> (\<exists>rid cur. (pid, rid, ten_thousandths (fst q), cur) \<in> payment_terms d)"

lemma begin_amount:
  assumes "capture_begin pid amt cur d = Inr (Inr q, d1) \<or> void_begin pid amt cur d = Inr (Inr q, d1)" "typed_from d d1"
  shows "amount_of_payment pid q d1"
proof -
  obtain p where p: "row_by p_id pid (payments d) = Some p" "deq (fst q) (of_num4 (p_amount p))"
    using assms(1)
    by (auto simp: capture_begin_def void_begin_def select_payment_def validate_operation_amount_def Let_def err_simps
        split: option.splits if_splits)
  with paid_term [OF _ deq_sym] growsD(8) [OF typed_fromD(2) [OF assms(2)]] show ?thesis unfolding amount_of_payment_def by blast
qed

lemma typed_begin:
  "keeps (typed_from e) (capture_begin pid amt cur)" "keeps (typed_from e) (void_begin pid amt cur)"
  "keeps (typed_from e) (refund_begin pid amt cur)"
  unfolding capture_begin_def void_begin_def refund_begin_def Let_def
  by (intro keeps_intros typed_create_transaction; simp)+

lemma typed_end:
  "amount_of_payment pid q e \<Longrightarrow> keeps (typed_from e) (capture_end pid customer clearing corr q out)"
  "amount_of_payment pid q e \<Longrightarrow> keeps (typed_from e) (void_end pid q out)"
  "keeps (typed_from e) (refund_end pid key customer clearing corr r out)"
  unfolding capture_end_def void_end_def refund_end_def Let_def amount_of_payment_def
  by ((cases q; simp; intro keeps_intros typed_create_transaction; simp) | intro keeps_intros)+

lemma typed_dispatch [keeps_intros]: "keeps (typed_from e) (dispatch V prov op pid amt cur customer clearing corr)"
proof (rule keepsI)
  fix d r d'
  assume d: "typed_from e d" and run: "dispatch V prov op pid amt cur customer clearing corr d = Inr (r, d')"
  from dispatch_cases [OF run] show "typed_from e d'"
  proof cases
    case 1
    show ?thesis
      by (rule typed_around_call [OF typed_begin(1) _ typed_end(1) 1 [unfolded capture_def] d]) (auto intro: begin_amount)
  next
    case 2
    show ?thesis
      by (rule typed_around_call [OF typed_begin(2) _ typed_end(2) 2 [unfolded void_def] d]) (auto intro: begin_amount)
  next
    case 3
    show ?thesis
      by (rule typed_around_call [where K = "\<lambda>_ _. True", OF typed_begin(3) _ typed_end(3) 3 [unfolded refund_def] d]) simp
  qed
qed

lemma typed_lifecycle [keeps_intros]: "keeps (typed_from e) (lifecycle_work sha op pid body corr)"
  unfolding lifecycle_work_def by (intro keeps_intros)

text \<open>Events and reports of the provider.\<close>

lemma joined_payment:
  assumes "joined_operation oid d = Some (op, p, q)"
  shows "row_by p_id (p_id p) (payments d) = Some p"
  using assms row_by_Some_key by (fastforce simp: joined_operation_def split: option.splits)

lemma deq_refl [simp]: "deq a a"
  by (simp add: deq_def)

lemma typed_resolve [keeps_intros]: "keeps (typed_from e) (resolve ev oid outcome ref customer clearing corr)"
proof -
  have "keeps (typed_from d) (resolve_succeeded op p q ref customer clearing corr)"
    if "joined_operation oid d = Some (op, p, q)" for d op p q
    unfolding resolve_succeeded_def book_charge_def resolver_transaction_def
    by (intro keeps_intros typed_create_transaction disjI2 paid_term [OF joined_payment [OF that]] deq_refl)
  moreover have "keeps (typed_from d) (resolve_failed op p q ref)" for d op p q
    unfolding resolve_failed_def by (intro keeps_intros)
  ultimately show ?thesis
    unfolding resolve_def by (intro known_intros keeps_intros) auto
qed

lemma last_sorted: "sort_key k xs \<noteq> [] \<Longrightarrow> last (sort_key k xs) \<in> set xs"
  using last_in_set [of "sort_key k xs"] by simp

lemma latest_operation: "latest_by_reference ref d = Some op \<Longrightarrow> op \<in> set (operations d)"
  using last_sorted [of o_created "filter (\<lambda>op. o_reference op = Some ref) (operations d)"]
  by (auto simp: latest_by_reference_def Let_def split: if_splits)

lemma typed_webhook [keeps_intros]: "keeps (typed_from e) (webhook_work sha name w corr)"
  unfolding webhook_work_def webhook_store_def webhook_find_def resolve_for_def
  by (intro known_intros keeps_intros typed_link_event; auto dest: latest_operation)

lemma insert_settlement_known: "insert_settlement pgtime p n d = Inr (Some i, d') \<Longrightarrow> i \<in> keys_of se_id (settlements d')"
  by (auto simp: insert_settlement_def err_simps split: if_splits)

lemma paid_operation_known: "paid_operation ref d = Some (op, p) \<Longrightarrow> op \<in> set (operations d)"
  using last_sorted [of o_created "filter (\<lambda>op. o_reference op = Some ref \<and> known p_id (o_payment op) (payments d)) (operations d)"]
  by (auto simp: paid_operation_def Let_def split: if_splits)

lemma stored_amount_column: "stored_amount v = Inr (a, n) \<Longrightarrow> numeric n"
  by (auto simp: stored_amount_def to_num4_def numeric_def err_simps split: pydec.splits)

lemma typed_ingest [keeps_intros]: "keeps (typed_from e) (ingest_work pgtime q v)"
  unfolding ingest_work_def
proof (rule keeps_lift_known, rule keeps_prod_known)
  fix x a n
  assume "stored_amount v = Inr x" "x = (a, n)"
  then have n: "numeric n" by (simp add: stored_amount_column)
  show "keeps (typed_from e) (bindT (insert_settlement pgtime q n) (\<lambda>inserted.
     case inserted of
       None \<Rightarrow> returnT ''DUPLICATE''
     | Some i \<Rightarrow>
         bindT (queryT (paid_operation (rp_reference q))) (\<lambda>found.
         case found of
           None \<Rightarrow>
             bindT (record_reconciliation i None ''DISCREPANCY'' None n None (rp_currency q)
                      (Some ''UNKNOWN_PROVIDER_REFERENCE'')) (\<lambda>_.
             bindT (set_settlement i ''DISCREPANCY'') (\<lambda>_.
             returnT ''DISCREPANCY''))
         | Some (op, p) \<Rightarrow>
             (case conclusion op p a (rp_currency q) of
                (st, code) \<Rightarrow>
                  bindT (record_reconciliation i (Some (o_id op)) st (Some (p_amount p)) n (Some (p_currency p))
                           (rp_currency q) code) (\<lambda>_.
                  bindT (set_settlement i (if st = ''MATCHED'' then ''RECONCILED'' else ''DISCREPANCY'')) (\<lambda>_.
                  returnT st))))))"
    by (rule keeps_known [where K = "\<lambda>x d. \<forall>i. x = Some i \<longrightarrow> i \<in> keys_of se_id (settlements d)", OF typed_insert_settlement [OF n]],
        use insert_settlement_known in blast, intro known_intros keeps_intros typed_reconciliation)
      (auto dest: paid_operation_known growsD(5))
qed

text \<open>The API.\<close>

lemma select_budget_known: "select_budget acct budget cur policy d = Some bid \<Longrightarrow> bid \<in> keys_of b_id (budgets d)"
proof -
  assume s: "select_budget acct budget cur policy d = Some bid"
  obtain P bs b where "filter P (budgets d) = b # bs" "bid = b_id b"
    using s by (auto simp: select_budget_def split: option.splits list.splits)
  then show ?thesis by (auto dest!: Cons_eq_filterD [OF sym])
qed

lemma prepared_payment:
  assumes "schema_ok d" "prepare pid rid bid amt cur corr d = Inr (res, d')"
  shows "pid \<in> fst ` payment_terms d'"
proof -
  have "pid \<in> keys_of p_id (payments d)"
    using prepare_cases [OF assms(2)] by (auto simp: bound_payment_Some dest: row_by_Some_keys)
  moreover have "grows d d'" using keepsD [OF typed_prepare typed_from_refl [OF assms(1)] assms(2)] by (rule typed_fromD)
  ultimately show ?thesis by (auto simp: known_payment grows_def)
qed

lemma typed_start: "keeps (typed_from e) (start_payment rid pid bid amt_text amt cur dec evid corr)"
  unfolding start_payment_def
  by (rule keeps_known [where K = "\<lambda>_ d. pid \<in> fst ` payment_terms d", OF typed_prepare prepared_payment])
    (intro keeps_intros typed_enqueue_notification | assumption)+

lemma typed_control [keeps_intros]:
  "keeps (typed_from e) (control_payment x b rid pid amt cur corr result)"
  unfolding control_payment_def refuse_def ask_approval_def
  by (intro known_intros typed_start typed_bind_budget keeps_intros) (auto dest: select_budget_known)

lemma typed_decide [keeps_intros]: "keeps (typed_from e) (decide_payment x b rid pid amt cur corr)"
  unfolding decide_payment_def by (intro keeps_intros)

lemma typed_approve [keeps_intros]:
  "keeps (typed_from e) (approve_work sha now i actor reason corr)" "keeps (typed_from e) (deny_work i actor reason corr)"
  unfolding approve_work_def deny_work_def pending_approval_def refuse_expired_def conflict_def approval_binding_digest_def
  by (intro keeps_intros; simp)+

text \<open>A new request gets its evidence and its payment.\<close>

lemma typed_bind_evidence:
  assumes "ev \<in> verified_ids e" "rid \<in> fst ` request_terms e"
  shows "keeps (typed_from e) (bind_evidence rid ev hash)"
proof -
  have "keeps (typed_from e) (modifyT (\<lambda>d. d\<lparr>requests := upd_by q_id rid (\<lambda>q. q\<lparr>q_evidence := Some ev, q_context_hash := hash\<rparr>) (requests d)\<rparr>))"
    by (rule keeps_modify) (auto simp: request_typed_def intro!: request_rows.update_by growsD [OF typed_fromD(2)] assms)
  moreover have "keeps (typed_from e) (modifyT (\<lambda>d. d\<lparr>evidences := upd_by ev_id ev (\<lambda>e. e\<lparr>ev_request := Some rid\<rparr>) (evidences d)\<rparr>))"
  proof (rule keeps_modify, rule evidence_rows.update_by, assumption)
    fix d r
    assume "typed_from e d"
    then have "rid \<in> fst ` request_terms d" using assms(2) growsD(7) [OF typed_fromD(2)] by blast
    then show "evidence_typed d r \<Longrightarrow> Some (ev_id (r\<lparr>ev_request := Some rid\<rparr>)) = Some (ev_id r) \<and>
        no_key (r\<lparr>ev_request := Some rid\<rparr>) = no_key r \<and>
        verified_id (r\<lparr>ev_request := Some rid\<rparr>) = verified_id r \<and> evidence_typed d (r\<lparr>ev_request := Some rid\<rparr>)"
      by (simp add: evidence_typed_def verified_id_def)
  qed
  ultimately show ?thesis unfolding bind_evidence_def by (intro keeps_intros)
qed

lemma store_evidence_known:
  "store_evidence x b amt cur d = Inr ((ev, c), d') \<Longrightarrow> ev \<in> verified_ids d'"
  by (auto simp: store_evidence_def insert_evidence_def references_def err_simps verified_ids_def split: option.splits if_splits; force)

lemma typed_store_evidence: "keeps (typed_from e) (store_evidence x b amt cur)"
  unfolding store_evidence_def by (intro keeps_intros)

lemma typed_insert_request: "keeps (typed_from e) (insert_request b key fp merch amt cur)"
  unfolding insert_request_def replay_answer_def by (intro keeps_intros)

lemma insert_request_known:
  "insert_request b key fp merch amt cur d = Inr (Inr rid, d') \<Longrightarrow>
     \<exists>c. char3 cur = Inr c \<and> (rid, ten_thousandths amt, c) \<in> request_terms d'"
  by (auto simp: insert_request_def tryT_def create_request_def references_def replay_answer_def find_by_idempotency_def
      err_simps request_terms_def split: option.splits if_splits sum.splits exn.splits)

lemma typed_new_payment:
  assumes "ev \<in> verified_ids e" "char3 cur = Inr c" "(rid, ten_thousandths amt, c) \<in> request_terms e"
  shows "keeps (typed_from e) (bindT (bind_evidence rid ev hash) (\<lambda>_.
    bindT (insert_payment rid amt cur st) (\<lambda>pid. decide_payment x b rid pid amt cur corr)))"
  by (intro keeps_intros typed_bind_evidence typed_payment) (use assms in \<open>force+\<close>)

lemma typed_new [keeps_intros]: "keeps (typed_from e) (new_payment x b key fprint corr)"
proof -
  let ?rest = "\<lambda>ev c merch amt cur z. case z of Inl j \<Rightarrow> returnT (Inl j)
     | Inr rid \<Rightarrow> bindT (bind_evidence rid ev (ctx_digest c)) (\<lambda>_.
         bindT (insert_payment rid amt cur ST_POLICY_CHECK) (\<lambda>pid. decide_payment x b rid pid amt cur corr))"
  have "keeps (typed_from d) (bindT (insert_request b key fp merch amt cur) (?rest ev c merch amt cur))"
    if "ev \<in> verified_ids d" for d fp merch amt cur ev c
  proof (rule keeps_known [OF typed_insert_request])
    let ?K = "\<lambda>z d1. ev \<in> verified_ids d1 \<and>
      (\<forall>rid. z = Inr rid \<longrightarrow> (\<exists>c. char3 cur = Inr c \<and> (rid, ten_thousandths amt, c) \<in> request_terms d1))"
    show "?K z d1" if "grows d d1" "insert_request b key fp merch amt cur s = Inr (z, d1)" for s z d1
      using insert_request_known [of b key fp merch amt cur s _ d1] growsD(6) [OF that(1) \<open>ev \<in> verified_ids d\<close>] that(2) by blast
    show "keeps (typed_from d1) (?rest ev c merch amt cur z)" if "?K z d1" for z d1
      using that by (cases z) (auto intro: keeps_return typed_new_payment)
  qed
  then have evidenced: "keeps (typed_from e) (bindT (store_evidence x b amt cur) (\<lambda>(ev, c).
      bindT (insert_request b key fp merch amt cur) (?rest ev c merch amt cur)))" for e fp merch amt cur
    by (intro keeps_known [where K = "\<lambda>z d. fst z \<in> verified_ids d", OF typed_store_evidence]) (auto dest: store_evidence_known)
  show ?thesis
    unfolding new_payment_def Let_def by (intro evidenced keeps_intros)
qed

lemma typed_create [keeps_intros]: "keeps (typed_from e) (create_work x b key corr)"
  unfolding create_work_def Let_def replay_answer_def by (intro keeps_intros)

text \<open>The outbox worker.\<close>

lemma typed_events [keeps_intros]:
  "keeps (typed_from e) (audit_event sha acct x)" "keeps (typed_from e) (notify_event acct x)"
  unfolding audit_event_def notify_event_def by (intro keeps_intros)+

lemma typed_handle [keeps_intros]: "keeps (typed_from e) (handle_event sha x)"
  unfolding handle_event_def by (intro keeps_intros)

section \<open>Every reachable state\<close>

lemma typed_clock: "typed_from e d \<Longrightarrow> typed_from e (d\<lparr>clock := t\<rparr>)"
proof -
  assume d: "typed_from e d"
  have "grows d (d\<lparr>clock := t\<rparr>)" by (simp add: grows_def verified_ids_def request_terms_def payment_terms_def)
  with schema_extend [OF typed_fromD(1) [OF d] this] d show ?thesis
    by (auto simp: typed_from_def intro: grows_trans)
qed

lemma step_typed:
  assumes "system_step sha d d'" "typed_from e d"
  shows "typed_from e d'"
  by (rule system_step_keeps [where I = "typed_from e", OF assms])
    (use assms(2) typed_clock in \<open>(intro keeps_intros typed_publish | simp)+\<close>)


lemma ready_db_schema: "schema_ok ready_db"
  by (simp add: schema_ok_def table_ok_def typed_defs deliverable_def currency_column_def numeric_def num4_max_def
      request_terms_def payment_terms_def verified_member ready_db_def held_db_def sample_defs)


end
