(* ===== verification/Application.thy ===== *)
theory Application
  imports WellTyped
begin

text \<open>
  The HTTP application of \<open>api.py\<close> as one function: the routes of \<open>lifecycle_api.py\<close> and
  \<open>webhooks.py\<close> included, what a handler raises becomes a problem document, and what it returns the
  body of a response. Parsing of paths, headers and bodies is FastAPI's; a call carries what the handlers
  get. The validation errors listed in a 422 are a parameter, and an exception without a handler is answered
  500 by Starlette.
\<close>

section \<open>Calls\<close>

datatype http_call =
    Healthz
  | CreatePayment create_body "string option" "string option" "string option"
  | GetPayment nat
  | ApprovePayment nat "string option" "string option" "string option"
  | DenyPayment nat "string option" "string option" "string option"
  | CapturePayment nat lifecycle_amount "string option" "string option"
  | VoidPayment nat lifecycle_amount "string option" "string option"
  | RefundPayment nat lifecycle_amount "string option" "string option"
  | ProviderWebhook string string "string option" "string option"
  | ProviderSettlement string string "string option"

record application =
  app_externals :: externals
  app_hmac :: "string \<Rightarrow> string \<Rightarrow> string"
  app_loads :: "string \<Rightarrow> parsed_body"
  app_isoformat :: "string \<Rightarrow> datetime option"
  app_pgtime :: "json \<Rightarrow> exn + int option"
  app_errors :: "http_call \<Rightarrow> json"

definition healthz :: json where
  "healthz = JObj [(''status'', JStr ''ok'')]"

definition capture_endpoint :: "application \<Rightarrow> nat \<Rightarrow> lifecycle_amount \<Rightarrow> string option \<Rightarrow> string option \<Rightarrow> db \<Rightarrow> (exn + json) \<times> db" where
  "capture_endpoint app pid body auth corr =
     lifecycle_run (ex_sha (app_externals app)) (ex_oidc (app_externals app)) (ex_env (app_externals app)) pid body ''capture'' auth corr"

definition void_endpoint :: "application \<Rightarrow> nat \<Rightarrow> lifecycle_amount \<Rightarrow> string option \<Rightarrow> string option \<Rightarrow> db \<Rightarrow> (exn + json) \<times> db" where
  "void_endpoint app pid body auth corr =
     lifecycle_run (ex_sha (app_externals app)) (ex_oidc (app_externals app)) (ex_env (app_externals app)) pid body ''void'' auth corr"

definition refund_endpoint :: "application \<Rightarrow> nat \<Rightarrow> lifecycle_amount \<Rightarrow> string option \<Rightarrow> string option \<Rightarrow> db \<Rightarrow> (exn + json) \<times> db" where
  "refund_endpoint app pid body auth corr =
     lifecycle_run (ex_sha (app_externals app)) (ex_oidc (app_externals app)) (ex_env (app_externals app)) pid body ''refund'' auth corr"

fun handle_call :: "application \<Rightarrow> http_call \<Rightarrow> db \<Rightarrow> (exn + json) \<times> db" where
  "handle_call app Healthz d = (Inr healthz, d)"
| "handle_call app (CreatePayment b key corr auth) d = create_payment_endpoint (app_externals app) b key corr auth d"
| "handle_call app (GetPayment pid) d = (get_payment pid d, d)"
| "handle_call app (ApprovePayment i reason auth corr) d =
     approve_payment (ex_sha (app_externals app)) (ex_env (app_externals app)) (instant (ex_now (app_externals app)))
       i reason auth corr d"
| "handle_call app (DenyPayment i reason auth corr) d =
     deny_payment (ex_env (app_externals app)) i reason auth corr d"
| "handle_call app (CapturePayment pid body auth corr) d = capture_endpoint app pid body auth corr d"
| "handle_call app (VoidPayment pid body auth corr) d = void_endpoint app pid body auth corr d"
| "handle_call app (RefundPayment pid body auth corr) d = refund_endpoint app pid body auth corr d"
| "handle_call app (ProviderWebhook name msg signature corr) d =
     provider_webhook (app_hmac app) (ex_sha (app_externals app)) (app_loads app) (app_isoformat app)
       (ex_env (app_externals app)) (ex_now (app_externals app)) name msg signature corr d"
| "handle_call app (ProviderSettlement name msg signature) d =
     provider_settlement (app_hmac app) (app_loads app) (app_pgtime app) (ex_env (app_externals app)) name msg signature d"

section \<open>Responses\<close>

record http_response =
  rs_status :: nat
  rs_body :: json

fun call_path :: "http_call \<Rightarrow> string" where
  "call_path Healthz = ''/healthz''"
| "call_path (CreatePayment b key corr auth) = ''/v1/payments''"
| "call_path (GetPayment pid) = ''/v1/payments/'' @ str_uuid pid"
| "call_path (ApprovePayment i reason auth corr) = ''/v1/approvals/'' @ str_uuid i @ ''/approve''"
| "call_path (DenyPayment i reason auth corr) = ''/v1/approvals/'' @ str_uuid i @ ''/deny''"
| "call_path (CapturePayment pid body auth corr) = ''/v1/payments/'' @ str_uuid pid @ ''/capture''"
| "call_path (VoidPayment pid body auth corr) = ''/v1/payments/'' @ str_uuid pid @ ''/void''"
| "call_path (RefundPayment pid body auth corr) = ''/v1/payments/'' @ str_uuid pid @ ''/refund''"
| "call_path (ProviderWebhook name msg signature corr) = ''/v1/providers/'' @ name @ ''/webhooks''"
| "call_path (ProviderSettlement name msg signature) = ''/v1/providers/'' @ name @ ''/settlements''"

fun success_status :: "http_call \<Rightarrow> nat" where
  "success_status Healthz = 200"
| "success_status (GetPayment pid) = 200"
| "success_status (ProviderWebhook name msg signature corr) = 200"
| "success_status (ProviderSettlement name msg signature) = 200"
| "success_status _ = 202"

text \<open>422 is raised by the validation of a body alone.\<close>

definition error_response :: "application \<Rightarrow> http_call \<Rightarrow> exn \<Rightarrow> http_response" where
  "error_response app call e =
     (case e of
        HTTPException status detail \<Rightarrow>
          if status = 422 then \<lparr>rs_status = 422, rs_body = validation_problem (call_path call) (app_errors app call)\<rparr>
          else \<lparr>rs_status = status, rs_body = problem_details status detail (call_path call)\<rparr>
      | _ \<Rightarrow> \<lparr>rs_status = 500, rs_body = JStr ''Internal Server Error''\<rparr>)"

definition serve :: "application \<Rightarrow> http_call \<Rightarrow> db \<Rightarrow> http_response \<times> db" where
  "serve app call d =
     (case handle_call app call d of
        (Inl e, d') \<Rightarrow> (error_response app call e, d')
      | (Inr body, d') \<Rightarrow> (\<lparr>rs_status = success_status call, rs_body = body\<rparr>, d'))"

section \<open>A response is a step of the system\<close>

lemma handle_call_steps:
  assumes "handle_call app call d = (r, d')"
  shows "(system_step sha)\<^sup>*\<^sup>* d d'"
  using assms
  by (cases call)
    (auto simp: capture_endpoint_def void_endpoint_def refund_endpoint_def
      intro!: r_into_rtranclp intro: system_step.intros)

lemma serve_steps: "serve app call d = (resp, d') \<Longrightarrow> (system_step sha)\<^sup>*\<^sup>* d d'"
  by (auto simp: serve_def split: prod.splits sum.splits intro: handle_call_steps)

section \<open>What an error leaves behind\<close>

text \<open>The money: budgets and what is held, approvals, operations, transactions and the ledger.\<close>

definition money_view :: "db \<Rightarrow> budget_row list \<times> reservation_row list \<times> approval_row list \<times> operation_row list \<times>
    transaction_row list \<times> journal_row list \<times> posting_row list" where
  "money_view d = (budgets d, reservations d, approvals d, operations d, transactions d, journals d, postings d)"

lemma early_money:
  "frame (\<lambda>d. (money_view d, payments d, outbox d)) (merchant nm dmn)"
  "frame (\<lambda>d. (money_view d, payments d, outbox d)) (store_evidence x b amt cur)"
  "frame (\<lambda>d. (money_view d, payments d, outbox d)) (create_request acct agent amt' cur' purpose items key fp merch)"
  "frame (\<lambda>d. (money_view d, payments d, outbox d)) (bind_evidence rid ev hash)"
  "frame (\<lambda>d. (money_view d, payments d, outbox d))
     (evaluate_policy timeformat acct policy rid agent pid amt' cur' domain category)"
  unfolding merchant_def store_evidence_def insert_evidence_def create_request_def bind_evidence_def evaluate_policy_def
    references_def undefined_column_def money_view_def
  by (rule frame_rule, intro keeps_intros keeps_modify keeps_draw_tables; simp)+

lemma early_ids:
  "keeps (\<lambda>d. n \<le> next_id d) draw_id"
  "keeps (\<lambda>d. n \<le> next_id d) (merchant nm dmn)"
  "keeps (\<lambda>d. n \<le> next_id d) (store_evidence x b amt cur)"
  "keeps (\<lambda>d. n \<le> next_id d) (create_request acct agent amt' cur' purpose items key fp merch)"
  "keeps (\<lambda>d. n \<le> next_id d) (bind_evidence rid ev hash)"
proof -
  show draw: "keeps (\<lambda>d. n \<le> next_id d) draw_id" by (rule keepsI) auto
  show "keeps (\<lambda>d. n \<le> next_id d) (merchant nm dmn)" "keeps (\<lambda>d. n \<le> next_id d) (store_evidence x b amt cur)"
    "keeps (\<lambda>d. n \<le> next_id d) (create_request acct agent amt' cur' purpose items key fp merch)"
    "keeps (\<lambda>d. n \<le> next_id d) (bind_evidence rid ev hash)"
    unfolding merchant_def store_evidence_def insert_evidence_def create_request_def bind_evidence_def
      references_def undefined_column_def
    by (intro keeps_intros keeps_modify draw; simp)+
qed

text \<open>A refusal: the payment fails with an event, or it stays as it was when no policy can be read.\<close>

definition refused_payment :: "nat \<Rightarrow> db \<Rightarrow> db \<Rightarrow> bool" where
  "refused_payment pid d d' \<longleftrightarrow> money_view d' = money_view d \<and>
     (payments d' = payments d \<and> outbox d' = outbox d \<or>
      payments d' = upd_by p_id pid (set_status ST_FAILED None (clock d)) (payments d) \<and>
      (\<exists>x. outbox d' = outbox d @ [x] \<and> x_type x = ''PaymentFailed'' \<and> x_aggregate x = pid))"

lemma refuse_refused:
  assumes "refuse pid payload corr status message d = Inr (z, d')"
  shows "z = Inr (status, message) \<and> refused_payment pid d d'"
  using assms by (auto simp: refuse_def update_status_def enqueue_def refused_payment_def money_view_def)

lemma started_answers:
  "ask_approval sha rid pid bid ver evid corr d = Inr (z, d') \<Longrightarrow> \<exists>j. z = Inl j"
  "start_payment rid pid bid amt_text amt cur dec evid corr d = Inr (z, d') \<Longrightarrow> \<exists>j. z = Inl j"
  by (auto simp: ask_approval_def start_payment_def err_simps)

lemma control_refused:
  assumes "control_payment x b rid pid amt cur corr result d = Inr (Inr (status, message), d')"
  shows "status \<in> {403, 409} \<and> refused_payment pid d d'"
  using assms
  by (cases result)
    (auto simp: control_payment_def bind_budget_def dest: refuse_refused started_answers split: if_splits option.splits)

lemma refused_payment_from:
  assumes "refused_payment pid d d'" "money_view d = money_view e" "payments d = payments e" "outbox d = outbox e"
    "clock d = clock e"
  shows "refused_payment pid e d'"
  using assms by (simp add: refused_payment_def)

lemma evaluate_clock: "frame clock (evaluate_policy timeformat acct policy rid agent pid amt cur domain category)"
  unfolding evaluate_policy_def by (rule frame_rule, intro keeps_intros keeps_modify; simp)

lemma decide_refused:
  assumes "decide_payment x b rid pid amt cur corr d = Inr (Inr (status, message), d')"
  shows "status \<in> {403, 409} \<and> refused_payment pid d d'"
proof -
  let ?dom = "case Option.bind (cb_merchant b) am_domain of None \<Rightarrow> [] | Some s \<Rightarrow> s"
  let ?cat = "Option.bind (cb_merchant b) am_category"
  let ?eval = "evaluate_policy (ex_time x) (cb_account b) (cb_policy b) rid (cb_agent b) pid amt cur ?dom ?cat"
  show ?thesis
  proof (cases "?eval d")
    case (Inl e)
    with assms show ?thesis
      by (auto simp: decide_payment_def tryT_def refused_payment_def split: if_splits)
  next
    case (Inr r)
    obtain result d1 where r: "r = (result, d1)" by (cases r)
    with Inr assms have "control_payment x b rid pid amt cur corr result d1 = Inr (Inr (status, message), d')"
      by (simp add: decide_payment_def tryT_def)
    from control_refused [OF this] frameD [OF early_money(5) Inr [unfolded r]] frameD [OF evaluate_clock Inr [unfolded r]]
    show ?thesis by (auto intro: refused_payment_from)
  qed
qed

lemma insert_payment_appends:
  assumes "insert_payment rid amt cur st d = Inr (pid, d')"
  shows "pid = next_id d \<and> money_view d' = money_view d \<and> outbox d' = outbox d \<and>
    (\<exists>p. payments d' = payments d @ [p] \<and> p_id p = pid \<and> p_status p = st \<and> p_request p = rid)"
  using assms by (auto simp: insert_payment_def references_def err_simps money_view_def split: if_splits)

text \<open>The payment a refused creation leaves, beside what was there.\<close>

definition leaves_refused :: "db \<Rightarrow> db \<Rightarrow> bool" where
  "leaves_refused d d' \<longleftrightarrow> money_view d' = money_view d \<and>
     (\<exists>p. payments d' = payments d @ [p] \<and>
        (p_status p = ST_POLICY_CHECK \<and> outbox d' = outbox d \<or>
         p_status p = ST_FAILED \<and>
         (\<exists>x. outbox d' = outbox d @ [x] \<and> x_type x = ''PaymentFailed'' \<and> x_aggregate x = p_id p)))"

lemma refused_appends:
  assumes "refused_payment pid d1 d'" "payments d1 = payments d @ [p]" "p_id p = pid" "p_status p = ST_POLICY_CHECK"
    "money_view d1 = money_view d" "outbox d1 = outbox d" "pid \<notin> keys_of p_id (payments d)"
  shows "leaves_refused d d'"
  using assms by (auto simp: refused_payment_def leaves_refused_def upd_by_absent upd_by_append set_status_def)

lemma create_refused:
  assumes "create_work x b key corr d = Inr (Inr (status, message), d')" "schema_ok d"
  shows "status \<in> {403, 409} \<and> leaves_refused d d'"
  using assms(1)
proof (cases rule: create_work_cases)
  case replayed
  then show ?thesis by simp
next
  case created
  from created(2,1) obtain amt ev c rid pid merch d1 d2 d3 d4 d5 where
    "finite_decimal (cb_amount b) = Inr amt" and
    s: "(case cb_merchant b of None \<Rightarrow> returnT None | Some m \<Rightarrow> merchant (am_name m) (am_domain m)) d = Inr (merch, d1)"
    "store_evidence x b amt (upper (cb_currency b)) d1 = Inr ((ev, c), d2)"
    "create_request (cb_account b) (cb_agent b) amt (upper (cb_currency b)) (cb_purpose b)
       (JArr (map item_json (cb_items b))) key (Some (request_fingerprint (ex_sha x) b)) merch d2 = Inr (rid, d3)"
    "bind_evidence rid ev (ctx_digest c) d3 = Inr ((), d4)"
    "insert_payment rid amt (upper (cb_currency b)) ST_POLICY_CHECK d4 = Inr (pid, d5)"
    "decide_payment x b rid pid amt (upper (cb_currency b)) corr d5 = Inr (Inr (status, message), d')" and
    "profile d3 = profile d"
    by (rule new_payment_steps)
  have m: "frame (\<lambda>d. (money_view d, payments d, outbox d))
      (case cb_merchant b of None \<Rightarrow> returnT None | Some m \<Rightarrow> merchant (am_name m) (am_domain m))"
    "keeps (\<lambda>s. next_id d \<le> next_id s)
      (case cb_merchant b of None \<Rightarrow> returnT None | Some m \<Rightarrow> merchant (am_name m) (am_domain m))"
    by (auto intro: early_money frameI early_ids keeps_return split: option.split)
  have view: "money_view d4 = money_view d" "payments d4 = payments d" "outbox d4 = outbox d"
    using frameD [OF m(1) s(1)] frameD [OF early_money(2) s(2)] frameD [OF early_money(3) s(3)]
      frameD [OF early_money(4) s(4)] by simp_all
  have "next_id d \<le> next_id d4"
    using keepsD [OF early_ids(5) keepsD [OF early_ids(4) keepsD [OF early_ids(3) keepsD [OF m(2) order_refl s(1)] s(2)] s(3)] s(4)]
    by simp
  then have "next_id d4 \<notin> keys_of p_id (payments d)"
    using assms(2) by (auto simp: schema_ok_def table_ok_def)
  with insert_payment_appends [OF s(5)] view decide_refused [OF s(6)] show ?thesis
    by (auto intro: refused_appends)
qed

lemma transact_error: "transact f d = (Inl e, d') \<Longrightarrow> d' = d"
  by (auto simp: transact_def split: sum.splits)

lemma handled_error:
  "approve_payment sha env now i reason auth corr d = (Inl e, d') \<Longrightarrow> d' = d"
  "deny_payment env i reason auth corr d = (Inl e, d') \<Longrightarrow> d' = d"
  "lifecycle_run sha decode env pid body op auth corr d = (Inl e, d') \<Longrightarrow> d' = d"
  "provider_webhook hmac sha loads isoformat env moment name msg signature corr d = (Inl e, d') \<Longrightarrow> d' = d"
  "provider_settlement hmac loads pgtime env name msg signature d = (Inl e, d') \<Longrightarrow> d' = d"
  by (auto simp: approve_payment_def deny_payment_def lifecycle_run_def provider_webhook_def provider_settlement_def
      nested_tail ingest_def Let_def dest: transact_error split: if_splits sum.splits prod.splits)

text \<open>C3: whatever is asked of the application, an error response leaves the database as it was, with one
  exception: a payment request that is refused after it was recorded. That is answered 403 or 409, holds and
  moves no money, and leaves one new payment, FAILED with its event, or in POLICY_CHECK without one.\<close>

theorem errors_leave:
  assumes "serve app call d = (resp, d')" "rs_status resp \<noteq> success_status call" "schema_ok d"
  shows "d' = d \<or> rs_status resp \<in> {403, 409} \<and> (\<exists>b key corr auth. call = CreatePayment b key corr auth) \<and>
    leaves_refused d d'"
proof -
  obtain r where r: "handle_call app call d = (r, d')"
    using assms(1) by (auto simp: serve_def split: prod.splits sum.splits)
  obtain e where e: "r = Inl e" "resp = error_response app call e"
    using assms(1,2) r by (auto simp: serve_def split: sum.splits)
  show ?thesis
  proof (cases "\<exists>b key corr auth. call = CreatePayment b key corr auth")
    case True
    then obtain b key corr auth where call: "call = CreatePayment b key corr auth" by blast
    show ?thesis
    proof (cases "d' = d")
      case False
      have run: "create_payment_endpoint (app_externals app) b key corr auth d = (Inl e, d')"
        using r e(1) call by simp
      obtain k z where "create_work (app_externals app) b k corr d = Inr (z, d')"
        and z: "Inl e = (case z of Inl j \<Rightarrow> Inr j | Inr (status, message) \<Rightarrow> http_error status message)"
        using endpoint_cases [OF run False] by metis
      moreover obtain status message where "z = Inr (status, message)" "e = HTTPException status message"
        using z by (auto split: sum.splits prod.splits)
      ultimately have "status \<in> {403, 409} \<and> leaves_refused d d'" using create_refused assms(3) by metis
      with e(2) \<open>e = HTTPException status message\<close> call show ?thesis by (auto simp: error_response_def)
    qed simp
  next
    case False
    with r e(1) have "d' = d" by (cases call) (auto simp: capture_endpoint_def void_endpoint_def refund_endpoint_def dest: handled_error)
    then show ?thesis by simp
  qed
qed

definition refusing_db :: db where
  "refusing_db = demo_db\<lparr>policies := [], policy_versions := []\<rparr>"

definition demo_application :: application where
  "demo_application = \<lparr>app_externals = demo_ext, app_hmac = (\<lambda>_ _. []), app_loads = (\<lambda>_. Invalid_JSON),
     app_isoformat = (\<lambda>_. None), app_pgtime = (\<lambda>_. Inr None), app_errors = (\<lambda>_. JArr [])\<rparr>"

lemma refusing_run:
  "\<exists>d'. create_work demo_ext demo_body ''k2'' None refusing_db = Inr (Inr (403, ''payment denied by policy''), d') \<and>
     length (payments d') = 1"
proof -
  obtain c where c: "check_evidence demo_ext demo_body demo_evidence ''jwt'' (of_num4 250000) ''USD'' = Inr c" "ctx_digest c = Some ''f''"
    using demo_verified by blast
  have b: "cb_evidence demo_body = Some demo_evidence" "ae_assertion demo_evidence = Some ''jwt''" "cb_merchant demo_body = None"
    "cb_amount demo_body = ''25.0000''" "cb_currency demo_body = ''usd''" "cb_account demo_body = 1" "cb_agent demo_body = 2"
    "cb_policy demo_body = None" "cb_budget demo_body = None" "ex_time demo_ext = (\<lambda>_. None)"
    by (simp_all add: demo_body_def demo_evidence_def demo_ext_def)
  show ?thesis
    by (simp add: create_work_def find_by_idempotency_def Let_def new_payment_def b c dev_body_value text_eval
        store_evidence_def evidence_error_def insert_evidence_def insert_request_def tryT_def create_request_def references_def
        char3_def bind_evidence_def insert_payment_def decide_payment_def evaluate_policy_def sample_budget_facts
        active_policy_def active_versions_def control_payment_def policy_of_version_def refuse_def
        update_status_def enqueue_def refusing_db_def demo_db_def assumed_def sample_defs)
qed

theorem errors_leave_witness:
  "\<exists>resp d'. serve demo_application (CreatePayment demo_body (Some ''k2'') None (Some ''Bearer t'')) refusing_db = (resp, d') \<and>
     rs_status resp = 403 \<and> leaves_refused refusing_db d'"
proof -
  obtain d' where w: "create_work demo_ext demo_body ''k2'' None refusing_db =
      Inr (Inr (403, ''payment denied by policy''), d')" and n: "length (payments d') = 1"
    using refusing_run by blast
  have run: "serve demo_application (CreatePayment demo_body (Some ''k2'') None (Some ''Bearer t'')) refusing_db =
      (error_response demo_application (CreatePayment demo_body (Some ''k2'') None (Some ''Bearer t''))
         (HTTPException 403 ''payment denied by policy''), d')"
    by (simp add: serve_def demo_application_def create_payment_endpoint_def demo_admitted transact_def w)
  have "d' \<noteq> refusing_db" using n by (auto simp: refusing_db_def demo_db_def)
  moreover have "schema_ok refusing_db"
    by (simp add: schema_ok_def table_ok_def typed_defs deliverable_def currency_column_def numeric_def num4_max_def
        request_terms_def payment_terms_def verified_member refusing_db_def demo_db_def sample_defs)
  ultimately show ?thesis using errors_leave [OF run] run by (simp add: error_response_def)
qed

end
