(* ===== verification/RowLocks.thy ===== *)
theory RowLocks
  imports Prelude
begin

text \<open>
  Transactions that run side by side on one database. Each open transaction is a session; a step
  executes one statement of one session against the committed data, or makes it wait because another
  session holds a lock it needs. The locale \<open>row_locks\<close> is the contract between the
  statements and the locks: what a session knows about the data (\<open>knows\<close>) stays true as long as
  the others respect its locks, and every statement respects the locks of the others. Its lemmas put
  the sessions together; \<open>lock_order\<close> adds an order in which locks are taken, and shows that
  some session can always go on. The locales are interpreted on the statements of the budget
  repository.
\<close>

section \<open>Sessions side by side\<close>

text \<open>The locks of all sessions but one, what is known of them together, and a step of one of them.\<close>

definition others :: "('s \<Rightarrow> 'l list) \<Rightarrow> 's list \<Rightarrow> nat \<Rightarrow> 'l list" where
  "others lk ss k = concat (map (\<lambda>j. if j = k then [] else lk (ss ! j)) [0..<length ss])"

definition composed ::
    "('d \<Rightarrow> bool) \<Rightarrow> ('d \<Rightarrow> 's \<Rightarrow> bool) \<Rightarrow> ('s \<Rightarrow> 'l list) \<Rightarrow> 'd \<Rightarrow> 's list \<Rightarrow> bool" where
  "composed ok knows lk d ss \<longleftrightarrow> ok d \<and> list_all (knows d) ss \<and>
     (\<forall>k < length ss. set (lk (ss ! k)) \<inter> set (others lk ss k) = {})"

definition executes ::
    "('l list \<Rightarrow> 'd \<Rightarrow> 's \<Rightarrow> ('d \<times> 's) option) \<Rightarrow> ('s \<Rightarrow> 'l list) \<Rightarrow> 'd \<times> 's list \<Rightarrow> 'd \<times> 's list \<Rightarrow> bool" where
  "executes stmt lk x y \<longleftrightarrow> (\<exists>k < length (snd x). \<exists>s'.
     stmt (others lk (snd x) k) (fst x) (snd x ! k) = Some (fst y, s') \<and> snd y = (snd x)[k := s'])"

lemma in_others: "l \<in> set (others lk ss k) \<longleftrightarrow> (\<exists>j < length ss. j \<noteq> k \<and> l \<in> set (lk (ss ! j)))"
  by (auto simp: others_def)

lemma others_update: "others lk (ss[k := s']) k = others lk ss k"
  unfolding others_def by (rule arg_cong [where f = concat]) auto

lemma others_other:
  assumes "k < length ss" "j \<noteq> k"
  shows "set (others lk (ss[k := s']) j) \<subseteq> set (others lk ss j) \<union> set (lk s')"
  using assms by (auto simp: in_others nth_list_update split: if_splits)

lemma composedD:
  assumes "composed ok knows lk d ss" "k < length ss"
  shows "ok d" "knows d (ss ! k)" "set (lk (ss ! k)) \<inter> set (others lk ss k) = {}"
  using assms by (auto simp: composed_def list_all_length)

text \<open>One session changes its place: its new locks must not be those of the others.\<close>

lemma composed_update:
  assumes c: "composed ok knows lk d ss" and k: "k < length ss" and "ok d'" "knows d' s'"
    and kept: "\<And>j. j < length ss \<Longrightarrow> j \<noteq> k \<Longrightarrow> knows d' (ss ! j)"
    and free: "set (lk s') \<inter> set (others lk ss k) = {}"
  shows "composed ok knows lk d' (ss[k := s'])"
proof -
  have "set (lk (ss[k := s'] ! j)) \<inter> set (others lk (ss[k := s']) j) = {}" if j: "j < length ss" for j
  proof (cases "j = k")
    case True
    with k free show ?thesis by (simp add: others_update)
  next
    case False
    have "set (lk (ss ! j)) \<subseteq> set (others lk ss k)" using j False by (auto simp: in_others)
    with composedD(3) [OF c j] others_other [OF k False, of lk s'] free False show ?thesis by auto
  qed
  then show ?thesis using assms by (auto simp: composed_def list_all_length nth_list_update)
qed

section \<open>The contract of locks\<close>

locale row_locks =
  fixes stmt :: "'l list \<Rightarrow> 'd \<Rightarrow> 's \<Rightarrow> ('d \<times> 's) option"
    and lk :: "'s \<Rightarrow> 'l list"
    and ok :: "'d \<Rightarrow> bool"
    and knows :: "'d \<Rightarrow> 's \<Rightarrow> bool"
    and granted :: "'d \<Rightarrow> 'l \<Rightarrow> bool"
    and leaves :: "'l set \<Rightarrow> 'd \<Rightarrow> 'd \<Rightarrow> bool"
  assumes stable: "knows d s \<Longrightarrow> leaves L d d' \<Longrightarrow> set (lk s) \<subseteq> L \<Longrightarrow> knows d' s"
    and locks_granted: "knows d s \<Longrightarrow> l \<in> set (lk s) \<Longrightarrow> granted d l"
    and guarantee: "\<lbrakk>stmt held d s = Some (d', s'); ok d; knows d s; set (lk s) \<inter> set held = {};
        \<And>l. l \<in> set held \<Longrightarrow> granted d l\<rbrakk>
      \<Longrightarrow> ok d' \<and> knows d' s' \<and> leaves (set held) d d' \<and> set (lk s') \<inter> set held = {}"
begin

lemma others_granted:
  assumes "composed ok knows lk d ss" "l \<in> set (others lk ss k)"
  shows "granted d l"
  using assms by (auto simp: in_others intro: locks_granted composedD(2))

lemma execute:
  assumes c: "composed ok knows lk d ss" and k: "k < length ss"
    and run: "stmt (others lk ss k) d (ss ! k) = Some (d', s')"
  shows "composed ok knows lk d' (ss[k := s'])"
proof -
  have g: "ok d' \<and> knows d' s' \<and> leaves (set (others lk ss k)) d d' \<and> set (lk s') \<inter> set (others lk ss k) = {}"
    by (rule guarantee [OF run composedD [OF c k] others_granted [OF c]])
  have "knows d' (ss ! j)" if "j < length ss" "j \<noteq> k" for j
    by (rule stable [OF composedD(2) [OF c that(1)] g [THEN conjunct2, THEN conjunct2, THEN conjunct1]])
      (use that in \<open>auto simp: in_others\<close>)
  with g show ?thesis by (intro composed_update [OF c k]) auto
qed

lemma executes_composed:
  assumes "composed ok knows lk d ss" "executes stmt lk (d, ss) (d', ss')"
  shows "composed ok knows lk d' ss'"
  using assms by (auto simp: executes_def intro: execute)

text \<open>A session that holds nothing may begin or end, and the rest of the database may move.\<close>

lemma renew:
  assumes "composed ok knows lk d ss" "k < length ss" "knows d s'" "lk s' = []"
  shows "composed ok knows lk d (ss[k := s'])"
  using assms by (intro composed_update) (auto simp: composed_def list_all_length)

lemma elsewhere:
  assumes c: "composed ok knows lk d ss" and "ok d'" "\<And>L. leaves L d d'"
  shows "composed ok knows lk d' ss"
  using assms by (auto simp: composed_def list_all_length intro: stable [OF _ assms(3) subset_refl])

end

section \<open>An order of locks\<close>

text \<open>A waiting session waits for a lock above all those it holds, so the session that holds the
  highest lock is not waiting; \<open>work\<close> is the number of statements a session has left.\<close>

locale lock_order = row_locks stmt lk ok knows granted leaves
  for stmt :: "'l list \<Rightarrow> 'd \<Rightarrow> 's \<Rightarrow> ('d \<times> 's) option" and lk ok knows granted leaves +
  fixes level :: "'l \<Rightarrow> nat" and work :: "'s \<Rightarrow> nat"
  assumes waits: "\<lbrakk>knows d s; 0 < work s; set (lk s) \<inter> set held = {}; stmt held d s = None\<rbrakk>
      \<Longrightarrow> \<exists>l \<in> set held. 0 < level l \<and> (\<forall>l' \<in> set (lk s). level l' < level l)"
    and works: "knows d s \<Longrightarrow> stmt held d s = Some (d', s') \<Longrightarrow> work s' < work s"
    and idle: "work s = 0 \<Longrightarrow> lk s = []"
begin

definition top :: "'s \<Rightarrow> nat" where
  "top s = Max (insert 0 (level ` set (lk s)))"

lemma top_bounds: "l \<in> set (lk s) \<Longrightarrow> level l \<le> top s"
  by (simp add: top_def)

lemma below_top: "0 < n \<Longrightarrow> (\<And>l. l \<in> set (lk s) \<Longrightarrow> level l < n) \<Longrightarrow> top s < n"
  by (auto simp: top_def)

lemma some_session_runs:
  assumes c: "composed ok knows lk d ss" and k: "k < length ss" "0 < work (ss ! k)"
  shows "\<exists>k d' s'. k < length ss \<and> 0 < work (ss ! k) \<and> stmt (others lk ss k) d (ss ! k) = Some (d', s')"
proof -
  let ?B = "{j. j < length ss \<and> 0 < work (ss ! j)}"
  let ?tops = "(\<lambda>i. top (ss ! i)) ` ?B"
  have fin: "finite ?tops" by simp
  have "Max ?tops \<in> ?tops" by (rule Max_in [OF fin]) (use k in auto)
  then obtain j where j: "j \<in> ?B" and max: "Max ?tops = top (ss ! j)" by auto
  have top: "top (ss ! i) \<le> top (ss ! j)" if "i \<in> ?B" for i
    using Max_ge [OF fin, of "top (ss ! i)"] that max by auto
  show ?thesis
  proof (cases "stmt (others lk ss j) d (ss ! j)")
    case None
    obtain l where l: "l \<in> set (others lk ss j)" "0 < level l" "\<forall>l' \<in> set (lk (ss ! j)). level l' < level l"
      using waits [OF composedD(2) [OF c] _ composedD(3) [OF c] None] j by auto
    then obtain i where i: "i < length ss" "l \<in> set (lk (ss ! i))" by (auto simp: in_others)
    then have "i \<in> ?B" using idle [of "ss ! i"] by (cases "work (ss ! i)") auto
    moreover have "top (ss ! j) < level l" using l by (intro below_top) auto
    ultimately show ?thesis using top [of i] top_bounds [OF i(2)] by simp
  next
    case (Some x)
    with j show ?thesis by (cases x) auto
  qed
qed

lemma all_sessions_end:
  assumes "composed ok knows lk d ss"
  shows "\<exists>d' ss'. (executes stmt lk)\<^sup>*\<^sup>* (d, ss) (d', ss') \<and> list_all (\<lambda>s. work s = 0) ss'"
  using assms
proof (induction "sum_list (map work ss)" arbitrary: d ss rule: less_induct)
  case less
  show ?case
  proof (cases "list_all (\<lambda>s. work s = 0) ss")
    case True
    then show ?thesis by blast
  next
    case False
    then obtain k0 where "k0 < length ss" "0 < work (ss ! k0)" by (auto simp: list_all_length)
    then obtain k d' s' where k: "k < length ss" and run: "stmt (others lk ss k) d (ss ! k) = Some (d', s')"
      using some_session_runs [OF less.prems] by blast
    have "work s' < work (ss ! k)" by (rule works [OF composedD(2) [OF less.prems k] run])
    moreover have "work (ss ! k) \<le> sum_list (map work ss)"
      using k by (auto intro!: member_le_sum_list)
    ultimately have "sum_list (map work (ss[k := s'])) < sum_list (map work ss)"
      using k by (simp add: map_update sum_list_update)
    from less.hyps [OF this execute [OF less.prems k run]] obtain d2 ss2 where
      "(executes stmt lk)\<^sup>*\<^sup>* (d', ss[k := s']) (d2, ss2)" "list_all (\<lambda>s. work s = 0) ss2" by blast
    moreover have "executes stmt lk (d, ss) (d', ss[k := s'])"
      using k run by (auto simp: executes_def)
    ultimately show ?thesis by (blast intro: converse_rtranclp_into_rtranclp)
  qed
qed

end

end
