(* ===== verification/BudgetSessions.thy ===== *)
theory BudgetSessions
  imports Repositories RowLocks
begin

text \<open>
  \<open>repositories.py\<close>, the transactions of \<open>BudgetRepository\<close> statement by statement. Elsewhere
  in the development one transaction is one step; here reservations and settlements of many
  connections run side by side, each statement a step of its own against the committed data, with the
  row locks that SELECT ... FOR UPDATE and UPDATE take and the index entries that INSERT holds until
  the transaction ends. \<open>budget_rows_serial\<close> shows that with these locks the interleaving is
  nothing but the repository's operations one after the other; \<open>unlocked_overspends\<close> shows that
  without FOR UPDATE two reservations can exceed the budget.

  \<open>statement ll held d s\<close> executes the next statement of the session \<open>s\<close> on the
  committed data \<open>d\<close> while the other sessions hold the locks \<open>held\<close>; the result is
  None when the statement waits. What a session writes is in its stage until its last step commits it.
  \<open>ll\<close> tells whether the two SELECT statements have their FOR UPDATE clause.
\<close>

section \<open>Sessions and their statements\<close>

datatype row_lock = BudgetRow nat | ReservationRow nat | IdEntry nat | KeyEntry nat nat

text \<open>A call of \<open>reserve\<close>, or of \<open>consume\<close> (\<open>Settle True\<close>) or \<open>release\<close>
  (\<open>Settle False\<close>), and how far its transaction is.\<close>

datatype budget_job = Reserve nat nat decimal | Settle bool nat

datatype stage =
    Asked
  | BudgetRead budget_row
  | CurrencyRead budget_row
  | ReservationInserted reservation_row
  | BudgetCharged reservation_row "budget_row option"
  | ReservationRead reservation_row
  | ReservationMarked reservation_row
  | BudgetMoved reservation_row "budget_row option"

text \<open>An open transaction has its start time, which is \<open>now()\<close> in all its statements.\<close>

datatype session = Over "exn + nat option" | Busy int budget_job stage

fun stage_locks :: "bool \<Rightarrow> budget_job \<Rightarrow> stage \<Rightarrow> row_lock list" where
  "stage_locks ll (Reserve bid req amt) (BudgetRead b) = (if ll then [BudgetRow bid] else [])"
| "stage_locks ll (Reserve bid req amt) (CurrencyRead b) = (if ll then [BudgetRow bid] else [])"
| "stage_locks ll (Reserve bid req amt) (ReservationInserted r) =
     (if ll then [BudgetRow bid] else []) @ [IdEntry (r_id r), KeyEntry (r_budget r) (r_request r)]"
| "stage_locks ll (Reserve bid req amt) (BudgetCharged r bo) =
     [BudgetRow bid, IdEntry (r_id r), KeyEntry (r_budget r) (r_request r)]"
| "stage_locks ll (Settle c rid) (ReservationRead r) = (if ll then [ReservationRow rid] else [])"
| "stage_locks ll (Settle c rid) (ReservationMarked r) = [ReservationRow rid]"
| "stage_locks ll (Settle c rid) (BudgetMoved r bo) = [ReservationRow rid, BudgetRow (r_budget r)]"
| "stage_locks ll _ _ = []"

fun session_locks :: "bool \<Rightarrow> session \<Rightarrow> row_lock list" where
  "session_locks ll (Over x) = []"
| "session_locks ll (Busy t J st) = stage_locks ll J st"

definition put_budget :: "budget_row option \<Rightarrow> budget_row list \<Rightarrow> budget_row list" where
  "put_budget bo bs = (case bo of None \<Rightarrow> bs | Some b \<Rightarrow> upd_by b_id (b_id b) (\<lambda>_. b) bs)"

definition settled_row :: "bool \<Rightarrow> int \<Rightarrow> reservation_row \<Rightarrow> reservation_row" where
  "settled_row c t r =
     (if c then r\<lparr>r_status := ''CONSUMED'', r_consumed := Some t\<rparr>
      else r\<lparr>r_status := ''RELEASED'', r_released := Some t\<rparr>)"

fun reserve_statement ::
    "bool \<Rightarrow> row_lock list \<Rightarrow> db \<Rightarrow> int \<Rightarrow> nat \<Rightarrow> nat \<Rightarrow> decimal \<Rightarrow> stage \<Rightarrow> (db \<times> session) option" where
  "reserve_statement ll held d t bid req amt Asked =
     (case row_by b_id bid (budgets d) of
        None \<Rightarrow> Some (d, Over (Inr None))
      | Some b \<Rightarrow>
          if ll \<and> BudgetRow bid \<in> set held then None
          else Some (d, Busy t (Reserve bid req amt) (BudgetRead b)))"
| "reserve_statement ll held d t bid req amt (BudgetRead b) =
     (case request_currency req d of
        Inl e \<Rightarrow> Some (d, Over (Inl e))
      | Inr (cur, _) \<Rightarrow>
          if upper (strip (b_currency b)) \<noteq> cur then Some (d, Over (Inr None))
          else if dless (budget_available b) amt then Some (d, Over (Inr None))
          else Some (d, Busy t (Reserve bid req amt) (CurrencyRead b)))"
| "reserve_statement ll held d t bid req amt (CurrencyRead b) =
     (if KeyEntry (b_id b) req \<in> set held then None
      else
        case insert_reservation b req amt (d\<lparr>clock := t\<rparr>) of
          Inl e \<Rightarrow> Some (d, Over (Inl e))
        | Inr (i, d1) \<Rightarrow>
            Some (d\<lparr>next_id := next_id d1\<rparr>,
              Busy t (Reserve bid req amt) (ReservationInserted (last (reservations d1)))))"
| "reserve_statement ll held d t bid req amt (ReservationInserted r) =
     (if BudgetRow bid \<in> set held then None
      else
        case row_by b_id bid (budgets d) of
          None \<Rightarrow> Some (d, Busy t (Reserve bid req amt) (BudgetCharged r None))
        | Some b \<Rightarrow>
            (case num4_plus (b_reserved b) amt of
               Inl e \<Rightarrow> Some (d, Over (Inl e))
             | Inr n \<Rightarrow>
                 Some (d, Busy t (Reserve bid req amt)
                   (BudgetCharged r (Some (b\<lparr>b_reserved := n, b_updated := t\<rparr>))))))"
| "reserve_statement ll held d t bid req amt (BudgetCharged r bo) =
     Some (d\<lparr>reservations := reservations d @ [r], budgets := put_budget bo (budgets d)\<rparr>,
       Over (Inr (Some (r_id r))))"
| "reserve_statement ll held d t bid req amt _ = None"

fun settle_statement ::
    "bool \<Rightarrow> row_lock list \<Rightarrow> db \<Rightarrow> int \<Rightarrow> bool \<Rightarrow> nat \<Rightarrow> stage \<Rightarrow> (db \<times> session) option" where
  "settle_statement ll held d t c rid Asked =
     (case row_by r_id rid (reservations d) of
        None \<Rightarrow> Some (d, Over (Inl (ValueError ''budget reservation not found'')))
      | Some r \<Rightarrow>
          if ll \<and> ReservationRow rid \<in> set held then None
          else if r_status r \<noteq> ''RESERVED'' then Some (d, Over (Inr None))
          else Some (d, Busy t (Settle c rid) (ReservationRead r)))"
| "settle_statement ll held d t c rid (ReservationRead r) =
     (if ReservationRow rid \<in> set held then None
      else Some (d, Busy t (Settle c rid) (ReservationMarked r)))"
| "settle_statement ll held d t c rid (ReservationMarked r) =
     (if BudgetRow (r_budget r) \<in> set held then None
      else
        case move_budget (r_budget r) (r_amount r) (if c then r_amount r else 0) (d\<lparr>clock := t\<rparr>) of
          Inl e \<Rightarrow> Some (d, Over (Inl e))
        | Inr (_, d1) \<Rightarrow>
            Some (d, Busy t (Settle c rid) (BudgetMoved r (row_by b_id (r_budget r) (budgets d1)))))"
| "settle_statement ll held d t c rid (BudgetMoved r bo) =
     Some (d\<lparr>reservations := upd_by r_id rid (settled_row c t) (reservations d),
             budgets := put_budget bo (budgets d)\<rparr>, Over (Inr None))"
| "settle_statement ll held d t c rid _ = None"

fun statement :: "bool \<Rightarrow> row_lock list \<Rightarrow> db \<Rightarrow> session \<Rightarrow> (db \<times> session) option" where
  "statement ll held d (Over x) = None"
| "statement ll held d (Busy t (Reserve bid req amt) st) = reserve_statement ll held d t bid req amt st"
| "statement ll held d (Busy t (Settle c rid) st) = settle_statement ll held d t c rid st"

text \<open>The same call as one transaction.\<close>

fun job_tx :: "budget_job \<Rightarrow> nat option tx" where
  "job_tx (Reserve bid req amt) = budget_reserve bid req amt"
| "job_tx (Settle c rid) =
     bindT (if c then budget_consume rid else budget_release rid) (\<lambda>_. returnT None)"

section \<open>The database server\<close>

text \<open>The other transactions of the program write neither budgets nor reservations, keep the stored
  requests and their currencies, and may draw identifiers and let time pass.\<close>

definition requests_kept :: "db \<Rightarrow> db \<Rightarrow> bool" where
  "requests_kept d d' \<longleftrightarrow> list_all (\<lambda>q. map_option q_currency (row_by q_id (q_id q) (requests d')) =
     map_option q_currency (row_by q_id (q_id q) (requests d))) (requests d)"

definition leaves_budgets :: "db \<Rightarrow> db \<Rightarrow> bool" where
  "leaves_budgets d d' \<longleftrightarrow> budgets d' = budgets d \<and> reservations d' = reservations d \<and>
     next_id d \<le> next_id d' \<and> requests_kept d d'"

text \<open>\<open>reserve\<close> is called for a stored request; a connection that is lost takes its transaction
  with it.\<close>

fun may_ask :: "db \<Rightarrow> budget_job \<Rightarrow> bool" where
  "may_ask d (Reserve bid req amt) = known q_id req (requests d)"
| "may_ask d (Settle c rid) = True"

inductive server_step :: "bool \<Rightarrow> db \<times> session list \<Rightarrow> db \<times> session list \<Rightarrow> bool" for ll where
  begins: "k < length ss \<Longrightarrow> ss ! k = Over x \<Longrightarrow> may_ask d J \<Longrightarrow>
     server_step ll (d, ss) (d, ss[k := Busy (clock d) J Asked])"
| runs: "executes (statement ll) (session_locks ll) (d, ss) (d', ss') \<Longrightarrow> server_step ll (d, ss) (d', ss')"
| breaks: "k < length ss \<Longrightarrow> server_step ll (d, ss) (d, ss[k := Over (Inl (OSError ''connection lost''))])"
| moves: "leaves_budgets d d' \<Longrightarrow> server_step ll (d, ss) (d', ss)"

section \<open>What a session knows\<close>

text \<open>The row it has locked is still as it read it, its checks still hold, and the row it inserts
  is still new.\<close>

definition admits :: "db \<Rightarrow> budget_row \<Rightarrow> nat \<Rightarrow> decimal \<Rightarrow> bool" where
  "admits d b req amt \<longleftrightarrow> request_currency req d = Inr (upper (strip (b_currency b)), d) \<and>
     \<not> dless (budget_available b) amt"

definition inserting :: "db \<Rightarrow> budget_row \<Rightarrow> nat \<Rightarrow> decimal \<Rightarrow> reservation_row \<Rightarrow> bool" where
  "inserting d b req amt r \<longleftrightarrow>
     r_budget r = b_id b \<and> r_request r = req \<and> r_amount r = ten_thousandths amt \<and>
     r_currency r = b_currency b \<and> r_status r = ''RESERVED'' \<and> r_released r = None \<and> r_consumed r = None \<and>
     positive_num4 amt = Inr (ten_thousandths amt) \<and> r_id r < next_id d \<and>
     r_id r \<notin> keys_of r_id (reservations d) \<and>
     (b_id b, req) \<notin> keys_of (\<lambda>r. (r_budget r, r_request r)) (reservations d)"

fun reserve_knows :: "db \<Rightarrow> int \<Rightarrow> nat \<Rightarrow> nat \<Rightarrow> decimal \<Rightarrow> stage \<Rightarrow> bool" where
  "reserve_knows d t bid req amt Asked = True"
| "reserve_knows d t bid req amt (BudgetRead b) = (row_by b_id bid (budgets d) = Some b)"
| "reserve_knows d t bid req amt (CurrencyRead b) =
     (row_by b_id bid (budgets d) = Some b \<and> admits d b req amt)"
| "reserve_knows d t bid req amt (ReservationInserted r) =
     (\<exists>b. row_by b_id bid (budgets d) = Some b \<and> admits d b req amt \<and> inserting d b req amt r)"
| "reserve_knows d t bid req amt (BudgetCharged r bo) =
     (\<exists>b n. row_by b_id bid (budgets d) = Some b \<and> admits d b req amt \<and> inserting d b req amt r \<and>
       num4_plus (b_reserved b) amt = Inr n \<and> bo = Some (b\<lparr>b_reserved := n, b_updated := t\<rparr>))"
| "reserve_knows d t bid req amt _ = False"

fun settle_knows :: "db \<Rightarrow> int \<Rightarrow> bool \<Rightarrow> nat \<Rightarrow> stage \<Rightarrow> bool" where
  "settle_knows d t c rid Asked = True"
| "settle_knows d t c rid (ReservationRead r) =
     (row_by r_id rid (reservations d) = Some r \<and> r_status r = ''RESERVED'')"
| "settle_knows d t c rid (ReservationMarked r) =
     (row_by r_id rid (reservations d) = Some r \<and> r_status r = ''RESERVED'')"
| "settle_knows d t c rid (BudgetMoved r bo) =
     (row_by r_id rid (reservations d) = Some r \<and> r_status r = ''RESERVED'' \<and>
      (\<exists>b. row_by b_id (r_budget r) (budgets d) = Some b \<and>
         bo = Some (b\<lparr>b_reserved := b_reserved b - r_amount r,
           b_consumed := b_consumed b + (if c then r_amount r else 0), b_updated := t\<rparr>)))"
| "settle_knows d t c rid _ = False"

fun session_knows :: "db \<Rightarrow> session \<Rightarrow> bool" where
  "session_knows d (Over x) = True"
| "session_knows d (Busy t (Reserve bid req amt) st) =
     (known q_id req (requests d) \<and> reserve_knows d t bid req amt st)"
| "session_knows d (Busy t (Settle c rid) st) = settle_knows d t c rid st"

text \<open>What a step leaves as it is for the holder of locks.\<close>

definition leaves_locked :: "row_lock set \<Rightarrow> db \<Rightarrow> db \<Rightarrow> bool" where
  "leaves_locked L d d' \<longleftrightarrow>
     next_id d \<le> next_id d' \<and> requests_kept d d' \<and>
     (\<forall>bid. BudgetRow bid \<in> L \<longrightarrow> row_by b_id bid (budgets d') = row_by b_id bid (budgets d)) \<and>
     (\<forall>rid. ReservationRow rid \<in> L \<longrightarrow> row_by r_id rid (reservations d') = row_by r_id rid (reservations d)) \<and>
     (\<forall>i. IdEntry i \<in> L \<longrightarrow> i \<notin> keys_of r_id (reservations d) \<longrightarrow> i \<notin> keys_of r_id (reservations d')) \<and>
     (\<forall>k q. KeyEntry k q \<in> L \<longrightarrow> (k, q) \<notin> keys_of (\<lambda>r. (r_budget r, r_request r)) (reservations d) \<longrightarrow>
       (k, q) \<notin> keys_of (\<lambda>r. (r_budget r, r_request r)) (reservations d'))"

fun lock_granted :: "db \<Rightarrow> row_lock \<Rightarrow> bool" where
  "lock_granted d (IdEntry i) = (i < next_id d)"
| "lock_granted d (ReservationRow rid) = known r_id rid (reservations d)"
| "lock_granted d _ = True"

lemma requests_keptD:
  assumes "requests_kept d d'" "known q_id req (requests d)"
  shows "known q_id req (requests d')" "request_currency req d = Inr (s, d) \<Longrightarrow> request_currency req d' = Inr (s, d')"
proof -
  obtain q where q: "row_by q_id req (requests d) = Some q" "q \<in> set (requests d)" "q_id q = req"
    using assms(2) by (metis not_None_eq row_by_None row_by_Some_in row_by_Some_key)
  then have "map_option q_currency (row_by q_id req (requests d')) = Some (q_currency q)"
    using assms(1) by (force simp: requests_kept_def list_all_iff)
  then obtain q' where q': "row_by q_id req (requests d') = Some q'" "q_currency q' = q_currency q"
    by auto
  then show "known q_id req (requests d')" by (metis row_by_Some_keys)
  show "request_currency req d = Inr (s, d) \<Longrightarrow> request_currency req d' = Inr (s, d')"
    using q q' by (simp add: request_currency_def)
qed

lemma requests_kept_refl [simp]: "requests d' = requests d \<Longrightarrow> requests_kept d d'"
  by (simp add: requests_kept_def list_all_iff)

lemma leaves_locked_same:
  "budgets d' = budgets d \<Longrightarrow> reservations d' = reservations d \<Longrightarrow> next_id d \<le> next_id d' \<Longrightarrow>
   requests_kept d d' \<Longrightarrow> leaves_locked L d d'"
  by (simp add: leaves_locked_def)

text \<open>What a session knows is stable while its locks are respected.\<close>

lemma admits_stable:
  assumes "admits d b req amt" "requests_kept d d'" "known q_id req (requests d)"
  shows "admits d' b req amt"
  using assms requests_keptD [OF assms(2,3)] by (simp add: admits_def)

lemma inserting_stable:
  assumes "inserting d b req amt r" "leaves_locked L d d'"
    and "IdEntry (r_id r) \<in> L" "KeyEntry (r_budget r) (r_request r) \<in> L"
  shows "inserting d' b req amt r"
  using assms by (auto simp: inserting_def leaves_locked_def)

lemma session_stable:
  assumes knows: "session_knows d s" and leaves: "leaves_locked L d d'"
    and locks: "set (session_locks True s) \<subseteq> L"
  shows "session_knows d' s"
proof (cases s)
  case (Busy t J st)
  have req: "requests_kept d d'" using leaves by (simp add: leaves_locked_def)
  show ?thesis
  proof (cases J)
    case (Reserve bid req amt)
    have b: "row_by b_id bid (budgets d') = row_by b_id bid (budgets d)" if "BudgetRow bid \<in> L"
      using leaves that by (simp add: leaves_locked_def)
    note keep = requests_keptD(1) [OF req] admits_stable [OF _ req] inserting_stable [OF _ leaves]
    show ?thesis
      using knows locks b by (cases st) (auto simp: Busy Reserve intro: keep)
  next
    case (Settle c rid)
    have "row_by r_id rid (reservations d') = row_by r_id rid (reservations d)" if "ReservationRow rid \<in> L"
      using leaves that by (simp add: leaves_locked_def)
    moreover have "row_by b_id k (budgets d') = row_by b_id k (budgets d)" if "BudgetRow k \<in> L" for k
      using leaves that by (simp add: leaves_locked_def)
    ultimately show ?thesis
      using knows locks by (cases st) (auto simp: Busy Settle)
  qed
qed simp

section \<open>A statement keeps what the others know\<close>

lemma upd_by_put:
  assumes "distinct (map key rows)" "row_by key k rows = Some b"
  shows "upd_by key k (\<lambda>_. f b) rows = upd_by key k f rows"
proof -
  have "f b = f r" if "r \<in> set rows" "key r = k" for r
    using row_by_distinct [OF assms(1) that(1)] that(2) assms(2) by simp
  then show ?thesis unfolding upd_by_def by (auto intro: map_cong)
qed

lemma insert_reservation_Inr:
  assumes "insert_reservation b req amt d = Inr (i, d1)"
  shows "i = next_id d \<and> positive_num4 amt = Inr (ten_thousandths amt) \<and>
    (b_id b, req) \<notin> keys_of (\<lambda>r. (r_budget r, r_request r)) (reservations d) \<and> known q_id req (requests d) \<and>
    d1 = d\<lparr>next_id := Suc (next_id d), reservations := reservations d @
      [\<lparr>r_id = next_id d, r_budget = b_id b, r_request = req, r_amount = ten_thousandths amt,
        r_currency = b_currency b, r_status = ''RESERVED'', r_released = None, r_consumed = None\<rparr>]\<rparr>"
  using assms by (auto simp: insert_reservation_def references_def err_simps table_simps split: if_splits)

text \<open>The reservation that is committed is the one the repository would have made now.\<close>

definition charged_db :: "db \<Rightarrow> int \<Rightarrow> nat \<Rightarrow> reservation_row \<Rightarrow> num4 \<Rightarrow> db" where
  "charged_db d t bid r n = d\<lparr>reservations := reservations d @ [r],
     budgets := upd_by b_id bid (\<lambda>b. b\<lparr>b_reserved := n, b_updated := t\<rparr>) (budgets d)\<rparr>"

lemma put_charged:
  assumes "budgets_ok d" "row_by b_id bid (budgets d) = Some b"
  shows "d\<lparr>reservations := reservations d @ [r],
      budgets := put_budget (Some (b\<lparr>b_reserved := n, b_updated := t\<rparr>)) (budgets d)\<rparr> = charged_db d t bid r n"
  using upd_by_put [of b_id "budgets d" bid b "\<lambda>b. b\<lparr>b_reserved := n, b_updated := t\<rparr>"] assms
    row_by_Some_key [OF assms(2)]
  by (simp add: put_budget_def charged_db_def budgets_ok_def)

lemma charged_ok:
  assumes ok: "budgets_ok d" and b: "row_by b_id bid (budgets d) = Some b"
    and a: "admits d b req amt" and i: "inserting d b req amt r" and n: "num4_plus (b_reserved b) amt = Inr n"
  shows "budgets_ok (charged_db d t bid r n)"
proof -
  let ?n = "ten_thousandths amt"
  have pos: "0 < ?n" using i by (simp add: inserting_def err_simps)
  have n': "n = b_reserved b + ?n" by (rule num4_plus_round [OF budgets_okD(3) [OF ok b] pos n])
  have le: "?n \<le> b_limit b - b_consumed b - b_reserved b"
    using a ten_thousandths_le [OF _ pos] by (simp add: admits_def budget_available_eq [OF ok b])
  have row: "r = \<lparr>r_id = r_id r, r_budget = b_id b, r_request = req, r_amount = ?n,
      r_currency = b_currency b, r_status = ''RESERVED'', r_released = None, r_consumed = None\<rparr>"
    using i by (cases r) (simp add: inserting_def)
  have new: "r_id r < next_id d" "next_id d \<le> next_id d" "r_id r \<notin> keys_of r_id (reservations d)"
    using i by (simp_all add: inserting_def)
  have "charged_db d t bid r n = d\<lparr>next_id := next_id d, reservations := reservations d @
      [\<lparr>r_id = r_id r, r_budget = b_id b, r_request = req, r_amount = ?n,
        r_currency = b_currency b, r_status = ''RESERVED'', r_released = None, r_consumed = None\<rparr>],
      budgets := upd_by b_id bid (\<lambda>c. c\<lparr>b_reserved := b_reserved b + ?n, b_updated := t\<rparr>) (budgets d)\<rparr>"
    unfolding row [symmetric] by (cases d) (simp add: charged_db_def n')
  then show ?thesis by (rule reserved_ok [OF ok b pos le new])
qed

lemma charged_leaves:
  assumes "inserting d b req amt r" "row_by b_id bid (budgets d) = Some b"
    and "{BudgetRow bid, IdEntry (r_id r), KeyEntry (r_budget r) (r_request r)} \<inter> L = {}"
    and granted: "\<And>l. l \<in> L \<Longrightarrow> lock_granted d l"
  shows "leaves_locked L d (charged_db d t bid r n)"
proof -
  have "row_by r_id rid (reservations d @ [r]) = row_by r_id rid (reservations d)" if "ReservationRow rid \<in> L" for rid
    using granted [OF that] assms(1)
    by (cases "row_by r_id rid (reservations d)") (auto simp: row_by_append inserting_def)
  moreover have "row_by b_id k (budgets (charged_db d t bid r n)) = row_by b_id k (budgets d)" if "BudgetRow k \<in> L" for k
    using that assms(3) by (auto simp: charged_db_def table_simps)
  ultimately show ?thesis
    using assms(1-3) unfolding leaves_locked_def
    by (auto simp: charged_db_def inserting_def)
qed

lemma reserve_guarantee:
  assumes run: "reserve_statement True held d t bid req amt st = Some (d', s')"
    and ok: "budgets_ok d" and req: "known q_id req (requests d)"
    and knows: "reserve_knows d t bid req amt st"
    and free: "set (stage_locks True (Reserve bid req amt) st) \<inter> set held = {}"
    and granted: "\<And>l. l \<in> set held \<Longrightarrow> lock_granted d l"
  shows "budgets_ok d' \<and> session_knows d' s' \<and> leaves_locked (set held) d d' \<and>
    set (session_locks True s') \<inter> set held = {}"
proof (cases st)
  case Asked
  with run ok req show ?thesis by (auto simp: leaves_locked_same split: option.splits if_splits)
next
  case (BudgetRead b)
  with run ok req knows free show ?thesis
    by (auto simp: leaves_locked_same admits_def request_currency_def split: if_splits)
next
  case (CurrencyRead b)
  show ?thesis
  proof (cases "insert_reservation b req amt (d\<lparr>clock := t\<rparr>)")
    case (Inl e)
    with CurrencyRead run ok show ?thesis by (auto simp: leaves_locked_same split: if_splits)
  next
    case (Inr x)
    obtain i d1 where x: "x = (i, d1)" by (cases x)
    note ins = insert_reservation_Inr [OF Inr [unfolded x]]
    have new: "next_id d \<notin> keys_of r_id (reservations d)" using ok by (auto simp: budgets_ok_def)
    have id_free: "IdEntry (next_id d) \<notin> set held" using granted [of "IdEntry (next_id d)"] by auto
    have drawn: "budgets_ok (d\<lparr>next_id := Suc (next_id d)\<rparr>)" using ok by (auto simp: budgets_ok_def less_Suc_eq)
    show ?thesis
      using CurrencyRead run knows free req Inr x ins drawn new id_free
      by (auto simp: leaves_locked_same inserting_def admits_def request_currency_def split: if_splits)
  qed
next
  case (ReservationInserted r)
  with run ok req knows free show ?thesis
    by (auto simp: leaves_locked_same split: option.splits if_splits sum.splits)
next
  case (BudgetCharged r bo)
  then obtain b n where b: "row_by b_id bid (budgets d) = Some b" and a: "admits d b req amt"
    and i: "inserting d b req amt r" and n: "num4_plus (b_reserved b) amt = Inr n"
    and bo: "bo = Some (b\<lparr>b_reserved := n, b_updated := t\<rparr>)"
    using knows by auto
  have "d' = charged_db d t bid r n" "s' = Over (Inr (Some (r_id r)))"
    using run BudgetCharged put_charged [OF ok b] bo by auto
  moreover have "leaves_locked (set held) d (charged_db d t bid r n)"
    by (rule charged_leaves [OF i b _ granted]) (use BudgetCharged free in auto)
  ultimately show ?thesis using charged_ok [OF ok b a i n] by simp
qed (use knows in simp_all)

text \<open>Settling: the rows written are those of \<open>settled_db\<close> at the start time of the
  transaction.\<close>

lemma budgets_ok_budget:
  assumes "budgets_ok d" "row_by r_id rid (reservations d) = Some r"
  obtains b where "row_by b_id (r_budget r) (budgets d) = Some b"
  using assms row_by_Some_in [OF assms(2)]
  by (cases "row_by b_id (r_budget r) (budgets d)") (auto simp: budgets_ok_def table_simps)

lemma settled_row_step:
  assumes ok: "budgets_ok d" and r: "row_by r_id rid (reservations d) = Some r" "r_status r = ''RESERVED''"
  shows "move_budget (r_budget r) (r_amount r) (if c then r_amount r else 0)
      (d\<lparr>reservations := upd_by r_id rid (settled_row c t) (reservations d)\<rparr>) =
        Inr ((), settled_db (settled_row c t) r (if c then r_amount r else 0) d) \<and>
    budgets_ok (settled_db (settled_row c t) r (if c then r_amount r else 0) d)"
  by (rule settle_step [where st = "if c then ''CONSUMED'' else ''RELEASED''", OF ok r])
    (simp_all add: settled_row_def)

definition moved_row :: "bool \<Rightarrow> int \<Rightarrow> reservation_row \<Rightarrow> budget_row \<Rightarrow> budget_row" where
  "moved_row c t r b = b\<lparr>b_reserved := b_reserved b - r_amount r,
     b_consumed := b_consumed b + (if c then r_amount r else 0), b_updated := t\<rparr>"

lemma moved_row_id [simp]: "b_id (moved_row c t r b) = b_id b"
  by (simp add: moved_row_def)

lemma move_budget_runs:
  assumes "budgets_ok d" "row_by r_id rid (reservations d) = Some r" "r_status r = ''RESERVED''"
    and b: "row_by b_id (r_budget r) (budgets d) = Some b"
  shows "\<exists>d1. move_budget (r_budget r) (r_amount r) (if c then r_amount r else 0) (d\<lparr>clock := t\<rparr>) = Inr ((), d1) \<and>
    row_by b_id (r_budget r) (budgets d1) = Some (moved_row c t r b)"
  using settled_row_step [of "d\<lparr>clock := t\<rparr>" rid r c t] assms
  by (simp add: move_budget_def moved_row_def err_simps table_simps split: if_splits)

text \<open>The settlement that is committed.\<close>

definition settled_at :: "db \<Rightarrow> int \<Rightarrow> bool \<Rightarrow> nat \<Rightarrow> reservation_row \<Rightarrow> db" where
  "settled_at d t c rid r = d\<lparr>reservations := upd_by r_id rid (settled_row c t) (reservations d),
     budgets := upd_by b_id (r_budget r) (moved_row c t r) (budgets d)\<rparr>"

lemma put_settled:
  assumes "budgets_ok d" "row_by b_id (r_budget r) (budgets d) = Some b"
  shows "d\<lparr>reservations := upd_by r_id rid (settled_row c t) (reservations d),
      budgets := put_budget (Some (moved_row c t r b)) (budgets d)\<rparr> = settled_at d t c rid r"
  using upd_by_put [of b_id "budgets d" "r_budget r" b "moved_row c t r"] assms row_by_Some_key [OF assms(2)]
  by (simp add: put_budget_def settled_at_def budgets_ok_def)

lemma settled_at_db:
  assumes "row_by r_id rid (reservations d) = Some r"
  shows "settled_db (settled_row c t) r (if c then r_amount r else 0) (d\<lparr>clock := t\<rparr>) =
    (settled_at d t c rid r)\<lparr>clock := t\<rparr>"
proof -
  have "r_id r = rid" by (rule row_by_Some_key [OF assms])
  then show ?thesis by (simp add: settled_db_def settled_at_def moved_row_def [abs_def])
qed

lemma settled_at_ok:
  assumes "budgets_ok d" "row_by r_id rid (reservations d) = Some r" "r_status r = ''RESERVED''"
  shows "budgets_ok (settled_at d t c rid r)"
  using settled_row_step [of "d\<lparr>clock := t\<rparr>" rid r c t] assms settled_at_db [OF assms(2), of c t] by simp

lemma settled_at_leaves:
  assumes "{ReservationRow rid, BudgetRow (r_budget r)} \<inter> L = {}"
  shows "leaves_locked L d (settled_at d t c rid r)"
proof -
  have f: "r_id (settled_row c t x) = r_id x" "r_budget (settled_row c t x) = r_budget x"
    "r_request (settled_row c t x) = r_request x" for x
    by (simp_all add: settled_row_def)
  show ?thesis
    using assms by (auto simp: leaves_locked_def settled_at_def table_simps f)
qed

lemma settle_guarantee:
  assumes run: "settle_statement True held d t c rid st = Some (d', s')"
    and ok: "budgets_ok d" and knows: "settle_knows d t c rid st"
    and free: "set (stage_locks True (Settle c rid) st) \<inter> set held = {}"
  shows "budgets_ok d' \<and> session_knows d' s' \<and> leaves_locked (set held) d d' \<and>
    set (session_locks True s') \<inter> set held = {}"
proof (cases st)
  case Asked
  with run ok show ?thesis by (auto simp: leaves_locked_same split: option.splits if_splits)
next
  case (ReservationRead r)
  with run ok knows free show ?thesis by (auto simp: leaves_locked_same split: if_splits)
next
  case (ReservationMarked r)
  then have r: "row_by r_id rid (reservations d) = Some r" "r_status r = ''RESERVED''" using knows by auto
  from ok r(1) obtain b where b: "row_by b_id (r_budget r) (budgets d) = Some b" by (rule budgets_ok_budget)
  from move_budget_runs [OF ok r b, of c t] ReservationMarked run ok knows free b show ?thesis
    by (auto simp: leaves_locked_same moved_row_def split: if_splits)
next
  case (BudgetMoved r bo)
  then obtain b where r: "row_by r_id rid (reservations d) = Some r" "r_status r = ''RESERVED''"
    and b: "row_by b_id (r_budget r) (budgets d) = Some b" and bo: "bo = Some (moved_row c t r b)"
    using knows by (auto simp: moved_row_def)
  have "d' = settled_at d t c rid r" "s' = Over (Inr None)"
    using run BudgetMoved put_settled [OF ok b] bo by auto
  with settled_at_ok [OF ok r] settled_at_leaves [of rid r "set held"] free BudgetMoved show ?thesis by simp
qed (use knows in simp_all)

section \<open>The sessions together\<close>

fun lock_level :: "row_lock \<Rightarrow> nat" where
  "lock_level (ReservationRow rid) = 1"
| "lock_level (BudgetRow bid) = 2"
| "lock_level _ = 3"

fun work_left :: "session \<Rightarrow> nat" where
  "work_left (Over x) = 0"
| "work_left (Busy t J st) =
     (case st of Asked \<Rightarrow> 5 | BudgetRead b \<Rightarrow> 4 | CurrencyRead b \<Rightarrow> 3 | ReservationInserted r \<Rightarrow> 2 | BudgetCharged r bo \<Rightarrow> 1
      | ReservationRead r \<Rightarrow> 3 | ReservationMarked r \<Rightarrow> 2 | BudgetMoved r bo \<Rightarrow> 1)"

lemma locks_are_granted: "session_knows d s \<Longrightarrow> l \<in> set (session_locks True s) \<Longrightarrow> lock_granted d l"
proof (cases "(d, s)" rule: session_knows.cases)
  case (2 d' t bid req amt st)
  then show "session_knows d s \<Longrightarrow> l \<in> set (session_locks True s) \<Longrightarrow> lock_granted d l"
    by (cases st) (auto simp: inserting_def)
next
  case (3 d' t c rid st)
  then show "session_knows d s \<Longrightarrow> l \<in> set (session_locks True s) \<Longrightarrow> lock_granted d l"
    by (cases st) (auto dest: row_by_Some_keys)
qed simp

lemma statement_guarantee:
  assumes "statement True held d s = Some (d', s')" "budgets_ok d" "session_knows d s"
    and "set (session_locks True s) \<inter> set held = {}" "\<And>l. l \<in> set held \<Longrightarrow> lock_granted d l"
  shows "budgets_ok d' \<and> session_knows d' s' \<and> leaves_locked (set held) d d' \<and>
    set (session_locks True s') \<inter> set held = {}"
proof (cases "(d, s)" rule: session_knows.cases)
  case (2 e t bid req amt st)
  with assms show ?thesis by (intro reserve_guarantee [of held d t bid req amt st]) auto
next
  case (3 e t c rid st)
  with assms show ?thesis by (intro settle_guarantee [of held d t c rid st]) auto
qed (use assms in simp)

text \<open>A waiting statement waits for a lock above those of its session: reservation, budget, index.\<close>

lemma statement_waits:
  assumes "session_knows d s" "0 < work_left s" "set (session_locks True s) \<inter> set held = {}"
    and "statement True held d s = None"
  shows "\<exists>l \<in> set held. 0 < lock_level l \<and> (\<forall>l' \<in> set (session_locks True s). lock_level l' < lock_level l)"
proof (cases "(d, s)" rule: session_knows.cases)
  case (2 e t bid req amt st)
  with assms show ?thesis
    by (cases st) (force split: option.splits if_splits sum.splits)+
next
  case (3 e t c rid st)
  with assms show ?thesis
    by (cases st) (force split: option.splits if_splits sum.splits)+
qed (use assms in simp)

lemma statement_works: "statement ll held d s = Some (d', s') \<Longrightarrow> work_left s' < work_left s"
proof (cases "(d, s)" rule: session_knows.cases)
  case (2 e t bid req amt st)
  then show "statement ll held d s = Some (d', s') \<Longrightarrow> work_left s' < work_left s"
    by (cases st) (auto split: option.splits if_splits sum.splits)
next
  case (3 e t c rid st)
  then show "statement ll held d s = Some (d', s') \<Longrightarrow> work_left s' < work_left s"
    by (cases st) (auto split: option.splits if_splits sum.splits)
qed simp

lemma work_left_idle: "work_left s = 0 \<Longrightarrow> session_locks True s = []"
  by (cases s) (auto split: stage.splits)

interpretation budget_rows: lock_order "statement True" "session_locks True" budgets_ok session_knows
    lock_granted leaves_locked lock_level work_left
  by unfold_locales
    (rule session_stable locks_are_granted statement_guarantee statement_waits statement_works work_left_idle; assumption?)+

section \<open>The last statement is the whole operation\<close>

text \<open>A transaction that ends now has done what the repository's operation would do now, with the
  transaction's start time and the identifier it drew.\<close>

definition serial_end :: "int \<Rightarrow> budget_job \<Rightarrow> db \<Rightarrow> exn + nat option \<Rightarrow> db \<Rightarrow> bool" where
  "serial_end t J d x d' \<longleftrightarrow> (\<exists>i d1. transact (job_tx J) (d\<lparr>clock := t, next_id := i\<rparr>) = (x, d1) \<and>
     d' = d1\<lparr>clock := clock d, next_id := next_id d'\<rparr>)"

lemma serial_endI:
  assumes "transact (job_tx J) (d\<lparr>clock := t, next_id := i\<rparr>) = (x, d1)"
    and "d' = d1\<lparr>clock := clock d, next_id := next_id d'\<rparr>"
  shows "serial_end t J d x d'"
  using assms unfolding serial_end_def by blast

lemma same_but_time [simp]: "(d :: db)\<lparr>clock := clock d, next_id := next_id d\<rparr> = d" "(d :: db)\<lparr>next_id := next_id d\<rparr> = d"
  by (cases d; simp)+

lemma budget_reserve_admits:
  assumes "row_by b_id bid (budgets d) = Some b" "admits d b req amt"
  shows "budget_reserve bid req amt (d\<lparr>clock := t, next_id := i\<rparr>) =
    bindE (insert_reservation b req amt (d\<lparr>clock := t, next_id := i\<rparr>)) (\<lambda>(res, d1).
    bindE (num4_plus (b_reserved b) amt) (\<lambda>n.
    Inr (Some res, d1\<lparr>budgets := upd_by b_id bid (\<lambda>b. b\<lparr>b_reserved := n, b_updated := clock d1\<rparr>) (budgets d1)\<rparr>)))"
  using assms by (simp add: budget_reserve_def admits_def request_currency_def bindE_def
      split: sum.split prod.split)

lemma insert_reservation_inserting:
  assumes "inserting d b req amt r" "known q_id req (requests d)"
  shows "insert_reservation b req amt (d\<lparr>clock := t, next_id := r_id r\<rparr>) =
    Inr (r_id r, d\<lparr>clock := t, next_id := Suc (r_id r), reservations := reservations d @ [r]\<rparr>)"
proof -
  have "r = \<lparr>r_id = r_id r, r_budget = b_id b, r_request = req, r_amount = ten_thousandths amt,
      r_currency = b_currency b, r_status = ''RESERVED'', r_released = None, r_consumed = None\<rparr>"
    using assms(1) by (cases r) (simp add: inserting_def)
  then have "[\<lparr>r_id = r_id r, r_budget = b_id b, r_request = req, r_amount = ten_thousandths amt,
      r_currency = b_currency b, r_status = ''RESERVED'', r_released = None, r_consumed = None\<rparr>] = [r]" by simp
  then show ?thesis
    using assms by (simp add: insert_reservation_def references_def inserting_def table_simps)
qed

lemma reserve_serial:
  assumes run: "reserve_statement True held d t bid req amt st = Some (d', Over x)"
    and ok: "budgets_ok d" and req: "known q_id req (requests d)"
    and knows: "reserve_knows d t bid req amt st"
  shows "serial_end t (Reserve bid req amt) d x d'"
proof (cases st)
  case Asked
  with run show ?thesis
    by (intro serial_endI [where i = "next_id d"])
      (auto simp: transact_def budget_reserve_def split: option.splits if_splits)
next
  case (BudgetRead b)
  with run knows show ?thesis
    by (intro serial_endI [where i = "next_id d"])
      (auto simp: transact_def budget_reserve_def request_currency_def split: if_splits)
next
  case (CurrencyRead b)
  then obtain e where e: "insert_reservation b req amt (d\<lparr>clock := t\<rparr>) = Inl e" "x = Inl e" "d' = d"
    using run by (auto split: if_splits sum.splits prod.splits)
  have "d\<lparr>clock := t, next_id := next_id d\<rparr> = d\<lparr>clock := t\<rparr>" by (cases d) simp
  with e budget_reserve_admits [of bid d b req amt "next_id d" t] CurrencyRead knows show ?thesis
    by (intro serial_endI [where i = "next_id d"]) (auto simp: transact_def)
next
  case (ReservationInserted r)
  then obtain b where b: "row_by b_id bid (budgets d) = Some b" "admits d b req amt" "inserting d b req amt r"
    using knows by auto
  note exec = budget_reserve_admits [OF b(1,2), of "r_id r" t, unfolded insert_reservation_inserting [OF b(3) req]]
  show ?thesis
    using ReservationInserted run b(1)
    by (intro serial_endI [where i = "r_id r"]) (auto simp: transact_def exec split: if_splits sum.splits)
next
  case (BudgetCharged r bo)
  then obtain b n where b: "row_by b_id bid (budgets d) = Some b" "admits d b req amt" "inserting d b req amt r"
    and n: "num4_plus (b_reserved b) amt = Inr n" and bo: "bo = Some (b\<lparr>b_reserved := n, b_updated := t\<rparr>)"
    using knows by auto
  note exec = budget_reserve_admits [OF b(1,2), of "r_id r" t, unfolded insert_reservation_inserting [OF b(3) req]]
  have "d' = charged_db d t bid r n" "x = Inr (Some (r_id r))"
    using run BudgetCharged put_charged [OF ok b(1)] bo by auto
  then show ?thesis
    by (intro serial_endI [where i = "r_id r"]) (auto simp: transact_def exec n charged_db_def)
qed (use knows in simp_all)

lemma settle_serial:
  assumes run: "settle_statement True held d t c rid st = Some (d', Over x)"
    and ok: "budgets_ok d" and knows: "settle_knows d t c rid st"
  shows "serial_end t (Settle c rid) d x d'"
proof (cases st)
  case Asked
  with run show ?thesis
    by (intro serial_endI [where i = "next_id d"])
      (auto simp: transact_def budget_consume_def budget_release_def split: option.splits if_splits)
next
  case (ReservationRead r)
  with run show ?thesis by (auto split: if_splits)
next
  case (ReservationMarked r)
  then have r: "row_by r_id rid (reservations d) = Some r" "r_status r = ''RESERVED''" using knows by auto
  from ok r(1) obtain b where b: "row_by b_id (r_budget r) (budgets d) = Some b" by (rule budgets_ok_budget)
  from move_budget_runs [OF ok r b, of c t] ReservationMarked run show ?thesis by (auto split: if_splits)
next
  case (BudgetMoved r bo)
  then obtain b where r: "row_by r_id rid (reservations d) = Some r" "r_status r = ''RESERVED''"
    and b: "row_by b_id (r_budget r) (budgets d) = Some b" and bo: "bo = Some (moved_row c t r b)"
    using knows by (auto simp: moved_row_def)
  have "d' = settled_at d t c rid r" and x: "x = Inr None"
    using run BudgetMoved put_settled [OF ok b] bo by auto
  moreover have "transact (job_tx (Settle c rid)) (d\<lparr>clock := t, next_id := next_id d\<rparr>) =
      (Inr None, (settled_at d t c rid r)\<lparr>clock := t\<rparr>)"
  proof -
    have e: "d\<lparr>clock := t, next_id := next_id d\<rparr> = d\<lparr>clock := t\<rparr>" by (cases d) simp
    show ?thesis
      using settled_at_db [OF r(1), of c t] budget_consume_run [of "d\<lparr>clock := t\<rparr>" rid r]
        budget_release_run [of "d\<lparr>clock := t\<rparr>" rid r] ok r
      by (cases c) (simp_all add: e transact_def settled_row_def [abs_def])
  qed
  ultimately show ?thesis
    by (intro serial_endI [where i = "next_id d"]) (auto simp: settled_at_def)
qed (use knows in simp_all)

lemma statement_serial:
  assumes "statement True held d (Busy t J st) = Some (d', Over x)" "budgets_ok d" "session_knows d (Busy t J st)"
  shows "serial_end t J d x d'"
  using assms by (cases J) (auto intro: reserve_serial settle_serial)

text \<open>Until then nothing is committed; only the generator has moved.\<close>

lemma statement_inner:
  assumes "statement ll held d (Busy t J st) = Some (d', Busy t' J' st')"
  shows "t' = t \<and> J' = J \<and> d' = d\<lparr>next_id := next_id d'\<rparr>"
proof (cases J)
  case (Reserve bid req amt)
  with assms show ?thesis by (cases st) (auto split: option.splits if_splits sum.splits)
next
  case (Settle c rid)
  with assms show ?thesis by (cases st) (auto split: option.splits if_splits sum.splits)
qed

section \<open>Every run of the server\<close>

lemma leaves_budgets_ok: "leaves_budgets d d' \<Longrightarrow> budgets_ok d \<Longrightarrow> budgets_ok d'"
  unfolding leaves_budgets_def budgets_ok_def by (auto dest: order_less_le_trans)

lemma server_step_composed:
  assumes "server_step True x y" "composed budgets_ok session_knows (session_locks True) (fst x) (snd x)"
  shows "composed budgets_ok session_knows (session_locks True) (fst y) (snd y)"
  using assms
proof (induction rule: server_step.induct)
  case (begins k ss x d J)
  have "session_knows d (Busy (clock d) J Asked)" using begins by (cases J) simp_all
  then show ?case using begins by (auto intro: budget_rows.renew)
next
  case (runs d ss d' ss')
  then show ?case by (auto intro: budget_rows.executes_composed)
next
  case (breaks k ss d)
  then show ?case by (auto intro: budget_rows.renew)
next
  case (moves d d' ss)
  then have "budgets_ok d'" by (auto intro: leaves_budgets_ok simp: composed_def)
  moreover have "leaves_locked L d d'" for L
    using moves(1) by (simp add: leaves_budgets_def leaves_locked_same)
  ultimately show ?case using moves by (auto intro: budget_rows.elsewhere)
qed

definition all_over :: "session list \<Rightarrow> bool" where
  "all_over ss \<longleftrightarrow> list_all (\<lambda>s. work_left s = 0) ss"

lemma server_runs_composed:
  assumes "(server_step True)\<^sup>*\<^sup>* (d0, ss0) (d, ss)" "budgets_ok d0" "all_over ss0"
  shows "composed budgets_ok session_knows (session_locks True) d ss"
proof -
  have "session_knows d0 s" if "work_left s = 0" for s
    using that by (cases s) (auto split: stage.splits)
  then have "composed budgets_ok session_knows (session_locks True) (fst (d0, ss0)) (snd (d0, ss0))"
    using assms(2,3) by (auto simp: composed_def all_over_def list_all_length in_others work_left_idle)
  with assms(1) have "composed budgets_ok session_knows (session_locks True) (fst (d, ss)) (snd (d, ss))"
    by (induction rule: rtranclp_induct) (blast intro: server_step_composed)+
  then show ?thesis by simp
qed

text \<open>C20: reservations, consumptions and releases of many connections may interleave statement by
  statement, with connections breaking off and other transactions committing in between. Whatever the
  order, the committed data keeps every budget within its limit and equal to its reservations; a
  statement that is not the last of its transaction commits nothing; the last one leaves exactly what
  the repository's operation, run as one transaction at that moment, leaves and answers; and no
  deadlock arises: from every such state the open transactions can all be run to their end.\<close>

theorem budget_rows_serial:
  assumes "budgets_ok d0" "all_over ss0" "(server_step True)\<^sup>*\<^sup>* (d0, ss0) (d, ss)"
  shows "budgets_ok d \<and>
    (\<forall>k < length ss. \<forall>t J st d' s'. ss ! k = Busy t J st \<longrightarrow>
       statement True (others (session_locks True) ss k) d (ss ! k) = Some (d', s') \<longrightarrow>
       (case s' of Busy t' J' st' \<Rightarrow> t' = t \<and> J' = J \<and> d' = d\<lparr>next_id := next_id d'\<rparr>
        | Over x \<Rightarrow> serial_end t J d x d')) \<and>
    (\<exists>d' ss'. (executes (statement True) (session_locks True))\<^sup>*\<^sup>* (d, ss) (d', ss') \<and> all_over ss')"
proof (intro conjI allI impI)
  have c: "composed budgets_ok session_knows (session_locks True) d ss"
    by (rule server_runs_composed [OF assms(3,1,2)])
  then show ok: "budgets_ok d" by (simp add: composed_def)
  show "\<exists>d' ss'. (executes (statement True) (session_locks True))\<^sup>*\<^sup>* (d, ss) (d', ss') \<and> all_over ss'"
    unfolding all_over_def by (rule budget_rows.all_sessions_end [OF c])
  fix k t J st d' s'
  assume k: "k < length ss" and s: "ss ! k = Busy t J st"
    and run: "statement True (others (session_locks True) ss k) d (ss ! k) = Some (d', s')"
  have "session_knows d (Busy t J st)" using composedD(2) [OF c k] by (simp add: s)
  with run ok show "case s' of Busy t' J' st' \<Rightarrow> t' = t \<and> J' = J \<and> d' = d\<lparr>next_id := next_id d'\<rparr>
        | Over x \<Rightarrow> serial_end t J d x d'"
    by (auto simp: s statement_inner intro: statement_serial split: session.split)
qed

section \<open>Schedules\<close>

text \<open>A schedule runs one statement of the named session at a time, where it does not wait.\<close>

fun schedule :: "bool \<Rightarrow> nat list \<Rightarrow> db \<times> session list \<Rightarrow> db \<times> session list" where
  "schedule ll [] x = x"
| "schedule ll (k # ks) (d, ss) = schedule ll ks
     (case statement ll (others (session_locks ll) ss k) d (ss ! k) of
        None \<Rightarrow> (d, ss) | Some (d', s') \<Rightarrow> (d', ss[k := s']))"

lemma schedule_reaches:
  assumes "list_all (\<lambda>k. k < length ss) ks"
  shows "(server_step ll)\<^sup>*\<^sup>* (d, ss) (schedule ll ks (d, ss))"
  using assms
proof (induction ks arbitrary: d ss)
  case (Cons k ks)
  show ?case
  proof (cases "statement ll (others (session_locks ll) ss k) d (ss ! k)")
    case None
    with Cons show ?thesis by simp
  next
    case (Some x)
    obtain d' s' where x: "x = (d', s')" by (cases x)
    have "server_step ll (d, ss) (d', ss[k := s'])"
      by (rule server_step.runs) (use Some x Cons.prems in \<open>auto simp: executes_def\<close>)
    with Cons.IH [of "ss[k := s']" d'] Cons.prems Some x show ?thesis
      by (auto intro: converse_rtranclp_into_rtranclp)
  qed
qed simp

text \<open>Two connections ask for the same budget: the second waits for the first.\<close>

definition rivals :: "session list" where
  "rivals = [Over (Inr None), Over (Inr None)]"

definition both_ask :: "session list" where
  "both_ask = [Busy 0 (Reserve 3 4 (of_num4 250000)) Asked, Busy 0 (Reserve 3 4 (of_num4 900000)) Asked]"

lemma both_ask_reached: "known q_id 4 (requests d) \<Longrightarrow> clock d = 0 \<Longrightarrow>
  (server_step ll)\<^sup>*\<^sup>* (d, rivals) (d, both_ask)"
proof -
  assume d: "known q_id 4 (requests d)" "clock d = 0"
  have "server_step ll (d, rivals) (d, rivals[0 := Busy 0 (Reserve 3 4 (of_num4 250000)) Asked])"
    using server_step.begins [of 0 rivals "Inr None" d "Reserve 3 4 (of_num4 250000)" ll] d by (simp add: rivals_def)
  moreover have "server_step ll (d, rivals[0 := Busy 0 (Reserve 3 4 (of_num4 250000)) Asked]) (d, both_ask)"
    using server_step.begins [of 1 "rivals[0 := Busy 0 (Reserve 3 4 (of_num4 250000)) Asked]" "Inr None" d
      "Reserve 3 4 (of_num4 900000)" ll] d by (simp add: rivals_def both_ask_def)
  ultimately show ?thesis by (meson converse_rtranclp_into_rtranclp rtranclp.rtrancl_refl)
qed

text \<open>Both have asked, the first has read its budget row and holds it.\<close>

lemma schedule_one:
  "schedule True [0] (sample_db, both_ask) = (sample_db, both_ask[0 := Busy 0 (Reserve 3 4 (of_num4 250000)) (BudgetRead sample_budget)])"
  by (simp add: both_ask_def others_def sample_defs)

theorem budget_rows_serial_witness:
  "\<exists>ss. (server_step True)\<^sup>*\<^sup>* (sample_db, rivals) (sample_db, ss) \<and>
     statement True (others (session_locks True) ss 1) sample_db (ss ! 1) = None \<and>
     statement True (others (session_locks True) ss 0) sample_db (ss ! 0) \<noteq> None \<and>
     budgets_ok sample_db \<and>
     (\<exists>d' ss'. (executes (statement True) (session_locks True))\<^sup>*\<^sup>* (sample_db, ss) (d', ss') \<and> all_over ss')"
proof -
  let ?ss = "both_ask[0 := Busy 0 (Reserve 3 4 (of_num4 250000)) (BudgetRead sample_budget)]"
  have "(server_step True)\<^sup>*\<^sup>* (sample_db, rivals) (sample_db, both_ask)"
    by (rule both_ask_reached) (simp_all add: sample_defs)
  moreover have "(server_step True)\<^sup>*\<^sup>* (sample_db, both_ask) (schedule True [0] (sample_db, both_ask))"
    by (rule schedule_reaches) (simp add: both_ask_def)
  ultimately have run: "(server_step True)\<^sup>*\<^sup>* (sample_db, rivals) (sample_db, ?ss)"
    by (metis schedule_one rtranclp_trans)
  have ok: "budgets_ok sample_db"
    by (simp add: budgets_ok_def budget_ok_def total_def sample_defs num4_max_def)
  have over: "all_over rivals" by (simp add: all_over_def rivals_def)
  note drains = budget_rows_serial [OF ok over run]
  have waits: "statement True (others (session_locks True) ?ss 1) sample_db (?ss ! 1) = None"
    by (simp add: both_ask_def others_def sample_defs)
  have goes: "statement True (others (session_locks True) ?ss 0) sample_db (?ss ! 0) \<noteq> None"
    by (simp add: both_ask_def request_currency_def sample_defs)
  from run waits goes drains ok show ?thesis by blast
qed

text \<open>Without FOR UPDATE both read the row before either has written it, and both find room.\<close>

definition twin_db :: db where
  "twin_db = sample_db\<lparr>requests := [sample_request, sample_request\<lparr>q_id := 14\<rparr>]\<rparr>"

definition twin_sessions :: "session list" where
  "twin_sessions = [Busy 0 (Reserve 3 4 (of_num4 600000)) Asked, Busy 0 (Reserve 3 14 (of_num4 600000)) Asked]"

lemma twin_facts:
  "budget_available sample_budget = of_num4 1000000" "\<not> dless (of_num4 1000000) (of_num4 600000)"
  "positive_num4 (of_num4 600000) = Inr 600000" "num4_plus 0 (of_num4 600000) = Inr 600000"
  "num4_plus 600000 (of_num4 600000) = Inr 1200000"
proof -
  have ok: "budgets_ok sample_db"
    by (simp add: budgets_ok_def budget_ok_def total_def sample_defs num4_max_def)
  show "budget_available sample_budget = of_num4 1000000"
    using budget_available_eq [OF ok, of 3 sample_budget] by (simp add: sample_defs)
qed (simp_all add: num4_plus_def at_exp_def positive_num4_def to_num4_def ten_thousandths_def check_num4_def
    num4_max_def dec_simps dval_def of_num4_def)

lemmas twin_eval = twin_db_def twin_sessions_def others_def request_currency_def insert_reservation_def
  references_def put_budget_def text_eval sample_defs twin_facts(1) [unfolded sample_budget_def One_nat_def]
  twin_facts(2-)

lemma twin_asked: "(server_step ll)\<^sup>*\<^sup>* (twin_db, rivals) (twin_db, twin_sessions)"
proof -
  let ?one = "rivals[0 := Busy 0 (Reserve 3 4 (of_num4 600000)) Asked]"
  have "server_step ll (twin_db, rivals) (twin_db, ?one)"
    using server_step.begins [of 0 rivals "Inr None" twin_db "Reserve 3 4 (of_num4 600000)" ll]
    by (simp add: rivals_def twin_db_def sample_defs)
  moreover have "server_step ll (twin_db, ?one) (twin_db, twin_sessions)"
    using server_step.begins [of 1 ?one "Inr None" twin_db "Reserve 3 14 (of_num4 600000)" ll]
    by (simp add: rivals_def twin_db_def twin_sessions_def sample_defs)
  ultimately show ?thesis by (meson converse_rtranclp_into_rtranclp rtranclp.rtrancl_refl)
qed

lemma schedule_append: "schedule ll (ks @ ks') x = schedule ll ks' (schedule ll ks x)"
  by (induction ll ks x rule: schedule.induct) (simp_all split: option.splits prod.splits)

lemma twin_reads:
  "schedule False [0, 1, 0, 1] (twin_db, twin_sessions) = (twin_db,
     [Busy 0 (Reserve 3 4 (of_num4 600000)) (CurrencyRead sample_budget),
      Busy 0 (Reserve 3 14 (of_num4 600000)) (CurrencyRead sample_budget)])"
  by (simp add: twin_eval)

lemma twin_writes:
  "\<exists>d. schedule False [0, 1, 0, 0, 1, 1] (twin_db,
     [Busy 0 (Reserve 3 4 (of_num4 600000)) (CurrencyRead sample_budget),
      Busy 0 (Reserve 3 14 (of_num4 600000)) (CurrencyRead sample_budget)]) =
       (d, [Over (Inr (Some 10)), Over (Inr (Some 11))]) \<and>
     budgets d = [sample_budget\<lparr>b_reserved := 1200000\<rparr>]"
  by (simp add: twin_eval)

text \<open>FOR UPDATE is needed: without it both reservations of 60 are granted on a budget of 100.\<close>

lemma unlocked_overspends:
  "budgets_ok twin_db \<and> all_over rivals \<and>
   (\<exists>d. (server_step False)\<^sup>*\<^sup>* (twin_db, rivals) (d, [Over (Inr (Some 10)), Over (Inr (Some 11))]) \<and>
     budgets d = [sample_budget\<lparr>b_reserved := 1200000\<rparr>] \<and> \<not> budgets_ok d)"
proof -
  obtain d where d: "schedule False ([0, 1, 0, 1] @ [0, 1, 0, 0, 1, 1]) (twin_db, twin_sessions) =
      (d, [Over (Inr (Some 10)), Over (Inr (Some 11))])" "budgets d = [sample_budget\<lparr>b_reserved := 1200000\<rparr>]"
    using twin_writes unfolding schedule_append twin_reads by blast
  have "(server_step False)\<^sup>*\<^sup>* (twin_db, twin_sessions)
      (schedule False ([0, 1, 0, 1] @ [0, 1, 0, 0, 1, 1]) (twin_db, twin_sessions))"
    by (rule schedule_reaches) (simp add: twin_sessions_def)
  then have "(server_step False)\<^sup>*\<^sup>* (twin_db, rivals) (d, [Over (Inr (Some 10)), Over (Inr (Some 11))])"
    using twin_asked [of False] unfolding d(1) by (rule rtranclp_trans [rotated])
  moreover have "budgets_ok twin_db"
    by (simp add: budgets_ok_def budget_ok_def total_def twin_db_def sample_defs num4_max_def)
  moreover have "\<not> budgets_ok d"
    using d(2) total_nonneg [of "reservations d" "''CONSUMED''" 3]
    by (auto simp: budgets_ok_def budget_ok_def sample_budget_def)
  ultimately show ?thesis using d(2) by (auto simp: all_over_def rivals_def)
qed

end
