(* ===== verification/Delivery.thy ===== *)
theory Delivery
  imports WellTyped
begin

text \<open>
  The outbox worker gets its work done. On a server that lets ON CONFLICT infer the partial indexes, no
  event the program enqueues can fail: the schema gives every notification request an account. So every run
  publishes its whole batch, and enough runs publish everything that is due.
\<close>

section \<open>No event fails\<close>

lemma schema_row: "schema_ok d \<Longrightarrow> x \<in> set (outbox d) \<Longrightarrow> deliverable d x"
  by (auto simp: schema_ok_def table_ok_def outbox_typed_def)

lemma schema_request: "schema_ok d \<Longrightarrow> q \<in> set (requests d) \<Longrightarrow> q_account q \<in> set (accounts d)"
  by (auto simp: schema_ok_def table_ok_def request_typed_def)

lemma schema_payment: "schema_ok d \<Longrightarrow> p \<in> set (payments d) \<Longrightarrow> p_request p \<in> keys_of q_id (requests d)"
  using request_known by (fastforce simp: schema_ok_def table_ok_def payment_typed_def)

text \<open>The account of an event is known, and a known payment has one.\<close>

lemma account_found:
  assumes "schema_ok d"
  obtains acct where "account_for aggty agg d = Inr (acct, d)" "null_or (set (accounts d)) acct"
    "aggty = ''payment'' \<Longrightarrow> agg \<in> fst ` payment_terms d \<Longrightarrow> acct \<noteq> None"
proof (cases "aggty = ''payment'' \<and> agg \<in> keys_of p_id (payments d)")
  case False
  then have "\<not> (aggty = ''payment'' \<and> agg \<in> fst ` payment_terms d)" by (simp add: known_payment)
  moreover from False have "account_for aggty agg d = Inr (None, d)"
    by (auto simp: account_for_def row_by_None [THEN iffD2])
  ultimately show ?thesis using that by auto
next
  case True
  then obtain p where p: "row_by p_id agg (payments d) = Some p"
    by (metis option.exhaust row_by_None)
  obtain q where q: "row_by q_id (p_request p) (requests d) = Some q"
    using schema_payment [OF assms row_by_Some_in [OF p]] by (metis option.exhaust row_by_None)
  have "account_for aggty agg d = Inr (Some (q_account q), d)" using True p q by (simp add: account_for_def)
  with that schema_request [OF assms row_by_Some_in [OF q]] show ?thesis by simp
qed

lemma audit_event_returns:
  assumes "infers_partial_index (profile d)" "null_or (set (accounts d)) acct"
  shows "\<exists>d'. audit_event sha acct x d = Inr ((), d')"
  using assms by (cases acct)
    (auto simp: audit_event_def record_audit_def infer_index_def references_def split: option.splits)

lemma notify_event_returns:
  assumes "infers_partial_index (profile d)" "null_or (set (accounts d)) acct"
    and "x_type x = ''NotificationRequested'' \<Longrightarrow> acct \<noteq> None \<and> is_object (x_payload x)"
  shows "\<exists>d'. notify_event acct x d = Inr ((), d')"
proof (cases "x_type x = ''NotificationRequested''")
  case True
  with assms obtain a ms where a: "acct = Some a" "a \<in> set (accounts d)" and ms: "x_payload x = JObj ms"
    by (auto simp: is_object_def split: json.splits)
  obtain ty where "notification_type (x_payload x) = Inr ty"
    using ms by (cases ms) (auto simp: notification_type_def payload_or_empty_def)
  with True a assms(1) show ?thesis
    by (auto simp: notify_event_def enqueue_notification_def infer_index_def references_def split: option.splits)
qed (simp add: notify_event_def)

lemma handle_event_returns:
  assumes "schema_ok d" "infers_partial_index (profile d)" "deliverable d x"
  shows "\<exists>d'. handle_event sha x d = Inr ((), d')"
proof -
  obtain acct where acct: "account_for (x_aggregate_type x) (x_aggregate x) d = Inr (acct, d)" "null_or (set (accounts d)) acct"
    "x_aggregate_type x = ''payment'' \<Longrightarrow> x_aggregate x \<in> fst ` payment_terms d \<Longrightarrow> acct \<noteq> None"
    using account_found [OF assms(1)] by metis
  obtain d1 where a: "audit_event sha acct x d = Inr ((), d1)" using audit_event_returns [OF assms(2) acct(2)] by blast
  have 1: "typed_from d d1" by (rule keepsD [OF typed_events(1) typed_from_refl [OF assms(1)] a])
  have p1: "infers_partial_index (profile d1)" using audit_event_effect [OF a] assms(2) by simp
  have "null_or (set (accounts d1)) acct"
    by (rule null_or_mono [OF _ acct(2)]) (use typed_fromD(2) [OF 1] in \<open>simp add: grows_def\<close>)
  moreover have "x_type x = ''NotificationRequested'' \<Longrightarrow> acct \<noteq> None \<and> is_object (x_payload x)"
    using assms(3) acct(3) by (auto simp: deliverable_def)
  ultimately obtain d2 where n: "notify_event acct x d1 = Inr ((), d2)" using notify_event_returns [OF p1] by blast
  show ?thesis using acct(1) a n by (simp add: handle_event_def mark_published_def update_processing_def)
qed

section \<open>A run\<close>

text \<open>A run changes neither the server nor the ids of the outbox, and takes no time.\<close>

definition same_outbox :: "server_profile \<Rightarrow> int \<Rightarrow> nat list \<Rightarrow> db \<Rightarrow> bool" where
  "same_outbox p c ids d \<longleftrightarrow> profile d = p \<and> clock d = c \<and> map x_id (outbox d) = ids"

lemma keeps_same_outbox [keeps_intros]:
  "keeps (same_outbox p c ids) (claim_batch n)" "keeps (same_outbox p c ids) (handle_event sha x)"
  "keeps (same_outbox p c ids) (mark_failed i s m)"
  unfolding claim_batch_def handle_event_def account_for_def audit_event_def notify_event_def record_audit_def
    enqueue_notification_def infer_index_def references_def mark_published_def mark_failed_def update_processing_def
  by (intro keeps_intros keeps_modify; auto simp: same_outbox_def comp_def map_keys_upd_by if_distrib claim_row_def
      cong: if_cong intro!: keepsI)+

lemma process_events_delivers:
  assumes "schema_ok d" "infers_partial_index (profile d)" "\<forall>x \<in> set xs. deliverable d x"
  shows "\<exists>d'. process_events exc_text sha xs n d = (Inr (n + length xs), d')"
  using assms
proof (induction xs arbitrary: n d)
  case Nil
  then show ?case by simp
next
  case (Cons x xs)
  obtain d1 where h: "handle_event sha x d = Inr ((), d1)" using handle_event_returns [OF Cons.prems(1,2)] Cons.prems(3) by force
  have 1: "typed_from d d1" by (rule keepsD [OF typed_handle typed_from_refl [OF Cons.prems(1)] h])
  have "deliverable d1 z" if "deliverable d z" for z
    using that typed_fromD(2) [OF 1] by (auto simp: deliverable_def grows_def)
  moreover have "same_outbox (profile d) (clock d) (map x_id (outbox d)) d1"
    by (rule keepsD [OF keeps_same_outbox(2) _ h]) (simp add: same_outbox_def)
  ultimately show ?case
    using Cons.IH [of d1 "n + 1"] Cons.prems typed_fromD(1) [OF 1] h by (auto simp: transact_def same_outbox_def)
qed

text \<open>What is due, and what a run leaves of it.\<close>

definition waiting :: "db \<Rightarrow> outbox_row list" where
  "waiting d = filter (due (clock d)) (outbox d)"

lemma waiting_row: "outbox_ids_ok d \<Longrightarrow> i \<in> x_id ` set (waiting d) \<longleftrightarrow> (\<exists>x. event_row i d = Some x \<and> due (clock d) x)"
  by (auto simp: waiting_def event_row_def outbox_ids_ok_def image_iff row_by_distinct dest: row_by_Some_in row_by_Some_key)

lemma waiting_card: "outbox_ids_ok d \<Longrightarrow> card (x_id ` set (waiting d)) = length (waiting d)"
  using distinct_card [of "map x_id (waiting d)"] by (simp add: waiting_def outbox_ids_ok_def distinct_map_filter)

lemma batch_length: "length (batch_ids n d) = min n (length (waiting d))"
  by (simp add: batch_ids_def waiting_def)

lemma batch_waiting: "set (batch_ids n d) \<subseteq> x_id ` set (waiting d)"
  by (auto simp: batch_ids_def waiting_def dest!: in_set_takeD)

lemma claimed_rows_length:
  assumes "outbox_ids_ok d"
  shows "length (filter (\<lambda>x. x_id x \<in> set (batch_ids n d)) (outbox (claimed_db n d))) = length (batch_ids n d)"
proof -
  let ?rows = "filter (\<lambda>x. x_id x \<in> set (batch_ids n d)) (outbox (claimed_db n d))"
  have "map x_id (outbox (claimed_db n d)) = map x_id (outbox d)" by (simp add: claimed_db_def)
  then have "distinct (map x_id ?rows)" using assms by (simp add: outbox_ids_ok_def distinct_map_filter)
  moreover have "x_id ` set ?rows = set (batch_ids n d)"
    using batch_subset [of n d] keys_claimed [of n d] by (auto simp: image_iff)
  ultimately show ?thesis using distinct_card [of "map x_id ?rows"] distinct_card [OF distinct_batch [OF assms], of n] by simp
qed

lemma process_once_returns:
  assumes "schema_ok d" "outbox_ids_ok d" "infers_partial_index (profile d)"
  shows "fst (process_once exc_text sha n d) = Inr (length (batch_ids n d))"
proof -
  let ?rows = "filter (\<lambda>x. x_id x \<in> set (batch_ids n d)) (outbox (claimed_db n d))"
  have 1: "typed_from d (claimed_db n d)"
    by (rule keepsD [OF typed_publish(1) typed_from_refl [OF assms(1)] claim_batch_eq])
  have "infers_partial_index (profile (claimed_db n d))" using assms(3) by (simp add: claimed_db_def)
  moreover have "\<forall>x \<in> set ?rows. deliverable (claimed_db n d) x"
    using schema_row [OF typed_fromD(1) [OF 1]] by simp
  ultimately show ?thesis
    using process_events_delivers [OF typed_fromD(1) [OF 1], of ?rows exc_text sha 0] claimed_rows_length [OF assms(2), of n]
    by (auto simp: process_once_def transact_def claim_batch_eq)
qed

lemma process_once_delivers:
  assumes ok: "schema_ok d" "audit_ok sha d" and p: "infers_partial_index (profile d)"
  shows "\<exists>d'. process_once exc_text sha n d = (Inr (length (batch_ids n d)), d') \<and> typed_from d d' \<and> audit_ok sha d' \<and>
    same_outbox (profile d) (clock d) (map x_id (outbox d)) d' \<and>
    (\<forall>i \<in> set (batch_ids n d). is_published d' i) \<and> (\<forall>k. k \<notin> set (batch_ids n d) \<longrightarrow> event_row k d' = event_row k d)"
proof -
  have ids: "outbox_ids_ok d" using ok(2) by (simp add: audit_ok_def)
  obtain d' where d': "process_once exc_text sha n d = (Inr (length (filter (is_published d') (batch_ids n d))), d')"
    "audit_ok sha d'" "\<forall>k. k \<notin> set (batch_ids n d) \<longrightarrow> event_row k d' = event_row k d"
    using process_once_effect [OF ok(2), of exc_text n] by blast
  have "length (filter (is_published d') (batch_ids n d)) = length (batch_ids n d)"
    using process_once_returns [OF ok(1) ids p, of exc_text sha n] d'(1) by simp
  then have "\<forall>i \<in> set (batch_ids n d). is_published d' i" by (metis length_filter_less less_irrefl)
  moreover have "typed_from d d'" 
    by (rule process_once_keeps [where I = "typed_from d", OF typed_publish(1) typed_handle typed_publish(3) typed_from_refl [OF ok(1)] d'(1)])
  moreover have "same_outbox (profile d) (clock d) (map x_id (outbox d)) d'"
    by (rule process_once_keeps [OF keeps_same_outbox _ d'(1)]) (simp add: same_outbox_def)
  ultimately show ?thesis using d' \<open>length (filter (is_published d') (batch_ids n d)) = length (batch_ids n d)\<close> by auto
qed

lemma delivered_waiting:
  assumes "outbox_ids_ok d" "outbox_ids_ok d'" "clock d' = clock d"
    and "\<forall>i \<in> set (batch_ids n d). is_published d' i" "\<forall>k. k \<notin> set (batch_ids n d) \<longrightarrow> event_row k d' = event_row k d"
  shows "x_id ` set (waiting d') = x_id ` set (waiting d) - set (batch_ids n d)"
    and "length (waiting d') = length (waiting d) - n"
proof -
  have "i \<notin> x_id ` set (waiting d')" if "i \<in> set (batch_ids n d)" for i
    using that assms(4) unfolding waiting_row [OF assms(2)] by (auto simp: is_published_def due_def)
  moreover have "i \<in> x_id ` set (waiting d') \<longleftrightarrow> i \<in> x_id ` set (waiting d)" if "i \<notin> set (batch_ids n d)" for i
    using that assms(3,5) unfolding waiting_row [OF assms(1)] waiting_row [OF assms(2)] by simp
  ultimately show ids: "x_id ` set (waiting d') = x_id ` set (waiting d) - set (batch_ids n d)" by blast
  have "card (set (batch_ids n d)) = min n (length (waiting d))"
    using distinct_card [OF distinct_batch [OF assms(1)]] by (simp add: batch_length)
  then show "length (waiting d') = length (waiting d) - n"
    using waiting_card [OF assms(1)] waiting_card [OF assms(2)] card_Diff_subset [OF _ batch_waiting [of n d]] ids by simp
qed

section \<open>Enough runs\<close>

fun publish_many :: "(exn \<Rightarrow> string) \<Rightarrow> (string \<Rightarrow> string) \<Rightarrow> nat \<Rightarrow> nat \<Rightarrow> db \<Rightarrow> exn + db" where
  "publish_many exc_text sha n 0 d = Inr d"
| "publish_many exc_text sha n (Suc k) d =
     (case process_once exc_text sha n d of
        (Inl e, _) \<Rightarrow> Inl e
      | (Inr _, d1) \<Rightarrow> publish_many exc_text sha n k d1)"

lemma publish_many_drains:
  assumes "schema_ok d" "audit_ok sha d" "infers_partial_index (profile d)" "length (waiting d) \<le> k * n"
  shows "\<exists>d'. publish_many exc_text sha n k d = Inr d' \<and> audit_ok sha d' \<and> waiting d' = [] \<and>
    (\<forall>i. i \<in> x_id ` set (waiting d) \<or> is_published d i \<longrightarrow> is_published d' i)"
  using assms
proof (induction k arbitrary: d)
  case 0
  then show ?case by simp
next
  case (Suc k)
  obtain d1 where d1: "process_once exc_text sha n d = (Inr (length (batch_ids n d)), d1)" "schema_ok d1" "audit_ok sha d1"
    "profile d1 = profile d" "clock d1 = clock d" "\<forall>i \<in> set (batch_ids n d). is_published d1 i"
    "\<forall>k. k \<notin> set (batch_ids n d) \<longrightarrow> event_row k d1 = event_row k d"
    using process_once_delivers [OF Suc.prems(1-3), of exc_text n] by (auto simp: typed_from_def same_outbox_def)
  have ids: "outbox_ids_ok d" "outbox_ids_ok d1" using Suc.prems(2) d1(3) by (simp_all add: audit_ok_def)
  note left = delivered_waiting [OF ids d1(5-7)]
  obtain d' where d': "publish_many exc_text sha n k d1 = Inr d'" "audit_ok sha d'" "waiting d' = []"
    "\<forall>i. i \<in> x_id ` set (waiting d1) \<or> is_published d1 i \<longrightarrow> is_published d' i"
    using Suc.IH [OF d1(2,3)] Suc.prems(3,4) d1(4) left(2) by (metis (no_types) le_diff_conv add.commute mult_Suc)
  have "is_published d1 i" if "is_published d i" for i
    using that d1(6,7) by (cases "i \<in> set (batch_ids n d)") (auto simp: is_published_def)
  with d' d1(1,6) left(1) show ?case by auto
qed



end
