(* ===== verification/Progress.thy ===== *)
theory Progress
  imports Runner
begin

text \<open>
  The worker makes progress. A payment that \<open>prepare\<close> left behind needs its request, its reservation
  and the configured ledger accounts, and nothing else, for a run to answer it; repeated runs empty the
  queue. When the accounts of the oldest payment are missing, no run gets past it.
\<close>

section \<open>Payments a run can finish\<close>

definition payment_facts :: "nat \<Rightarrow> db \<Rightarrow> (nat \<times> num4 \<times> string) option" where
  "payment_facts k d = map_option (\<lambda>p. (p_request p, p_amount p, p_currency p)) (row_by p_id k (payments d))"

definition charge_key_free :: "nat \<Rightarrow> db \<Rightarrow> bool" where
  "charge_key_free k d \<longleftrightarrow> (\<forall>op \<in> set (operations d). o_key op = charge_name k \<longrightarrow> is_charge_of k op)"

definition reserved_for :: "nat \<Rightarrow> nat \<Rightarrow> db \<Rightarrow> bool" where
  "reserved_for rid res d \<longleftrightarrow>
     map_option q_reservation (row_by q_id rid (requests d)) = Some (Some res) \<and> known r_id res (reservations d)"

definition workable :: "nat \<Rightarrow> db \<Rightarrow> bool" where
  "workable k d \<longleftrightarrow> charge_key_free k d \<and>
     (\<exists>rid n cur res. payment_facts k d = Some (rid, n, cur) \<and> reserved_for rid res d \<and>
        0 < n \<and> n < num4_max \<and> length cur = 3 \<and> upper (strip cur) = upper cur)"

text \<open>The accounts the runner looks up exist.\<close>

definition accounts_found :: "nat \<Rightarrow> db \<Rightarrow> bool" where
  "accounts_found k d \<longleftrightarrow>
     (\<exists>cur customer clearing. payment_currency k d = Inr cur \<and> payment_accounts cur k d = Some (customer, clearing) \<and>
        known la_id customer (ledger_accounts d) \<and> known la_id clearing (ledger_accounts d))"

section \<open>The two transactions\<close>

lemma row_by_in: "row_by key k rows = Some r \<Longrightarrow> r \<in> set rows \<and> key r = k"
  by (auto dest: row_by_Some_in row_by_Some_key)

lemma claim_runs:
  assumes "workable k d"
  shows "\<exists>rid n cur res d1. claim_payment k d = Inr ((rid, of_num4 n, cur, res), d1) \<and>
    payment_facts k d1 = Some (rid, n, cur) \<and> status_in {ST_PROCESSING} k d1 \<and> known r_id res (reservations d1) \<and>
    0 < n \<and> n < num4_max \<and> length cur = 3 \<and> upper (strip cur) = upper cur"
proof -
  obtain rid n cur res where f: "payment_facts k d = Some (rid, n, cur)" "reserved_for rid res d"
    and b: "0 < n" "n < num4_max" "length cur = 3" "upper (strip cur) = upper cur"
    using assms unfolding workable_def by blast
  obtain p q where p: "row_by p_id k (payments d) = Some p" "p_request p = rid" "p_amount p = n" "p_currency p = cur"
    and q: "row_by q_id rid (requests d) = Some q" "q_reservation q = Some res"
    using f by (auto simp: payment_facts_def reserved_for_def)
  have key: "\<And>op. row_by o_key (charge_name k) (operations d) = Some op \<Longrightarrow> o_payment op = k \<and> o_type op = ''CHARGE''"
    using assms row_by_in by (fastforce simp: workable_def charge_key_free_def is_charge_of_def)
  have kp: "known p_id k (payments d)" by (rule row_by_Some_keys [OF p(1)])
  obtain i d0 where c: "create_provider_operation k ''CHARGE'' (charge_name k) d = Inr (i, d0)"
    and pay: "payments d0 = upd_by p_id k (\<lambda>p. p\<lparr>p_operation := Some i, p_updated := clock d\<rparr>) (payments d)"
    and same: "reservations d0 = reservations d"
  proof (cases "row_by o_key (charge_name k) (operations d)")
    case None
    with kp that show thesis by (simp add: create_provider_operation_def new_operation_def references_def)
  next
    case (Some op)
    with key [OF Some] that show thesis by (simp add: create_provider_operation_def)
  qed
  have "claim_payment k d = Inr ((rid, of_num4 n, cur, res),
      d0\<lparr>payments := upd_by p_id k (set_status ST_PROCESSING None (clock d0)) (payments d0)\<rparr>)"
    using p q c by (simp add: claim_payment_def update_status_def)
  moreover have "known r_id res (reservations d)" using f(2) by (simp add: reserved_for_def)
  ultimately show ?thesis
    using p pay same b by (simp add: payment_facts_def status_in_def row_by_upd_by)
qed

lemma closing_answers: "\<exists>d'. closing pid st ref ty payload corr d = Inr (st, d')"
  by (simp add: closing_def update_status_def enqueue_def)

lemma upsert_answers:
  assumes "0 < n" "n < num4_max" "length cur = 3" "known p_id pid (payments d)"
  shows "\<exists>i d'. upsert_capture pid (of_num4 n) cur d = Inr (i, d')"
  using assms
  by (cases "row_by t_key (Some (tx_key pid ''capture'')) (transactions d)")
    (simp_all add: upsert_capture_def char3_id positive_num4_eq [THEN iffD2] references_def)

lemma post_answers:
  assumes "0 < n" "n < num4_max" "length cur = 3" "known la_id a (ledger_accounts d)" "known la_id b (ledger_accounts d)"
  shows "\<exists>i d'. post_journal cur rtype ref key corr (two_lines a b (of_num4 n) cur) d = Inr (i, d')"
proof (cases "known j_key key (journals d)")
  case True
  have "0 < dval (sum_decimals [of_num4 n])" using assms(1,2) by (simp add: sum_single_num4 dval_of_num4)
  from journal_again [OF True this] show ?thesis by blast
next
  case False
  from post_pair_runs [OF assms(1-3) False assms(4,5)] show ?thesis by blast
qed

lemma finalize_answers:
  assumes ok: "budgets_ok d" and f: "payment_facts k d = Some (rid, n, cur)" "status_in {ST_PROCESSING} k d"
    and r: "known r_id res (reservations d)"
    and b: "0 < n" "n < num4_max" "length cur = 3" "upper (strip cur) = upper cur"
    and la: "known la_id customer (ledger_accounts d)" "known la_id clearing (ledger_accounts d)"
  shows "\<exists>st d'. finalize k rid res (of_num4 n) cur customer clearing out ref corr d = Inr (st, d')"
proof -
  obtain p where p: "row_by p_id k (payments d) = Some p" "p_request p = rid" "p_amount p = n" "p_currency p = cur"
    "p_status p = ST_PROCESSING"
    using f by (auto simp: payment_facts_def status_in_def)
  have kp: "known p_id k (payments d)" by (rule row_by_Some_keys [OF p(1)])
  obtain rr where rr: "row_by r_id res (reservations d) = Some rr"
    using r by (cases "row_by r_id res (reservations d)") (auto simp: row_by_None)
  have fin: "finalize k rid res (of_num4 n) cur customer clearing out ref corr d =
      (case out of
         O_UNKNOWN \<Rightarrow> finalize_unknown k res ref corr d
       | O_FAILED \<Rightarrow> finalize_failed k res ref corr d
       | O_SUCCEEDED \<Rightarrow> finalize_succeeded k res (of_num4 n) cur customer clearing ref corr d)"
    using p b(4) by (cases out) (simp_all add: finalize_def select_payment_def deq_def)
  define u where "u st = d\<lparr>operations := map (\<lambda>op. if is_charge_of k op then st (clock d) op else op) (operations d)\<rparr>" for st
  have u: "budgets_ok (u st)" "row_by r_id res (reservations (u st)) = Some rr" "update_charges k st d = Inr ((), u st)" for st
    using ok rr by (simp_all add: u_def update_charges_def)
  show ?thesis
  proof (cases out)
    case O_UNKNOWN
    then show ?thesis
      unfolding fin finalize_closing using u(3) by simp (use closing_answers in blast)
  next
    case O_FAILED
    then show ?thesis
      unfolding fin finalize_closing using u(3) budget_release_run [OF u(1,2)] by simp (use closing_answers in blast)
  next
    case O_SUCCEEDED
    obtain v where v: "budget_consume res (u (complete_operation ''SUCCEEDED'' ref)) = Inr ((), v)"
      using budget_consume_run [OF u(1,2)] by blast
    note fv = db_fields [OF frameD [OF budget_consume_frame v], simplified]
    have "known p_id k (payments v)" using kp fv by (simp add: u_def)
    from upsert_answers [OF b(1-3) this] obtain i w where w: "upsert_capture k (of_num4 n) cur v = Inr (i, w)" by blast
    note fw = db_fields [OF frameD [OF upsert_capture_frame w], simplified]
    have "known la_id customer (ledger_accounts w)" "known la_id clearing (ledger_accounts w)"
      using la fv fw by (simp_all add: u_def)
    from post_answers [OF b(1-3) this] obtain j x where
      "post_journal cur ''TRANSACTION'' (Some i) (payment_key k ''capture'') corr
         (two_lines customer clearing (of_num4 n) cur) w = Inr (j, x)" by blast
    with O_SUCCEEDED v w u(3) show ?thesis
      unfolding fin finalize_closing by simp (use closing_answers in blast)
  qed
qed

lemma process_one_answers:
  assumes ok: "budgets_ok d" and w: "workable k d"
    and la: "known la_id customer (ledger_accounts d)" "known la_id clearing (ledger_accounts d)"
    and V: "\<And>prov minor cur. \<exists>out prov'. pp_charge V prov (str_uuid k) minor cur (charge_name k) = (Inr out, prov')"
  shows "\<exists>st d' prov'. process_one V k customer clearing corr (d, prov) = (Inr st, d', prov')"
proof -
  obtain rid n cur res d1 where c: "claim_payment k d = Inr ((rid, of_num4 n, cur, res), d1)"
    and f: "payment_facts k d1 = Some (rid, n, cur)" "status_in {ST_PROCESSING} k d1" "known r_id res (reservations d1)"
    and b: "0 < n" "n < num4_max" "length cur = 3" "upper (strip cur) = upper cur"
    using claim_runs [OF w] by blast
  have ok1: "budgets_ok d1" by (rule keepsD [OF keeps_claim(1) ok c])
  have "frame (\<lambda>d. ledger_accounts d) (claim_payment k)"
    unfolding claim_payment_def create_provider_operation_def new_operation_def references_def update_status_def
    by (rule frame_rule) (intro keeps_intros keeps_modify keeps_draw_tables; simp)
  from frameD [OF this c] have la1: "known la_id customer (ledger_accounts d1)" "known la_id clearing (ledger_accounts d1)"
    using la by simp_all
  obtain out ref prov1 where s: "provider_step V prov k (of_num4 n) cur d1 = (Inr (out, ref), prov1)"
  proof (cases "durable_outcome (latest_charge k d1)")
    case None
    obtain out prov' where "pp_charge V prov (str_uuid k) (minor_units (of_num4 n)) cur (charge_name k) = (Inr out, prov')"
      using V by blast
    with None that show thesis by (simp add: provider_step_def execute_external_def)
  next
    case (Some out)
    with that show thesis by (simp add: provider_step_def)
  qed
  obtain st d2 where "finalize k rid res (of_num4 n) cur customer clearing out ref corr d1 = Inr (st, d2)"
    using finalize_answers [OF ok1 f b la1] by blast
  with c s show ?thesis by (simp add: process_one_def transact_def)
qed

section \<open>What a run leaves as it is\<close>

text \<open>A property that survives the worker's changes: of a payment's status, reference and operation, of a
  reservation's state, of charge operations, and of the books.\<close>

locale worker_stable =
  fixes P :: "db \<Rightarrow> bool"
  assumes payment: "\<And>d k f. (\<And>p. p_id (f p) = p_id p \<and> p_request (f p) = p_request p \<and> p_amount (f p) = p_amount p \<and>
        p_currency (f p) = p_currency p) \<Longrightarrow> P d \<Longrightarrow> P (d\<lparr>payments := upd_by p_id k f (payments d)\<rparr>)"
    and reservation: "\<And>d k f. (\<And>r. r_id (f r) = r_id r) \<Longrightarrow> P d \<Longrightarrow> P (d\<lparr>reservations := upd_by r_id k f (reservations d)\<rparr>)"
    and new_charge: "\<And>d pid op. o_key op = charge_name pid \<Longrightarrow> is_charge_of pid op \<Longrightarrow> P d \<Longrightarrow>
        P (d\<lparr>operations := operations d @ [op]\<rparr>)"
    and charge: "\<And>d g. (\<And>op. o_key (g op) = o_key op \<and> o_payment (g op) = o_payment op \<and> o_type (g op) = o_type op) \<Longrightarrow>
        P d \<Longrightarrow> P (d\<lparr>operations := map g (operations d)\<rparr>)"
    and books:
      "P (d\<lparr>next_id := v_next_id\<rparr>) = P d"
      "P (d\<lparr>budgets := v_budgets\<rparr>) = P d"
      "P (d\<lparr>transactions := v_transactions\<rparr>) = P d"
      "P (d\<lparr>journals := v_journals\<rparr>) = P d"
      "P (d\<lparr>postings := v_postings\<rparr>) = P d"
      "P (d\<lparr>outbox := v_outbox\<rparr>) = P d"
begin

declare books [simp]

lemma draw: "keeps P draw_id"
  by (rule keeps_draw_tables) simp

lemma status: "keeps P (update_status pid st ref)"
  unfolding update_status_def by (rule keeps_modify, rule payment) simp_all

lemma worker_claims: "keeps P (claim_payment pid)"
proof -
  have "keeps P (create_provider_operation pid ''CHARGE'' (charge_name pid))"
    unfolding create_provider_operation_def new_operation_def references_def
    by (intro keeps_intros keeps_modify draw payment new_charge) (simp_all add: is_charge_of_def)
  then show ?thesis unfolding claim_payment_def by (intro keeps_intros status)
qed

lemma worker_finalizes: "keeps P (finalize pid rid res amt cur customer clearing out ref corr)"
proof -
  have enq: "keeps P (enqueue ty aggty agg payload corr)" for ty aggty agg payload corr
    unfolding enqueue_def by (intro keeps_intros keeps_modify draw; simp)
  have jr: "keeps P (post_journal cur rtype jref key corr ps)" for cur rtype jref key corr ps
    by (rule keeps_post_journal [OF draw]) simp_all
  have ups: "keeps P (upsert_capture pid amt cur)"
    unfolding upsert_capture_def references_def by (intro keeps_intros keeps_modify draw; simp)
  have bud: "keeps P (budget_consume res)" "keeps P (budget_release res)"
    unfolding budget_consume_def budget_release_def move_budget_def
    by (intro keeps_intros keeps_modify reservation; simp)+
  have upc: "keeps P (update_charges pid f)"
    if "\<And>now op. o_key (f now op) = o_key op \<and> o_payment (f now op) = o_payment op \<and> o_type (f now op) = o_type op" for f
    unfolding update_charges_def by (rule keeps_modify, rule charge) (use that in auto)
  show ?thesis
    unfolding finalize_def select_payment_def finalize_unknown_def finalize_failed_def finalize_succeeded_def
      complete_operation_def
    by (intro keeps_intros status enq jr ups bud upc) simp_all
qed

lemma worker: "P d \<Longrightarrow> process_one V pid customer clearing corr (d, prov) = (r, d', prov') \<Longrightarrow> P d'"
  by (rule process_one_keeps [OF worker_claims worker_finalizes])

end

interpretation facts: worker_stable "\<lambda>d. payment_facts k d = x" for k x
  by unfold_locales (auto simp: payment_facts_def row_by_upd_by option.map_comp comp_def)

interpretation reserved: worker_stable "reserved_for rid res" for rid res
  by unfold_locales (auto simp: reserved_for_def keys_upd_by)

interpretation free_key: worker_stable "charge_key_free k" for k
  by unfold_locales (auto simp: charge_key_free_def is_charge_of_def charge_name_def)

interpretation asked: worker_stable "\<lambda>d. requests d = qs" for qs
  by unfold_locales auto

interpretation paid_ids: worker_stable "\<lambda>d. map p_id (payments d) = ids" for ids
  by unfold_locales (auto simp: map_keys_upd_by)

lemma lookup_frame [simp]:
  "wallet_accounts acct cur (d\<lparr>payments := v_payments\<rparr>) = wallet_accounts acct cur d"
  "wallet_accounts acct cur (d\<lparr>reservations := v_reservations\<rparr>) = wallet_accounts acct cur d"
  "wallet_accounts acct cur (d\<lparr>operations := v_operations\<rparr>) = wallet_accounts acct cur d"
  "wallet_accounts acct cur (d\<lparr>next_id := v_next_id\<rparr>) = wallet_accounts acct cur d"
  "wallet_accounts acct cur (d\<lparr>budgets := v_budgets\<rparr>) = wallet_accounts acct cur d"
  "wallet_accounts acct cur (d\<lparr>transactions := v_transactions\<rparr>) = wallet_accounts acct cur d"
  "wallet_accounts acct cur (d\<lparr>journals := v_journals\<rparr>) = wallet_accounts acct cur d"
  "wallet_accounts acct cur (d\<lparr>postings := v_postings\<rparr>) = wallet_accounts acct cur d"
  "wallet_accounts acct cur (d\<lparr>outbox := v_outbox\<rparr>) = wallet_accounts acct cur d"
  "clearing_account nm cur (d\<lparr>payments := v_payments\<rparr>) = clearing_account nm cur d"
  "clearing_account nm cur (d\<lparr>reservations := v_reservations\<rparr>) = clearing_account nm cur d"
  "clearing_account nm cur (d\<lparr>operations := v_operations\<rparr>) = clearing_account nm cur d"
  "clearing_account nm cur (d\<lparr>next_id := v_next_id\<rparr>) = clearing_account nm cur d"
  "clearing_account nm cur (d\<lparr>budgets := v_budgets\<rparr>) = clearing_account nm cur d"
  "clearing_account nm cur (d\<lparr>transactions := v_transactions\<rparr>) = clearing_account nm cur d"
  "clearing_account nm cur (d\<lparr>journals := v_journals\<rparr>) = clearing_account nm cur d"
  "clearing_account nm cur (d\<lparr>postings := v_postings\<rparr>) = clearing_account nm cur d"
  "clearing_account nm cur (d\<lparr>outbox := v_outbox\<rparr>) = clearing_account nm cur d"
  by (simp_all add: wallet_accounts_def clearing_account_def)

lemma accounts_frame [simp]:
  "payment_accounts cur k (d\<lparr>reservations := v_reservations\<rparr>) = payment_accounts cur k d"
  "payment_accounts cur k (d\<lparr>operations := v_operations\<rparr>) = payment_accounts cur k d"
  "payment_accounts cur k (d\<lparr>next_id := v_next_id\<rparr>) = payment_accounts cur k d"
  "payment_accounts cur k (d\<lparr>budgets := v_budgets\<rparr>) = payment_accounts cur k d"
  "payment_accounts cur k (d\<lparr>transactions := v_transactions\<rparr>) = payment_accounts cur k d"
  "payment_accounts cur k (d\<lparr>journals := v_journals\<rparr>) = payment_accounts cur k d"
  "payment_accounts cur k (d\<lparr>postings := v_postings\<rparr>) = payment_accounts cur k d"
  "payment_accounts cur k (d\<lparr>outbox := v_outbox\<rparr>) = payment_accounts cur k d"
  "payment_currency k (d\<lparr>reservations := v_reservations\<rparr>) = payment_currency k d"
  "payment_currency k (d\<lparr>operations := v_operations\<rparr>) = payment_currency k d"
  "payment_currency k (d\<lparr>next_id := v_next_id\<rparr>) = payment_currency k d"
  "payment_currency k (d\<lparr>budgets := v_budgets\<rparr>) = payment_currency k d"
  "payment_currency k (d\<lparr>transactions := v_transactions\<rparr>) = payment_currency k d"
  "payment_currency k (d\<lparr>journals := v_journals\<rparr>) = payment_currency k d"
  "payment_currency k (d\<lparr>postings := v_postings\<rparr>) = payment_currency k d"
  "payment_currency k (d\<lparr>outbox := v_outbox\<rparr>) = payment_currency k d"
  by (simp_all add: payment_accounts_def payment_currency_def cong: option.case_cong list.case_cong)

lemma payment_accounts_upd:
  assumes "\<And>p. p_id (f p) = p_id p \<and> p_request (f p) = p_request p \<and> p_currency (f p) = p_currency p"
  shows "payment_accounts cur k (d\<lparr>payments := upd_by p_id j f (payments d)\<rparr>) = payment_accounts cur k d"
    "payment_currency k (d\<lparr>payments := upd_by p_id j f (payments d)\<rparr>) = payment_currency k d"
proof -
  have "payment_accounts cur k (d\<lparr>payments := upd_by p_id j f (payments d)\<rparr>) = payment_accounts cur k d \<and>
      payment_currency k (d\<lparr>payments := upd_by p_id j f (payments d)\<rparr>) = payment_currency k d"
  proof (cases "row_by p_id k (payments d)")
    case None
    then have "row_by p_id k (upd_by p_id j f (payments d)) = None" by (auto simp: row_by_upd_by assms)
    with None show ?thesis by (simp add: payment_accounts_def payment_currency_def)
  next
    case (Some p)
    then obtain p' where r: "row_by p_id k (upd_by p_id j f (payments d)) = Some p'"
      "p_request p' = p_request p" "p_currency p' = p_currency p"
      by (cases "k = j") (auto simp: row_by_upd_by assms)
    with Some show ?thesis
      by (simp add: payment_accounts_def payment_currency_def cong: option.case_cong list.case_cong)
  qed
  then show "payment_accounts cur k (d\<lparr>payments := upd_by p_id j f (payments d)\<rparr>) = payment_accounts cur k d"
    "payment_currency k (d\<lparr>payments := upd_by p_id j f (payments d)\<rparr>) = payment_currency k d" by simp_all
qed

interpretation accounts: worker_stable "accounts_found k" for k
  by unfold_locales (simp_all add: accounts_found_def payment_accounts_upd)

section \<open>A run answers the payments it takes\<close>

lemma workable_stable:
  assumes "workable k d" "process_one V pid customer clearing corr (d, prov) = (r, d', prov')"
  shows "workable k d'"
proof -
  obtain rid n cur res where w: "charge_key_free k d" "payment_facts k d = Some (rid, n, cur)" "reserved_for rid res d"
    "0 < n \<and> n < num4_max \<and> length cur = 3 \<and> upper (strip cur) = upper cur"
    using assms(1) unfolding workable_def by blast
  show ?thesis
    unfolding workable_def
    using free_key.worker [OF w(1) assms(2)] facts.worker [OF w(2) assms(2)] reserved.worker [OF w(3) assms(2)] w(4)
    by blast
qed

lemma mock_answers: "\<exists>out prov'. pp_charge (MockProvider sha) prov pid minor cur key = (Inr out, prov')"
  by (cases "mock_run sha prov key") (simp add: MockProvider_def keyed_provider_def keyed_call_def)

lemma run_payments_answers:
  assumes "budgets_ok d" "\<forall>pid \<in> set pids. workable pid d \<and> accounts_found pid d"
  shows "\<exists>d' prov'. run_payments sha pids n (d, prov) = (Inr (n + length pids), d', prov')"
  using assms
proof (induction pids arbitrary: n d prov)
  case Nil
  then show ?case by simp
next
  case (Cons pid pids)
  obtain cur customer clearing where acc: "payment_currency pid d = Inr cur"
    "payment_accounts cur pid d = Some (customer, clearing)"
    and la: "known la_id customer (ledger_accounts d)" "known la_id clearing (ledger_accounts d)"
    using Cons.prems(2) by (auto simp: accounts_found_def)
  obtain st d1 prov1 where one:
    "process_one (MockProvider sha) pid customer clearing None (d, prov) = (Inr st, d1, prov1)"
    using process_one_answers [OF Cons.prems(1) _ la mock_answers] Cons.prems(2) by fastforce
  have "budgets_ok d1" by (rule process_one_keeps [OF keeps_claim(1) keeps_finalize(1) Cons.prems(1) one])
  moreover have "\<forall>pid \<in> set pids. workable pid d1 \<and> accounts_found pid d1"
    using Cons.prems(2) workable_stable [OF _ one] accounts.worker [OF _ one] by auto
  ultimately obtain d' prov' where "run_payments sha pids (n + 1) (d1, prov1) = (Inr (n + 1 + length pids), d', prov')"
    using Cons.IH by blast
  with acc one show ?case by simp
qed

text \<open>What a run leaves as it was.\<close>

lemma run_payments_keeps:
  assumes "\<And>pid customer clearing d prov r d' prov'. pid \<in> set pids \<Longrightarrow> I d \<Longrightarrow>
      process_one (MockProvider sha) pid customer clearing None (d, prov) = (r, d', prov') \<Longrightarrow> I d'"
    and "I d" "run_payments sha pids n (d, prov) = (r, d', prov')"
  shows "I d'"
  using assms
proof (induction pids arbitrary: n d prov)
  case Nil
  then show ?case by simp
next
  case (Cons pid pids)
  show ?case
  proof (cases "\<exists>cur customer clearing. payment_currency pid d = Inr cur \<and> payment_accounts cur pid d = Some (customer, clearing)")
    case False
    with Cons.prems(2,3) show ?thesis by (auto split: sum.splits option.splits)
  next
    case True
    then obtain cur customer clearing where acc: "payment_currency pid d = Inr cur"
      "payment_accounts cur pid d = Some (customer, clearing)" by blast
    obtain r1 d1 prov1 where one: "process_one (MockProvider sha) pid customer clearing None (d, prov) = (r1, d1, prov1)"
      by (cases "process_one (MockProvider sha) pid customer clearing None (d, prov)")
    have 1: "I d1" using Cons.prems(1) [OF _ Cons.prems(2) one] by simp
    show ?thesis
    proof (cases r1)
      case (Inl e)
      with Cons.prems(3) acc one 1 show ?thesis by simp
    next
      case (Inr st)
      with Cons.prems(3) acc one have "run_payments sha pids (n + 1) (d1, prov1) = (r, d', prov')" by simp
      from Cons.IH [OF _ 1 this] Cons.prems(1) show ?thesis by (meson list.set_intros(2))
    qed
  qed
qed

section \<open>Repeated runs empty the queue\<close>

definition queue :: "db \<Rightarrow> payment_row list" where
  "queue d = filter (executable d) (payments d)"

definition drainable :: "db \<Rightarrow> bool" where
  "drainable d \<longleftrightarrow> budgets_ok d \<and> distinct (map p_id (payments d)) \<and>
     (\<forall>p \<in> set (queue d). workable (p_id p) d \<and> accounts_found (p_id p) d)"

definition queue_ids :: "db \<Rightarrow> nat set" where
  "queue_ids d = p_id ` set (queue d)"

lemma in_queue_ids:
  assumes "distinct (map p_id (payments d))"
  shows "k \<in> queue_ids d \<longleftrightarrow> status_in {ST_PROCESSING} k d \<and>
    (\<exists>rid n cur q. payment_facts k d = Some (rid, n, cur) \<and> row_by q_id rid (requests d) = Some q \<and> q_reservation q \<noteq> None)"
    (is "_ \<longleftrightarrow> ?right")
proof
  assume "k \<in> queue_ids d"
  then obtain p where p: "p \<in> set (payments d)" "executable d p" "p_id p = k"
    by (auto simp: queue_ids_def queue_def)
  have "row_by p_id k (payments d) = Some p" using row_by_distinct [OF assms p(1)] p(3) by simp
  with p show ?right
    by (auto simp: executable_def request_of_def status_in_def payment_facts_def split: option.splits)
next
  assume ?right
  then obtain p where "row_by p_id k (payments d) = Some p" "executable d p"
    by (auto simp: executable_def request_of_def status_in_def payment_facts_def)
  then show "k \<in> queue_ids d" using row_by_in by (fastforce simp: queue_ids_def queue_def)
qed

lemma length_queue:
  assumes "distinct (map p_id (payments d))"
  shows "length (queue d) = card (queue_ids d)"
proof -
  have "distinct (map p_id (queue d))" using assms by (simp add: queue_def distinct_map_filter)
  from distinct_card [OF this] show ?thesis by (simp add: queue_ids_def)
qed

definition taken :: "nat \<Rightarrow> db \<Rightarrow> nat list" where
  "taken n d = map p_id (take n (sort_key p_created (queue d)))"

lemma set_taken: "set (taken n d) \<subseteq> queue_ids d"
  by (auto simp: taken_def queue_ids_def dest: in_set_takeD)

lemma length_taken: "length (taken n d) = min n (length (queue d))"
  by (simp add: taken_def)

lemma distinct_taken:
  assumes "distinct (map p_id (payments d))"
  shows "distinct (taken n d)"
proof -
  have "distinct (map p_id (sort_key p_created (queue d)))"
    using assms by (auto simp: queue_def distinct_map inj_on_def)
  then show ?thesis by (simp add: taken_def flip: take_map)
qed

lemma run_once_runs:
  assumes "drainable d" "outcome_of_text (getenv_or env ''AGENT_PAY_MOCK_OUTCOME'' ''SUCCEEDED'') = Inr out"
  obtains d' prov' where "run_payments sha (taken n d) 0 (d, new_mock out) = (Inr (length (taken n d)), d', prov')"
    "run_once sha env n d = (Inr (length (taken n d)), d')"
proof -
  have w: "\<forall>pid \<in> set (taken n d). workable pid d \<and> accounts_found pid d"
    using assms(1) set_taken [of n d] by (auto simp: drainable_def queue_ids_def)
  obtain d' prov' where run: "run_payments sha (taken n d) 0 (d, new_mock out) = (Inr (length (taken n d)), d', prov')"
    using run_payments_answers [OF _ w, of sha 0 "new_mock out"] assms(1) by (auto simp: drainable_def)
  have "map fst (map (pending_row d) (take n (sort_key p_created (queue d)))) = taken n d"
    by (simp add: taken_def pending_row_def comp_def)
  then have "run_once sha env n d = (Inr (length (taken n d)), d')"
    using run assms(2)
    by (simp add: run_once_def connection_unit_of_work transact_def pending_for_execution_def queue_def [symmetric]
        del: map_map)
  with run that show thesis by blast
qed

lemma run_payments_ids:
  assumes dist: "distinct (map p_id (payments d))" and run: "run_payments sha pids n (d, prov) = (Inr m, d', prov')"
  shows "distinct (map p_id (payments d'))" "queue_ids d' = queue_ids d - set pids"
proof -
  have "map p_id (payments d') = map p_id (payments d)"
    by (rule run_payments_keeps [where I = "\<lambda>e. map p_id (payments e) = map p_id (payments d)", OF paid_ids.worker refl run])
  with dist show dist': "distinct (map p_id (payments d'))" by simp
  have facts: "payment_facts k d' = payment_facts k d" for k
    by (rule run_payments_keeps [where I = "\<lambda>e. payment_facts k e = payment_facts k d", OF facts.worker refl run])
  have reqs: "requests d' = requests d"
    by (rule run_payments_keeps [where I = "\<lambda>e. requests e = requests d", OF asked.worker refl run])
  have other: "status_in S k d'" if "k \<notin> set pids" "status_in S k d" for S k
  proof (rule run_payments_keeps [where I = "status_in S k", OF _ that(2) run])
    fix pid customer clearing e prov1 r e' prov2
    assume "pid \<in> set pids" "status_in S k e"
      and one: "process_one (MockProvider sha) pid customer clearing None (e, prov1) = (r, e', prov2)"
    with that(1) have "k \<noteq> pid" by auto
    from process_one_keeps [OF keeps_other_status [OF this] \<open>status_in S k e\<close> one] show "status_in S k e'" .
  qed
  have gone: "\<not> status_in {ST_PROCESSING} k d'" if "k \<in> set pids" for k
    using run_payments_settles [OF run] that by (auto simp: status_in_def answered_def)
  have same: "status_in {ST_PROCESSING} k d' \<longleftrightarrow> status_in {ST_PROCESSING} k d"
    if k: "k \<notin> set pids" and f: "payment_facts k d \<noteq> None" for k
  proof
    assume now: "status_in {ST_PROCESSING} k d'"
    show "status_in {ST_PROCESSING} k d"
    proof (rule ccontr)
      assume "\<not> status_in {ST_PROCESSING} k d"
      with f have "status_in (- {ST_PROCESSING}) k d" by (auto simp: status_in_def payment_facts_def)
      from other [OF k this] now show False by (auto simp: status_in_def)
    qed
  qed (rule other [OF k])
  show "queue_ids d' = queue_ids d - set pids"
    unfolding set_eq_iff Diff_iff in_queue_ids [OF dist] in_queue_ids [OF dist'] facts reqs
    using gone same by fastforce
qed

lemma run_once_queue:
  assumes dr: "drainable d" and out: "outcome_of_text (getenv_or env ''AGENT_PAY_MOCK_OUTCOME'' ''SUCCEEDED'') = Inr out"
  shows "\<exists>d'. run_once sha env n d = (Inr (min n (length (queue d))), d') \<and> drainable d' \<and>
    queue_ids d' = queue_ids d - set (taken n d) \<and> length (queue d') = length (queue d) - n \<and>
    (\<forall>k \<in> set (taken n d). status_in answered k d') \<and>
    (\<forall>k. status_in answered k d \<longrightarrow> status_in answered k d')"
proof -
  obtain d' prov' where run: "run_payments sha (taken n d) 0 (d, new_mock out) = (Inr (length (taken n d)), d', prov')"
    and once: "run_once sha env n d = (Inr (length (taken n d)), d')"
    by (rule run_once_runs [OF dr out])
  have dist: "distinct (map p_id (payments d))" using dr by (simp add: drainable_def)
  note ids = run_payments_ids [OF dist run]
  have ok: "budgets_ok d'"
    by (rule run_payments_keeps [where I = budgets_ok, OF process_one_keeps [OF keeps_claim(1) keeps_finalize(1)] _ run])
      (use dr in \<open>simp_all add: drainable_def\<close>)
  have stay: "workable k d' \<and> accounts_found k d'" if "workable k d \<and> accounts_found k d" for k
    by (rule run_payments_keeps [where I = "\<lambda>e. workable k e \<and> accounts_found k e", OF _ that run])
      (meson workable_stable accounts.worker)
  have "\<forall>k \<in> queue_ids d'. workable k d' \<and> accounts_found k d'"
    using ids(2) dr stay by (auto simp: drainable_def queue_ids_def)
  then have "drainable d'" using ok ids(1) by (simp add: drainable_def queue_ids_def)
  moreover have "length (queue d') = length (queue d) - n"
  proof -
    have "card (queue_ids d - set (taken n d)) = card (queue_ids d) - card (set (taken n d))"
      by (rule card_Diff_subset [OF _ set_taken]) simp
    then show ?thesis
      using length_taken [of n d] distinct_card [OF distinct_taken [OF dist, of n]]
      by (simp add: length_queue [OF dist] length_queue [OF ids(1)] ids(2))
  qed
  ultimately show ?thesis
    using once ids(2) run_payments_settles [OF run] by (intro exI [of _ d']) (simp add: length_taken)
qed

text \<open>The process is started again and again.\<close>

fun run_many :: "(string \<Rightarrow> string) \<Rightarrow> environ \<Rightarrow> nat \<Rightarrow> nat \<Rightarrow> db \<Rightarrow> exn + db" where
  "run_many sha env n 0 d = Inr d"
| "run_many sha env n (Suc k) d =
     (case run_once sha env n d of
        (Inl e, _) \<Rightarrow> Inl e
      | (Inr _, d1) \<Rightarrow> run_many sha env n k d1)"

lemma run_many_drains:
  assumes "drainable d" "outcome_of_text (getenv_or env ''AGENT_PAY_MOCK_OUTCOME'' ''SUCCEEDED'') = Inr out"
    and "length (queue d) \<le> k * n"
  shows "\<exists>d'. run_many sha env n k d = Inr d' \<and> queue d' = [] \<and>
    (\<forall>i. i \<in> queue_ids d \<or> status_in answered i d \<longrightarrow> status_in answered i d')"
  using assms(1,3)
proof (induction k arbitrary: d)
  case 0
  then show ?case by (simp add: queue_ids_def)
next
  case (Suc k)
  obtain d1 where run: "run_once sha env n d = (Inr (min n (length (queue d))), d1)" and dr: "drainable d1"
    and ids: "queue_ids d1 = queue_ids d - set (taken n d)" and len: "length (queue d1) = length (queue d) - n"
    and ans: "\<forall>k \<in> set (taken n d). status_in answered k d1" "\<forall>k. status_in answered k d \<longrightarrow> status_in answered k d1"
    using run_once_queue [OF Suc.prems(1) assms(2)] by blast
  have "length (queue d1) \<le> k * n" using len Suc.prems(2) by simp
  from Suc.IH [OF dr this] obtain d' where d': "run_many sha env n k d1 = Inr d'" "queue d' = []"
    "\<forall>i. i \<in> queue_ids d1 \<or> status_in answered i d1 \<longrightarrow> status_in answered i d'" by blast
  have "status_in answered i d'" if "i \<in> queue_ids d \<or> status_in answered i d" for i
    using that d'(3) ans ids by blast
  with run d' show ?case by simp
qed


lemma ready_queue: "queue ready_db = [sample_payment\<lparr>p_status := ST_PROCESSING\<rparr>]"
  by (simp add: queue_def executable_def request_of_def ready_db_def held_db_def sample_defs)


section \<open>A payment that blocks the queue\<close>

text \<open>When the accounts of the oldest waiting payment are missing, every run raises before it reaches another
  payment and leaves everything as it is, so the next run meets the same payment first.\<close>

lemma oldest_blocks:
  assumes "sort_key p_created (queue d) = p # ps" "0 < n"
    and "outcome_of_text (getenv_or env ''AGENT_PAY_MOCK_OUTCOME'' ''SUCCEEDED'') = Inr out"
    and "payment_currency (p_id p) d = Inr cur" "payment_accounts cur (p_id p) d = None"
  shows "run_once sha env n d =
    (Inl (RuntimeError ''customer wallet ledger account or provider clearing account is missing''), d)"
proof -
  obtain m where n: "n = Suc m" using assms(2) by (cases n) auto
  have "map fst (map (pending_row d) (take n (sort_key p_created (queue d)))) = p_id p # map p_id (take m ps)"
    by (simp add: assms(1) n pending_row_def comp_def)
  then show ?thesis
    using assms(3-5)
    by (simp add: run_once_def connection_unit_of_work transact_def pending_for_execution_def queue_def [symmetric]
        del: map_map)
qed

end
