(* ===== verification/Documents.thy ===== *)
theory Documents
  imports PolicyRules
begin

text \<open>
  What the scripts under \<open>tools\<close> do with the documents they load: Python's subscripts, \<open>get\<close>,
  \<open>len\<close>, slices, membership, dictionary comprehensions and equality on the values that
  \<open>json.loads\<close> and \<open>yaml.safe_load\<close> return, with the errors of every operation on a value of the
  wrong type. A YAML document is taken to have text keys and JSON values. An integral float below
  \<open>10 ^ 16\<close> equals the integer, as its \<open>repr\<close> shows; larger floats are not compared with integers.
  Both loaders return one shared NaN object, so inside containers it equals itself.
\<close>

section \<open>Equality\<close>

definition number_text :: "json \<Rightarrow> string option" where
  "number_text v =
     (case v of
        JBool b \<Rightarrow> Some (if b then ''1'' else ''0'')
      | JInt i \<Rightarrow> Some (str_int i)
      | JFloat r \<Rightarrow>
          Some (if r = ''-0.0'' then ''0''
                else if 2 < length r \<and> drop (length r - 2) r = ''.0'' then take (length r - 2) r else r)
      | _ \<Rightarrow> None)"

fun json_eq :: "json \<Rightarrow> json \<Rightarrow> bool"
  and json_all_eq :: "json list \<Rightarrow> json list \<Rightarrow> bool"
  and members_eq :: "(string \<times> json) list \<Rightarrow> (string \<times> json) list \<Rightarrow> bool" where
  "json_eq JNull w = (w = JNull)"
| "json_eq (JStr s) w = (w = JStr s)"
| "json_eq (JArr vs) w = (case w of JArr ws \<Rightarrow> json_all_eq vs ws | _ \<Rightarrow> False)"
| "json_eq (JObj ms) w = (case w of JObj ns \<Rightarrow> length ms = length ns \<and> members_eq ms ns | _ \<Rightarrow> False)"
| "json_eq (JBool b) w = (number_text (JBool b) = number_text w)"
| "json_eq (JInt i) w = (number_text (JInt i) = number_text w)"
| "json_eq (JFloat r) w = (number_text (JFloat r) = number_text w)"
| "json_all_eq [] ws = (ws = [])"
| "json_all_eq (v # vs) ws = (case ws of [] \<Rightarrow> False | w # ws' \<Rightarrow> json_eq v w \<and> json_all_eq vs ws')"
| "members_eq [] ns = True"
| "members_eq (m # ms) ns =
     ((case map_of ns (fst m) of None \<Rightarrow> False | Some w \<Rightarrow> json_eq (snd m) w) \<and> members_eq ms ns)"

lemma digit_not_minus: "d < 10 \<Longrightarrow> digit_char d \<noteq> CHR ''-''"
proof
  assume "d < 10" "digit_char d = CHR ''-''"
  then have "(of_char (digit_char d) :: nat) = of_char CHR ''-''" by simp
  with \<open>d < 10\<close> show False by (simp add: digit_char_def)
qed

lemma str_int_inject [simp]: "str_int i = str_int j \<longleftrightarrow> i = j"
proof -
  have "CHR ''-'' \<notin> set (str_nat n)" for n
    using digit_not_minus by (force simp: str_nat_def dest: nat_digits_lt)
  then have "str_nat n \<noteq> CHR ''-'' # s" for n s by (metis list.set_intros(1))
  then show ?thesis by (auto simp: str_int_def dest: sym)
qed

lemma number_text_other [simp]:
  "number_text JNull = None" "number_text (JStr s) = None" "number_text (JArr vs) = None"
  "number_text (JObj ms) = None" "number_text (JInt i) = Some (str_int i)"
  by (simp_all add: number_text_def)

lemma number_text_Some: "(\<exists>t. number_text v = Some t) \<longleftrightarrow> (\<exists>b i r. v = JBool b \<or> v = JInt i \<or> v = JFloat r)"
  by (cases v) (simp_all add: number_text_def)

text \<open>Comparing with a text constant is comparing the values.\<close>

lemma json_eq_text [simp]: "json_eq v (JStr s) \<longleftrightarrow> v = JStr s"
  by (cases v) (auto simp: number_text_def)

lemma json_all_eq_list_all2: "json_all_eq vs ws \<longleftrightarrow> list_all2 json_eq vs ws"
  by (induction vs arbitrary: ws) (auto split: list.split)

lemma members_eq_iff:
  "members_eq ms ns \<longleftrightarrow> (\<forall>(k, v) \<in> set ms. \<exists>w. map_of ns k = Some w \<and> json_eq v w)"
  by (induction ms) (auto split: option.splits)

lemma json_all_eq_texts [simp]: "json_all_eq (map JStr xs) ws \<longleftrightarrow> ws = map JStr xs"
  by (induction xs arbitrary: ws) (auto split: list.split)

lemma json_eq_symmetric_text [simp]: "json_eq (JStr s) v \<longleftrightarrow> v = JStr s"
  by simp

section \<open>Operations\<close>

text \<open>\<open>len(v)\<close>, \<open>v[-1]\<close> and \<open>v[:-1]\<close>.\<close>

fun py_len :: "json \<Rightarrow> exn + nat" where
  "py_len (JArr vs) = Inr (length vs)"
| "py_len (JObj ms) = Inr (length ms)"
| "py_len (JStr s) = Inr (length s)"
| "py_len v = Inl (TypeError ''object has no len()'')"

fun last_item :: "json \<Rightarrow> exn + json" where
  "last_item (JArr vs) = (if vs = [] then Inl (IndexError ''list index out of range'') else Inr (last vs))"
| "last_item (JStr s) = (if s = [] then Inl (IndexError ''string index out of range'') else Inr (JStr [last s]))"
| "last_item (JObj ms) = Inl (KeyError ''-1'')"
| "last_item v = Inl (TypeError ''object is not subscriptable'')"

fun init_items :: "json \<Rightarrow> exn + json" where
  "init_items (JArr vs) = Inr (JArr (butlast vs))"
| "init_items (JStr s) = Inr (JStr (butlast s))"
| "init_items (JObj ms) = Inl (TypeError ''unhashable type'')"
| "init_items v = Inl (TypeError ''object is not subscriptable'')"

text \<open>A list or a dict cannot be hashed: not a member of a set, not a key.\<close>

fun hashable :: "json \<Rightarrow> bool" where
  "hashable (JArr _) = False"
| "hashable (JObj _) = False"
| "hashable _ = True"

definition hash_check :: "json \<Rightarrow> exn + unit" where
  "hash_check v = (if hashable v then Inr () else Inl (TypeError ''unhashable type''))"

text \<open>\<open>v in {text, ...}\<close> and \<open>v in container\<close>.\<close>

definition in_texts :: "json \<Rightarrow> string list \<Rightarrow> exn + bool" where
  "in_texts v ts = bindE (hash_check v) (\<lambda>_. Inr (list_ex (\<lambda>t. json_eq v (JStr t)) ts))"

fun contains_item :: "json \<Rightarrow> json \<Rightarrow> exn + bool" where
  "contains_item (JArr vs) v = Inr (list_ex (\<lambda>w. json_eq w v) vs)"
| "contains_item (JObj ms) v =
     bindE (hash_check v) (\<lambda>_. Inr (list_ex (\<lambda>m. json_eq v (JStr (fst m))) ms))"
| "contains_item (JStr s) v =
     (case v of JStr k \<Rightarrow> Inr (sublist k s)
      | _ \<Rightarrow> Inl (TypeError ''in <string> requires string as left operand''))"
| "contains_item c v = Inl (TypeError ''argument is not iterable'')"

text \<open>A dictionary with keys of any kind, as a comprehension builds it: a later value of an equal key
  replaces the earlier one.\<close>

fun dict_put :: "json \<Rightarrow> json \<Rightarrow> (json \<times> json) list \<Rightarrow> (json \<times> json) list" where
  "dict_put k v [] = [(k, v)]"
| "dict_put k v (m # ms) = (if json_eq (fst m) k then (fst m, v) # ms else m # dict_put k v ms)"

fun dict_get :: "(json \<times> json) list \<Rightarrow> json \<Rightarrow> json option" where
  "dict_get [] k = None"
| "dict_get (m # ms) k = (if json_eq (fst m) k then Some (snd m) else dict_get ms k)"

definition dict_eq :: "(json \<times> json) list \<Rightarrow> (json \<times> json) list \<Rightarrow> bool" where
  "dict_eq d e \<longleftrightarrow> length d = length e \<and>
     list_all (\<lambda>(k, v). case dict_get e k of None \<Rightarrow> False | Some w \<Rightarrow> json_eq v w) d"

text \<open>\<open>[f(item) for item in v[key]]\<close>.\<close>

definition each_of :: "json \<Rightarrow> string \<Rightarrow> (json \<Rightarrow> exn + 'a) \<Rightarrow> exn + 'a list" where
  "each_of v k f = bindE (index_key v k) (\<lambda>xs. bindE (iterate xs) (all_ok f))"

text \<open>\<open>assert condition, message\<close>.\<close>

definition assertE :: "bool \<Rightarrow> string \<Rightarrow> exn + unit" where
  "assertE b m = (if b then Inr () else Inl (AssertionError m))"

lemma assertE_Inr [err_simps]: "assertE b m = Inr u \<longleftrightarrow> b"
  by (simp add: assertE_def)

lemma all_ok_Inr: "all_ok f xs = Inr ys \<longleftrightarrow> list_all2 (\<lambda>x y. f x = Inr y) xs ys"
  by (induction xs arbitrary: ys) (auto simp: err_simps list_all2_Cons1)

end
