(* ===== verification/Contracts.thy ===== *)
theory Contracts
  imports Documents
begin

text \<open>
  \<open>tools/v2_phase_contract_runner.py\<close> and \<open>tools/v2_final_cross_repo.py\<close>: the checks of the phase
  contracts, in this repository and against the ATF repository. Files and responses are answers of the
  environment, a record of functions: the bytes or the text of a path relative to the repository, the body
  of a request, and the decoders of the standard library and of PyYAML.
\<close>

section \<open>The environment of the scripts\<close>

record request =
  rq_url :: string
  rq_headers :: "(string \<times> string) list"
  rq_timeout :: "nat option"

record environment =
  read_bytes :: "string \<Rightarrow> exn + string"
  read_text :: "string option \<Rightarrow> string \<Rightarrow> exn + string"
  urlopen :: "request \<Rightarrow> exn + string"
  decode_utf8 :: "string \<Rightarrow> exn + string"
  json_loads :: "string \<Rightarrow> exn + json"
  json_loads_bytes :: "string \<Rightarrow> exn + json"
  safe_load :: "string \<Rightarrow> exn + json"
  safe_load_bytes :: "string \<Rightarrow> exn + json"
  b64decode :: "string \<Rightarrow> exn + string"
  sha256_hex :: "string \<Rightarrow> string"

text \<open>\<open>for x in xs: body(x)\<close>.\<close>

fun eachE :: "('a \<Rightarrow> exn + unit) \<Rightarrow> 'a list \<Rightarrow> exn + unit" where
  "eachE f [] = Inr ()"
| "eachE f (x # xs) = bindE (f x) (\<lambda>_. eachE f xs)"

lemma eachE_Inr [err_simps]: "eachE f xs = Inr u \<longleftrightarrow> (\<forall>x \<in> set xs. f x = Inr ())"
  by (induction xs) (auto simp: err_simps)

section \<open>One contract\<close>

definition contract_path :: "nat \<Rightarrow> string" where
  "contract_path phase = ''conformance/v2/phase-'' @ str_int (int phase) @ ''/contract.json''"

definition contract_decisions :: "string list" where
  "contract_decisions = [''ALLOW'', ''DENY'', ''REQUIRE_HUMAN'']"

definition check_vector :: "json \<Rightarrow> json \<Rightarrow> exn + unit" where
  "check_vector rules v =
     bindE (index_key v ''expected_decision'') (\<lambda>decision.
     bindE (in_texts decision contract_decisions) (\<lambda>known.
     bindE (assertE known '''') (\<lambda>_.
     bindE (index_key v ''rule'') (\<lambda>rule.
     bindE (contains_item rules rule) (\<lambda>listed. assertE listed '''')))))"

definition check_contract :: "nat \<Rightarrow> json \<Rightarrow> exn + unit" where
  "check_contract phase c =
     bindE (index_key c ''phase'') (\<lambda>found.
     bindE (assertE (json_eq found (JInt (int phase)))
       (''('' @ str_int (int phase) @ '', '' @ py_repr found @ '')'')) (\<lambda>_.
     bindE (index_key c ''protocol_version'') (\<lambda>protocol.
     bindE (assertE (json_eq protocol (JStr ''agent-pay/v2'')) '''') (\<lambda>_.
     bindE (get_key_or c ''upstream_protocol'' JNull) (\<lambda>upstream.
     bindE (assertE (json_eq upstream (JStr ''atf/v2'')) '''') (\<lambda>_.
     bindE (index_key c ''rules'') (\<lambda>rules.
     bindE (index_key c ''vectors'') (\<lambda>vectors.
     bindE (py_len vectors) (\<lambda>n.
     bindE (py_len rules) (\<lambda>m.
     bindE (assertE (n = m + 1) '''') (\<lambda>_.
     bindE (last_item vectors) (\<lambda>final.
     bindE (index_key final ''expected_decision'') (\<lambda>decision.
     bindE (assertE (json_eq decision (JStr ''DENY'')) '''') (\<lambda>_.
     bindE (index_key final ''rule'') (\<lambda>rule.
     bindE (assertE (json_eq rule (JStr ''fail-closed'')) '''') (\<lambda>_.
     bindE (init_items vectors) (\<lambda>others.
     bindE (iterate others) (eachE (check_vector rules)))))))))))))))))))"

definition run_phase_contract :: "environment \<Rightarrow> nat \<Rightarrow> exn + unit" where
  "run_phase_contract env phase =
     bindE (read_text env None (contract_path phase)) (\<lambda>t.
     bindE (json_loads env t) (check_contract phase))"

definition phase_contract_runner :: "environment \<Rightarrow> exn + string" where
  "phase_contract_runner env =
     bindE (eachE (run_phase_contract env) [35..<44]) (\<lambda>_.
     Inr ''Agent-Pay V2 phases 35-43: PASS'')"

section \<open>What a passing contract is\<close>

text \<open>The contract as data, the documents that hold it, and the rule the runner enforces.\<close>

record phase_vector =
  ve_decision :: string
  ve_rule :: string

record phase_contract =
  pc_phase :: nat
  pc_protocol :: string
  pc_upstream :: string
  pc_rules :: "string list"
  pc_vectors :: "phase_vector list"

fun holds_vector :: "json \<Rightarrow> phase_vector \<Rightarrow> bool" where
  "holds_vector (JObj ms) v \<longleftrightarrow>
     map_of ms ''expected_decision'' = Some (JStr (ve_decision v)) \<and>
     map_of ms ''rule'' = Some (JStr (ve_rule v))"
| "holds_vector _ v \<longleftrightarrow> False"

fun holds_contract :: "json \<Rightarrow> phase_contract \<Rightarrow> bool" where
  "holds_contract (JObj ms) c \<longleftrightarrow>
     map_of ms ''phase'' = Some (JInt (int (pc_phase c))) \<and>
     map_of ms ''protocol_version'' = Some (JStr (pc_protocol c)) \<and>
     map_of ms ''upstream_protocol'' = Some (JStr (pc_upstream c)) \<and>
     map_of ms ''rules'' = Some (JArr (map JStr (pc_rules c))) \<and>
     (case map_of ms ''vectors'' of Some (JArr ds) \<Rightarrow> list_all2 holds_vector ds (pc_vectors c) | _ \<Rightarrow> False)"
| "holds_contract _ c \<longleftrightarrow> False"

definition vector_ok :: "string list \<Rightarrow> phase_vector \<Rightarrow> bool" where
  "vector_ok rules v \<longleftrightarrow>
     ve_decision v \<in> {''ALLOW'', ''DENY'', ''REQUIRE_HUMAN''} \<and> ve_rule v \<in> set rules"

text \<open>The vectors close with a denial under the rule \<open>fail-closed\<close>; before it stand as many vectors
  as there are rules, each with a known decision and a listed rule.\<close>

definition fails_closed :: "phase_contract \<Rightarrow> bool" where
  "fails_closed c \<longleftrightarrow>
     length (pc_vectors c) = length (pc_rules c) + 1 \<and>
     last (pc_vectors c) = \<lparr>ve_decision = ''DENY'', ve_rule = ''fail-closed''\<rparr> \<and>
     list_all (vector_ok (pc_rules c)) (butlast (pc_vectors c))"

definition accepted_contract :: "nat \<Rightarrow> phase_contract \<Rightarrow> bool" where
  "accepted_contract phase c \<longleftrightarrow>
     pc_phase c = phase \<and> pc_protocol c = ''agent-pay/v2'' \<and> pc_upstream c = ''atf/v2'' \<and> fails_closed c"

lemma index_vector:
  assumes "holds_vector d v"
  shows "index_key d ''expected_decision'' = Inr (JStr (ve_decision v))"
    "index_key d ''rule'' = Inr (JStr (ve_rule v))"
  using assms by (cases d; simp add: jindex_def)+

lemma check_vector_ok:
  assumes "holds_vector d v"
  shows "check_vector (JArr (map JStr rules)) d = Inr () \<longleftrightarrow> vector_ok rules v"
  by (auto simp: check_vector_def index_vector [OF assms] in_texts_def hash_check_def vector_ok_def
      contract_decisions_def err_simps list_ex_iff)

lemma check_vectors_ok:
  "list_all2 holds_vector ds vs \<Longrightarrow>
   (\<forall>d \<in> set ds. check_vector (JArr (map JStr rules)) d = Inr ()) \<longleftrightarrow> list_all (vector_ok rules) vs"
  by (induction rule: list_all2_induct) (simp_all add: check_vector_ok)

lemma check_contract_ok:
  assumes "holds_contract doc c"
  shows "check_contract phase doc = Inr () \<longleftrightarrow> accepted_contract phase c"
proof -
  obtain ms ds where doc: "doc = JObj ms" and ds: "map_of ms ''vectors'' = Some (JArr ds)"
    and all: "list_all2 holds_vector ds (pc_vectors c)"
    using assms by (cases doc) (auto split: option.splits json.splits)
  have head: "map_of ms ''phase'' = Some (JInt (int (pc_phase c)))"
    "map_of ms ''protocol_version'' = Some (JStr (pc_protocol c))"
    "map_of ms ''upstream_protocol'' = Some (JStr (pc_upstream c))"
    "map_of ms ''rules'' = Some (JArr (map JStr (pc_rules c)))"
    using assms by (simp_all add: doc)
  show ?thesis
  proof (cases "pc_vectors c" rule: rev_cases)
    case Nil
    with all have "ds = []" by simp
    with Nil show ?thesis
      by (simp add: doc check_contract_def jindex_def jget_or_def head ds accepted_contract_def fails_closed_def err_simps)
  next
    case (snoc vs final)
    with all obtain es d where es: "ds = es @ [d]" "list_all2 holds_vector es vs" "holds_vector d final"
      by (auto simp: list_all2_append2 list_all2_Cons2)
    show ?thesis
      using snoc check_vectors_ok [OF es(2), of "pc_rules c"] list_all2_lengthD [OF es(2)]
      by (auto simp: doc check_contract_def jindex_def jget_or_def head ds es(1) index_vector [OF es(3)]
          accepted_contract_def fails_closed_def err_simps)
  qed
qed

section \<open>The runner over every phase\<close>

text \<open>Where the document of a phase is found and what it holds.\<close>

definition local_contract :: "environment \<Rightarrow> nat \<Rightarrow> phase_contract \<Rightarrow> bool" where
  "local_contract env phase c \<longleftrightarrow>
     (case read_text env None (contract_path phase) of Inl _ \<Rightarrow> False
      | Inr t \<Rightarrow> (case json_loads env t of Inl _ \<Rightarrow> False | Inr doc \<Rightarrow> holds_contract doc c))"

lemma local_contractE:
  assumes "local_contract env phase c"
  obtains t doc where "read_text env None (contract_path phase) = Inr t" "json_loads env t = Inr doc"
    "holds_contract doc c"
  using assms by (auto simp: local_contract_def split: sum.splits)

lemma run_phase_contract_ok:
  "local_contract env phase c \<Longrightarrow> run_phase_contract env phase = Inr () \<longleftrightarrow> accepted_contract phase c"
  by (erule local_contractE) (simp add: run_phase_contract_def check_contract_ok)

lemma runner_Inr: "phase_contract_runner env = Inr out \<longleftrightarrow>
    out = ''Agent-Pay V2 phases 35-43: PASS'' \<and> (\<forall>phase \<in> {35..43}. run_phase_contract env phase = Inr ())"
proof -
  have "set [35..<44] = {35..43::nat}" by (simp add: atLeastLessThanSuc_atLeastAtMost [symmetric] del: upt_rec_numeral)
  then show ?thesis by (auto simp: phase_contract_runner_def err_simps simp del: upt_rec_numeral)
qed

lemma runner_accepts:
  assumes "\<And>phase. 35 \<le> phase \<Longrightarrow> phase \<le> 43 \<Longrightarrow> local_contract env phase (contract phase)"
  shows "phase_contract_runner env = Inr ''Agent-Pay V2 phases 35-43: PASS'' \<longleftrightarrow>
    (\<forall>phase \<in> {35..43}. accepted_contract phase (contract phase))"
proof -
  have "\<forall>phase \<in> {35..43}. run_phase_contract env phase = Inr () \<longleftrightarrow> accepted_contract phase (contract phase)"
    using run_phase_contract_ok assms by auto
  then show ?thesis by (simp add: runner_Inr)
qed

section \<open>The comparison with the ATF repository\<close>

definition ATF_RAW :: string where
  "ATF_RAW = ''https://raw.githubusercontent.com/Agentic-Trust-Foundation/agentic-trust/main/conformance/v2''"

definition contract_request :: "nat \<Rightarrow> request" where
  "contract_request phase =
     \<lparr>rq_url = ATF_RAW @ ''/phase-'' @ str_int (int phase) @ ''/contract.json'', rq_headers = [],
      rq_timeout = Some 15\<rparr>"

definition load_local_contract :: "environment \<Rightarrow> nat \<Rightarrow> exn + json" where
  "load_local_contract env phase = bindE (read_text env None (contract_path phase)) (json_loads env)"

definition load_atf_contract :: "environment \<Rightarrow> nat \<Rightarrow> exn + json" where
  "load_atf_contract env phase = bindE (urlopen env (contract_request phase)) (json_loads_bytes env)"

definition assert_field :: "json \<Rightarrow> string \<Rightarrow> json \<Rightarrow> exn + unit" where
  "assert_field doc k v = bindE (index_key doc k) (\<lambda>found. assertE (json_eq found v) '''')"

definition assert_same_column :: "json \<Rightarrow> json \<Rightarrow> string \<Rightarrow> exn + unit" where
  "assert_same_column a b k =
     bindE (each_of a ''vectors'' (\<lambda>v. index_key v k)) (\<lambda>xs.
     bindE (each_of b ''vectors'' (\<lambda>v. index_key v k)) (\<lambda>ys.
     assertE (json_all_eq xs ys) ''''))"

definition compare_contract :: "environment \<Rightarrow> nat \<Rightarrow> exn + unit" where
  "compare_contract env phase =
     bindE (load_local_contract env phase) (\<lambda>mine.
     bindE (load_atf_contract env phase) (\<lambda>upstream.
     bindE (assert_field mine ''phase'' (JInt (int phase))) (\<lambda>_.
     bindE (assert_field mine ''protocol_version'' (JStr ''agent-pay/v2'')) (\<lambda>_.
     bindE (assert_field mine ''upstream_protocol'' (JStr ''atf/v2'')) (\<lambda>_.
     bindE (assert_field upstream ''phase'' (JInt (int phase))) (\<lambda>_.
     bindE (assert_field upstream ''protocol_version'' (JStr ''atf/v2'')) (\<lambda>_.
     bindE (index_key mine ''rules'') (\<lambda>rs.
     bindE (index_key upstream ''rules'') (\<lambda>rs'.
     bindE (assertE (json_eq rs rs') '''') (\<lambda>_.
     bindE (assert_same_column mine upstream ''rule'') (\<lambda>_.
     assert_same_column mine upstream ''expected_decision'')))))))))))"

definition final_cross_repo :: "environment \<Rightarrow> exn + string" where
  "final_cross_repo env =
     bindE (eachE (compare_contract env) [35..<43]) (\<lambda>_.
     Inr ''Agent-Pay V2 final cross-repository verification: PASS'')"

text \<open>What an upstream document holds; it need not name an upstream protocol of its own.\<close>

fun holds_upstream :: "json \<Rightarrow> phase_contract \<Rightarrow> bool" where
  "holds_upstream (JObj ms) u \<longleftrightarrow>
     holds_contract (JObj ((''upstream_protocol'', JStr (pc_upstream u)) # ms)) u"
| "holds_upstream _ u \<longleftrightarrow> False"

definition atf_contract :: "environment \<Rightarrow> nat \<Rightarrow> phase_contract \<Rightarrow> bool" where
  "atf_contract env phase u \<longleftrightarrow>
     (case load_atf_contract env phase of Inl _ \<Rightarrow> False | Inr doc \<Rightarrow> holds_upstream doc u)"

definition same_terms :: "nat \<Rightarrow> phase_contract \<Rightarrow> phase_contract \<Rightarrow> bool" where
  "same_terms phase c u \<longleftrightarrow>
     pc_phase c = phase \<and> pc_protocol c = ''agent-pay/v2'' \<and> pc_upstream c = ''atf/v2'' \<and>
     pc_phase u = phase \<and> pc_protocol u = ''atf/v2'' \<and>
     pc_rules c = pc_rules u \<and> pc_vectors c = pc_vectors u"

lemma column_ok:
  assumes "list_all2 holds_vector ds vs" "map_of ms ''vectors'' = Some (JArr ds)"
  shows "each_of (JObj ms) ''vectors'' (\<lambda>v. index_key v ''rule'') = Inr (map (\<lambda>v. JStr (ve_rule v)) vs)"
    "each_of (JObj ms) ''vectors'' (\<lambda>v. index_key v ''expected_decision'') =
       Inr (map (\<lambda>v. JStr (ve_decision v)) vs)"
  using assms(1)
  by (auto simp: each_of_def jindex_def assms(2) all_ok_Inr list_all2_map2 index_vector
      elim!: list_all2_mono)

lemma contract_members:
  assumes "holds_contract (JObj ms) c"
  shows "map_of ms ''phase'' = Some (JInt (int (pc_phase c)))"
    "map_of ms ''protocol_version'' = Some (JStr (pc_protocol c))"
    "map_of ms ''upstream_protocol'' = Some (JStr (pc_upstream c))"
    "map_of ms ''rules'' = Some (JArr (map JStr (pc_rules c)))"
    "\<exists>ds. map_of ms ''vectors'' = Some (JArr ds) \<and> list_all2 holds_vector ds (pc_vectors c)"
  using assms by (auto split: option.splits json.splits)

lemma upstream_members:
  assumes "holds_upstream (JObj ms) u"
  shows "map_of ms ''phase'' = Some (JInt (int (pc_phase u)))"
    "map_of ms ''protocol_version'' = Some (JStr (pc_protocol u))"
    "map_of ms ''rules'' = Some (JArr (map JStr (pc_rules u)))"
    "\<exists>ds. map_of ms ''vectors'' = Some (JArr ds) \<and> list_all2 holds_vector ds (pc_vectors u)"
  using contract_members [OF assms [unfolded holds_upstream.simps]] by simp_all

lemma vectors_by_columns:
  "(vs :: phase_vector list) = ws \<longleftrightarrow>
     map ve_rule vs = map ve_rule ws \<and> map ve_decision vs = map ve_decision ws"
proof (induction vs arbitrary: ws)
  case (Cons v vs)
  show ?case
  proof (cases ws)
    case (Cons w ws')
    have "v = w \<longleftrightarrow> ve_rule v = ve_rule w \<and> ve_decision v = ve_decision w" by auto
    with Cons.IH [of ws'] Cons show ?thesis by auto
  qed simp
qed auto

lemma json_all_eq_map_text [simp]:
  "json_all_eq (map (\<lambda>v. JStr (f v)) vs) (map (\<lambda>v. JStr (g v)) ws) \<longleftrightarrow> map f vs = map g ws"
proof -
  have "json_all_eq (map JStr (map f vs)) (map JStr (map g ws)) \<longleftrightarrow> map g ws = map f vs"
    by (auto simp del: map_map simp: inj_map_eq_map inj_def)
  then show ?thesis by (auto simp: comp_def)
qed

lemma compare_documents:
  assumes mine: "load_local_contract env phase = Inr a" "holds_contract a c"
    and theirs: "load_atf_contract env phase = Inr b" "holds_upstream b u"
  shows "compare_contract env phase = Inr () \<longleftrightarrow> same_terms phase c u"
proof -
  obtain ms ns where a: "a = JObj ms" and b: "b = JObj ns"
    using assms by (cases a; cases b) auto
  note mem = contract_members(1-4) [OF mine(2) [unfolded a]] upstream_members(1-3) [OF theirs(2) [unfolded b]]
  obtain ds es where ds: "map_of ms ''vectors'' = Some (JArr ds)" "list_all2 holds_vector ds (pc_vectors c)"
    and es: "map_of ns ''vectors'' = Some (JArr es)" "list_all2 holds_vector es (pc_vectors u)"
    using contract_members(5) [OF mine(2) [unfolded a]] upstream_members(4) [OF theirs(2) [unfolded b]] by blast
  note columns = column_ok [OF ds(2,1)] column_ok [OF es(2,1)]
  have "json_all_eq (map JStr (pc_rules c)) (map JStr (pc_rules u)) \<longleftrightarrow> pc_rules c = pc_rules u"
    by (auto simp: inj_map_eq_map inj_def)
  then show ?thesis
    by (auto simp: compare_contract_def mine(1) theirs(1) assert_field_def assert_same_column_def a b
        jindex_def mem columns err_simps same_terms_def vectors_by_columns [of "pc_vectors c"]
        simp del: json_all_eq_texts)
qed

lemma compare_contract_ok:
  assumes "local_contract env phase c" "atf_contract env phase u"
  shows "compare_contract env phase = Inr () \<longleftrightarrow> same_terms phase c u"
proof -
  obtain t a where "load_local_contract env phase = Inr a" "holds_contract a c"
    using assms(1) by (auto elim!: local_contractE simp: load_local_contract_def)
  moreover obtain b where "load_atf_contract env phase = Inr b" "holds_upstream b u"
    using assms(2) by (auto simp: atf_contract_def split: sum.splits)
  ultimately show ?thesis by (rule compare_documents)
qed

lemma final_Inr: "final_cross_repo env = Inr out \<longleftrightarrow>
    out = ''Agent-Pay V2 final cross-repository verification: PASS'' \<and>
    (\<forall>phase \<in> {35..42}. compare_contract env phase = Inr ())"
proof -
  have "set [35..<43] = {35..42::nat}" by (simp add: atLeastLessThanSuc_atLeastAtMost [symmetric] del: upt_rec_numeral)
  then show ?thesis by (auto simp: final_cross_repo_def err_simps simp del: upt_rec_numeral)
qed

lemma final_accepts:
  assumes "\<And>phase. 35 \<le> phase \<Longrightarrow> phase \<le> 42 \<Longrightarrow>
      local_contract env phase (mine phase) \<and> atf_contract env phase (upstream phase)"
  shows "final_cross_repo env = Inr ''Agent-Pay V2 final cross-repository verification: PASS'' \<longleftrightarrow>
    (\<forall>phase \<in> {35..42}. same_terms phase (mine phase) (upstream phase))"
proof -
  have "\<forall>phase \<in> {35..42}. compare_contract env phase = Inr () \<longleftrightarrow> same_terms phase (mine phase) (upstream phase)"
    using compare_contract_ok assms by auto
  then show ?thesis by (simp add: final_Inr)
qed

text \<open>C24: when the contracts can be read, the runner and the final comparison both print their pass lines
  exactly when every local contract from 35 to 43 is of its phase and fails closed and every upstream one from
  35 to 42 has the same rules and vectors, and so fails closed as well.\<close>

theorem contract_checks_decide:
  assumes "\<And>phase. 35 \<le> phase \<Longrightarrow> phase \<le> 43 \<Longrightarrow> local_contract env phase (mine phase)"
    and "\<And>phase. 35 \<le> phase \<Longrightarrow> phase \<le> 42 \<Longrightarrow> atf_contract env phase (upstream phase)"
  shows "phase_contract_runner env = Inr ''Agent-Pay V2 phases 35-43: PASS'' \<and>
      final_cross_repo env = Inr ''Agent-Pay V2 final cross-repository verification: PASS'' \<longleftrightarrow>
    (\<forall>phase \<in> {35..43}. accepted_contract phase (mine phase)) \<and>
    (\<forall>phase \<in> {35..42}. same_terms phase (mine phase) (upstream phase) \<and> fails_closed (upstream phase))"
proof -
  have "fails_closed (upstream phase)"
    if "accepted_contract phase (mine phase)" "same_terms phase (mine phase) (upstream phase)" for phase
    using that by (simp add: same_terms_def accepted_contract_def fails_closed_def)
  moreover have "phase \<in> {35..43}" if "phase \<in> {35..42}" for phase :: nat using that by simp
  ultimately show ?thesis
    using runner_accepts [of env mine] final_accepts [of env mine upstream] assms by fastforce
qed

text \<open>The answer for phase 43 is never asked for.\<close>

lemma contract_request_inj: "contract_request p = contract_request q \<longleftrightarrow> p = q"
  by (auto simp: contract_request_def)

lemma final_phase_not_compared:
  "final_cross_repo (env\<lparr>urlopen := (urlopen env)(contract_request 43 := answer)\<rparr>) = final_cross_repo env"
proof -
  have "compare_contract (env\<lparr>urlopen := (urlopen env)(contract_request 43 := answer)\<rparr>) phase =
      compare_contract env phase" if "phase < 43" for phase
    using that by (simp add: compare_contract_def load_local_contract_def load_atf_contract_def
        contract_request_inj)
  moreover have "eachE f xs = eachE g xs" if "\<forall>x \<in> set xs. f x = g x" for f g :: "nat \<Rightarrow> exn + unit" and xs
    using that by (induction xs) simp_all
  ultimately have "eachE (compare_contract (env\<lparr>urlopen := (urlopen env)(contract_request 43 := answer)\<rparr>)) [35..<43]
      = eachE (compare_contract env) [35..<43]"
    by (metis atLeastLessThan_iff set_upt)
  then show ?thesis by (simp only: final_cross_repo_def)
qed

section \<open>The repository's own contracts\<close>

definition vector_document :: "phase_vector \<Rightarrow> json" where
  "vector_document v = JObj [(''expected_decision'', JStr (ve_decision v)), (''rule'', JStr (ve_rule v))]"

definition contract_document :: "phase_contract \<Rightarrow> json" where
  "contract_document c = JObj [(''phase'', JInt (int (pc_phase c))), (''protocol_version'', JStr (pc_protocol c)),
     (''upstream_protocol'', JStr (pc_upstream c)), (''rules'', JArr (map JStr (pc_rules c))),
     (''vectors'', JArr (map vector_document (pc_vectors c)))]"

lemma holds_contract_document: "holds_contract (contract_document c) c"
  by (auto simp: contract_document_def list_all2_map1 vector_document_def intro: list_all2_refl)

definition repository_rules :: "nat \<Rightarrow> string list" where
  "repository_rules phase =
    (if phase = 35 then
       [''currency_consistent'', ''amount_non_negative'', ''precision_within_minor_units'',
        ''idempotency_present'', ''lifecycle_transition_valid'']
     else if phase = 36 then
       [''instrument_is_reference_only'', ''provider_supports_operation'', ''instrument_active'',
        ''routing_deterministic'', ''no_raw_credential'']
     else if phase = 37 then
       [''merchant_bound'', ''quote_fresh'', ''order_total_matches'',
        ''payment_intent_bound'', ''idempotency_present'']
     else if phase = 38 then
       [''environment_explicit'', ''tls_required'', ''secret_reference_only'',
        ''replicas_valid'', ''provider_mode_explicit'']
     else if phase = 39 then
       [''signature_valid'', ''audience_bound'', ''nonce_present'',
        ''replay_absent'', ''secret_not_exposed'']
     else if phase = 40 then
       [''schema_digest_match'', ''vector_set_match'', ''independent_runners'',
        ''evidence_reproducible'', ''protocol_version_match'']
     else if phase = 41 then
       [''all_prior_gates_green'', ''semver_valid'', ''no_unapproved_breaking_change'',
        ''release_manifest_complete'', ''rollback_defined'']
     else if phase = 42 then
       [''all_v2_gates_green'', ''protocol_frozen'', ''final_vectors_green'',
        ''security_gate_green'', ''release_evidence_complete'']
     else if phase = 43 then
       [''all_v2_gates_green'', ''protocol_frozen'', ''final_vectors_green'',
        ''security_gate_green'', ''release_evidence_complete'']
     else [])"

definition repository_contract :: "string \<Rightarrow> nat \<Rightarrow> phase_contract" where
  "repository_contract protocol phase = \<lparr>pc_phase = phase, pc_protocol = protocol, pc_upstream = ''atf/v2'',
     pc_rules = repository_rules phase,
     pc_vectors = map (\<lambda>r. \<lparr>ve_decision = ''ALLOW'', ve_rule = r\<rparr>) (repository_rules phase) @
       [\<lparr>ve_decision = ''DENY'', ve_rule = ''fail-closed''\<rparr>]\<rparr>"

text \<open>The environment in which a file or a response is the name it was asked by, and a name of a phase
  holds the contract of that phase.\<close>

definition document_named :: "(nat \<Rightarrow> string) \<Rightarrow> string \<Rightarrow> string \<Rightarrow> exn + json" where
  "document_named nm protocol t =
     (case find (\<lambda>phase. nm phase = t) [35..<44] of
        Some phase \<Rightarrow> Inr (contract_document (repository_contract protocol phase))
      | None \<Rightarrow> Inl (ValueError t))"

definition repository_env :: environment where
  "repository_env = \<lparr>read_bytes = Inr, read_text = (\<lambda>_. Inr), urlopen = (\<lambda>rq. Inr (rq_url rq)), decode_utf8 = Inr,
     json_loads = document_named contract_path ''agent-pay/v2'',
     json_loads_bytes = document_named (\<lambda>phase. rq_url (contract_request phase)) ''atf/v2'',
     safe_load = (\<lambda>t. Inr (JStr t)), safe_load_bytes = (\<lambda>t. Inr (JStr t)), b64decode = Inr, sha256_hex = id\<rparr>"

lemma document_named_phase:
  assumes "\<And>p q. nm p = nm q \<longleftrightarrow> p = q" "35 \<le> phase" "phase \<le> 43"
  shows "document_named nm protocol (nm phase) = Inr (contract_document (repository_contract protocol phase))"
proof -
  have "phase \<in> {35, 36, 37, 38, 39, 40, 41, 42, 43}" using assms(2,3) by auto
  then show ?thesis by (auto simp: document_named_def assms(1) upt_rec_numeral)
qed

lemma contract_path_inject: "contract_path p = contract_path q \<longleftrightarrow> p = q"
  by (simp add: contract_path_def)

lemma repository_accepted: "accepted_contract phase (repository_contract ''agent-pay/v2'' phase)"
  by (auto simp: accepted_contract_def fails_closed_def repository_contract_def vector_ok_def list_all_iff)

lemma repository_local:
  "\<lbrakk>35 \<le> phase; phase \<le> 43\<rbrakk> \<Longrightarrow> local_contract repository_env phase (repository_contract ''agent-pay/v2'' phase)"
  by (simp add: local_contract_def repository_env_def document_named_phase contract_path_inject
      holds_contract_document)

lemma repository_atf:
  assumes "35 \<le> phase" "phase \<le> 42"
  shows "atf_contract repository_env phase (repository_contract ''atf/v2'' phase)"
proof -
  have "document_named (\<lambda>phase. rq_url (contract_request phase)) ''atf/v2'' (rq_url (contract_request phase)) =
      Inr (contract_document (repository_contract ''atf/v2'' phase))"
    by (rule document_named_phase) (use assms in \<open>auto simp: contract_request_def\<close>)
  moreover have "holds_upstream (contract_document u) u" for u
    using holds_contract_document [of u] by (simp add: contract_document_def)
  ultimately show ?thesis
    by (simp add: atf_contract_def load_atf_contract_def repository_env_def)
qed

theorem contract_checks_decide_witness:
  "phase_contract_runner repository_env = Inr ''Agent-Pay V2 phases 35-43: PASS'' \<and>
   final_cross_repo repository_env = Inr ''Agent-Pay V2 final cross-repository verification: PASS''"
proof -
  have "same_terms phase (repository_contract ''agent-pay/v2'' phase) (repository_contract ''atf/v2'' phase)" for phase
    by (simp add: same_terms_def repository_contract_def)
  moreover have "fails_closed (repository_contract ''atf/v2'' phase)" for phase
    using repository_accepted [of phase]
    by (simp add: accepted_contract_def fails_closed_def repository_contract_def)
  ultimately show ?thesis
    by (subst contract_checks_decide [OF repository_local repository_atf]) (simp_all add: repository_accepted)
qed

end
