(* ===== verification/Interop.thy ===== *)
theory Interop
  imports Contracts "HOL-Library.AList"
begin

text \<open>
  The checks against the pinned vectors of the ATF repository: \<open>tools/check_cross_repo_conformance.py\<close>,
  \<open>tools/check_v2_interoperability.py\<close> and \<open>tools/check_v2_phase_26_34.py\<close>. The first two ask the
  GitHub contents API and compare the blob name the answer states; the third hashes the bytes it gets.
\<close>

section \<open>The answer of the contents API\<close>

definition catchE :: "(exn \<Rightarrow> exn) \<Rightarrow> exn + 'a \<Rightarrow> exn + 'a" where
  "catchE h m = (case m of Inl e \<Rightarrow> Inl (h e) | Inr x \<Rightarrow> Inr x)"

lemma catchE_Inr [err_simps]: "catchE h m = Inr x \<longleftrightarrow> m = Inr x"
  by (simp add: catchE_def split: sum.split)

definition ATF_REPOSITORY :: string where
  "ATF_REPOSITORY = ''Agentic-Trust-Foundation/agentic-trust''"

definition contents_request :: "string \<Rightarrow> string \<Rightarrow> string \<Rightarrow> request" where
  "contents_request path ref agent =
     \<lparr>rq_url = ''https://api.github.com/repos/'' @ ATF_REPOSITORY @ ''/contents/'' @ path @ ''?ref='' @ ref,
      rq_headers = [(''Accept'', ''application/vnd.github+json''),
        (''X-GitHub-Api-Version'', ''2022-11-28''), (''User-Agent'', agent)],
      rq_timeout = Some 15\<rparr>"

text \<open>The body of the \<open>with\<close> block, and the base64 text of the payload as a document.\<close>

definition read_payload :: "environment \<Rightarrow> request \<Rightarrow> exn + json" where
  "read_payload env rq =
     bindE (urlopen env rq) (\<lambda>body. bindE (decode_utf8 env body) (json_loads env))"

definition content_document :: "environment \<Rightarrow> json \<Rightarrow> exn + json" where
  "content_document env payload =
     bindE (index_key payload ''content'') (\<lambda>content.
     case content of
       JStr s \<Rightarrow> bindE (b64decode env s) (\<lambda>b. bindE (decode_utf8 env b) (safe_load env))
     | _ \<Rightarrow> Inl (TypeError ''argument should be a bytes-like object or ASCII string''))"

definition is_file_payload :: "json \<Rightarrow> exn + bool" where
  "is_file_payload payload =
     bindE (get_key_or payload ''encoding'' JNull) (\<lambda>encoding.
     if json_eq encoding (JStr ''base64'') then has_key payload ''content'' else Inr False)"

section \<open>\<open>check_cross_repo_conformance.py\<close>\<close>

definition V1_LOCAL :: string where
  "V1_LOCAL = ''conformance/v1/atf-agent-pay-contract-vectors.yaml''"

definition V1_REF :: string where "V1_REF = ''07f3e991ae0eb10ca4d838025f345467ab6684f3''"

definition V1_BLOB :: string where "V1_BLOB = ''11b6939b65906aa0efc768d678b2356db383f7ec''"

definition v1_request :: request where
  "v1_request = contents_request ''conformance/v1/agent-pay-contract-vectors.yaml'' V1_REF
     ''agent-pay-cross-repo-conformance''"

definition v1_fetch_error :: "exn \<Rightarrow> exn" where
  "v1_fetch_error e =
     (case e of
        HTTPError code _ \<Rightarrow> SystemExit (''Unable to read pinned ATF conformance vector from GitHub (HTTP '' @
          str_int (int code) @ '').'')
      | URLError reason \<Rightarrow> SystemExit
          (''Unable to reach GitHub while reading the pinned ATF conformance vector: '' @ reason)
      | _ \<Rightarrow> e)"

definition v1_load_local :: "environment \<Rightarrow> exn + json" where
  "v1_load_local env = bindE (read_text env (Some ''utf-8'') V1_LOCAL) (safe_load env)"

definition v1_load_atf :: "environment \<Rightarrow> exn + json" where
  "v1_load_atf env =
     bindE (catchE v1_fetch_error (read_payload env v1_request)) (\<lambda>payload.
     bindE (is_file_payload payload) (\<lambda>file.
     if \<not> file then Inl (SystemExit ''GitHub did not return the expected ATF file content.'')
     else bindE (get_key_or payload ''sha'' JNull) (\<lambda>blob.
     if \<not> json_eq blob (JStr V1_BLOB) then
       Inl (SystemExit (''ATF conformance vector blob mismatch: expected '' @ V1_BLOB @ '', got '' @ py_str blob))
     else content_document env payload)))"

definition v1_item :: "json \<Rightarrow> exn + json" where
  "v1_item item =
     bindE (index_key item ''id'') (\<lambda>i.
     bindE (index_key item ''invariant'') (\<lambda>inv.
     bindE (index_key item ''expect'') (\<lambda>expect.
     Inr (JObj [(''id'', i), (''invariant'', inv), (''expect'', expect)]))))"

definition v1_normalized :: "json \<Rightarrow> exn + json" where
  "v1_normalized document =
     bindE (index_key document ''version'') (\<lambda>version.
     bindE (index_key document ''suite'') (\<lambda>suite.
     bindE (each_of document ''vectors'' v1_item) (\<lambda>items.
     Inr (JObj [(''version'', version), (''suite'', suite), (''vectors'', JArr items)]))))"

definition v1_report :: "nat \<Rightarrow> string \<Rightarrow> string" where
  "v1_report n digest =
     ''cross-repository conformance OK: '' @ str_int (int n) @ '' vectors; ATF ref='' @ V1_REF @
     ''; ATF blob='' @ V1_BLOB @ ''; local sha256='' @ digest"

definition check_cross_repo_conformance :: "environment \<Rightarrow> exn + string" where
  "check_cross_repo_conformance env =
     bindE (v1_load_local env) (\<lambda>mine.
     bindE (v1_load_atf env) (\<lambda>remote.
     bindE (v1_normalized mine) (\<lambda>a.
     bindE (v1_normalized remote) (\<lambda>b.
     if \<not> json_eq a b then
       Inl (SystemExit ''ATF-Agent-Pay cross-repository vectors are inconsistent'')
     else bindE (read_bytes env V1_LOCAL) (\<lambda>raw.
     bindE (index_key mine ''vectors'') (\<lambda>vectors.
     bindE (py_len vectors) (\<lambda>n. Inr (v1_report n (sha256_hex env raw)))))))))"

section \<open>\<open>check_v2_interoperability.py\<close>\<close>

definition V2_LOCAL :: string where "V2_LOCAL = ''conformance/v2/interoperability-vectors.yaml''"

definition V2_REF :: string where "V2_REF = ''ae3338e69127cdacdcadb5ac7a9a4c97fee2fbdf''"

definition V2_BLOB :: string where "V2_BLOB = ''4a0fd304389f4df124a359d1de9c3f3253050b36''"

definition v2_request :: request where
  "v2_request = contents_request ''conformance/v2/interoperability-vectors.yaml'' V2_REF
     ''agent-pay-v2-interoperability-conformance''"

definition v2_fetch_error :: "exn \<Rightarrow> exn" where
  "v2_fetch_error e =
     (case e of
        HTTPError code _ \<Rightarrow>
          SystemExit (''Unable to read pinned ATF V2 vectors (HTTP '' @ str_int (int code) @ '').'')
      | URLError reason \<Rightarrow> SystemExit (''Unable to reach GitHub: '' @ reason)
      | _ \<Rightarrow> e)"

definition v2_load_atf :: "environment \<Rightarrow> exn + json" where
  "v2_load_atf env =
     bindE (catchE v2_fetch_error (read_payload env v2_request)) (\<lambda>payload.
     bindE (is_file_payload payload) (\<lambda>file.
     if \<not> file then Inl (SystemExit ''GitHub did not return the expected ATF V2 vector content.'')
     else bindE (get_key_or payload ''sha'' JNull) (\<lambda>blob.
     if \<not> json_eq blob (JStr V2_BLOB) then
       Inl (SystemExit (''ATF V2 vector blob mismatch: expected '' @ V2_BLOB @ '', got '' @ py_str blob))
     else content_document env payload)))"

definition v2_item :: "json \<Rightarrow> exn + json" where
  "v2_item item =
     bindE (index_key item ''id'') (\<lambda>i.
     bindE (index_key item ''expected'') (\<lambda>expected.
     Inr (JObj [(''id'', i), (''expected'', expected)])))"

definition v2_normalized :: "json \<Rightarrow> exn + json" where
  "v2_normalized document =
     bindE (index_key document ''phase'') (\<lambda>phase.
     bindE (each_of document ''vectors'' v2_item) (\<lambda>items.
     Inr (JObj [(''phase'', phase), (''vectors'', JArr items)])))"

definition v2_report :: "nat \<Rightarrow> string \<Rightarrow> string" where
  "v2_report n digest =
     ''Agent-Pay V2 interoperability contract OK: '' @ str_int (int n) @
     '' vectors; implementation=agent-pay-reference-validator/1; ATF ref='' @ V2_REF @
     ''; ATF blob='' @ V2_BLOB @ ''; local sha256='' @ digest"

definition check_v2_interoperability :: "environment \<Rightarrow> exn + string" where
  "check_v2_interoperability env =
     bindE (bindE (read_text env (Some ''utf-8'') V2_LOCAL) (safe_load env)) (\<lambda>mine.
     bindE (v2_load_atf env) (\<lambda>remote.
     bindE (get_key_or mine ''version'' JNull) (\<lambda>version.
     if \<not> json_eq version (JStr ''agent-pay/v2'') then
       Inl (SystemExit ''unexpected Agent-Pay V2 interoperability version'')
     else bindE (v2_normalized mine) (\<lambda>a.
     bindE (v2_normalized remote) (\<lambda>b.
     if \<not> json_eq a b then
       Inl (SystemExit ''ATF and Agent-Pay V2 interoperability vectors are inconsistent'')
     else bindE (read_bytes env V2_LOCAL) (\<lambda>raw.
     bindE (index_key mine ''vectors'') (\<lambda>vectors.
     bindE (py_len vectors) (\<lambda>n. Inr (v2_report n (sha256_hex env raw))))))))))"

section \<open>\<open>check_v2_phase_26_34.py\<close>\<close>

definition ATF_COMMIT :: string where "ATF_COMMIT = ''e30fb82044ef3a67da38e77ebdf82c437d313b39''"

definition EXPECTED_UPSTREAM_SHA256 :: string where
  "EXPECTED_UPSTREAM_SHA256 = ''ede4631f3153894a319cdd1bbc7b9ff2d7ed29b77c179cfcad3cd91e4c86ee86''"

definition PHASE_LOCAL :: string where "PHASE_LOCAL = ''conformance/v2/phase-26-34-vectors.yaml''"

definition phase_request :: request where
  "phase_request =
     \<lparr>rq_url = ''https://raw.githubusercontent.com/Agentic-Trust-Foundation/agentic-trust/'' @ ATF_COMMIT @
        ''/conformance/v2/phase-26-34-vectors.yaml'', rq_headers = [], rq_timeout = None\<rparr>"

text \<open>\<open>{v["id"]: v["expected_decision"] for v in document["vectors"]}\<close>.\<close>

fun build_dict :: "json list \<Rightarrow> (json \<times> json) list \<Rightarrow> exn + (json \<times> json) list" where
  "build_dict [] d = Inr d"
| "build_dict (v # vs) d =
     bindE (index_key v ''id'') (\<lambda>i.
     bindE (index_key v ''expected_decision'') (\<lambda>decision.
     bindE (hash_check i) (\<lambda>_. build_dict vs (dict_put i decision d))))"

definition decisions_by_id :: "json \<Rightarrow> exn + (json \<times> json) list" where
  "decisions_by_id document =
     bindE (index_key document ''vectors'') (\<lambda>xs. bindE (iterate xs) (\<lambda>vs. build_dict vs []))"

definition vector_count :: "json \<Rightarrow> exn + nat" where
  "vector_count document = bindE (index_key document ''vectors'') py_len"

definition check_v2_phase_26_34 :: "environment \<Rightarrow> exn + string list" where
  "check_v2_phase_26_34 env =
     bindE (urlopen env phase_request) (\<lambda>upstream.
     bindE (assertE (sha256_hex env upstream = EXPECTED_UPSTREAM_SHA256) ''upstream vector digest mismatch'') (\<lambda>_.
     bindE (read_bytes env PHASE_LOCAL) (\<lambda>mine.
     bindE (safe_load_bytes env upstream) (\<lambda>a.
     bindE (safe_load_bytes env mine) (\<lambda>b.
     bindE (index_key a ''phase'') (\<lambda>p.
     bindE (index_key b ''phase'') (\<lambda>q.
     bindE (assertE (json_eq p q \<and> json_eq q (JInt 26)) '''') (\<lambda>_.
     bindE (assert_field a ''protocol_version'' (JStr ''atf/v2'')) (\<lambda>_.
     bindE (assert_field b ''protocol_version'' (JStr ''agent-pay/v2'')) (\<lambda>_.
     bindE (decisions_by_id a) (\<lambda>d.
     bindE (decisions_by_id b) (\<lambda>e.
     bindE (assertE (dict_eq d e) '''') (\<lambda>_.
     bindE (vector_count a) (\<lambda>m.
     bindE (vector_count b) (\<lambda>n.
     bindE (assertE (m = n \<and> n = 20) '''') (\<lambda>_.
     Inr [''implementation=agent-pay-v2-contract-validator/1'', ''upstream_atf_commit='' @ ATF_COMMIT,
       ''upstream_vector_sha256='' @ sha256_hex env upstream, ''vectors=20'']))))))))))))))))"

section \<open>What the V1 check decides\<close>

record shared_vector =
  sv_id :: string
  sv_invariant :: string
  sv_expect :: string

record shared_suite =
  su_version :: int
  su_suite :: string
  su_vectors :: "shared_vector list"

fun holds_shared_vector :: "json \<Rightarrow> shared_vector \<Rightarrow> bool" where
  "holds_shared_vector (JObj ms) v \<longleftrightarrow>
     map_of ms ''id'' = Some (JStr (sv_id v)) \<and> map_of ms ''invariant'' = Some (JStr (sv_invariant v)) \<and>
     map_of ms ''expect'' = Some (JStr (sv_expect v))"
| "holds_shared_vector _ v \<longleftrightarrow> False"

fun holds_suite :: "json \<Rightarrow> shared_suite \<Rightarrow> bool" where
  "holds_suite (JObj ms) s \<longleftrightarrow>
     map_of ms ''version'' = Some (JInt (su_version s)) \<and> map_of ms ''suite'' = Some (JStr (su_suite s)) \<and>
     (case map_of ms ''vectors'' of
        Some (JArr ds) \<Rightarrow> list_all2 holds_shared_vector ds (su_vectors s) | _ \<Rightarrow> False)"
| "holds_suite _ s \<longleftrightarrow> False"

definition shared_vector_json :: "shared_vector \<Rightarrow> json" where
  "shared_vector_json v = JObj [(''id'', JStr (sv_id v)), (''invariant'', JStr (sv_invariant v)),
     (''expect'', JStr (sv_expect v))]"

definition suite_json :: "shared_suite \<Rightarrow> json" where
  "suite_json s = JObj [(''version'', JInt (su_version s)), (''suite'', JStr (su_suite s)),
     (''vectors'', JArr (map shared_vector_json (su_vectors s)))]"

lemma holds_suiteE:
  assumes "holds_suite doc s"
  obtains ms ds where "doc = JObj ms" "map_of ms ''version'' = Some (JInt (su_version s))"
    "map_of ms ''suite'' = Some (JStr (su_suite s))" "map_of ms ''vectors'' = Some (JArr ds)"
    "list_all2 holds_shared_vector ds (su_vectors s)"
  using assms by (cases doc) (auto split: option.splits json.splits)

lemma v1_item_holds: "holds_shared_vector d v \<Longrightarrow> v1_item d = Inr (shared_vector_json v)"
  by (cases d) (auto simp: v1_item_def shared_vector_json_def jindex_def)

lemma v1_normalized_holds: "holds_suite doc s \<Longrightarrow> v1_normalized doc = Inr (suite_json s)"
proof (erule holds_suiteE)
  fix ms ds
  assume doc: "doc = JObj ms" "map_of ms ''version'' = Some (JInt (su_version s))"
    "map_of ms ''suite'' = Some (JStr (su_suite s))" "map_of ms ''vectors'' = Some (JArr ds)"
    and ds: "list_all2 holds_shared_vector ds (su_vectors s)"
  have "all_ok v1_item ds = Inr (map shared_vector_json (su_vectors s))"
    using ds by (auto simp: all_ok_Inr list_all2_map2 v1_item_holds elim!: list_all2_mono)
  then show ?thesis by (simp add: v1_normalized_def doc each_of_def jindex_def suite_json_def)
qed

lemma shared_vector_json_eq: "json_eq (shared_vector_json v) (shared_vector_json w) \<longleftrightarrow> v = w"
  by (cases v; cases w) (auto simp: shared_vector_json_def)

lemma list_all2_equal: "(\<And>x y. P (f x) (f y) \<longleftrightarrow> x = y) \<Longrightarrow> list_all2 P (map f xs) (map f ys) \<longleftrightarrow> xs = ys"
  by (simp add: list_all2_map1 list_all2_map2 list.rel_eq)

lemma suite_json_eq: "json_eq (suite_json s) (suite_json r) \<longleftrightarrow> s = r"
  by (cases s; cases r)
    (auto simp: suite_json_def json_all_eq_list_all2 list_all2_equal shared_vector_json_eq)

text \<open>With a payload that names a base64 content, the V1 check compares the blob name the API states
  with the pinned one and then the version, the suite and the identifier, invariant and expectation of every
  vector. Nothing else of the content counts: neither its hash nor what a vector is given.\<close>

theorem conformance_decides:
  assumes mine: "v1_load_local env = Inr local_doc" "holds_suite local_doc s"
    and raw: "read_bytes env V1_LOCAL = Inr raw"
    and payload: "read_payload env v1_request = Inr (JObj ms)" "map_of ms ''encoding'' = Some (JStr ''base64'')"
      "map_of ms ''sha'' = Some (JStr blob)"
    and content: "content_document env (JObj ms) = Inr doc" "holds_suite doc r"
  shows "check_cross_repo_conformance env =
    (if blob \<noteq> V1_BLOB then
       Inl (SystemExit (''ATF conformance vector blob mismatch: expected '' @ V1_BLOB @ '', got '' @ blob))
     else if s \<noteq> r then Inl (SystemExit ''ATF-Agent-Pay cross-repository vectors are inconsistent'')
     else Inr (v1_report (length (su_vectors s)) (sha256_hex env raw)))"
proof -
  have "map_of ms ''content'' \<noteq> None"
    using content(1) by (auto simp: content_document_def jindex_def split: option.splits)
  then have load: "v1_load_atf env = (if blob \<noteq> V1_BLOB then
       Inl (SystemExit (''ATF conformance vector blob mismatch: expected '' @ V1_BLOB @ '', got '' @ blob))
     else Inr doc)"
    by (auto simp: v1_load_atf_def payload is_file_payload_def jget_or_def catchE_def content(1))
  obtain ms' ds where local_doc: "local_doc = JObj ms'" "map_of ms' ''vectors'' = Some (JArr ds)"
    "list_all2 holds_shared_vector ds (su_vectors s)"
    using mine(2) by (rule holds_suiteE)
  then have vectors: "index_key local_doc ''vectors'' = Inr (JArr ds)" "length ds = length (su_vectors s)"
    by (simp_all add: jindex_def list_all2_lengthD)
  show ?thesis
    by (simp add: check_cross_repo_conformance_def mine(1) load v1_normalized_holds [OF mine(2)]
        v1_normalized_holds [OF content(2)] suite_json_eq raw vectors)
qed

section \<open>What the V2 interoperability check decides\<close>

fun holds_outcome :: "json \<Rightarrow> string \<times> string \<Rightarrow> bool" where
  "holds_outcome (JObj ms) p \<longleftrightarrow>
     map_of ms ''id'' = Some (JStr (fst p)) \<and> map_of ms ''expected'' = Some (JStr (snd p))"
| "holds_outcome _ p \<longleftrightarrow> False"

fun holds_outcomes :: "json \<Rightarrow> int \<times> (string \<times> string) list \<Rightarrow> bool" where
  "holds_outcomes (JObj ms) s \<longleftrightarrow>
     map_of ms ''phase'' = Some (JInt (fst s)) \<and>
     (case map_of ms ''vectors'' of Some (JArr ds) \<Rightarrow> list_all2 holds_outcome ds (snd s) | _ \<Rightarrow> False)"
| "holds_outcomes _ s \<longleftrightarrow> False"

definition outcome_json :: "string \<times> string \<Rightarrow> json" where
  "outcome_json p = JObj [(''id'', JStr (fst p)), (''expected'', JStr (snd p))]"

definition outcomes_json :: "int \<times> (string \<times> string) list \<Rightarrow> json" where
  "outcomes_json s = JObj [(''phase'', JInt (fst s)), (''vectors'', JArr (map outcome_json (snd s)))]"

lemma holds_outcomesE:
  assumes "holds_outcomes doc s"
  obtains ms ds where "doc = JObj ms" "map_of ms ''phase'' = Some (JInt (fst s))"
    "map_of ms ''vectors'' = Some (JArr ds)" "list_all2 holds_outcome ds (snd s)"
  using assms by (cases doc) (auto split: option.splits json.splits)

lemma v2_item_holds: "holds_outcome d p \<Longrightarrow> v2_item d = Inr (outcome_json p)"
  by (cases d) (auto simp: v2_item_def outcome_json_def jindex_def)

lemma v2_normalized_holds: "holds_outcomes doc s \<Longrightarrow> v2_normalized doc = Inr (outcomes_json s)"
proof (erule holds_outcomesE)
  fix ms ds
  assume doc: "doc = JObj ms" "map_of ms ''phase'' = Some (JInt (fst s))" "map_of ms ''vectors'' = Some (JArr ds)"
    and ds: "list_all2 holds_outcome ds (snd s)"
  have "all_ok v2_item ds = Inr (map outcome_json (snd s))"
    using ds by (auto simp: all_ok_Inr list_all2_map2 v2_item_holds elim!: list_all2_mono)
  then show ?thesis by (simp add: v2_normalized_def doc each_of_def jindex_def outcomes_json_def)
qed

lemma outcome_json_eq: "json_eq (outcome_json p) (outcome_json q) \<longleftrightarrow> p = q"
  by (cases p; cases q) (auto simp: outcome_json_def)

lemma outcomes_json_eq: "json_eq (outcomes_json s) (outcomes_json r) \<longleftrightarrow> s = r"
  by (cases s; cases r) (auto simp: outcomes_json_def json_all_eq_list_all2 list_all2_equal outcome_json_eq)

lemma interoperability_decides:
  assumes mine: "read_text env (Some ''utf-8'') V2_LOCAL = Inr t" "safe_load env t = Inr (JObj ns)"
      "map_of ns ''version'' = Some (JStr version)" "holds_outcomes (JObj ns) s"
    and raw: "read_bytes env V2_LOCAL = Inr raw"
    and payload: "read_payload env v2_request = Inr (JObj ms)" "map_of ms ''encoding'' = Some (JStr ''base64'')"
      "map_of ms ''sha'' = Some (JStr blob)"
    and content: "content_document env (JObj ms) = Inr doc" "holds_outcomes doc r"
  shows "check_v2_interoperability env =
    (if blob \<noteq> V2_BLOB then
       Inl (SystemExit (''ATF V2 vector blob mismatch: expected '' @ V2_BLOB @ '', got '' @ blob))
     else if version \<noteq> ''agent-pay/v2'' then
       Inl (SystemExit ''unexpected Agent-Pay V2 interoperability version'')
     else if s \<noteq> r then Inl (SystemExit ''ATF and Agent-Pay V2 interoperability vectors are inconsistent'')
     else Inr (v2_report (length (snd s)) (sha256_hex env raw)))"
proof -
  have "map_of ms ''content'' \<noteq> None"
    using content(1) by (auto simp: content_document_def jindex_def split: option.splits)
  then have load: "v2_load_atf env = (if blob \<noteq> V2_BLOB then
       Inl (SystemExit (''ATF V2 vector blob mismatch: expected '' @ V2_BLOB @ '', got '' @ blob))
     else Inr doc)"
    by (auto simp: v2_load_atf_def payload is_file_payload_def jget_or_def catchE_def content(1))
  obtain ds where ds: "map_of ns ''vectors'' = Some (JArr ds)" "list_all2 holds_outcome ds (snd s)"
    using mine(4) by (auto split: option.splits json.splits)
  show ?thesis
    by (simp add: check_v2_interoperability_def mine(1-3) load jget_or_def v2_normalized_holds [OF mine(4)]
        v2_normalized_holds [OF content(2)] outcomes_json_eq raw jindex_def ds(1) list_all2_lengthD [OF ds(2)])
qed

section \<open>What the phase 26 to 34 check decides\<close>

definition text_pair :: "string \<times> string \<Rightarrow> json \<times> json" where
  "text_pair p = (JStr (fst p), JStr (snd p))"

fun holds_decision :: "json \<Rightarrow> string \<times> string \<Rightarrow> bool" where
  "holds_decision (JObj ms) p \<longleftrightarrow>
     map_of ms ''id'' = Some (JStr (fst p)) \<and> map_of ms ''expected_decision'' = Some (JStr (snd p))"
| "holds_decision _ p \<longleftrightarrow> False"

fun holds_decisions :: "string \<Rightarrow> json \<Rightarrow> (string \<times> string) list \<Rightarrow> bool" where
  "holds_decisions protocol (JObj ms) ps \<longleftrightarrow>
     map_of ms ''phase'' = Some (JInt 26) \<and> map_of ms ''protocol_version'' = Some (JStr protocol) \<and>
     (case map_of ms ''vectors'' of Some (JArr ds) \<Rightarrow> list_all2 holds_decision ds ps | _ \<Rightarrow> False)"
| "holds_decisions protocol _ ps \<longleftrightarrow> False"

lemma holds_decisionsE:
  assumes "holds_decisions protocol doc ps"
  obtains ms ds where "doc = JObj ms" "map_of ms ''phase'' = Some (JInt 26)"
    "map_of ms ''protocol_version'' = Some (JStr protocol)" "map_of ms ''vectors'' = Some (JArr ds)"
    "list_all2 holds_decision ds ps"
  using assms by (cases doc) (auto split: option.splits json.splits)

lemma dict_put_texts:
  "dict_put (JStr k) (JStr v) (map text_pair d) = map text_pair (AList.update k v d)"
  by (induction d) (auto simp: text_pair_def)

lemma dict_get_texts: "dict_get (map text_pair d) (JStr k) = map_option JStr (map_of d k)"
  by (induction d) (auto simp: text_pair_def)

definition texts_dict :: "(string \<times> string) list \<Rightarrow> (string \<times> string) list" where
  "texts_dict ps = fold (\<lambda>(k, v). AList.update k v) ps []"

lemma build_dict_texts:
  "list_all2 holds_decision ds ps \<Longrightarrow>
   build_dict ds (map text_pair d) = Inr (map text_pair (fold (\<lambda>(k, v). AList.update k v) ps d))"
proof (induction arbitrary: d rule: list_all2_induct)
  case (Cons v ds p ps)
  then obtain ms where "v = JObj ms" by (cases v) auto
  with Cons show ?case
    by (cases p) (simp add: jindex_def hash_check_def dict_put_texts)
qed simp

lemma texts_dict_lookup: "map_of (texts_dict ps) = map_of (rev ps)"
proof -
  have "map_of (fold (\<lambda>(k, v). AList.update k v) ps d) = map_of d ++ map_of (rev ps)" for d
    by (induction ps arbitrary: d) (auto simp: AList.update_conv' map_add_upd_left fun_eq_iff map_add_def
        split: option.split)
  then show ?thesis by (simp add: texts_dict_def)
qed

lemma texts_dict_distinct: "distinct (map fst (texts_dict ps))"
proof -
  have "distinct (map fst d) \<Longrightarrow> distinct (map fst (fold (\<lambda>(k, v). AList.update k v) ps d))" for d
    by (induction ps arbitrary: d) (auto simp: AList.distinct_update)
  then show ?thesis by (simp add: texts_dict_def)
qed

lemma dict_eq_texts:
  assumes "distinct (map fst d)" "distinct (map fst e)"
  shows "dict_eq (map text_pair d) (map text_pair e) \<longleftrightarrow> map_of d = map_of e"
proof -
  have "dict_eq (map text_pair d) (map text_pair e) \<longleftrightarrow>
      length d = length e \<and> (\<forall>(k, v) \<in> set d. map_of e k = Some v)"
    by (auto simp: dict_eq_def list_all_iff dict_get_texts text_pair_def split: option.splits)
  also have "\<dots> \<longleftrightarrow> length d = length e \<and> set d \<subseteq> set e"
    using assms(2) by (auto simp: subset_iff)
  also have "\<dots> \<longleftrightarrow> set d = set e"
    using assms by (metis card_subset_eq distinct_card distinct_map length_map List.finite_set order_refl)
  also have "\<dots> \<longleftrightarrow> map_of d = map_of e"
    using map_of_inject_set [OF assms] by blast
  finally show ?thesis .
qed

text \<open>For documents of phase 26 the check passes exactly when the digest of the bytes received is the
  pinned one, both lists have twenty vectors, and every identifier ends with the same decision in both.\<close>

theorem phase_26_34_decides:
  assumes fetched: "urlopen env phase_request = Inr upstream" "read_bytes env PHASE_LOCAL = Inr mine"
    and loaded: "safe_load_bytes env upstream = Inr a" "safe_load_bytes env mine = Inr b"
    and holds: "holds_decisions ''atf/v2'' a us" "holds_decisions ''agent-pay/v2'' b ls"
  shows "(\<exists>report. check_v2_phase_26_34 env = Inr report) \<longleftrightarrow>
    sha256_hex env upstream = EXPECTED_UPSTREAM_SHA256 \<and> length us = 20 \<and> length ls = 20 \<and>
    map_of (rev us) = map_of (rev ls)"
proof -
  obtain ms ds where a: "a = JObj ms" "map_of ms ''phase'' = Some (JInt 26)"
    "map_of ms ''protocol_version'' = Some (JStr ''atf/v2'')" "map_of ms ''vectors'' = Some (JArr ds)"
    "list_all2 holds_decision ds us"
    using holds(1) by (rule holds_decisionsE)
  obtain ns es where b: "b = JObj ns" "map_of ns ''phase'' = Some (JInt 26)"
    "map_of ns ''protocol_version'' = Some (JStr ''agent-pay/v2'')" "map_of ns ''vectors'' = Some (JArr es)"
    "list_all2 holds_decision es ls"
    using holds(2) by (rule holds_decisionsE)
  have d: "decisions_by_id a = Inr (map text_pair (texts_dict us))"
    "decisions_by_id b = Inr (map text_pair (texts_dict ls))"
    using build_dict_texts [OF a(5), of "[]"] build_dict_texts [OF b(5), of "[]"]
    by (simp_all add: decisions_by_id_def a b jindex_def texts_dict_def)
  have n: "vector_count a = Inr (length us)" "vector_count b = Inr (length ls)"
    using list_all2_lengthD [OF a(5)] list_all2_lengthD [OF b(5)]
    by (simp_all add: vector_count_def a b jindex_def)
  have fields: "index_key a ''phase'' = Inr (JInt 26)" "index_key b ''phase'' = Inr (JInt 26)"
    "assert_field a ''protocol_version'' (JStr ''atf/v2'') = Inr ()"
    "assert_field b ''protocol_version'' (JStr ''agent-pay/v2'') = Inr ()"
    by (simp_all add: a b jindex_def assert_field_def assertE_def)
  have "dict_eq (map text_pair (texts_dict us)) (map text_pair (texts_dict ls)) \<longleftrightarrow>
      map_of (rev us) = map_of (rev ls)"
    by (simp add: dict_eq_texts texts_dict_distinct texts_dict_lookup)
  then show ?thesis
    by (auto simp: check_v2_phase_26_34_def fetched loaded fields d n err_simps)
qed

section \<open>Concrete environments\<close>

text \<open>A producer whose answer keeps the pinned blob name while what a vector is given was altered: the
  check accepts it.\<close>

definition one_vector :: "string \<Rightarrow> json" where
  "one_vector given = JObj [(''version'', JInt 1), (''suite'', JStr ''atf-agent-pay-cross-repository-v1''),
     (''vectors'', JArr [JObj [(''id'', JStr ''contract-002''), (''invariant'', JStr ''payment-scope-is-explicit''),
        (''given'', JStr given), (''expect'', JStr ''DENY'')]])]"

definition one_suite :: shared_suite where
  "one_suite = \<lparr>su_version = 1, su_suite = ''atf-agent-pay-cross-repository-v1'', su_vectors =
     [\<lparr>sv_id = ''contract-002'', sv_invariant = ''payment-scope-is-explicit'', sv_expect = ''DENY''\<rparr>]\<rparr>"

definition altered_payload :: "(string \<times> json) list" where
  "altered_payload = [(''encoding'', JStr ''base64''), (''sha'', JStr V1_BLOB), (''content'', JStr ''altered'')]"

definition altered_env :: environment where
  "altered_env = repository_env\<lparr>json_loads := (\<lambda>_. Inr (JObj altered_payload)),
     safe_load := (\<lambda>t. Inr (one_vector (if t = V1_LOCAL then ''authorization-context-without-payment-scope''
       else ''authorization-context-with-payment-scope'')))\<rparr>"

theorem conformance_decides_witness:
  "check_cross_repo_conformance altered_env = Inr (v1_report 1 V1_LOCAL)"
  using conformance_decides [of altered_env "one_vector ''authorization-context-without-payment-scope''" one_suite
    V1_LOCAL altered_payload V1_BLOB "one_vector ''authorization-context-with-payment-scope''" one_suite]
  by (simp add: altered_env_def repository_env_def v1_load_local_def read_payload_def content_document_def
      altered_payload_def one_vector_def one_suite_def jindex_def V1_LOCAL_def)

text \<open>The twenty vectors of the repository.\<close>

definition phase_decisions :: "(string \<times> string) list" where
  "phase_decisions =
     [(''trust-negotiation-established'', ''ALLOW''),
      (''trust-negotiation-rejected'', ''DENY''),
      (''trust-negotiation-indeterminate'', ''DENY''),
      (''capability-constraint-intersection'', ''ALLOW''),
      (''capability-constraint-expansion'', ''DENY''),
      (''delegation-multi-hop-attenuation'', ''ALLOW''),
      (''delegation-parent-revoked'', ''DENY''),
      (''delegation-depth-exceeded'', ''DENY''),
      (''evidence-subject-mismatch'', ''DENY''),
      (''evidence-audience-substitution'', ''DENY''),
      (''credential-revoked'', ''DENY''),
      (''credential-rotation-valid'', ''ALLOW''),
      (''provenance-minimum-disclosure'', ''ALLOW''),
      (''enterprise-assurance-policy'', ''ALLOW''),
      (''enterprise-assurance-not-authority'', ''DENY''),
      (''human-approval-without-authority'', ''DENY''),
      (''malformed-security-claim'', ''DENY''),
      (''replayed-evidence'', ''DENY''),
      (''cross-language-equivalent-decision'', ''ALLOW''),
      (''full-conformance-composed-negative'', ''DENY'')]"

definition decisions_document :: "string \<Rightarrow> (string \<times> string) list \<Rightarrow> json" where
  "decisions_document protocol ps = JObj [(''phase'', JInt 26), (''protocol_version'', JStr protocol),
     (''vectors'', JArr (map (\<lambda>p. JObj [(''id'', JStr (fst p)), (''expected_decision'', JStr (snd p))]) ps))]"

lemma holds_decisions_document: "holds_decisions protocol (decisions_document protocol ps) ps"
  by (auto simp: decisions_document_def list_all2_map1 intro: list_all2_refl)

definition phase_env :: environment where
  "phase_env = repository_env\<lparr>sha256_hex := (\<lambda>_. EXPECTED_UPSTREAM_SHA256),
     safe_load_bytes := (\<lambda>t. Inr (decisions_document (if t = PHASE_LOCAL then ''agent-pay/v2'' else ''atf/v2'')
       phase_decisions))\<rparr>"

theorem phase_26_34_decides_witness: "\<exists>report. check_v2_phase_26_34 phase_env = Inr report"
proof -
  have "rq_url phase_request \<noteq> PHASE_LOCAL" by (simp add: phase_request_def PHASE_LOCAL_def)
  then have loaded: "safe_load_bytes phase_env (rq_url phase_request) = Inr (decisions_document ''atf/v2'' phase_decisions)"
    "safe_load_bytes phase_env PHASE_LOCAL = Inr (decisions_document ''agent-pay/v2'' phase_decisions)"
    by (simp_all add: phase_env_def)
  have fetched: "urlopen phase_env phase_request = Inr (rq_url phase_request)"
    "read_bytes phase_env PHASE_LOCAL = Inr PHASE_LOCAL"
    by (simp_all add: phase_env_def repository_env_def)
  have "length phase_decisions = 20" by (simp add: phase_decisions_def)
  moreover have "sha256_hex phase_env b = EXPECTED_UPSTREAM_SHA256" for b by (simp add: phase_env_def)
  ultimately show ?thesis
    using phase_26_34_decides [OF fetched loaded holds_decisions_document holds_decisions_document] by simp
qed

end
