(* ===== verification/Observability.thy ===== *)
theory Observability
  imports Json
begin

text \<open>
  \<open>observability.py\<close>: counters with labels. A counter keeps its total and the total of every
  combination of labels, in whatever order the labels are given. A timer measures the body of a \<open>with\<close> block:
  the readings of the monotonic clock are arguments, and floats are a type parameter with their subtraction.
\<close>

record label_counter =
  ct_name :: string
  ct_value :: int
  ct_labels :: "((string \<times> string) list \<times> int) list"

definition new_counter :: "string \<Rightarrow> label_counter" where
  "new_counter nm = \<lparr>ct_name = nm, ct_value = 0, ct_labels = []\<rparr>"

text \<open>Labels are keyword arguments: no name occurs twice, so the order of the pairs is the order of the
  names.\<close>

definition label_key :: "(string \<times> string) list \<Rightarrow> (string \<times> string) list" where
  "label_key ls = sort_key fst ls"

definition inc :: "int \<Rightarrow> (string \<times> string) list \<Rightarrow> label_counter \<Rightarrow> label_counter" where
  "inc n ls c =
     (let k = label_key ls;
          old = (case row_by fst k (ct_labels c) of Some t \<Rightarrow> snd t | None \<Rightarrow> 0);
          entry = (k, old + n)
      in c\<lparr>ct_labels := (if row_by fst k (ct_labels c) = None then ct_labels c @ [entry]
                         else upd_by fst k (\<lambda>_. entry) (ct_labels c)),
           ct_value := ct_value c + n\<rparr>)"

text \<open>The total of a combination, and the invariant: the total is the sum over the combinations.\<close>

definition label_total :: "(string \<times> string) list \<Rightarrow> label_counter \<Rightarrow> int" where
  "label_total ls c = (case row_by fst (label_key ls) (ct_labels c) of Some t \<Rightarrow> snd t | None \<Rightarrow> 0)"

definition counter_ok :: "label_counter \<Rightarrow> bool" where
  "counter_ok c \<longleftrightarrow> distinct (map fst (ct_labels c)) \<and> ct_value c = sum_list (map snd (ct_labels c))"

lemma label_key_order:
  assumes "distinct (map fst ls)" "distinct (map fst ls')" "set ls = set ls'"
  shows "label_key ls = label_key ls'"
  unfolding label_key_def
  by (rule map_sorted_distinct_set_unique [where f = fst]) (use assms in \<open>simp_all add: distinct_map\<close>)

lemma inc_counts:
  assumes "counter_ok c"
  shows "counter_ok (inc n ls c) \<and> label_total ls (inc n ls c) = label_total ls c + n \<and>
    (label_key other \<noteq> label_key ls \<longrightarrow> label_total other (inc n ls c) = label_total other c)"
proof (cases "row_by fst (label_key ls) (ct_labels c)")
  case None
  then have "label_key ls \<notin> keys_of fst (ct_labels c)" by (simp add: row_by_None)
  with assms None show ?thesis
    by (auto simp: counter_ok_def inc_def label_total_def Let_def row_by_append split: option.split)
next
  case (Some t)
  let ?k = "label_key ls" and ?v = "snd t + n"
  have "?k \<in> keys_of fst (ct_labels c)" by (rule row_by_Some_keys [OF Some])
  moreover have "sum_list (map snd (upd_by fst ?k (\<lambda>_. (?k, ?v)) (ct_labels c))) = ct_value c + n"
    using sum_upd_by [OF _ Some, of snd "\<lambda>_. (?k, ?v)"] assms by (simp add: counter_ok_def)
  moreover have "map fst (upd_by fst ?k (\<lambda>_. (?k, ?v)) (ct_labels c)) = map fst (ct_labels c)"
    by (simp add: upd_by_def)
  ultimately show ?thesis
    using Some assms by (simp add: counter_ok_def inc_def label_total_def Let_def row_by_put)
qed

section \<open>Timers\<close>

record timer =
  tm_name :: string

record 'f timer_context =
  tc_timer :: timer
  tc_started :: "'f option"
  tc_elapsed :: "'f option"

definition measure_time :: "timer \<Rightarrow> 'f timer_context" where
  "measure_time t = \<lparr>tc_timer = t, tc_started = None, tc_elapsed = None\<rparr>"

definition timer_enter :: "'f \<Rightarrow> 'f timer_context \<Rightarrow> 'f timer_context" where
  "timer_enter reading c = c\<lparr>tc_started := Some reading\<rparr>"

text \<open>Leaving records the time and answers that no exception is swallowed. A context that was never
  entered has no \<open>_started\<close>.\<close>

definition timer_exit :: "('f \<Rightarrow> 'f \<Rightarrow> 'f) \<Rightarrow> 'f \<Rightarrow> 'f timer_context \<Rightarrow> exn + 'f timer_context \<times> bool" where
  "timer_exit sub reading c =
     (case tc_started c of
        None \<Rightarrow> Inl (AttributeError ''_started'')
      | Some started \<Rightarrow> Inr (c\<lparr>tc_elapsed := Some (sub reading started)\<rparr>, False))"

text \<open>\<open>with timer.measure() as c: body\<close>.\<close>

definition timed :: "('f \<Rightarrow> 'f \<Rightarrow> 'f) \<Rightarrow> timer \<Rightarrow> 'f \<Rightarrow> 'f \<Rightarrow> exn + 'a \<Rightarrow> 'f timer_context \<times> (exn + 'a)" where
  "timed sub t started finished body =
     (let c = timer_enter started (measure_time t)
      in case timer_exit sub finished c of
           Inl e \<Rightarrow> (c, Inl e)
         | Inr (c', swallow) \<Rightarrow> (c', body))"

text \<open>Measuring never changes what the body does and records the time on both ways out.\<close>

lemma timed_transparent:
  "snd (timed sub t started finished body) = body \<and>
   tc_elapsed (fst (timed sub t started finished body)) = Some (sub finished started) \<and>
   tc_timer (fst (timed sub t started finished body)) = t"
  by (simp add: timed_def timer_enter_def timer_exit_def measure_time_def)

section \<open>The instruments of the module\<close>

definition payment_requests_total :: label_counter where
  "payment_requests_total = new_counter ''agent_pay_payment_requests_total''"

definition payment_outcomes_total :: label_counter where
  "payment_outcomes_total = new_counter ''agent_pay_payment_outcomes_total''"

definition provider_events_total :: label_counter where
  "provider_events_total = new_counter ''agent_pay_provider_events_total''"

definition reconciliation_discrepancies_total :: label_counter where
  "reconciliation_discrepancies_total = new_counter ''agent_pay_reconciliation_discrepancies_total''"

definition payment_processing_time :: timer where
  "payment_processing_time = \<lparr>tm_name = ''agent_pay_payment_processing_seconds''\<rparr>"

text \<open>From its start a counter stays consistent over any sequence of calls, and the total of a combination
  of labels is the sum of the amounts given with it.\<close>

lemma new_counter_ok: "counter_ok (new_counter nm)"
  by (simp add: counter_ok_def new_counter_def)

lemma counter_history:
  "let c = fold (\<lambda>(n, ls). inc n ls) calls (new_counter nm)
   in counter_ok c \<and> label_total ls c =
        sum_list (map fst (filter (\<lambda>call. label_key (snd call) = label_key ls) calls))"
proof (induction calls rule: rev_induct)
  case Nil
  then show ?case by (simp add: counter_ok_def label_total_def new_counter_def)
next
  case (snoc call calls)
  obtain n ls' where call: "call = (n, ls')" by (cases call)
  let ?c = "fold (\<lambda>(n, ls). inc n ls) calls (new_counter nm)"
  have ok: "counter_ok ?c" and total: "label_total ls ?c =
      sum_list (map fst (filter (\<lambda>call. label_key (snd call) = label_key ls) calls))"
    using snoc by (simp_all add: Let_def)
  note step = inc_counts [OF ok, of n ls' ls]
  show ?case
  proof (cases "label_key ls = label_key ls'")
    case True
    then have "label_total ls c = label_total ls' c" for c by (simp add: label_total_def)
    with step total True show ?thesis by (simp add: call)
  next
    case False
    with step total show ?thesis by (simp add: call)
  qed
qed

end
